(* ===== verification/Yarn_Prelude.thy ===== *)
theory Yarn_Prelude
  imports Main "HOL-Library.Word"
begin

text \<open>
  Shared vocabulary of the development.

  Go code leaves a function in three ways: it returns a value, it returns a non-nil
  \<open>error\<close>, or it panics (a nil dereference, a slice or index out of range, a negative
  length given to \<open>make\<close>). \<open>outcome\<close> keeps the three apart, so a theorem that says a
  function returns also says that it does not panic. Stateful code is a function from a
  state to an outcome and the new state; \<open>obind\<close> and \<open>sbind\<close> are the sequencing of Go's
  \<open>if err != nil { return err }\<close>.

  Machine integers are words of the width the source has (\<open>int32\<close>, \<open>int64\<close>, \<open>uint64\<close>), read
  with \<open>sint\<close> or \<open>unat\<close>. Pointers that may be nil are options. Go strings and byte slices
  are lists of 8-bit values.
\<close>

section \<open>Collections of the development\<close>

named_theorems outcome_simps "evaluation of the outcome combinators"
named_theorems stdlib_simps "evaluation of the Go library functions on closed strings"
named_theorems wire_simps "lengths and layouts of encoded byte strings"
named_theorems const_simps "the string constants of the source"

section \<open>Types\<close>

type_synonym int32 = "32 word"
type_synonym int64 = "64 word"
type_synonym uint32 = "32 word"
type_synonym uint64 = "64 word"
type_synonym byte = "8 word"

text \<open>
  Go errors. \<open>EnvError\<close> is an error handed to the program by its environment (the
  operating system, the network, the API server, a library); the other constructors are
  the errors the program and the Go library build themselves. \<open>Errorf\<close> keeps the format
  string, the formatted strings and the formatted errors.
\<close>

datatype error =
    EnvError string
  | EOF
  | ErrUnexpectedEOF
  | ErrSyntax
  | ErrRange
  | ErrNotFound
  | ErrorNew string
  | Errorf string "string list" "error list"

datatype panic = NilDeref | SliceBounds | IndexRange | MakeLen

datatype 'a outcome = Ok 'a | Err error | Panic panic

section \<open>Sequencing\<close>

primrec obind :: "'a outcome \<Rightarrow> ('a \<Rightarrow> 'b outcome) \<Rightarrow> 'b outcome" where
  "obind (Ok a) f = f a"
| "obind (Err e) f = Err e"
| "obind (Panic p) f = Panic p"

definition deref :: "'a option \<Rightarrow> 'a outcome" where
  "deref p = (case p of None \<Rightarrow> Panic NilDeref | Some a \<Rightarrow> Ok a)"

definition of_sum :: "error + 'a \<Rightarrow> 'a outcome" where
  "of_sum r = (case r of Inl e \<Rightarrow> Err e | Inr a \<Rightarrow> Ok a)"

definition of_err :: "error option \<Rightarrow> unit outcome" where
  "of_err r = (case r of Some e \<Rightarrow> Err e | None \<Rightarrow> Ok ())"

definition is_ok :: "'a outcome \<Rightarrow> bool" where
  "is_ok r \<longleftrightarrow> (case r of Ok _ \<Rightarrow> True | _ \<Rightarrow> False)"

definition is_panic :: "'a outcome \<Rightarrow> bool" where
  "is_panic r \<longleftrightarrow> (case r of Panic _ \<Rightarrow> True | _ \<Rightarrow> False)"

definition sret :: "'a \<Rightarrow> 's \<Rightarrow> 'a outcome \<times> 's" where
  "sret a s = (Ok a, s)"

definition slift :: "'a outcome \<Rightarrow> 's \<Rightarrow> 'a outcome \<times> 's" where
  "slift r s = (r, s)"

definition sbind :: "('s \<Rightarrow> 'a outcome \<times> 's) \<Rightarrow> ('a \<Rightarrow> 's \<Rightarrow> 'b outcome \<times> 's) \<Rightarrow> 's \<Rightarrow> 'b outcome \<times> 's" where
  "sbind m f s =
     (case m s of
        (Ok a, s') \<Rightarrow> f a s'
      | (Err e, s') \<Rightarrow> (Err e, s')
      | (Panic p, s') \<Rightarrow> (Panic p, s'))"

text \<open>A loop over a slice that stops at the first error.\<close>

fun ofold :: "('a \<Rightarrow> 's \<Rightarrow> 's outcome) \<Rightarrow> 'a list \<Rightarrow> 's \<Rightarrow> 's outcome" where
  "ofold f [] s = Ok s"
| "ofold f (x # xs) s = obind (f x s) (ofold f xs)"

lemma ofold_append: "ofold f (xs @ ys) s = obind (ofold f xs s) (ofold f ys)"
proof (induction xs arbitrary: s)
  case Nil
  then show ?case by simp
next
  case (Cons x xs)
  then show ?case by (cases "f x s") simp_all
qed

lemma deref_simps [simp, outcome_simps]:
  "deref None = Panic NilDeref" "deref (Some a) = Ok a"
  by (simp_all add: deref_def)

lemma of_sum_simps [simp, outcome_simps]:
  "of_sum (Inl e) = Err e" "of_sum (Inr a) = Ok a"
  by (simp_all add: of_sum_def)

lemma of_err_simps [simp, outcome_simps]:
  "of_err None = Ok ()" "of_err (Some e) = Err e"
  by (simp_all add: of_err_def)

lemma is_ok_simps [simp, outcome_simps]:
  "is_ok (Ok a)" "\<not> is_ok (Err e)" "\<not> is_ok (Panic p)"
  by (simp_all add: is_ok_def)

lemma is_panic_simps [simp, outcome_simps]:
  "\<not> is_panic (Ok a)" "\<not> is_panic (Err e)" "is_panic (Panic p)"
  by (simp_all add: is_panic_def)

lemma sret_apply [simp, outcome_simps]: "sret a s = (Ok a, s)"
  by (simp add: sret_def)

lemma slift_apply [simp, outcome_simps]: "slift r s = (r, s)"
  by (simp add: slift_def)

lemma obind_eq_Ok_iff: "obind r f = Ok b \<longleftrightarrow> (\<exists>a. r = Ok a \<and> f a = Ok b)"
  by (cases r) simp_all

lemma obind_assoc: "obind (obind r f) g = obind r (\<lambda>a. obind (f a) g)"
  by (cases r) simp_all

lemma sbind_Ok [simp]: "m s = (Ok a, s') \<Longrightarrow> sbind m f s = f a s'"
  by (simp add: sbind_def)

lemma sbind_Err [simp]: "m s = (Err e, s') \<Longrightarrow> sbind m f s = (Err e, s')"
  by (simp add: sbind_def)

lemma sbind_Panic [simp]: "m s = (Panic p, s') \<Longrightarrow> sbind m f s = (Panic p, s')"
  by (simp add: sbind_def)

lemma sbind_eq_Ok_iff:
  "sbind m f s = (Ok b, t) \<longleftrightarrow> (\<exists>a s'. m s = (Ok a, s') \<and> f a s' = (Ok b, t))"
  by (auto simp: sbind_def split: prod.splits outcome.splits)

lemma is_ok_iff: "is_ok r \<longleftrightarrow> (\<exists>a. r = Ok a)"
  by (cases r) simp_all

lemma sbind_slift_Ok: "sbind (slift (Ok a)) f = f a"
  by (simp add: fun_eq_iff sbind_def)

text \<open>
  \<open>keeps g m\<close>: the stateful computation \<open>m\<close> leaves the part \<open>g\<close> of the state alone, whatever
  its outcome.
\<close>

definition keeps :: "('s \<Rightarrow> 'x) \<Rightarrow> ('s \<Rightarrow> 'a outcome \<times> 's) \<Rightarrow> bool" where
  "keeps g m \<longleftrightarrow> (\<forall>s. g (snd (m s)) = g s)"

named_theorems keeps_intros "computations that leave a part of the state alone"

lemma keepsD: "keeps g m \<Longrightarrow> m s = (r, s') \<Longrightarrow> g s' = g s"
  unfolding keeps_def by (metis snd_conv)

lemma keeps_slift [keeps_intros]: "keeps g (slift r)"
  by (simp add: keeps_def)

lemma keeps_sret [keeps_intros]: "keeps g (sret a)"
  by (simp add: keeps_def)

lemma keeps_sbind [keeps_intros]:
  assumes "keeps g m" and "\<And>a. keeps g (f a)"
  shows "keeps g (sbind m f)"
  unfolding keeps_def
proof
  fix s
  obtain r s' where m: "m s = (r, s')" by (metis prod.exhaust)
  then have "g s' = g s" using assms(1) by (rule keepsD [rotated])
  then show "g (snd (sbind m f s)) = g s"
    using assms(2) by (cases r) (simp_all add: sbind_def m keeps_def)
qed

section \<open>Runs of a deterministic machine\<close>

text \<open>
  The components of the program that live in a loop (the node syncer, the cgroup
  operator, the token store) are machines with a step function. An invariant is proved
  once for one step; this locale lifts it to every run and every prefix of a run.
\<close>

locale invariant_machine =
  fixes step :: "'s \<Rightarrow> 'e \<Rightarrow> 's"
    and inv :: "'s \<Rightarrow> bool"
  assumes step_inv: "inv s \<Longrightarrow> inv (step s e)"
begin

lemma run_inv: "inv s \<Longrightarrow> inv (foldl step s es)"
proof (induction es arbitrary: s)
  case Nil
  then show ?case by simp
next
  case (Cons e es)
  then show ?case by (simp add: step_inv)
qed

lemma prefix_inv: "inv s \<Longrightarrow> inv (foldl step s (take n es))"
  by (rule run_inv)

end

section \<open>Runs of partial steps\<close>

text \<open>
  Steps that may not end have an optional result. Where the state keeps a record of its effects,
  the locale lifts what one step adds to the record to what a run adds.
\<close>

fun run_steps :: "('e \<Rightarrow> 's \<Rightarrow> 's option) \<Rightarrow> 'e list \<Rightarrow> 's \<Rightarrow> 's option" where
  "run_steps step [] s = Some s"
| "run_steps step (e # es) s = Option.bind (step e s) (run_steps step es)"

lemma run_steps_keeps:
  assumes "\<And>e s s'. step e s = Some s' \<Longrightarrow> h s' = h s"
  shows "run_steps step es s = Some s' \<Longrightarrow> h s' = h s"
proof (induction es arbitrary: s)
  case (Cons e es)
  then obtain s1 where "step e s = Some s1" "run_steps step es s1 = Some s'" by (auto simp: bind_eq_Some_conv)
  then show ?case using Cons.IH assms by metis
qed simp

locale logging_machine =
  fixes step :: "'e \<Rightarrow> 's \<Rightarrow> 's option"
    and history :: "'s \<Rightarrow> 'x list"
    and writer :: "'e \<Rightarrow> bool"
    and allowed :: "'x \<Rightarrow> bool"
  assumes step_history: "step e s = Some s' \<Longrightarrow>
    \<exists>xs. history s' = history s @ xs \<and> length xs \<le> (if writer e then 1 else 0) \<and> (\<forall>x \<in> set xs. allowed x)"
begin

lemma run_history:
  "run_steps step es s = Some s' \<Longrightarrow>
     \<exists>xs. history s' = history s @ xs \<and> length xs \<le> length (filter writer es) \<and> (\<forall>x \<in> set xs. allowed x)"
proof (induction es arbitrary: s)
  case (Cons e es)
  then obtain s1 where 1: "step e s = Some s1" and 2: "run_steps step es s1 = Some s'" by (auto simp: bind_eq_Some_conv)
  obtain xs where "history s1 = history s @ xs" "length xs \<le> (if writer e then 1 else 0)" "\<forall>x \<in> set xs. allowed x"
    using step_history [OF 1] by blast
  moreover obtain ys where "history s' = history s1 @ ys" "length ys \<le> length (filter writer es)" "\<forall>x \<in> set ys. allowed x"
    using Cons.IH [OF 2] by blast
  ultimately show ?case by (intro exI [of _ "xs @ ys"]) (auto split: if_splits)
qed simp

end

section \<open>Printers and parsers\<close>

text \<open>
  A printer and a parser that reads back what was printed. \<open>valid\<close> is the set of values
  the round trip is promised for.
\<close>

locale print_parse =
  fixes print :: "'a \<Rightarrow> 'b list"
    and parse :: "'b list \<Rightarrow> 'a option"
    and valid :: "'a \<Rightarrow> bool"
  assumes parse_print: "valid x \<Longrightarrow> parse (print x) = Some x"
begin

lemma print_inject: "valid x \<Longrightarrow> valid y \<Longrightarrow> print x = print y \<longleftrightarrow> x = y"
  by (metis option.inject parse_print)

lemma print_inj_on: "inj_on print {x. valid x}"
  by (rule inj_onI) (simp add: print_inject)

end

section \<open>Generic lemmas on maps and lists\<close>

lemma map_of_filter_fst_neq:
  "map_of (filter (\<lambda>(k, v). k \<noteq> a) kvs) = (map_of kvs)(a := None)"
  by (induction kvs) auto

lemma fold_map_upd:
  "fold (\<lambda>(k, v) m. m(k \<mapsto> v)) kvs m = m ++ map_of (rev kvs)"
  by (induction kvs arbitrary: m) (auto simp: map_add_assoc map_add_upd)

lemma set_Cons_eq_filter: "set (filter P xs) = {x \<in> set xs. P x}"
  by auto

lemma sint_int32_range: "- (2 ^ 31) \<le> sint (w :: int32) \<and> sint w < 2 ^ 31"
  using sint_greater_eq [of w] sint_less [of w] by simp

lemma sint_int64_range: "- (2 ^ 63) \<le> sint (w :: int64) \<and> sint w < 2 ^ 63"
  using sint_greater_eq [of w] sint_less [of w] by simp

end
