(* ===== verification/Go_Lib.thy ===== *)
theory Go_Lib
  imports Yarn_Prelude
begin

text \<open>
  The functions of Go's standard library that the program calls: \<open>strings\<close> (Split, SplitN,
  Join, HasPrefix, HasSuffix, ReplaceAll), \<open>strconv\<close> (Itoa, Atoi, ParseBool),
  \<open>path/filepath\<close> (Clean, Join, Base) and \<open>encoding/binary\<close> in big-endian order, with the
  round trips the components rely on.
\<close>

unbundle bit_operations_syntax

section \<open>strings\<close>

text \<open>\<open>strings.Split(s, sep)\<close> for a one-byte separator.\<close>

fun Split :: "string \<Rightarrow> char \<Rightarrow> string list" where
  "Split [] c = [[]]"
| "Split (x # xs) c =
     (if x = c then [] # Split xs c
      else (case Split xs c of [] \<Rightarrow> [[x]] | y # ys \<Rightarrow> (x # y) # ys))"

text \<open>\<open>strings.SplitN(s, sep, 2)\<close>: at the first separator only.\<close>

fun SplitN2 :: "string \<Rightarrow> char \<Rightarrow> string list" where
  "SplitN2 [] c = [[]]"
| "SplitN2 (x # xs) c =
     (if x = c then [[], xs]
      else (case SplitN2 xs c of [] \<Rightarrow> [[x]] | y # ys \<Rightarrow> (x # y) # ys))"

fun Join :: "string list \<Rightarrow> string \<Rightarrow> string" where
  "Join [] sep = []"
| "Join [x] sep = x"
| "Join (x # y # ys) sep = x @ sep @ Join (y # ys) sep"

definition HasPrefix :: "string \<Rightarrow> string \<Rightarrow> bool" where
  "HasPrefix s p \<longleftrightarrow> take (length p) s = p"

definition HasSuffix :: "string \<Rightarrow> string \<Rightarrow> bool" where
  "HasSuffix s p \<longleftrightarrow> length p \<le> length s \<and> drop (length s - length p) s = p"

text \<open>
  \<open>strings.ReplaceAll(s, old, "")\<close> for a non-empty \<open>old\<close>: every non-overlapping instance,
  from left to right, is dropped.
\<close>

fun RemoveAll_str :: "string \<Rightarrow> string \<Rightarrow> string" where
  "RemoveAll_str [] old = []"
| "RemoveAll_str (x # xs) old =
     (if old \<noteq> [] \<and> HasPrefix (x # xs) old
      then RemoveAll_str (drop (length old - 1) xs) old
      else x # RemoveAll_str xs old)"

section \<open>strconv\<close>

fun digits_of :: "nat \<Rightarrow> string" where
  "digits_of n =
     (if n < 10 then [char_of (48 + n)]
      else digits_of (n div 10) @ [char_of (48 + n mod 10)])"

declare digits_of.simps [simp del]

definition is_digit :: "char \<Rightarrow> bool" where
  "is_digit c \<longleftrightarrow> 48 \<le> (of_char c :: nat) \<and> (of_char c :: nat) \<le> 57"

fun digits_val :: "nat \<Rightarrow> string \<Rightarrow> nat option" where
  "digits_val acc [] = Some acc"
| "digits_val acc (c # cs) =
     (if is_digit c then digits_val (acc * 10 + (of_char c - 48)) cs else None)"

definition Itoa :: "int \<Rightarrow> string" where
  "Itoa i = (if i < 0 then CHR ''-'' # digits_of (nat (- i)) else digits_of (nat i))"

text \<open>
  \<open>strconv.Atoi\<close>: an optional sign, at least one decimal digit, and a value that fits in
  the 64-bit \<open>int\<close>.
\<close>

definition split_sign :: "string \<Rightarrow> bool \<times> string" where
  "split_sign s =
     (case s of [] \<Rightarrow> (False, [])
      | c # cs \<Rightarrow> if c = CHR ''-'' then (True, cs) else if c = CHR ''+'' then (False, cs) else (False, s))"

definition Atoi :: "string \<Rightarrow> int outcome" where
  "Atoi s =
     (case split_sign s of (neg, ds) \<Rightarrow>
        if ds = [] then Err ErrSyntax
        else (case digits_val 0 ds of
                None \<Rightarrow> Err ErrSyntax
              | Some n \<Rightarrow>
                  (let v = (if neg then - int n else int n)
                   in if - (2 ^ 63) \<le> v \<and> v < 2 ^ 63 then Ok v else Err ErrRange)))"

definition ParseBool :: "string \<Rightarrow> bool outcome" where
  "ParseBool s =
     (if s \<in> {''1'', ''t'', ''T'', ''true'', ''TRUE'', ''True''} then Ok True
      else if s \<in> {''0'', ''f'', ''F'', ''false'', ''FALSE'', ''False''} then Ok False
      else Err ErrSyntax)"

section \<open>path/filepath\<close>

text \<open>
  \<open>filepath.Clean\<close> on the list of the path's elements, already split at \<open>/\<close>: empty
  elements and \<open>.\<close> vanish, \<open>..\<close> removes the element before it, and a rooted path cannot
  climb above its root. The accumulator is reversed.
\<close>

fun clean_segs :: "bool \<Rightarrow> string list \<Rightarrow> string list \<Rightarrow> string list" where
  "clean_segs rooted acc [] = rev acc"
| "clean_segs rooted acc (x # xs) =
     (if x = [] \<or> x = ''.'' then clean_segs rooted acc xs
      else if x = ''..'' then
        (case acc of
           [] \<Rightarrow> clean_segs rooted (if rooted then [] else [''..'']) xs
         | y # ys \<Rightarrow> if y = ''..'' then clean_segs rooted (''..'' # acc) xs else clean_segs rooted ys xs)
      else clean_segs rooted (x # acc) xs)"

definition is_rooted :: "string \<Rightarrow> bool" where
  "is_rooted p \<longleftrightarrow> HasPrefix p ''/''"

definition Clean :: "string \<Rightarrow> string" where
  "Clean p =
     (let segs = clean_segs (is_rooted p) [] (Split p CHR ''/'')
      in if is_rooted p then CHR ''/'' # Join segs ''/''
         else if segs = [] then ''.'' else Join segs ''/'')"

text \<open>\<open>filepath.Join\<close> ignores empty elements and cleans what it joins.\<close>

definition path_Join :: "string list \<Rightarrow> string" where
  "path_Join es =
     (let ne = filter (\<lambda>e. e \<noteq> []) es
      in if ne = [] then [] else Clean (Join ne ''/''))"

text \<open>\<open>filepath.Base\<close>: the last element of the path, trailing slashes removed.\<close>

definition path_Base :: "string \<Rightarrow> string" where
  "path_Base p =
     (if p = [] then ''.''
      else let ne = filter (\<lambda>e. e \<noteq> []) (Split p CHR ''/'')
           in if ne = [] then ''/'' else last ne)"

section \<open>encoding/binary, big-endian\<close>

definition be32 :: "int32 \<Rightarrow> byte list" where
  "be32 w = [ucast (drop_bit 24 w), ucast (drop_bit 16 w), ucast (drop_bit 8 w), ucast w]"

definition of_be32 :: "byte list \<Rightarrow> int32 option" where
  "of_be32 bs =
     (case bs of
        [a, b, c, d] \<Rightarrow> Some (push_bit 24 (ucast a) OR push_bit 16 (ucast b) OR push_bit 8 (ucast c) OR ucast d)
      | _ \<Rightarrow> None)"

definition bytes_of :: "string \<Rightarrow> byte list" where
  "bytes_of s = map of_char s"

definition string_of :: "byte list \<Rightarrow> string" where
  "string_of bs = map (\<lambda>b. char_of (unat b)) bs"

section \<open>Lemmas on strings\<close>

lemma Split_not_Nil [simp]: "Split s c \<noteq> []"
  by (cases s) (simp_all split: list.splits)

lemma Split_no_sep: "c \<notin> set s \<Longrightarrow> Split s c = [s]"
  by (induction s) auto

lemma Split_append_sep: "c \<notin> set s \<Longrightarrow> Split (s @ c # t) c = s # Split t c"
  by (induction s) auto

lemma Split_elems_no_sep: "x \<in> set (Split s c) \<Longrightarrow> c \<notin> set x"
proof (induction s arbitrary: x)
  case Nil
  then show ?case by simp
next
  case (Cons a s)
  obtain y ys where y: "Split s c = y # ys"
    by (cases "Split s c") simp_all
  with Cons show ?case
    by (auto split: if_splits)
qed

lemma Split_Join:
  assumes "xs \<noteq> []" and "\<And>x. x \<in> set xs \<Longrightarrow> c \<notin> set x"
  shows "Split (Join xs [c]) c = xs"
  using assms
proof (induction xs "[c]" rule: Join.induct)
  case 1
  then show ?case by simp
next
  case (2 x)
  then show ?case by (simp add: Split_no_sep)
next
  case (3 x y ys)
  then show ?case by (simp add: Split_append_sep)
qed

lemma Join_Cons: "ys \<noteq> [] \<Longrightarrow> Join (x # ys) sep = x @ sep @ Join ys sep"
  by (cases ys) simp_all

lemma Join_Split: "Join (Split s c) [c] = s"
proof (induction s)
  case Nil
  then show ?case by simp
next
  case (Cons a s)
  obtain y ys where y: "Split s c = y # ys"
    by (cases "Split s c") simp_all
  show ?case
  proof (cases "a = c")
    case True
    with Cons show ?thesis by (simp add: Join_Cons)
  next
    case False
    with Cons y show ?thesis by (cases ys) simp_all
  qed
qed

lemma SplitN2_no_sep: "c \<notin> set s \<Longrightarrow> SplitN2 s c = [s]"
  by (induction s) auto

lemma SplitN2_append_sep: "c \<notin> set s \<Longrightarrow> SplitN2 (s @ c # t) c = [s, t]"
  by (induction s) auto

lemma HasPrefix_append [simp]: "HasPrefix (p @ s) p"
  by (simp add: HasPrefix_def)

lemma HasPrefix_iff: "HasPrefix s p \<longleftrightarrow> (\<exists>t. s = p @ t)"
  by (metis HasPrefix_append HasPrefix_def append_take_drop_id)

lemma HasSuffix_iff: "HasSuffix s p \<longleftrightarrow> (\<exists>t. s = t @ p)"
  by (auto simp: HasSuffix_def) (metis append_take_drop_id)

section \<open>Lemmas on decimal numbers\<close>

lemma of_char_digit: "n < 10 \<Longrightarrow> (of_char (char_of (48 + n) :: char) :: nat) = 48 + n"
  by (simp add: of_char_of)

lemma is_digit_char_of: "n < 10 \<Longrightarrow> is_digit (char_of (48 + n :: nat))"
  by (simp add: is_digit_def of_char_digit)

lemma digits_val_append:
  "digits_val acc (xs @ ys) = (case digits_val acc xs of None \<Rightarrow> None | Some n \<Rightarrow> digits_val n ys)"
  by (induction xs arbitrary: acc) simp_all

lemma digits_val_digits_of: "digits_val 0 (digits_of n) = Some n"
proof (induction n rule: digits_of.induct)
  case (1 n)
  show ?case
  proof (cases "n < 10")
    case True
    then show ?thesis
      by (simp add: digits_of.simps [of n] is_digit_char_of of_char_digit)
  next
    case False
    with 1 have IH: "digits_val 0 (digits_of (n div 10)) = Some (n div 10)" by simp
    have "(48 + n mod 10 :: nat) - 48 = n mod 10" by simp
    with False IH show ?thesis
      by (simp add: digits_of.simps [of n] digits_val_append is_digit_char_of of_char_digit)
  qed
qed

lemma digits_of_not_Nil [simp]: "digits_of n \<noteq> []"
  by (subst digits_of.simps) simp

lemma digits_of_is_digit: "c \<in> set (digits_of n) \<Longrightarrow> is_digit c"
proof (induction n rule: digits_of.induct)
  case (1 n)
  then show ?case
    by (cases "n < 10") (auto simp: digits_of.simps [of n] is_digit_char_of)
qed

lemma digits_of_inj: "digits_of m = digits_of n \<Longrightarrow> m = n"
  by (metis digits_val_digits_of option.inject)

lemma not_is_digit_sign: "\<not> is_digit CHR ''-''" "\<not> is_digit CHR ''+''"
  by (simp_all add: is_digit_def)

lemma split_sign_digits: "split_sign (digits_of n) = (False, digits_of n)"
proof -
  obtain c cs where c: "digits_of n = c # cs"
    by (cases "digits_of n") simp_all
  then have "is_digit c" using digits_of_is_digit [of c n] by simp
  with c show ?thesis by (auto simp: split_sign_def not_is_digit_sign)
qed

lemma Atoi_Itoa:
  assumes "- (2 ^ 63) \<le> i" and "i < 2 ^ 63"
  shows "Atoi (Itoa i) = Ok i"
proof (cases "i < 0")
  case True
  then show ?thesis using assms
    by (simp add: Atoi_def Itoa_def split_sign_def digits_val_digits_of)
next
  case False
  then show ?thesis using assms
    by (simp add: Atoi_def Itoa_def split_sign_digits digits_val_digits_of)
qed

definition Atoi_option :: "string \<Rightarrow> int option" where
  "Atoi_option s = (case Atoi s of Ok v \<Rightarrow> Some v | _ \<Rightarrow> None)"

interpretation decimal: print_parse Itoa Atoi_option "\<lambda>i. - (2 ^ 63) \<le> i \<and> i < 2 ^ 63"
  by unfold_locales (simp add: Atoi_option_def Atoi_Itoa)

lemma Itoa_nonneg_digits: "0 \<le> i \<Longrightarrow> c \<in> set (Itoa i) \<Longrightarrow> is_digit c"
  by (auto simp: Itoa_def intro: digits_of_is_digit)

lemma Itoa_not_Nil [simp]: "Itoa i \<noteq> []"
  by (simp add: Itoa_def)

lemma Itoa_no_colon: "CHR '':'' \<notin> set (Itoa i)"
  by (auto simp: Itoa_def is_digit_def dest: digits_of_is_digit)

section \<open>Lemmas on big-endian integers\<close>

lemma length_be32 [simp, wire_simps]: "length (be32 w) = 4"
  by (simp add: be32_def)

lemma of_be32_be32 [simp]: "of_be32 (be32 w) = Some w"
proof -
  have "push_bit 24 (ucast (ucast (drop_bit 24 w) :: byte)) OR push_bit 16 (ucast (ucast (drop_bit 16 w) :: byte))
      OR push_bit 8 (ucast (ucast (drop_bit 8 w) :: byte)) OR ucast (ucast w :: byte) = w" (is "?l = w")
  proof (rule bit_word_eqI)
    fix n assume "n < LENGTH(32)"
    then consider "n < 8" | "8 \<le> n" "n < 16" | "16 \<le> n" "n < 24" | "24 \<le> n" "n < 32"
      by fastforce
    then show "bit ?l n \<longleftrightarrow> bit w n"
      by cases (auto simp: bit_simps)
  qed
  then show ?thesis by (simp add: be32_def of_be32_def)
qed

interpretation int32_be: print_parse be32 of_be32 "\<lambda>_. True"
  by unfold_locales simp

lemma unat_of_char_byte [simp]: "unat (of_char c :: byte) = of_char c"
proof -
  have "(of_char c :: byte) = of_nat (of_char c)" by (rule of_nat_of_char [symmetric])
  moreover have "unat (of_nat (of_char c) :: byte) = of_char c"
    using nat_of_char_less_256 [of c] by (simp add: unat_of_nat take_bit_nat_eq_self)
  ultimately show ?thesis by simp
qed

lemma string_of_bytes_of [simp]: "string_of (bytes_of s) = s"
  by (simp add: string_of_def bytes_of_def comp_def)

lemma length_bytes_of [simp, wire_simps]: "length (bytes_of s) = length s"
  by (simp add: bytes_of_def)

end
