(* ===== verification/Yarn_Config.thy ===== *)
theory Yarn_Config
  imports Go_Lib
begin

text \<open>
  Hadoop configuration: \<open>pkg/yarn/config/configuration.go\<close> and
  \<open>pkg/yarn/config/yarn_configuration.go\<close>.

  The configuration files are read through \<open>conf_env\<close>: \<open>os_Open\<close> gives, for a path, the
  error of \<open>os.Open\<close> or what \<open>io.ReadAll\<close> reads from the opened file, and \<open>xml_Unmarshal\<close>
  decodes a file into its property list. The locale \<open>Configuration\<close> is the Go interface of
  that name; both \<open>configuration\<close> and \<open>yarn_configuration\<close> are shown to implement it.
\<close>

section \<open>configuration.go\<close>

record Resource =
  Res_Name :: string
  Res_Required :: bool

definition CORE_DEFAULT :: Resource where
  [const_simps]: "CORE_DEFAULT = \<lparr>Res_Name = ''core-default.xml'', Res_Required = False\<rparr>"

definition CORE_SITE :: Resource where
  [const_simps]: "CORE_SITE = \<lparr>Res_Name = ''core-site.xml'', Res_Required = False\<rparr>"

record configuration =
  Properties :: "string \<rightharpoonup> string"

record hconf_property =
  prop_Name :: string
  prop_Value :: string

record hadoopConfiguration =
  hconf_Properties :: "hconf_property list"

record conf_env =
  os_Open :: "string \<Rightarrow> error + (error + string)"
  xml_Unmarshal :: "string \<Rightarrow> error + hadoopConfiguration"

definition conf_Get :: "configuration \<Rightarrow> string \<Rightarrow> string \<Rightarrow> string outcome" where
  "conf_Get conf key defaultValue =
     (case Properties conf key of None \<Rightarrow> Ok defaultValue | Some value \<Rightarrow> Ok value)"

definition conf_GetInt :: "configuration \<Rightarrow> string \<Rightarrow> int \<Rightarrow> int outcome" where
  "conf_GetInt conf key defaultValue =
     (case Properties conf key of None \<Rightarrow> Ok defaultValue | Some value \<Rightarrow> Atoi value)"

definition conf_GetBool :: "configuration \<Rightarrow> string \<Rightarrow> bool \<Rightarrow> bool outcome" where
  "conf_GetBool conf key defaultValue =
     (case Properties conf key of None \<Rightarrow> Ok defaultValue | Some value \<Rightarrow> ParseBool value)"

definition conf_Set :: "configuration \<Rightarrow> string \<Rightarrow> string \<Rightarrow> configuration outcome" where
  "conf_Set conf key value = Ok (conf\<lparr>Properties := (Properties conf)(key \<mapsto> value)\<rparr>)"

definition conf_SetInt :: "configuration \<Rightarrow> string \<Rightarrow> int \<Rightarrow> configuration outcome" where
  "conf_SetInt conf key value = Ok (conf\<lparr>Properties := (Properties conf)(key \<mapsto> Itoa value)\<rparr>)"

text \<open>The body of the loop of \<open>NewConfigurationResources\<close>, for one resource.\<close>

definition loadResource ::
  "conf_env \<Rightarrow> string \<Rightarrow> string \<Rightarrow> Resource \<Rightarrow> configuration \<Rightarrow> configuration outcome" where
  "loadResource E hadoopConfDir prefix resource c =
     (case os_Open E (hadoopConfDir @ ''/'' @ prefix @ Res_Name resource) of
        Inl err \<Rightarrow> if \<not> Res_Required resource then Ok c else Err err
      | Inr conf \<Rightarrow>
          obind (of_sum conf) (\<lambda>confData.
          obind (of_sum (xml_Unmarshal E confData)) (\<lambda>hConf.
          ofold (\<lambda>kv c. conf_Set c (prop_Name kv) (prop_Value kv)) (hconf_Properties hConf) c)))"

definition NewConfigurationResources ::
  "conf_env \<Rightarrow> string \<Rightarrow> Resource list \<Rightarrow> string \<Rightarrow> configuration outcome" where
  "NewConfigurationResources E hadoopConfDir resources prefix =
     ofold (loadResource E hadoopConfDir prefix) ([CORE_DEFAULT, CORE_SITE] @ resources)
       \<lparr>Properties = Map.empty\<rparr>"

definition NewConfiguration :: "conf_env \<Rightarrow> string \<Rightarrow> configuration outcome" where
  "NewConfiguration E hadoopConfDir = NewConfigurationResources E hadoopConfDir [] []"

section \<open>yarn_configuration.go\<close>

definition YARN_DEFAULT :: Resource where
  [const_simps]: "YARN_DEFAULT = \<lparr>Res_Name = ''yarn-default.xml'', Res_Required = False\<rparr>"

definition YARN_SITE :: Resource where
  [const_simps]: "YARN_SITE = \<lparr>Res_Name = ''yarn-site.xml'', Res_Required = True\<rparr>"

definition YARN_PREFIX :: string where [const_simps]: "YARN_PREFIX = ''yarn.''"
definition RM_PREFIX :: string where [const_simps]: "RM_PREFIX = YARN_PREFIX @ ''resourcemanager.''"
definition RM_ADDRESS :: string where [const_simps]: "RM_ADDRESS = RM_PREFIX @ ''address''"
definition RM_SCHEDULER_ADDRESS :: string where
  [const_simps]: "RM_SCHEDULER_ADDRESS = RM_PREFIX @ ''scheduler.address''"
definition RM_ADMIN_ADDRESS :: string where [const_simps]: "RM_ADMIN_ADDRESS = RM_PREFIX @ ''admin.address''"
definition RM_HA_ENABLED :: string where [const_simps]: "RM_HA_ENABLED = RM_PREFIX @ ''ha.enabled''"
definition RM_HA_RM_IDS :: string where [const_simps]: "RM_HA_RM_IDS = RM_PREFIX @ ''ha.rm-ids''"
definition RM_KEYTAB :: string where [const_simps]: "RM_KEYTAB = RM_PREFIX @ ''keytab''"
definition RM_PRINCIPLE :: string where [const_simps]: "RM_PRINCIPLE = RM_PREFIX @ ''principal''"
definition DEFAULT_RM_ADDRESS :: string where [const_simps]: "DEFAULT_RM_ADDRESS = ''0.0.0.0:8032''"
definition DEFAULT_RM_SCHEDULER_ADDRESS :: string where
  [const_simps]: "DEFAULT_RM_SCHEDULER_ADDRESS = ''0.0.0.0:8030''"
definition DEFAULT_RM_ADMIN_ADDRESS :: string where [const_simps]: "DEFAULT_RM_ADMIN_ADDRESS = ''0.0.0.0:8033''"
definition DEFAULT_RM_HA_ENABLED :: bool where [const_simps]: "DEFAULT_RM_HA_ENABLED = False"
definition DEFAULT_RM_KEYTAB :: string where [const_simps]: "DEFAULT_RM_KEYTAB = ''/etc/krb5.keytab''"
definition DEFAULT_RM_PRINCIPLE :: string where [const_simps]: "DEFAULT_RM_PRINCIPLE = ''''"
definition IPC_CLIENT_TCPNODELAY :: string where [const_simps]: "IPC_CLIENT_TCPNODELAY = ''ipc.client.tcpnodelay''"
definition DEFAULT_IPC_CLIENT_TCPNODELAY :: bool where [const_simps]: "DEFAULT_IPC_CLIENT_TCPNODELAY = False"
definition SECURITY_AUTHENTICATION :: string where
  [const_simps]: "SECURITY_AUTHENTICATION = ''hadoop.security.authentication''"
definition DEFAULT_AUTHENTICATION :: string where [const_simps]: "DEFAULT_AUTHENTICATION = ''simple''"

record yarn_configuration =
  yconf :: configuration

definition yarn_Get :: "yarn_configuration \<Rightarrow> string \<Rightarrow> string \<Rightarrow> string outcome" where
  "yarn_Get yarnConf key defaultValue = conf_Get (yconf yarnConf) key defaultValue"

definition yarn_GetInt :: "yarn_configuration \<Rightarrow> string \<Rightarrow> int \<Rightarrow> int outcome" where
  "yarn_GetInt yarnConf key defaultValue = conf_GetInt (yconf yarnConf) key defaultValue"

definition GetRMAddress :: "yarn_configuration \<Rightarrow> string outcome" where
  "GetRMAddress yarnConf = conf_Get (yconf yarnConf) RM_ADDRESS DEFAULT_RM_ADDRESS"

definition GetRMSchedulerAddress :: "yarn_configuration \<Rightarrow> string outcome" where
  "GetRMSchedulerAddress yarnConf = conf_Get (yconf yarnConf) RM_SCHEDULER_ADDRESS DEFAULT_RM_SCHEDULER_ADDRESS"

definition GetRMAdminAddress :: "yarn_configuration \<Rightarrow> string outcome" where
  "GetRMAdminAddress yarnConf = conf_Get (yconf yarnConf) RM_ADMIN_ADDRESS DEFAULT_RM_ADMIN_ADDRESS"

definition GetRMEnabledHA :: "yarn_configuration \<Rightarrow> bool outcome" where
  "GetRMEnabledHA yarnConf = conf_GetBool (yconf yarnConf) RM_HA_ENABLED DEFAULT_RM_HA_ENABLED"

definition GetRMs :: "yarn_configuration \<Rightarrow> string list outcome" where
  "GetRMs yarnConf =
     (case conf_Get (yconf yarnConf) RM_HA_RM_IDS '''' of
        Err _ \<Rightarrow> Ok []
      | Panic p \<Rightarrow> Panic p
      | Ok allRMs \<Rightarrow> Ok (Split allRMs CHR '',''))"

definition GetRMAdminAddressByID :: "yarn_configuration \<Rightarrow> string \<Rightarrow> string outcome" where
  "GetRMAdminAddressByID yarnConf rmID =
     (let rmAddrKey = RM_ADMIN_ADDRESS @ ''.'' @ rmID
      in conf_Get (yconf yarnConf) rmAddrKey DEFAULT_RM_ADMIN_ADDRESS)"

definition GetRMAddressByID :: "yarn_configuration \<Rightarrow> string \<Rightarrow> string outcome" where
  "GetRMAddressByID yarnConf rmID =
     (let rmAddrKey = RM_ADDRESS @ ''.'' @ rmID
      in conf_Get (yconf yarnConf) rmAddrKey DEFAULT_RM_ADDRESS)"

definition GetResourceManagerKeytab :: "yarn_configuration \<Rightarrow> string outcome" where
  "GetResourceManagerKeytab yarnConf = conf_Get (yconf yarnConf) RM_KEYTAB DEFAULT_RM_KEYTAB"

definition GetResourceManagerPrincipal :: "yarn_configuration \<Rightarrow> string outcome" where
  "GetResourceManagerPrincipal yarnConf = conf_Get (yconf yarnConf) RM_PRINCIPLE DEFAULT_RM_PRINCIPLE"

definition GetIPCClientTcpNoDelay :: "yarn_configuration \<Rightarrow> bool outcome" where
  "GetIPCClientTcpNoDelay yarnConf =
     conf_GetBool (yconf yarnConf) IPC_CLIENT_TCPNODELAY DEFAULT_IPC_CLIENT_TCPNODELAY"

definition GetSecurityAuthentication :: "yarn_configuration \<Rightarrow> string outcome" where
  "GetSecurityAuthentication yarnConf =
     conf_Get (yconf yarnConf) SECURITY_AUTHENTICATION DEFAULT_AUTHENTICATION"

text \<open>The setters delegate to the wrapped configuration.\<close>

definition yarn_Set :: "yarn_configuration \<Rightarrow> string \<Rightarrow> string \<Rightarrow> yarn_configuration outcome" where
  "yarn_Set yarnConf key value =
     obind (conf_Set (yconf yarnConf) key value) (\<lambda>c. Ok (yarnConf\<lparr>yconf := c\<rparr>))"

definition yarn_SetInt :: "yarn_configuration \<Rightarrow> string \<Rightarrow> int \<Rightarrow> yarn_configuration outcome" where
  "yarn_SetInt yarnConf key value =
     obind (conf_SetInt (yconf yarnConf) key value) (\<lambda>c. Ok (yarnConf\<lparr>yconf := c\<rparr>))"

definition SetRMAddress :: "yarn_configuration \<Rightarrow> string \<Rightarrow> yarn_configuration outcome" where
  "SetRMAddress yarnConf address =
     obind (conf_Set (yconf yarnConf) RM_ADDRESS address) (\<lambda>c. Ok (yarnConf\<lparr>yconf := c\<rparr>))"

definition SetRMSchedulerAddress :: "yarn_configuration \<Rightarrow> string \<Rightarrow> yarn_configuration outcome" where
  "SetRMSchedulerAddress yarnConf address =
     obind (conf_Set (yconf yarnConf) RM_SCHEDULER_ADDRESS address) (\<lambda>c. Ok (yarnConf\<lparr>yconf := c\<rparr>))"

definition configPrefix :: "string \<Rightarrow> string" where
  "configPrefix clusterID = (if clusterID \<noteq> [] then clusterID @ ''.'' else [])"

definition NewYarnConfiguration :: "conf_env \<Rightarrow> string \<Rightarrow> string \<Rightarrow> yarn_configuration outcome" where
  "NewYarnConfiguration E hadoopConfDir clusterID =
     obind (NewConfigurationResources E hadoopConfDir [YARN_DEFAULT, YARN_SITE] (configPrefix clusterID))
       (\<lambda>c. Ok \<lparr>yconf = c\<rparr>)"

section \<open>The Configuration interface\<close>

text \<open>
  What a client of the \<open>Configuration\<close> interface relies on: a read after a write of the
  same key gives the written value, and other keys are untouched.
\<close>

locale Configuration =
  fixes get :: "'c \<Rightarrow> string \<Rightarrow> string \<Rightarrow> string outcome"
    and set :: "'c \<Rightarrow> string \<Rightarrow> string \<Rightarrow> 'c outcome"
  assumes set_ok: "\<exists>c'. set c k v = Ok c'"
    and get_set_same: "set c k v = Ok c' \<Longrightarrow> get c' k d = Ok v"
    and get_set_other: "set c k v = Ok c' \<Longrightarrow> k' \<noteq> k \<Longrightarrow> get c' k' d = get c k' d"
begin

lemma sets_get:
  "\<exists>c'. ofold (\<lambda>(k, v) c. set c k v) kvs c = Ok c' \<and>
        (\<forall>k d. get c' k d = (case map_of (rev kvs) k of Some v \<Rightarrow> Ok v | None \<Rightarrow> get c k d))"
proof (induction kvs arbitrary: c)
  case Nil
  then show ?case by simp
next
  case (Cons kv kvs)
  obtain k v where kv: "kv = (k, v)" by (cases kv)
  obtain c1 where c1: "set c k v = Ok c1" using set_ok by blast
  obtain c' where c': "ofold (\<lambda>(k, v) c. set c k v) kvs c1 = Ok c'"
    and g: "\<And>k d. get c' k d = (case map_of (rev kvs) k of Some v \<Rightarrow> Ok v | None \<Rightarrow> get c1 k d)"
    using Cons.IH [of c1] by blast
  have "get c' k' d = (case map_of (rev (kv # kvs)) k' of Some v \<Rightarrow> Ok v | None \<Rightarrow> get c k' d)" for k' d
    using g [of k' d] get_set_same [OF c1] get_set_other [OF c1]
    by (auto simp: kv map_add_def split: option.splits)
  with c1 c' kv show ?case by auto
qed

end

lemma conf_Get_upd:
  "conf_Get (c\<lparr>Properties := (Properties c)(k \<mapsto> v)\<rparr>) k' d = (if k' = k then Ok v else conf_Get c k' d)"
  by (simp add: conf_Get_def)

interpretation conf: Configuration conf_Get conf_Set
  by unfold_locales (auto simp: conf_Set_def conf_Get_upd)

interpretation yarn: Configuration yarn_Get yarn_Set
  by unfold_locales (auto simp: yarn_Get_def yarn_Set_def conf_Set_def conf_Get_upd)

section \<open>Which file wins\<close>

text \<open>The properties a resource contributes; nothing when it cannot be opened, read or parsed.\<close>

definition resource_props :: "conf_env \<Rightarrow> string \<Rightarrow> string \<Rightarrow> Resource \<Rightarrow> (string \<times> string) list" where
  "resource_props E dir prefix r =
     (case os_Open E (dir @ ''/'' @ prefix @ Res_Name r) of
        Inr (Inr data) \<Rightarrow>
          (case xml_Unmarshal E data of
             Inr h \<Rightarrow> map (\<lambda>p. (prop_Name p, prop_Value p)) (hconf_Properties h)
           | Inl _ \<Rightarrow> [])
      | _ \<Rightarrow> [])"

definition resource_loads :: "conf_env \<Rightarrow> string \<Rightarrow> string \<Rightarrow> Resource \<Rightarrow> bool" where
  "resource_loads E dir prefix r \<longleftrightarrow>
     (case os_Open E (dir @ ''/'' @ prefix @ Res_Name r) of
        Inl _ \<Rightarrow> \<not> Res_Required r
      | Inr (Inl _) \<Rightarrow> False
      | Inr (Inr data) \<Rightarrow> (case xml_Unmarshal E data of Inl _ \<Rightarrow> False | Inr _ \<Rightarrow> True))"

lemma ofold_set_props:
  "ofold (\<lambda>kv c. conf_Set c (prop_Name kv) (prop_Value kv)) ps c =
   ofold (\<lambda>(k, v) c. conf_Set c k v) (map (\<lambda>p. (prop_Name p, prop_Value p)) ps) c"
  by (induction ps arbitrary: c) (simp_all add: conf_Set_def)

lemma loadResource_eq:
  "resource_loads E dir prefix r \<Longrightarrow>
   loadResource E dir prefix r c = ofold (\<lambda>(k, v) c. conf_Set c k v) (resource_props E dir prefix r) c"
  by (auto simp: resource_loads_def loadResource_def resource_props_def ofold_set_props split: sum.splits)

lemma loadResource_fails:
  "\<not> resource_loads E dir prefix r \<Longrightarrow> \<exists>e. loadResource E dir prefix r c = Err e"
  by (auto simp: resource_loads_def loadResource_def split: sum.splits)

lemma loadResources_eq:
  "\<forall>r\<in>set rs. resource_loads E dir prefix r \<Longrightarrow>
   ofold (loadResource E dir prefix) rs =
   ofold (\<lambda>(k, v) c. conf_Set c k v) (concat (map (resource_props E dir prefix) rs))"
proof (induction rs)
  case Nil
  then show ?case by (simp add: fun_eq_iff)
next
  case (Cons r rs)
  then have "ofold (loadResource E dir prefix) rs =
    ofold (\<lambda>(k, v) c. conf_Set c k v) (concat (map (resource_props E dir prefix) rs))" by simp
  with Cons.prems show ?case
    by (intro ext) (simp add: ofold_append loadResource_eq)
qed

lemma loadResources_fails:
  "\<exists>r\<in>set rs. \<not> resource_loads E dir prefix r \<Longrightarrow> \<exists>e. ofold (loadResource E dir prefix) rs c = Err e"
proof (induction rs arbitrary: c)
  case Nil
  then show ?case by simp
next
  case (Cons r rs)
  show ?case
  proof (cases "resource_loads E dir prefix r")
    case False
    then show ?thesis using loadResource_fails [OF False, of c] by auto
  next
    case True
    then obtain c' where "loadResource E dir prefix r c = Ok c'"
      using conf.sets_get [of "resource_props E dir prefix r" c] by (auto simp: loadResource_eq)
    with True Cons show ?thesis by auto
  qed
qed

definition yarn_resources :: "Resource list" where
  "yarn_resources = [CORE_DEFAULT, CORE_SITE, YARN_DEFAULT, YARN_SITE]"

definition effective_value ::
  "conf_env \<Rightarrow> string \<Rightarrow> string \<Rightarrow> string \<Rightarrow> string option" where
  "effective_value E dir clusterID k =
     map_of (rev (concat (map (resource_props E dir (configPrefix clusterID)) yarn_resources))) k"

lemma NewYarnConfiguration_eq:
  "NewYarnConfiguration E dir clusterID =
     obind (ofold (loadResource E dir (configPrefix clusterID)) yarn_resources \<lparr>Properties = Map.empty\<rparr>)
       (\<lambda>c. Ok \<lparr>yconf = c\<rparr>)"
  by (simp add: NewYarnConfiguration_def NewConfigurationResources_def yarn_resources_def)

section \<open>Properties\<close>

text \<open>C36. Loading the YARN configuration of a cluster succeeds exactly when every resource
that can be opened is readable and parses and yarn-site.xml, the only required one, opens.
A loaded configuration answers each key with the last definition in the order
core-default, core-site, yarn-default, yarn-site, and with the caller's default when no
file defines the key.\<close>

theorem NewYarnConfiguration_last_definition_wins:
  "(\<exists>yc. NewYarnConfiguration E dir clusterID = Ok yc) =
     (\<forall>r\<in>set yarn_resources. resource_loads E dir (configPrefix clusterID) r) \<and>
   (\<forall>yc k d. NewYarnConfiguration E dir clusterID = Ok yc \<longrightarrow>
      yarn_Get yc k d = Ok (case effective_value E dir clusterID k of Some v \<Rightarrow> v | None \<Rightarrow> d))"
proof (cases "\<forall>r\<in>set yarn_resources. resource_loads E dir (configPrefix clusterID) r")
  case True
  let ?kvs = "concat (map (resource_props E dir (configPrefix clusterID)) yarn_resources)"
  obtain c where c: "ofold (\<lambda>(k, v) c. conf_Set c k v) ?kvs \<lparr>Properties = Map.empty\<rparr> = Ok c"
    and g: "\<And>k d. conf_Get c k d = (case map_of (rev ?kvs) k of Some v \<Rightarrow> Ok v
              | None \<Rightarrow> conf_Get \<lparr>Properties = Map.empty\<rparr> k d)"
    using conf.sets_get [of ?kvs "\<lparr>Properties = Map.empty\<rparr>"] by blast
  have "NewYarnConfiguration E dir clusterID = Ok \<lparr>yconf = c\<rparr>"
    using c by (simp add: NewYarnConfiguration_eq loadResources_eq [OF True])
  moreover have "yarn_Get \<lparr>yconf = c\<rparr> k d = Ok (case effective_value E dir clusterID k of Some v \<Rightarrow> v | None \<Rightarrow> d)" for k d
    using g [of k d] by (simp add: yarn_Get_def effective_value_def conf_Get_def split: option.splits)
  ultimately show ?thesis using True by auto
next
  case False
  then obtain e where "ofold (loadResource E dir (configPrefix clusterID)) yarn_resources \<lparr>Properties = Map.empty\<rparr> = Err e"
    using loadResources_fails [of yarn_resources E dir "configPrefix clusterID"] by blast
  then have "NewYarnConfiguration E dir clusterID = Err e" by (simp add: NewYarnConfiguration_eq)
  with False show ?thesis by auto
qed

text \<open>A directory with a core-site.xml and a yarn-site.xml for the cluster \<open>c1\<close>.\<close>

definition sample_conf_env :: conf_env where
  "sample_conf_env =
     \<lparr>os_Open = (\<lambda>p. if p = ''/conf/c1.core-site.xml'' then Inr (Inr ''A'')
                     else if p = ''/conf/c1.yarn-site.xml'' then Inr (Inr ''B'')
                     else Inl (EnvError ''no such file'')),
      xml_Unmarshal = (\<lambda>d.
        if d = ''A'' then Inr \<lparr>hconf_Properties = [\<lparr>prop_Name = RM_ADDRESS, prop_Value = ''a:1''\<rparr>,
                                                   \<lparr>prop_Name = RM_HA_RM_IDS, prop_Value = ''rm1,rm2''\<rparr>]\<rparr>
        else Inr \<lparr>hconf_Properties = [\<lparr>prop_Name = RM_ADDRESS, prop_Value = ''b:2''\<rparr>]\<rparr>)\<rparr>"

lemmas sample_simps = sample_conf_env_def effective_value_def resource_props_def resource_loads_def yarn_resources_def
  configPrefix_def const_simps

theorem NewYarnConfiguration_last_definition_wins_witness:
  "\<exists>yc. NewYarnConfiguration sample_conf_env ''/conf'' ''c1'' = Ok yc \<and>
        yarn_Get yc RM_ADDRESS DEFAULT_RM_ADDRESS = Ok ''b:2''"
proof -
  note P = NewYarnConfiguration_last_definition_wins [of sample_conf_env "''/conf''" "''c1''"]
  have "\<forall>r\<in>set yarn_resources. resource_loads sample_conf_env ''/conf'' (configPrefix ''c1'') r"
    by (simp add: sample_simps)
  then obtain yc where yc: "NewYarnConfiguration sample_conf_env ''/conf'' ''c1'' = Ok yc" using P by blast
  moreover have "effective_value sample_conf_env ''/conf'' ''c1'' RM_ADDRESS = Some ''b:2''"
    by (simp add: sample_simps)
  ultimately show ?thesis using P by (metis (no_types, lifting) option.simps(5))
qed

text \<open>The list of ResourceManager ids survives the configuration: ids written as one
comma-separated value are read back as the same list in the same order, writing them does
not change any other key, and a configuration that never sets the key yields the single
empty id (not the empty list), because Go splits the empty default into one element.\<close>

lemma GetRMs_roundtrip:
  assumes "ids \<noteq> []" and "\<forall>x\<in>set ids. CHR '','' \<notin> set x"
  shows "(\<exists>yc'. yarn_Set yc RM_HA_RM_IDS (Join ids '','') = Ok yc' \<and> GetRMs yc' = Ok ids \<and>
               (\<forall>k d. k \<noteq> RM_HA_RM_IDS \<longrightarrow> yarn_Get yc' k d = yarn_Get yc k d)) \<and>
         (Properties (yconf yc) RM_HA_RM_IDS = None \<longrightarrow> GetRMs yc = Ok [''''])"
proof -
  obtain yc' where yc': "yarn_Set yc RM_HA_RM_IDS (Join ids '','') = Ok yc'"
    using yarn.set_ok by blast
  have "yarn_Get yc' RM_HA_RM_IDS '''' = Ok (Join ids '','')"
    using yc' by (rule yarn.get_set_same)
  then have "GetRMs yc' = Ok ids"
    using Split_Join [of ids "CHR '',''"] assms by (simp add: GetRMs_def yarn_Get_def)
  with yc' show ?thesis
    by (auto intro: yarn.get_set_other simp: GetRMs_def conf_Get_def)
qed

lemma GetRMs_roundtrip_instance:
  "(\<exists>yc'. yarn_Set \<lparr>yconf = \<lparr>Properties = Map.empty\<rparr>\<rparr> RM_HA_RM_IDS ''rm1,rm2'' = Ok yc' \<and>
          GetRMs yc' = Ok [''rm1'', ''rm2'']) \<and>
   GetRMs \<lparr>yconf = \<lparr>Properties = Map.empty\<rparr>\<rparr> = Ok ['''']"
  using GetRMs_roundtrip [of "[''rm1'', ''rm2'']" "\<lparr>yconf = \<lparr>Properties = Map.empty\<rparr>\<rparr>"] by auto

text \<open>An integer written to a configuration is read back unchanged for every value of
Go's 64-bit int, through the wrapped configuration as well; a value that is not a decimal
integer in range is reported as an error and never as the default.\<close>

lemma SetInt_GetInt_roundtrip:
  assumes "- (2 ^ 63) \<le> i" and "i < 2 ^ 63"
  shows "(\<exists>yc'. yarn_SetInt yc k i = Ok yc' \<and> yarn_GetInt yc' k d = Ok i \<and> yarn_Get yc' k s = Ok (Itoa i)) \<and>
         (\<forall>v e. Properties (yconf yc) k = Some v \<and> Atoi v = Err e \<longrightarrow> yarn_GetInt yc k d = Err e)"
  using Atoi_Itoa [OF assms]
  by (simp add: yarn_SetInt_def conf_SetInt_def yarn_GetInt_def conf_GetInt_def yarn_Get_def conf_Get_def)

lemma SetInt_GetInt_roundtrip_instance:
  "(\<exists>yc'. yarn_SetInt \<lparr>yconf = \<lparr>Properties = [''p'' \<mapsto> ''x'']\<rparr>\<rparr> ''p'' (- 7) = Ok yc' \<and>
          yarn_GetInt yc' ''p'' 0 = Ok (- 7)) \<and>
   yarn_GetInt \<lparr>yconf = \<lparr>Properties = [''p'' \<mapsto> ''x'']\<rparr>\<rparr> ''p'' 0 = Err ErrSyntax"
proof -
  have "Atoi ''x'' = Err ErrSyntax"
    by (simp add: Atoi_def split_sign_def is_digit_def)
  then show ?thesis
    using SetInt_GetInt_roundtrip [of "- 7" "\<lparr>yconf = \<lparr>Properties = [''p'' \<mapsto> ''x'']\<rparr>\<rparr>" "''p''" 0] by simp blast
qed

end
