(* ===== verification/Protos.thy ===== *)
theory Protos
  imports Go_Lib
begin

text \<open>
  The protocol buffer messages of \<open>pkg/yarn/apis/proto\<close> that the program sends, receives or
  stores: each message struct is a record, each enum a datatype with its number, name and
  value tables, \<open>new_X\<close> is the zero message that \<open>Reset\<close> leaves and \<open>X_GetF\<close> are the generated
  getters, which accept a nil receiver and fall back to the field's default. Fields that are
  Go pointers or byte slices are options (nil is \<open>None\<close>); repeated fields are lists, whose
  elements are never nil in a message built by this program or by the decoder.

  The protobuf runtime (google.golang.org/protobuf) is not part of the repository. It
  is the record \<open>protolib\<close>, a parameter of every definition that uses it; \<open>protowire_spec\<close>
  states the documented behaviour of its varint functions.
\<close>

type_synonym float32 = "32 word"

section \<open>Enums and messages\<close>

datatype RpcKindProto =
    RpcKindProto_RPC_BUILTIN
  | RpcKindProto_RPC_WRITABLE
  | RpcKindProto_RPC_PROTOCOL_BUFFER

primrec RpcKindProto_number :: "RpcKindProto \<Rightarrow> int" where
  "RpcKindProto_number RpcKindProto_RPC_BUILTIN = 0"
| "RpcKindProto_number RpcKindProto_RPC_WRITABLE = 1"
| "RpcKindProto_number RpcKindProto_RPC_PROTOCOL_BUFFER = 2"

primrec RpcKindProto_name :: "RpcKindProto \<Rightarrow> string" where
  "RpcKindProto_name RpcKindProto_RPC_BUILTIN = ''RPC_BUILTIN''"
| "RpcKindProto_name RpcKindProto_RPC_WRITABLE = ''RPC_WRITABLE''"
| "RpcKindProto_name RpcKindProto_RPC_PROTOCOL_BUFFER = ''RPC_PROTOCOL_BUFFER''"

definition RpcKindProto_value :: "string \<Rightarrow> int option" where
  "RpcKindProto_value = map_of [(''RPC_BUILTIN'', 0), (''RPC_WRITABLE'', 1), (''RPC_PROTOCOL_BUFFER'', 2)]"

datatype RpcRequestHeaderProto_OperationProto =
    RpcRequestHeaderProto_RPC_FINAL_PACKET
  | RpcRequestHeaderProto_RPC_CONTINUATION_PACKET
  | RpcRequestHeaderProto_RPC_CLOSE_CONNECTION

primrec RpcRequestHeaderProto_OperationProto_number :: "RpcRequestHeaderProto_OperationProto \<Rightarrow> int" where
  "RpcRequestHeaderProto_OperationProto_number RpcRequestHeaderProto_RPC_FINAL_PACKET = 0"
| "RpcRequestHeaderProto_OperationProto_number RpcRequestHeaderProto_RPC_CONTINUATION_PACKET = 1"
| "RpcRequestHeaderProto_OperationProto_number RpcRequestHeaderProto_RPC_CLOSE_CONNECTION = 2"

primrec RpcRequestHeaderProto_OperationProto_name :: "RpcRequestHeaderProto_OperationProto \<Rightarrow> string" where
  "RpcRequestHeaderProto_OperationProto_name RpcRequestHeaderProto_RPC_FINAL_PACKET = ''RPC_FINAL_PACKET''"
| "RpcRequestHeaderProto_OperationProto_name RpcRequestHeaderProto_RPC_CONTINUATION_PACKET = ''RPC_CONTINUATION_PACKET''"
| "RpcRequestHeaderProto_OperationProto_name RpcRequestHeaderProto_RPC_CLOSE_CONNECTION = ''RPC_CLOSE_CONNECTION''"

definition RpcRequestHeaderProto_OperationProto_value :: "string \<Rightarrow> int option" where
  "RpcRequestHeaderProto_OperationProto_value = map_of [(''RPC_FINAL_PACKET'', 0), (''RPC_CONTINUATION_PACKET'', 1), (''RPC_CLOSE_CONNECTION'', 2)]"

datatype RpcResponseHeaderProto_RpcStatusProto =
    RpcResponseHeaderProto_SUCCESS
  | RpcResponseHeaderProto_ERROR
  | RpcResponseHeaderProto_FATAL

primrec RpcResponseHeaderProto_RpcStatusProto_number :: "RpcResponseHeaderProto_RpcStatusProto \<Rightarrow> int" where
  "RpcResponseHeaderProto_RpcStatusProto_number RpcResponseHeaderProto_SUCCESS = 0"
| "RpcResponseHeaderProto_RpcStatusProto_number RpcResponseHeaderProto_ERROR = 1"
| "RpcResponseHeaderProto_RpcStatusProto_number RpcResponseHeaderProto_FATAL = 2"

primrec RpcResponseHeaderProto_RpcStatusProto_name :: "RpcResponseHeaderProto_RpcStatusProto \<Rightarrow> string" where
  "RpcResponseHeaderProto_RpcStatusProto_name RpcResponseHeaderProto_SUCCESS = ''SUCCESS''"
| "RpcResponseHeaderProto_RpcStatusProto_name RpcResponseHeaderProto_ERROR = ''ERROR''"
| "RpcResponseHeaderProto_RpcStatusProto_name RpcResponseHeaderProto_FATAL = ''FATAL''"

definition RpcResponseHeaderProto_RpcStatusProto_value :: "string \<Rightarrow> int option" where
  "RpcResponseHeaderProto_RpcStatusProto_value = map_of [(''SUCCESS'', 0), (''ERROR'', 1), (''FATAL'', 2)]"

datatype RpcResponseHeaderProto_RpcErrorCodeProto =
    RpcResponseHeaderProto_ERROR_APPLICATION
  | RpcResponseHeaderProto_ERROR_NO_SUCH_METHOD
  | RpcResponseHeaderProto_ERROR_NO_SUCH_PROTOCOL
  | RpcResponseHeaderProto_ERROR_RPC_SERVER
  | RpcResponseHeaderProto_ERROR_SERIALIZING_RESPONSE
  | RpcResponseHeaderProto_ERROR_RPC_VERSION_MISMATCH
  | RpcResponseHeaderProto_FATAL_UNKNOWN
  | RpcResponseHeaderProto_FATAL_UNSUPPORTED_SERIALIZATION
  | RpcResponseHeaderProto_FATAL_INVALID_RPC_HEADER
  | RpcResponseHeaderProto_FATAL_DESERIALIZING_REQUEST
  | RpcResponseHeaderProto_FATAL_VERSION_MISMATCH
  | RpcResponseHeaderProto_FATAL_UNAUTHORIZED

primrec RpcResponseHeaderProto_RpcErrorCodeProto_number :: "RpcResponseHeaderProto_RpcErrorCodeProto \<Rightarrow> int" where
  "RpcResponseHeaderProto_RpcErrorCodeProto_number RpcResponseHeaderProto_ERROR_APPLICATION = 1"
| "RpcResponseHeaderProto_RpcErrorCodeProto_number RpcResponseHeaderProto_ERROR_NO_SUCH_METHOD = 2"
| "RpcResponseHeaderProto_RpcErrorCodeProto_number RpcResponseHeaderProto_ERROR_NO_SUCH_PROTOCOL = 3"
| "RpcResponseHeaderProto_RpcErrorCodeProto_number RpcResponseHeaderProto_ERROR_RPC_SERVER = 4"
| "RpcResponseHeaderProto_RpcErrorCodeProto_number RpcResponseHeaderProto_ERROR_SERIALIZING_RESPONSE = 5"
| "RpcResponseHeaderProto_RpcErrorCodeProto_number RpcResponseHeaderProto_ERROR_RPC_VERSION_MISMATCH = 6"
| "RpcResponseHeaderProto_RpcErrorCodeProto_number RpcResponseHeaderProto_FATAL_UNKNOWN = 10"
| "RpcResponseHeaderProto_RpcErrorCodeProto_number RpcResponseHeaderProto_FATAL_UNSUPPORTED_SERIALIZATION = 11"
| "RpcResponseHeaderProto_RpcErrorCodeProto_number RpcResponseHeaderProto_FATAL_INVALID_RPC_HEADER = 12"
| "RpcResponseHeaderProto_RpcErrorCodeProto_number RpcResponseHeaderProto_FATAL_DESERIALIZING_REQUEST = 13"
| "RpcResponseHeaderProto_RpcErrorCodeProto_number RpcResponseHeaderProto_FATAL_VERSION_MISMATCH = 14"
| "RpcResponseHeaderProto_RpcErrorCodeProto_number RpcResponseHeaderProto_FATAL_UNAUTHORIZED = 15"

primrec RpcResponseHeaderProto_RpcErrorCodeProto_name :: "RpcResponseHeaderProto_RpcErrorCodeProto \<Rightarrow> string" where
  "RpcResponseHeaderProto_RpcErrorCodeProto_name RpcResponseHeaderProto_ERROR_APPLICATION = ''ERROR_APPLICATION''"
| "RpcResponseHeaderProto_RpcErrorCodeProto_name RpcResponseHeaderProto_ERROR_NO_SUCH_METHOD = ''ERROR_NO_SUCH_METHOD''"
| "RpcResponseHeaderProto_RpcErrorCodeProto_name RpcResponseHeaderProto_ERROR_NO_SUCH_PROTOCOL = ''ERROR_NO_SUCH_PROTOCOL''"
| "RpcResponseHeaderProto_RpcErrorCodeProto_name RpcResponseHeaderProto_ERROR_RPC_SERVER = ''ERROR_RPC_SERVER''"
| "RpcResponseHeaderProto_RpcErrorCodeProto_name RpcResponseHeaderProto_ERROR_SERIALIZING_RESPONSE = ''ERROR_SERIALIZING_RESPONSE''"
| "RpcResponseHeaderProto_RpcErrorCodeProto_name RpcResponseHeaderProto_ERROR_RPC_VERSION_MISMATCH = ''ERROR_RPC_VERSION_MISMATCH''"
| "RpcResponseHeaderProto_RpcErrorCodeProto_name RpcResponseHeaderProto_FATAL_UNKNOWN = ''FATAL_UNKNOWN''"
| "RpcResponseHeaderProto_RpcErrorCodeProto_name RpcResponseHeaderProto_FATAL_UNSUPPORTED_SERIALIZATION = ''FATAL_UNSUPPORTED_SERIALIZATION''"
| "RpcResponseHeaderProto_RpcErrorCodeProto_name RpcResponseHeaderProto_FATAL_INVALID_RPC_HEADER = ''FATAL_INVALID_RPC_HEADER''"
| "RpcResponseHeaderProto_RpcErrorCodeProto_name RpcResponseHeaderProto_FATAL_DESERIALIZING_REQUEST = ''FATAL_DESERIALIZING_REQUEST''"
| "RpcResponseHeaderProto_RpcErrorCodeProto_name RpcResponseHeaderProto_FATAL_VERSION_MISMATCH = ''FATAL_VERSION_MISMATCH''"
| "RpcResponseHeaderProto_RpcErrorCodeProto_name RpcResponseHeaderProto_FATAL_UNAUTHORIZED = ''FATAL_UNAUTHORIZED''"

definition RpcResponseHeaderProto_RpcErrorCodeProto_value :: "string \<Rightarrow> int option" where
  "RpcResponseHeaderProto_RpcErrorCodeProto_value = map_of [(''ERROR_APPLICATION'', 1), (''ERROR_NO_SUCH_METHOD'', 2), (''ERROR_NO_SUCH_PROTOCOL'', 3), (''ERROR_RPC_SERVER'', 4), (''ERROR_SERIALIZING_RESPONSE'', 5), (''ERROR_RPC_VERSION_MISMATCH'', 6), (''FATAL_UNKNOWN'', 10), (''FATAL_UNSUPPORTED_SERIALIZATION'', 11), (''FATAL_INVALID_RPC_HEADER'', 12), (''FATAL_DESERIALIZING_REQUEST'', 13), (''FATAL_VERSION_MISMATCH'', 14), (''FATAL_UNAUTHORIZED'', 15)]"

datatype RpcSaslProto_SaslState =
    RpcSaslProto_SUCCESS
  | RpcSaslProto_NEGOTIATE
  | RpcSaslProto_INITIATE
  | RpcSaslProto_CHALLENGE
  | RpcSaslProto_RESPONSE
  | RpcSaslProto_WRAP

primrec RpcSaslProto_SaslState_number :: "RpcSaslProto_SaslState \<Rightarrow> int" where
  "RpcSaslProto_SaslState_number RpcSaslProto_SUCCESS = 0"
| "RpcSaslProto_SaslState_number RpcSaslProto_NEGOTIATE = 1"
| "RpcSaslProto_SaslState_number RpcSaslProto_INITIATE = 2"
| "RpcSaslProto_SaslState_number RpcSaslProto_CHALLENGE = 3"
| "RpcSaslProto_SaslState_number RpcSaslProto_RESPONSE = 4"
| "RpcSaslProto_SaslState_number RpcSaslProto_WRAP = 5"

primrec RpcSaslProto_SaslState_name :: "RpcSaslProto_SaslState \<Rightarrow> string" where
  "RpcSaslProto_SaslState_name RpcSaslProto_SUCCESS = ''SUCCESS''"
| "RpcSaslProto_SaslState_name RpcSaslProto_NEGOTIATE = ''NEGOTIATE''"
| "RpcSaslProto_SaslState_name RpcSaslProto_INITIATE = ''INITIATE''"
| "RpcSaslProto_SaslState_name RpcSaslProto_CHALLENGE = ''CHALLENGE''"
| "RpcSaslProto_SaslState_name RpcSaslProto_RESPONSE = ''RESPONSE''"
| "RpcSaslProto_SaslState_name RpcSaslProto_WRAP = ''WRAP''"

definition RpcSaslProto_SaslState_value :: "string \<Rightarrow> int option" where
  "RpcSaslProto_SaslState_value = map_of [(''SUCCESS'', 0), (''NEGOTIATE'', 1), (''INITIATE'', 2), (''CHALLENGE'', 3), (''RESPONSE'', 4), (''WRAP'', 5)]"

datatype HAServiceStateProto =
    HAServiceStateProto_INITIALIZING
  | HAServiceStateProto_ACTIVE
  | HAServiceStateProto_STANDBY
  | HAServiceStateProto_OBSERVER

primrec HAServiceStateProto_number :: "HAServiceStateProto \<Rightarrow> int" where
  "HAServiceStateProto_number HAServiceStateProto_INITIALIZING = 0"
| "HAServiceStateProto_number HAServiceStateProto_ACTIVE = 1"
| "HAServiceStateProto_number HAServiceStateProto_STANDBY = 2"
| "HAServiceStateProto_number HAServiceStateProto_OBSERVER = 3"

primrec HAServiceStateProto_name :: "HAServiceStateProto \<Rightarrow> string" where
  "HAServiceStateProto_name HAServiceStateProto_INITIALIZING = ''INITIALIZING''"
| "HAServiceStateProto_name HAServiceStateProto_ACTIVE = ''ACTIVE''"
| "HAServiceStateProto_name HAServiceStateProto_STANDBY = ''STANDBY''"
| "HAServiceStateProto_name HAServiceStateProto_OBSERVER = ''OBSERVER''"

definition HAServiceStateProto_value :: "string \<Rightarrow> int option" where
  "HAServiceStateProto_value = map_of [(''INITIALIZING'', 0), (''ACTIVE'', 1), (''STANDBY'', 2), (''OBSERVER'', 3)]"

datatype ResourceTypesProto =
    ResourceTypesProto_COUNTABLE

primrec ResourceTypesProto_number :: "ResourceTypesProto \<Rightarrow> int" where
  "ResourceTypesProto_number ResourceTypesProto_COUNTABLE = 0"

primrec ResourceTypesProto_name :: "ResourceTypesProto \<Rightarrow> string" where
  "ResourceTypesProto_name ResourceTypesProto_COUNTABLE = ''COUNTABLE''"

definition ResourceTypesProto_value :: "string \<Rightarrow> int option" where
  "ResourceTypesProto_value = map_of [(''COUNTABLE'', 0)]"

datatype NodeStateProto =
    NodeStateProto_NS_NEW
  | NodeStateProto_NS_RUNNING
  | NodeStateProto_NS_UNHEALTHY
  | NodeStateProto_NS_DECOMMISSIONED
  | NodeStateProto_NS_LOST
  | NodeStateProto_NS_REBOOTED
  | NodeStateProto_NS_DECOMMISSIONING
  | NodeStateProto_NS_SHUTDOWN

primrec NodeStateProto_number :: "NodeStateProto \<Rightarrow> int" where
  "NodeStateProto_number NodeStateProto_NS_NEW = 1"
| "NodeStateProto_number NodeStateProto_NS_RUNNING = 2"
| "NodeStateProto_number NodeStateProto_NS_UNHEALTHY = 3"
| "NodeStateProto_number NodeStateProto_NS_DECOMMISSIONED = 4"
| "NodeStateProto_number NodeStateProto_NS_LOST = 5"
| "NodeStateProto_number NodeStateProto_NS_REBOOTED = 6"
| "NodeStateProto_number NodeStateProto_NS_DECOMMISSIONING = 7"
| "NodeStateProto_number NodeStateProto_NS_SHUTDOWN = 8"

primrec NodeStateProto_name :: "NodeStateProto \<Rightarrow> string" where
  "NodeStateProto_name NodeStateProto_NS_NEW = ''NS_NEW''"
| "NodeStateProto_name NodeStateProto_NS_RUNNING = ''NS_RUNNING''"
| "NodeStateProto_name NodeStateProto_NS_UNHEALTHY = ''NS_UNHEALTHY''"
| "NodeStateProto_name NodeStateProto_NS_DECOMMISSIONED = ''NS_DECOMMISSIONED''"
| "NodeStateProto_name NodeStateProto_NS_LOST = ''NS_LOST''"
| "NodeStateProto_name NodeStateProto_NS_REBOOTED = ''NS_REBOOTED''"
| "NodeStateProto_name NodeStateProto_NS_DECOMMISSIONING = ''NS_DECOMMISSIONING''"
| "NodeStateProto_name NodeStateProto_NS_SHUTDOWN = ''NS_SHUTDOWN''"

definition NodeStateProto_value :: "string \<Rightarrow> int option" where
  "NodeStateProto_value = map_of [(''NS_NEW'', 1), (''NS_RUNNING'', 2), (''NS_UNHEALTHY'', 3), (''NS_DECOMMISSIONED'', 4), (''NS_LOST'', 5), (''NS_REBOOTED'', 6), (''NS_DECOMMISSIONING'', 7), (''NS_SHUTDOWN'', 8)]"

datatype NodeUpdateTypeProto =
    NodeUpdateTypeProto_NODE_USABLE
  | NodeUpdateTypeProto_NODE_UNUSABLE
  | NodeUpdateTypeProto_NODE_DECOMMISSIONING

primrec NodeUpdateTypeProto_number :: "NodeUpdateTypeProto \<Rightarrow> int" where
  "NodeUpdateTypeProto_number NodeUpdateTypeProto_NODE_USABLE = 0"
| "NodeUpdateTypeProto_number NodeUpdateTypeProto_NODE_UNUSABLE = 1"
| "NodeUpdateTypeProto_number NodeUpdateTypeProto_NODE_DECOMMISSIONING = 2"

primrec NodeUpdateTypeProto_name :: "NodeUpdateTypeProto \<Rightarrow> string" where
  "NodeUpdateTypeProto_name NodeUpdateTypeProto_NODE_USABLE = ''NODE_USABLE''"
| "NodeUpdateTypeProto_name NodeUpdateTypeProto_NODE_UNUSABLE = ''NODE_UNUSABLE''"
| "NodeUpdateTypeProto_name NodeUpdateTypeProto_NODE_DECOMMISSIONING = ''NODE_DECOMMISSIONING''"

definition NodeUpdateTypeProto_value :: "string \<Rightarrow> int option" where
  "NodeUpdateTypeProto_value = map_of [(''NODE_USABLE'', 0), (''NODE_UNUSABLE'', 1), (''NODE_DECOMMISSIONING'', 2)]"

datatype NodeAttributeTypeProto =
    NodeAttributeTypeProto_STRING

primrec NodeAttributeTypeProto_number :: "NodeAttributeTypeProto \<Rightarrow> int" where
  "NodeAttributeTypeProto_number NodeAttributeTypeProto_STRING = 1"

primrec NodeAttributeTypeProto_name :: "NodeAttributeTypeProto \<Rightarrow> string" where
  "NodeAttributeTypeProto_name NodeAttributeTypeProto_STRING = ''STRING''"

definition NodeAttributeTypeProto_value :: "string \<Rightarrow> int option" where
  "NodeAttributeTypeProto_value = map_of [(''STRING'', 1)]"

record RPCTraceInfoProto =
  RPCTraceInfo_TraceId :: "int64 option"
  RPCTraceInfo_ParentId :: "int64 option"

definition new_RPCTraceInfoProto :: RPCTraceInfoProto where
  "new_RPCTraceInfoProto = \<lparr>RPCTraceInfo_TraceId = None, RPCTraceInfo_ParentId = None\<rparr>"

definition RPCTraceInfo_GetTraceId :: "RPCTraceInfoProto option \<Rightarrow> int64" where
  "RPCTraceInfo_GetTraceId x = (case Option.bind x RPCTraceInfo_TraceId of Some v \<Rightarrow> v | None \<Rightarrow> 0)"

definition RPCTraceInfo_GetParentId :: "RPCTraceInfoProto option \<Rightarrow> int64" where
  "RPCTraceInfo_GetParentId x = (case Option.bind x RPCTraceInfo_ParentId of Some v \<Rightarrow> v | None \<Rightarrow> 0)"

record RPCCallerContextProto =
  RPCCallerContext_Context :: "string option"
  RPCCallerContext_Signature :: "byte list option"

definition new_RPCCallerContextProto :: RPCCallerContextProto where
  "new_RPCCallerContextProto = \<lparr>RPCCallerContext_Context = None, RPCCallerContext_Signature = None\<rparr>"

definition RPCCallerContext_GetContext :: "RPCCallerContextProto option \<Rightarrow> string" where
  "RPCCallerContext_GetContext x = (case Option.bind x RPCCallerContext_Context of Some v \<Rightarrow> v | None \<Rightarrow> '''')"

definition RPCCallerContext_GetSignature :: "RPCCallerContextProto option \<Rightarrow> byte list option" where
  "RPCCallerContext_GetSignature x = Option.bind x RPCCallerContext_Signature"

record RpcRequestHeaderProto =
  RpcRequestHeader_RpcKind :: "RpcKindProto option"
  RpcRequestHeader_RpcOp :: "RpcRequestHeaderProto_OperationProto option"
  RpcRequestHeader_CallId :: "int32 option"
  RpcRequestHeader_ClientId :: "byte list option"
  RpcRequestHeader_RetryCount :: "int32 option"
  RpcRequestHeader_TraceInfo :: "RPCTraceInfoProto option"
  RpcRequestHeader_CallerContext :: "RPCCallerContextProto option"
  RpcRequestHeader_StateId :: "int64 option"

definition new_RpcRequestHeaderProto :: RpcRequestHeaderProto where
  "new_RpcRequestHeaderProto = \<lparr>RpcRequestHeader_RpcKind = None, RpcRequestHeader_RpcOp = None, RpcRequestHeader_CallId = None, RpcRequestHeader_ClientId = None, RpcRequestHeader_RetryCount = None, RpcRequestHeader_TraceInfo = None, RpcRequestHeader_CallerContext = None, RpcRequestHeader_StateId = None\<rparr>"

definition RpcRequestHeader_GetRpcKind :: "RpcRequestHeaderProto option \<Rightarrow> RpcKindProto" where
  "RpcRequestHeader_GetRpcKind x = (case Option.bind x RpcRequestHeader_RpcKind of Some v \<Rightarrow> v | None \<Rightarrow> RpcKindProto_RPC_BUILTIN)"

definition RpcRequestHeader_GetRpcOp :: "RpcRequestHeaderProto option \<Rightarrow> RpcRequestHeaderProto_OperationProto" where
  "RpcRequestHeader_GetRpcOp x = (case Option.bind x RpcRequestHeader_RpcOp of Some v \<Rightarrow> v | None \<Rightarrow> RpcRequestHeaderProto_RPC_FINAL_PACKET)"

definition RpcRequestHeader_GetCallId :: "RpcRequestHeaderProto option \<Rightarrow> int32" where
  "RpcRequestHeader_GetCallId x = (case Option.bind x RpcRequestHeader_CallId of Some v \<Rightarrow> v | None \<Rightarrow> 0)"

definition RpcRequestHeader_GetClientId :: "RpcRequestHeaderProto option \<Rightarrow> byte list option" where
  "RpcRequestHeader_GetClientId x = Option.bind x RpcRequestHeader_ClientId"

definition RpcRequestHeader_GetRetryCount :: "RpcRequestHeaderProto option \<Rightarrow> int32" where
  "RpcRequestHeader_GetRetryCount x = (case Option.bind x RpcRequestHeader_RetryCount of Some v \<Rightarrow> v | None \<Rightarrow> -1)"

definition RpcRequestHeader_GetTraceInfo :: "RpcRequestHeaderProto option \<Rightarrow> RPCTraceInfoProto option" where
  "RpcRequestHeader_GetTraceInfo x = Option.bind x RpcRequestHeader_TraceInfo"

definition RpcRequestHeader_GetCallerContext :: "RpcRequestHeaderProto option \<Rightarrow> RPCCallerContextProto option" where
  "RpcRequestHeader_GetCallerContext x = Option.bind x RpcRequestHeader_CallerContext"

definition RpcRequestHeader_GetStateId :: "RpcRequestHeaderProto option \<Rightarrow> int64" where
  "RpcRequestHeader_GetStateId x = (case Option.bind x RpcRequestHeader_StateId of Some v \<Rightarrow> v | None \<Rightarrow> 0)"

record RpcResponseHeaderProto =
  RpcResponseHeader_CallId :: "uint32 option"
  RpcResponseHeader_Status :: "RpcResponseHeaderProto_RpcStatusProto option"
  RpcResponseHeader_ServerIpcVersionNum :: "uint32 option"
  RpcResponseHeader_ExceptionClassName :: "string option"
  RpcResponseHeader_ErrorMsg :: "string option"
  RpcResponseHeader_ErrorDetail :: "RpcResponseHeaderProto_RpcErrorCodeProto option"
  RpcResponseHeader_ClientId :: "byte list option"
  RpcResponseHeader_RetryCount :: "int32 option"
  RpcResponseHeader_StateId :: "int64 option"

definition new_RpcResponseHeaderProto :: RpcResponseHeaderProto where
  "new_RpcResponseHeaderProto = \<lparr>RpcResponseHeader_CallId = None, RpcResponseHeader_Status = None, RpcResponseHeader_ServerIpcVersionNum = None, RpcResponseHeader_ExceptionClassName = None, RpcResponseHeader_ErrorMsg = None, RpcResponseHeader_ErrorDetail = None, RpcResponseHeader_ClientId = None, RpcResponseHeader_RetryCount = None, RpcResponseHeader_StateId = None\<rparr>"

definition RpcResponseHeader_GetCallId :: "RpcResponseHeaderProto option \<Rightarrow> uint32" where
  "RpcResponseHeader_GetCallId x = (case Option.bind x RpcResponseHeader_CallId of Some v \<Rightarrow> v | None \<Rightarrow> 0)"

definition RpcResponseHeader_GetStatus :: "RpcResponseHeaderProto option \<Rightarrow> RpcResponseHeaderProto_RpcStatusProto" where
  "RpcResponseHeader_GetStatus x = (case Option.bind x RpcResponseHeader_Status of Some v \<Rightarrow> v | None \<Rightarrow> RpcResponseHeaderProto_SUCCESS)"

definition RpcResponseHeader_GetServerIpcVersionNum :: "RpcResponseHeaderProto option \<Rightarrow> uint32" where
  "RpcResponseHeader_GetServerIpcVersionNum x = (case Option.bind x RpcResponseHeader_ServerIpcVersionNum of Some v \<Rightarrow> v | None \<Rightarrow> 0)"

definition RpcResponseHeader_GetExceptionClassName :: "RpcResponseHeaderProto option \<Rightarrow> string" where
  "RpcResponseHeader_GetExceptionClassName x = (case Option.bind x RpcResponseHeader_ExceptionClassName of Some v \<Rightarrow> v | None \<Rightarrow> '''')"

definition RpcResponseHeader_GetErrorMsg :: "RpcResponseHeaderProto option \<Rightarrow> string" where
  "RpcResponseHeader_GetErrorMsg x = (case Option.bind x RpcResponseHeader_ErrorMsg of Some v \<Rightarrow> v | None \<Rightarrow> '''')"

definition RpcResponseHeader_GetErrorDetail :: "RpcResponseHeaderProto option \<Rightarrow> RpcResponseHeaderProto_RpcErrorCodeProto" where
  "RpcResponseHeader_GetErrorDetail x = (case Option.bind x RpcResponseHeader_ErrorDetail of Some v \<Rightarrow> v | None \<Rightarrow> RpcResponseHeaderProto_ERROR_APPLICATION)"

definition RpcResponseHeader_GetClientId :: "RpcResponseHeaderProto option \<Rightarrow> byte list option" where
  "RpcResponseHeader_GetClientId x = Option.bind x RpcResponseHeader_ClientId"

definition RpcResponseHeader_GetRetryCount :: "RpcResponseHeaderProto option \<Rightarrow> int32" where
  "RpcResponseHeader_GetRetryCount x = (case Option.bind x RpcResponseHeader_RetryCount of Some v \<Rightarrow> v | None \<Rightarrow> -1)"

definition RpcResponseHeader_GetStateId :: "RpcResponseHeaderProto option \<Rightarrow> int64" where
  "RpcResponseHeader_GetStateId x = (case Option.bind x RpcResponseHeader_StateId of Some v \<Rightarrow> v | None \<Rightarrow> 0)"

record RpcSaslProto_SaslAuth =
  SaslAuth_Method :: "string option"
  SaslAuth_Mechanism :: "string option"
  SaslAuth_Protocol :: "string option"
  SaslAuth_ServerId :: "string option"
  SaslAuth_Challenge :: "byte list option"

definition new_RpcSaslProto_SaslAuth :: RpcSaslProto_SaslAuth where
  "new_RpcSaslProto_SaslAuth = \<lparr>SaslAuth_Method = None, SaslAuth_Mechanism = None, SaslAuth_Protocol = None, SaslAuth_ServerId = None, SaslAuth_Challenge = None\<rparr>"

definition SaslAuth_GetMethod :: "RpcSaslProto_SaslAuth option \<Rightarrow> string" where
  "SaslAuth_GetMethod x = (case Option.bind x SaslAuth_Method of Some v \<Rightarrow> v | None \<Rightarrow> '''')"

definition SaslAuth_GetMechanism :: "RpcSaslProto_SaslAuth option \<Rightarrow> string" where
  "SaslAuth_GetMechanism x = (case Option.bind x SaslAuth_Mechanism of Some v \<Rightarrow> v | None \<Rightarrow> '''')"

definition SaslAuth_GetProtocol :: "RpcSaslProto_SaslAuth option \<Rightarrow> string" where
  "SaslAuth_GetProtocol x = (case Option.bind x SaslAuth_Protocol of Some v \<Rightarrow> v | None \<Rightarrow> '''')"

definition SaslAuth_GetServerId :: "RpcSaslProto_SaslAuth option \<Rightarrow> string" where
  "SaslAuth_GetServerId x = (case Option.bind x SaslAuth_ServerId of Some v \<Rightarrow> v | None \<Rightarrow> '''')"

definition SaslAuth_GetChallenge :: "RpcSaslProto_SaslAuth option \<Rightarrow> byte list option" where
  "SaslAuth_GetChallenge x = Option.bind x SaslAuth_Challenge"

record RpcSaslProto =
  RpcSasl_Version :: "uint32 option"
  RpcSasl_State :: "RpcSaslProto_SaslState option"
  RpcSasl_Token :: "byte list option"
  RpcSasl_Auths :: "RpcSaslProto_SaslAuth list"

definition new_RpcSaslProto :: RpcSaslProto where
  "new_RpcSaslProto = \<lparr>RpcSasl_Version = None, RpcSasl_State = None, RpcSasl_Token = None, RpcSasl_Auths = []\<rparr>"

definition RpcSasl_GetVersion :: "RpcSaslProto option \<Rightarrow> uint32" where
  "RpcSasl_GetVersion x = (case Option.bind x RpcSasl_Version of Some v \<Rightarrow> v | None \<Rightarrow> 0)"

definition RpcSasl_GetState :: "RpcSaslProto option \<Rightarrow> RpcSaslProto_SaslState" where
  "RpcSasl_GetState x = (case Option.bind x RpcSasl_State of Some v \<Rightarrow> v | None \<Rightarrow> RpcSaslProto_SUCCESS)"

definition RpcSasl_GetToken :: "RpcSaslProto option \<Rightarrow> byte list option" where
  "RpcSasl_GetToken x = Option.bind x RpcSasl_Token"

definition RpcSasl_GetAuths :: "RpcSaslProto option \<Rightarrow> RpcSaslProto_SaslAuth list" where
  "RpcSasl_GetAuths x = (case x of Some m \<Rightarrow> RpcSasl_Auths m | None \<Rightarrow> [])"

record UserInformationProto =
  UserInformation_EffectiveUser :: "string option"
  UserInformation_RealUser :: "string option"

definition new_UserInformationProto :: UserInformationProto where
  "new_UserInformationProto = \<lparr>UserInformation_EffectiveUser = None, UserInformation_RealUser = None\<rparr>"

definition UserInformation_GetEffectiveUser :: "UserInformationProto option \<Rightarrow> string" where
  "UserInformation_GetEffectiveUser x = (case Option.bind x UserInformation_EffectiveUser of Some v \<Rightarrow> v | None \<Rightarrow> '''')"

definition UserInformation_GetRealUser :: "UserInformationProto option \<Rightarrow> string" where
  "UserInformation_GetRealUser x = (case Option.bind x UserInformation_RealUser of Some v \<Rightarrow> v | None \<Rightarrow> '''')"

record IpcConnectionContextProto =
  IpcConnectionContext_UserInfo :: "UserInformationProto option"
  IpcConnectionContext_Protocol :: "string option"

definition new_IpcConnectionContextProto :: IpcConnectionContextProto where
  "new_IpcConnectionContextProto = \<lparr>IpcConnectionContext_UserInfo = None, IpcConnectionContext_Protocol = None\<rparr>"

definition IpcConnectionContext_GetUserInfo :: "IpcConnectionContextProto option \<Rightarrow> UserInformationProto option" where
  "IpcConnectionContext_GetUserInfo x = Option.bind x IpcConnectionContext_UserInfo"

definition IpcConnectionContext_GetProtocol :: "IpcConnectionContextProto option \<Rightarrow> string" where
  "IpcConnectionContext_GetProtocol x = (case Option.bind x IpcConnectionContext_Protocol of Some v \<Rightarrow> v | None \<Rightarrow> '''')"

record RequestHeaderProto =
  RequestHeader_MethodName :: "string option"
  RequestHeader_DeclaringClassProtocolName :: "string option"
  RequestHeader_ClientProtocolVersion :: "uint64 option"

definition new_RequestHeaderProto :: RequestHeaderProto where
  "new_RequestHeaderProto = \<lparr>RequestHeader_MethodName = None, RequestHeader_DeclaringClassProtocolName = None, RequestHeader_ClientProtocolVersion = None\<rparr>"

definition RequestHeader_GetMethodName :: "RequestHeaderProto option \<Rightarrow> string" where
  "RequestHeader_GetMethodName x = (case Option.bind x RequestHeader_MethodName of Some v \<Rightarrow> v | None \<Rightarrow> '''')"

definition RequestHeader_GetDeclaringClassProtocolName :: "RequestHeaderProto option \<Rightarrow> string" where
  "RequestHeader_GetDeclaringClassProtocolName x = (case Option.bind x RequestHeader_DeclaringClassProtocolName of Some v \<Rightarrow> v | None \<Rightarrow> '''')"

definition RequestHeader_GetClientProtocolVersion :: "RequestHeaderProto option \<Rightarrow> uint64" where
  "RequestHeader_GetClientProtocolVersion x = (case Option.bind x RequestHeader_ClientProtocolVersion of Some v \<Rightarrow> v | None \<Rightarrow> 0)"

record TokenProto =
  Token_Identifier :: "byte list option"
  Token_Password :: "byte list option"
  Token_Kind :: "string option"
  Token_Service :: "string option"

definition new_TokenProto :: TokenProto where
  "new_TokenProto = \<lparr>Token_Identifier = None, Token_Password = None, Token_Kind = None, Token_Service = None\<rparr>"

definition Token_GetIdentifier :: "TokenProto option \<Rightarrow> byte list option" where
  "Token_GetIdentifier x = Option.bind x Token_Identifier"

definition Token_GetPassword :: "TokenProto option \<Rightarrow> byte list option" where
  "Token_GetPassword x = Option.bind x Token_Password"

definition Token_GetKind :: "TokenProto option \<Rightarrow> string" where
  "Token_GetKind x = (case Option.bind x Token_Kind of Some v \<Rightarrow> v | None \<Rightarrow> '''')"

definition Token_GetService :: "TokenProto option \<Rightarrow> string" where
  "Token_GetService x = (case Option.bind x Token_Service of Some v \<Rightarrow> v | None \<Rightarrow> '''')"

record GetServiceStatusResponseProto =
  GetServiceStatusResponse_State :: "HAServiceStateProto option"
  GetServiceStatusResponse_ReadyToBecomeActive :: "bool option"
  GetServiceStatusResponse_NotReadyReason :: "string option"

definition new_GetServiceStatusResponseProto :: GetServiceStatusResponseProto where
  "new_GetServiceStatusResponseProto = \<lparr>GetServiceStatusResponse_State = None, GetServiceStatusResponse_ReadyToBecomeActive = None, GetServiceStatusResponse_NotReadyReason = None\<rparr>"

definition GetServiceStatusResponse_GetState :: "GetServiceStatusResponseProto option \<Rightarrow> HAServiceStateProto" where
  "GetServiceStatusResponse_GetState x = (case Option.bind x GetServiceStatusResponse_State of Some v \<Rightarrow> v | None \<Rightarrow> HAServiceStateProto_INITIALIZING)"

definition GetServiceStatusResponse_GetReadyToBecomeActive :: "GetServiceStatusResponseProto option \<Rightarrow> bool" where
  "GetServiceStatusResponse_GetReadyToBecomeActive x = (case Option.bind x GetServiceStatusResponse_ReadyToBecomeActive of Some v \<Rightarrow> v | None \<Rightarrow> False)"

definition GetServiceStatusResponse_GetNotReadyReason :: "GetServiceStatusResponseProto option \<Rightarrow> string" where
  "GetServiceStatusResponse_GetNotReadyReason x = (case Option.bind x GetServiceStatusResponse_NotReadyReason of Some v \<Rightarrow> v | None \<Rightarrow> '''')"

record ResourceInformationProto =
  ResourceInformation_Key :: "string option"
  ResourceInformation_Value :: "int64 option"
  ResourceInformation_Units :: "string option"
  ResourceInformation_Type :: "ResourceTypesProto option"

definition new_ResourceInformationProto :: ResourceInformationProto where
  "new_ResourceInformationProto = \<lparr>ResourceInformation_Key = None, ResourceInformation_Value = None, ResourceInformation_Units = None, ResourceInformation_Type = None\<rparr>"

definition ResourceInformation_GetKey :: "ResourceInformationProto option \<Rightarrow> string" where
  "ResourceInformation_GetKey x = (case Option.bind x ResourceInformation_Key of Some v \<Rightarrow> v | None \<Rightarrow> '''')"

definition ResourceInformation_GetValue :: "ResourceInformationProto option \<Rightarrow> int64" where
  "ResourceInformation_GetValue x = (case Option.bind x ResourceInformation_Value of Some v \<Rightarrow> v | None \<Rightarrow> 0)"

definition ResourceInformation_GetUnits :: "ResourceInformationProto option \<Rightarrow> string" where
  "ResourceInformation_GetUnits x = (case Option.bind x ResourceInformation_Units of Some v \<Rightarrow> v | None \<Rightarrow> '''')"

definition ResourceInformation_GetType :: "ResourceInformationProto option \<Rightarrow> ResourceTypesProto" where
  "ResourceInformation_GetType x = (case Option.bind x ResourceInformation_Type of Some v \<Rightarrow> v | None \<Rightarrow> ResourceTypesProto_COUNTABLE)"

record ResourceProto =
  Resource_Memory :: "int64 option"
  Resource_VirtualCores :: "int32 option"
  Resource_ResourceValueMap :: "ResourceInformationProto list"

definition new_ResourceProto :: ResourceProto where
  "new_ResourceProto = \<lparr>Resource_Memory = None, Resource_VirtualCores = None, Resource_ResourceValueMap = []\<rparr>"

definition Resource_GetMemory :: "ResourceProto option \<Rightarrow> int64" where
  "Resource_GetMemory x = (case Option.bind x Resource_Memory of Some v \<Rightarrow> v | None \<Rightarrow> 0)"

definition Resource_GetVirtualCores :: "ResourceProto option \<Rightarrow> int32" where
  "Resource_GetVirtualCores x = (case Option.bind x Resource_VirtualCores of Some v \<Rightarrow> v | None \<Rightarrow> 0)"

definition Resource_GetResourceValueMap :: "ResourceProto option \<Rightarrow> ResourceInformationProto list" where
  "Resource_GetResourceValueMap x = (case x of Some m \<Rightarrow> Resource_ResourceValueMap m | None \<Rightarrow> [])"

record ResourceUtilizationProto =
  ResourceUtilization_Pmem :: "int32 option"
  ResourceUtilization_Vmem :: "int32 option"
  ResourceUtilization_Cpu :: "float32 option"

definition new_ResourceUtilizationProto :: ResourceUtilizationProto where
  "new_ResourceUtilizationProto = \<lparr>ResourceUtilization_Pmem = None, ResourceUtilization_Vmem = None, ResourceUtilization_Cpu = None\<rparr>"

definition ResourceUtilization_GetPmem :: "ResourceUtilizationProto option \<Rightarrow> int32" where
  "ResourceUtilization_GetPmem x = (case Option.bind x ResourceUtilization_Pmem of Some v \<Rightarrow> v | None \<Rightarrow> 0)"

definition ResourceUtilization_GetVmem :: "ResourceUtilizationProto option \<Rightarrow> int32" where
  "ResourceUtilization_GetVmem x = (case Option.bind x ResourceUtilization_Vmem of Some v \<Rightarrow> v | None \<Rightarrow> 0)"

definition ResourceUtilization_GetCpu :: "ResourceUtilizationProto option \<Rightarrow> float32" where
  "ResourceUtilization_GetCpu x = (case Option.bind x ResourceUtilization_Cpu of Some v \<Rightarrow> v | None \<Rightarrow> 0)"

record ResourceOptionProto =
  ResourceOption_Resource :: "ResourceProto option"
  ResourceOption_OverCommitTimeout :: "int32 option"

definition new_ResourceOptionProto :: ResourceOptionProto where
  "new_ResourceOptionProto = \<lparr>ResourceOption_Resource = None, ResourceOption_OverCommitTimeout = None\<rparr>"

definition ResourceOption_GetResource :: "ResourceOptionProto option \<Rightarrow> ResourceProto option" where
  "ResourceOption_GetResource x = Option.bind x ResourceOption_Resource"

definition ResourceOption_GetOverCommitTimeout :: "ResourceOptionProto option \<Rightarrow> int32" where
  "ResourceOption_GetOverCommitTimeout x = (case Option.bind x ResourceOption_OverCommitTimeout of Some v \<Rightarrow> v | None \<Rightarrow> 0)"

record NodeIdProto =
  NodeId_Host :: "string option"
  NodeId_Port :: "int32 option"

definition new_NodeIdProto :: NodeIdProto where
  "new_NodeIdProto = \<lparr>NodeId_Host = None, NodeId_Port = None\<rparr>"

definition NodeId_GetHost :: "NodeIdProto option \<Rightarrow> string" where
  "NodeId_GetHost x = (case Option.bind x NodeId_Host of Some v \<Rightarrow> v | None \<Rightarrow> '''')"

definition NodeId_GetPort :: "NodeIdProto option \<Rightarrow> int32" where
  "NodeId_GetPort x = (case Option.bind x NodeId_Port of Some v \<Rightarrow> v | None \<Rightarrow> 0)"

record NodeResourceMapProto =
  NodeResourceMap_NodeId :: "NodeIdProto option"
  NodeResourceMap_ResourceOption :: "ResourceOptionProto option"

definition new_NodeResourceMapProto :: NodeResourceMapProto where
  "new_NodeResourceMapProto = \<lparr>NodeResourceMap_NodeId = None, NodeResourceMap_ResourceOption = None\<rparr>"

definition NodeResourceMap_GetNodeId :: "NodeResourceMapProto option \<Rightarrow> NodeIdProto option" where
  "NodeResourceMap_GetNodeId x = Option.bind x NodeResourceMap_NodeId"

definition NodeResourceMap_GetResourceOption :: "NodeResourceMapProto option \<Rightarrow> ResourceOptionProto option" where
  "NodeResourceMap_GetResourceOption x = Option.bind x NodeResourceMap_ResourceOption"

record NodeAttributeKeyProto =
  NodeAttributeKey_AttributePrefix :: "string option"
  NodeAttributeKey_AttributeName :: "string option"

definition new_NodeAttributeKeyProto :: NodeAttributeKeyProto where
  "new_NodeAttributeKeyProto = \<lparr>NodeAttributeKey_AttributePrefix = None, NodeAttributeKey_AttributeName = None\<rparr>"

definition NodeAttributeKey_GetAttributePrefix :: "NodeAttributeKeyProto option \<Rightarrow> string" where
  "NodeAttributeKey_GetAttributePrefix x = (case Option.bind x NodeAttributeKey_AttributePrefix of Some v \<Rightarrow> v | None \<Rightarrow> ''rm.yarn.io'')"

definition NodeAttributeKey_GetAttributeName :: "NodeAttributeKeyProto option \<Rightarrow> string" where
  "NodeAttributeKey_GetAttributeName x = (case Option.bind x NodeAttributeKey_AttributeName of Some v \<Rightarrow> v | None \<Rightarrow> '''')"

record NodeAttributeProto =
  NodeAttribute_AttributeKey :: "NodeAttributeKeyProto option"
  NodeAttribute_AttributeType :: "NodeAttributeTypeProto option"
  NodeAttribute_AttributeValue :: "string option"

definition new_NodeAttributeProto :: NodeAttributeProto where
  "new_NodeAttributeProto = \<lparr>NodeAttribute_AttributeKey = None, NodeAttribute_AttributeType = None, NodeAttribute_AttributeValue = None\<rparr>"

definition NodeAttribute_GetAttributeKey :: "NodeAttributeProto option \<Rightarrow> NodeAttributeKeyProto option" where
  "NodeAttribute_GetAttributeKey x = Option.bind x NodeAttribute_AttributeKey"

definition NodeAttribute_GetAttributeType :: "NodeAttributeProto option \<Rightarrow> NodeAttributeTypeProto" where
  "NodeAttribute_GetAttributeType x = (case Option.bind x NodeAttribute_AttributeType of Some v \<Rightarrow> v | None \<Rightarrow> NodeAttributeTypeProto_STRING)"

definition NodeAttribute_GetAttributeValue :: "NodeAttributeProto option \<Rightarrow> string" where
  "NodeAttribute_GetAttributeValue x = (case Option.bind x NodeAttribute_AttributeValue of Some v \<Rightarrow> v | None \<Rightarrow> '''')"

record NodeReportProto =
  NodeReport_NodeId :: "NodeIdProto option"
  NodeReport_HttpAddress :: "string option"
  NodeReport_RackName :: "string option"
  NodeReport_Used :: "ResourceProto option"
  NodeReport_Capability :: "ResourceProto option"
  NodeReport_NumContainers :: "int32 option"
  NodeReport_NodeState :: "NodeStateProto option"
  NodeReport_HealthReport :: "string option"
  NodeReport_LastHealthReportTime :: "int64 option"
  NodeReport_NodeLabels :: "string list"
  NodeReport_ContainersUtilization :: "ResourceUtilizationProto option"
  NodeReport_NodeUtilization :: "ResourceUtilizationProto option"
  NodeReport_DecommissioningTimeout :: "uint32 option"
  NodeReport_NodeUpdateType :: "NodeUpdateTypeProto option"
  NodeReport_NodeAttributes :: "NodeAttributeProto list"

definition new_NodeReportProto :: NodeReportProto where
  "new_NodeReportProto = \<lparr>NodeReport_NodeId = None, NodeReport_HttpAddress = None, NodeReport_RackName = None, NodeReport_Used = None, NodeReport_Capability = None, NodeReport_NumContainers = None, NodeReport_NodeState = None, NodeReport_HealthReport = None, NodeReport_LastHealthReportTime = None, NodeReport_NodeLabels = [], NodeReport_ContainersUtilization = None, NodeReport_NodeUtilization = None, NodeReport_DecommissioningTimeout = None, NodeReport_NodeUpdateType = None, NodeReport_NodeAttributes = []\<rparr>"

definition NodeReport_GetNodeId :: "NodeReportProto option \<Rightarrow> NodeIdProto option" where
  "NodeReport_GetNodeId x = Option.bind x NodeReport_NodeId"

definition NodeReport_GetHttpAddress :: "NodeReportProto option \<Rightarrow> string" where
  "NodeReport_GetHttpAddress x = (case Option.bind x NodeReport_HttpAddress of Some v \<Rightarrow> v | None \<Rightarrow> '''')"

definition NodeReport_GetRackName :: "NodeReportProto option \<Rightarrow> string" where
  "NodeReport_GetRackName x = (case Option.bind x NodeReport_RackName of Some v \<Rightarrow> v | None \<Rightarrow> '''')"

definition NodeReport_GetUsed :: "NodeReportProto option \<Rightarrow> ResourceProto option" where
  "NodeReport_GetUsed x = Option.bind x NodeReport_Used"

definition NodeReport_GetCapability :: "NodeReportProto option \<Rightarrow> ResourceProto option" where
  "NodeReport_GetCapability x = Option.bind x NodeReport_Capability"

definition NodeReport_GetNumContainers :: "NodeReportProto option \<Rightarrow> int32" where
  "NodeReport_GetNumContainers x = (case Option.bind x NodeReport_NumContainers of Some v \<Rightarrow> v | None \<Rightarrow> 0)"

definition NodeReport_GetNodeState :: "NodeReportProto option \<Rightarrow> NodeStateProto" where
  "NodeReport_GetNodeState x = (case Option.bind x NodeReport_NodeState of Some v \<Rightarrow> v | None \<Rightarrow> NodeStateProto_NS_NEW)"

definition NodeReport_GetHealthReport :: "NodeReportProto option \<Rightarrow> string" where
  "NodeReport_GetHealthReport x = (case Option.bind x NodeReport_HealthReport of Some v \<Rightarrow> v | None \<Rightarrow> '''')"

definition NodeReport_GetLastHealthReportTime :: "NodeReportProto option \<Rightarrow> int64" where
  "NodeReport_GetLastHealthReportTime x = (case Option.bind x NodeReport_LastHealthReportTime of Some v \<Rightarrow> v | None \<Rightarrow> 0)"

definition NodeReport_GetNodeLabels :: "NodeReportProto option \<Rightarrow> string list" where
  "NodeReport_GetNodeLabels x = (case x of Some m \<Rightarrow> NodeReport_NodeLabels m | None \<Rightarrow> [])"

definition NodeReport_GetContainersUtilization :: "NodeReportProto option \<Rightarrow> ResourceUtilizationProto option" where
  "NodeReport_GetContainersUtilization x = Option.bind x NodeReport_ContainersUtilization"

definition NodeReport_GetNodeUtilization :: "NodeReportProto option \<Rightarrow> ResourceUtilizationProto option" where
  "NodeReport_GetNodeUtilization x = Option.bind x NodeReport_NodeUtilization"

definition NodeReport_GetDecommissioningTimeout :: "NodeReportProto option \<Rightarrow> uint32" where
  "NodeReport_GetDecommissioningTimeout x = (case Option.bind x NodeReport_DecommissioningTimeout of Some v \<Rightarrow> v | None \<Rightarrow> 0)"

definition NodeReport_GetNodeUpdateType :: "NodeReportProto option \<Rightarrow> NodeUpdateTypeProto" where
  "NodeReport_GetNodeUpdateType x = (case Option.bind x NodeReport_NodeUpdateType of Some v \<Rightarrow> v | None \<Rightarrow> NodeUpdateTypeProto_NODE_USABLE)"

definition NodeReport_GetNodeAttributes :: "NodeReportProto option \<Rightarrow> NodeAttributeProto list" where
  "NodeReport_GetNodeAttributes x = (case x of Some m \<Rightarrow> NodeReport_NodeAttributes m | None \<Rightarrow> [])"

record GetClusterNodesRequestProto =
  GetClusterNodesRequest_NodeStates :: "NodeStateProto list"

definition new_GetClusterNodesRequestProto :: GetClusterNodesRequestProto where
  "new_GetClusterNodesRequestProto = \<lparr>GetClusterNodesRequest_NodeStates = []\<rparr>"

definition GetClusterNodesRequest_GetNodeStates :: "GetClusterNodesRequestProto option \<Rightarrow> NodeStateProto list" where
  "GetClusterNodesRequest_GetNodeStates x = (case x of Some m \<Rightarrow> GetClusterNodesRequest_NodeStates m | None \<Rightarrow> [])"

record GetClusterNodesResponseProto =
  GetClusterNodesResponse_NodeReports :: "NodeReportProto list"

definition new_GetClusterNodesResponseProto :: GetClusterNodesResponseProto where
  "new_GetClusterNodesResponseProto = \<lparr>GetClusterNodesResponse_NodeReports = []\<rparr>"

definition GetClusterNodesResponse_GetNodeReports :: "GetClusterNodesResponseProto option \<Rightarrow> NodeReportProto list" where
  "GetClusterNodesResponse_GetNodeReports x = (case x of Some m \<Rightarrow> GetClusterNodesResponse_NodeReports m | None \<Rightarrow> [])"

record UpdateNodeResourceRequestProto =
  UpdateNodeResourceRequest_NodeResourceMap :: "NodeResourceMapProto list"

definition new_UpdateNodeResourceRequestProto :: UpdateNodeResourceRequestProto where
  "new_UpdateNodeResourceRequestProto = \<lparr>UpdateNodeResourceRequest_NodeResourceMap = []\<rparr>"

definition UpdateNodeResourceRequest_GetNodeResourceMap :: "UpdateNodeResourceRequestProto option \<Rightarrow> NodeResourceMapProto list" where
  "UpdateNodeResourceRequest_GetNodeResourceMap x = (case x of Some m \<Rightarrow> UpdateNodeResourceRequest_NodeResourceMap m | None \<Rightarrow> [])"

text \<open>Messages without fields.\<close>

type_synonym GetServiceStatusRequestProto = unit
type_synonym UpdateNodeResourceResponseProto = unit

section \<open>The protobuf runtime\<close>

record protolib =
  AppendVarint :: "byte list \<Rightarrow> uint64 \<Rightarrow> byte list"
  ConsumeVarint :: "byte list \<Rightarrow> uint64 \<times> int"
  Marshal_RpcRequestHeader :: "RpcRequestHeaderProto \<Rightarrow> error + byte list"
  Marshal_RequestHeader :: "RequestHeaderProto \<Rightarrow> error + byte list"
  Marshal_IpcConnectionContext :: "IpcConnectionContextProto \<Rightarrow> error + byte list"
  Marshal_RpcSasl :: "RpcSaslProto \<Rightarrow> error + byte list"
  Unmarshal_RpcResponseHeader :: "byte list \<Rightarrow> error + RpcResponseHeaderProto"
  Unmarshal_RpcSasl :: "byte list \<Rightarrow> error + RpcSaslProto"
  Marshal_GetClusterNodesRequest :: "GetClusterNodesRequestProto \<Rightarrow> error + byte list"
  Unmarshal_GetClusterNodesResponse :: "byte list \<Rightarrow> error + GetClusterNodesResponseProto"
  Marshal_UpdateNodeResourceRequest :: "UpdateNodeResourceRequestProto \<Rightarrow> error + byte list"
  Unmarshal_UpdateNodeResourceResponse :: "byte list \<Rightarrow> error + UpdateNodeResourceResponseProto"
  Marshal_GetServiceStatusRequest :: "GetServiceStatusRequestProto \<Rightarrow> error + byte list"
  Unmarshal_GetServiceStatusResponse :: "byte list \<Rightarrow> error + GetServiceStatusResponseProto"

text \<open>
  The base-128 format of the protobuf encoding guide: seven bits a byte, least significant
  group first, the high bit set on every byte but the last.
\<close>

fun varint :: "nat \<Rightarrow> byte list" where
  "varint n = (if n < 128 then [of_nat n] else of_nat (n mod 128 + 128) # varint (n div 128))"

declare varint.simps [simp del]

text \<open>
  \<open>AppendVarint\<close> appends the base-128 form of its argument. \<open>ConsumeVarint\<close> reads a leading
  varint and reports how many bytes it has; on malformed or truncated input it reports a
  negative length, and a positive length never exceeds the input.
\<close>

definition protowire_spec :: "protolib \<Rightarrow> bool" where
  "protowire_spec L \<longleftrightarrow>
     (\<forall>b v. AppendVarint L b v = b @ varint (unat v)) \<and>
     (\<forall>v rest. ConsumeVarint L (varint (unat v) @ rest) = (v, int (length (varint (unat v))))) \<and>
     (\<forall>bs. snd (ConsumeVarint L bs) \<noteq> 0 \<and> snd (ConsumeVarint L bs) \<le> int (length bs))"

section \<open>A concrete varint reader\<close>

text \<open>
  A reader and a writer with the documented behaviour, to instantiate the parameter in
  witnesses. The reader gives up after ten bytes, as a 64-bit value needs no more.
\<close>

fun varint_read :: "nat \<Rightarrow> byte list \<Rightarrow> (nat \<times> nat) option" where
  "varint_read 0 bs = None"
| "varint_read (Suc k) [] = None"
| "varint_read (Suc k) (b # bs) =
     (if unat b < 128 then Some (unat b, 1)
      else (case varint_read k bs of
              None \<Rightarrow> None
            | Some (v, n) \<Rightarrow> Some (unat b - 128 + 128 * v, Suc n)))"

definition sample_ConsumeVarint :: "byte list \<Rightarrow> uint64 \<times> int" where
  "sample_ConsumeVarint bs =
     (case varint_read 10 bs of None \<Rightarrow> (0, - 1) | Some (v, n) \<Rightarrow> (of_nat v, int n))"

lemma varint_not_Nil [simp]: "varint n \<noteq> []"
  by (subst varint.simps) simp

lemma length_varint_pos [wire_simps]: "0 < length (varint n)"
  by simp

lemma unat_byte_of_nat: "n < 256 \<Longrightarrow> unat (of_nat n :: byte) = n"
  by (simp add: unat_of_nat take_bit_nat_eq_self)

lemma varint_read_varint:
  "n < 128 ^ k \<Longrightarrow> 0 < k \<Longrightarrow> varint_read k (varint n @ rest) = Some (n, length (varint n))"
proof (induction k arbitrary: n)
  case 0
  then show ?case by simp
next
  case (Suc k)
  show ?case
  proof (cases "n < 128")
    case True
    then show ?thesis by (simp add: varint.simps [of n] unat_byte_of_nat)
  next
    case False
    then have k: "0 < k" using Suc.prems by (cases k) simp_all
    have "n div 128 < 128 ^ k" using Suc.prems(1) by (simp add: less_mult_imp_div_less mult.commute)
    then have IH: "varint_read k (varint (n div 128) @ rest) = Some (n div 128, length (varint (n div 128)))"
      using k by (rule Suc.IH)
    have b: "unat (of_nat (n mod 128 + 128) :: byte) = n mod 128 + 128"
      by (rule unat_byte_of_nat) (simp add: add.commute)
    show ?thesis using False IH b by (simp add: varint.simps [of n])
  qed
qed

lemma varint_read_bound: "varint_read k bs = Some (v, n) \<Longrightarrow> 0 < n \<and> n \<le> length bs"
  by (induction k bs arbitrary: v n rule: varint_read.induct) (auto split: if_splits option.splits)

lemma protowire_spec_sample:
  assumes "AppendVarint L = (\<lambda>b v. b @ varint (unat v))" and "ConsumeVarint L = sample_ConsumeVarint"
  shows "protowire_spec L"
proof -
  have rt: "ConsumeVarint L (varint (unat v) @ rest) = (v, int (length (varint (unat v))))" for v :: uint64 and rest
  proof -
    have "unat v < 2 ^ LENGTH(64)" by (rule unsigned_less)
    also have "\<dots> \<le> 128 ^ 10" by simp
    finally have "varint_read 10 (varint (unat v) @ rest) = Some (unat v, length (varint (unat v)))"
      by (rule varint_read_varint) simp
    then show ?thesis using assms by (simp add: sample_ConsumeVarint_def)
  qed
  have "snd (ConsumeVarint L bs) \<noteq> 0 \<and> snd (ConsumeVarint L bs) \<le> int (length bs)" for bs
    using varint_read_bound [of 10 bs]
    by (auto simp: assms sample_ConsumeVarint_def split: option.splits)
  with rt assms show ?thesis by (simp add: protowire_spec_def)
qed

section \<open>The enum tables\<close>

lemma RpcKindProto_tables: "RpcKindProto_value (RpcKindProto_name e) = Some (RpcKindProto_number e)" "inj RpcKindProto_number"
  by (cases e, simp_all add: RpcKindProto_value_def) (simp add: inj_def, intro allI, case_tac x; case_tac y; simp)

lemma RpcRequestHeaderProto_OperationProto_tables: "RpcRequestHeaderProto_OperationProto_value (RpcRequestHeaderProto_OperationProto_name e) = Some (RpcRequestHeaderProto_OperationProto_number e)" "inj RpcRequestHeaderProto_OperationProto_number"
  by (cases e, simp_all add: RpcRequestHeaderProto_OperationProto_value_def) (simp add: inj_def, intro allI, case_tac x; case_tac y; simp)

lemma RpcResponseHeaderProto_RpcStatusProto_tables: "RpcResponseHeaderProto_RpcStatusProto_value (RpcResponseHeaderProto_RpcStatusProto_name e) = Some (RpcResponseHeaderProto_RpcStatusProto_number e)" "inj RpcResponseHeaderProto_RpcStatusProto_number"
  by (cases e, simp_all add: RpcResponseHeaderProto_RpcStatusProto_value_def) (simp add: inj_def, intro allI, case_tac x; case_tac y; simp)

lemma RpcResponseHeaderProto_RpcErrorCodeProto_tables: "RpcResponseHeaderProto_RpcErrorCodeProto_value (RpcResponseHeaderProto_RpcErrorCodeProto_name e) = Some (RpcResponseHeaderProto_RpcErrorCodeProto_number e)" "inj RpcResponseHeaderProto_RpcErrorCodeProto_number"
  by (cases e, simp_all add: RpcResponseHeaderProto_RpcErrorCodeProto_value_def) (simp add: inj_def, intro allI, case_tac x; case_tac y; simp)

lemma RpcSaslProto_SaslState_tables: "RpcSaslProto_SaslState_value (RpcSaslProto_SaslState_name e) = Some (RpcSaslProto_SaslState_number e)" "inj RpcSaslProto_SaslState_number"
  by (cases e, simp_all add: RpcSaslProto_SaslState_value_def) (simp add: inj_def, intro allI, case_tac x; case_tac y; simp)

lemma HAServiceStateProto_tables: "HAServiceStateProto_value (HAServiceStateProto_name e) = Some (HAServiceStateProto_number e)" "inj HAServiceStateProto_number"
  by (cases e, simp_all add: HAServiceStateProto_value_def) (simp add: inj_def, intro allI, case_tac x; case_tac y; simp)

lemma ResourceTypesProto_tables: "ResourceTypesProto_value (ResourceTypesProto_name e) = Some (ResourceTypesProto_number e)" "inj ResourceTypesProto_number"
  by (cases e, simp_all add: ResourceTypesProto_value_def) (simp add: inj_def, intro allI, case_tac x; case_tac y; simp)

lemma NodeStateProto_tables: "NodeStateProto_value (NodeStateProto_name e) = Some (NodeStateProto_number e)" "inj NodeStateProto_number"
  by (cases e, simp_all add: NodeStateProto_value_def) (simp add: inj_def, intro allI, case_tac x; case_tac y; simp)

lemma NodeUpdateTypeProto_tables: "NodeUpdateTypeProto_value (NodeUpdateTypeProto_name e) = Some (NodeUpdateTypeProto_number e)" "inj NodeUpdateTypeProto_number"
  by (cases e, simp_all add: NodeUpdateTypeProto_value_def) (simp add: inj_def, intro allI, case_tac x; case_tac y; simp)

lemma NodeAttributeTypeProto_tables: "NodeAttributeTypeProto_value (NodeAttributeTypeProto_name e) = Some (NodeAttributeTypeProto_number e)" "inj NodeAttributeTypeProto_number"
  by (cases e, simp_all add: NodeAttributeTypeProto_value_def) (simp add: inj_def, intro allI, case_tac x; case_tac y; simp)

section \<open>Properties\<close>

text \<open>The enum tables of the wire protocol agree: for every value of every enum the
program exchanges, looking its name up in the value table gives its number, and two values
never share a number.\<close>

lemma enum_tables_agree:
  "(\<forall>e. RpcKindProto_value (RpcKindProto_name e) = Some (RpcKindProto_number e)) \<and> inj RpcKindProto_number \<and>
   (\<forall>e. RpcRequestHeaderProto_OperationProto_value (RpcRequestHeaderProto_OperationProto_name e) = Some (RpcRequestHeaderProto_OperationProto_number e)) \<and> inj RpcRequestHeaderProto_OperationProto_number \<and>
   (\<forall>e. RpcResponseHeaderProto_RpcStatusProto_value (RpcResponseHeaderProto_RpcStatusProto_name e) = Some (RpcResponseHeaderProto_RpcStatusProto_number e)) \<and> inj RpcResponseHeaderProto_RpcStatusProto_number \<and>
   (\<forall>e. RpcResponseHeaderProto_RpcErrorCodeProto_value (RpcResponseHeaderProto_RpcErrorCodeProto_name e) = Some (RpcResponseHeaderProto_RpcErrorCodeProto_number e)) \<and> inj RpcResponseHeaderProto_RpcErrorCodeProto_number \<and>
   (\<forall>e. RpcSaslProto_SaslState_value (RpcSaslProto_SaslState_name e) = Some (RpcSaslProto_SaslState_number e)) \<and> inj RpcSaslProto_SaslState_number \<and>
   (\<forall>e. HAServiceStateProto_value (HAServiceStateProto_name e) = Some (HAServiceStateProto_number e)) \<and> inj HAServiceStateProto_number \<and>
   (\<forall>e. ResourceTypesProto_value (ResourceTypesProto_name e) = Some (ResourceTypesProto_number e)) \<and> inj ResourceTypesProto_number \<and>
   (\<forall>e. NodeStateProto_value (NodeStateProto_name e) = Some (NodeStateProto_number e)) \<and> inj NodeStateProto_number \<and>
   (\<forall>e. NodeUpdateTypeProto_value (NodeUpdateTypeProto_name e) = Some (NodeUpdateTypeProto_number e)) \<and> inj NodeUpdateTypeProto_number \<and>
   (\<forall>e. NodeAttributeTypeProto_value (NodeAttributeTypeProto_name e) = Some (NodeAttributeTypeProto_number e)) \<and> inj NodeAttributeTypeProto_number"
  by (intro conjI allI) (rule RpcKindProto_tables RpcRequestHeaderProto_OperationProto_tables RpcResponseHeaderProto_RpcStatusProto_tables RpcResponseHeaderProto_RpcErrorCodeProto_tables RpcSaslProto_SaslState_tables HAServiceStateProto_tables ResourceTypesProto_tables NodeStateProto_tables NodeUpdateTypeProto_tables NodeAttributeTypeProto_tables)+

end
