(* ===== verification/Auth.thy ===== *)
theory Auth
  imports Protos
begin

text \<open>
  \<open>pkg/yarn/apis/auth/auth.go\<close>: the constants of the Hadoop RPC handshake, the big-endian
  conversions of fixed-size values, and the header and user messages of a call.
  \<open>user.Current()\<close> of the operating system is a parameter: an error or a user name.
\<close>

section \<open>Constants\<close>

definition RPC_HEADER :: "byte list" where "RPC_HEADER = bytes_of ''hrpc''"
definition VERSION :: "byte list" where "VERSION = [0x09]"
definition RPC_SERVICE_CLASS :: byte where "RPC_SERVICE_CLASS = 0x00"

definition RPC_PROTOCOL_BUFFFER :: RpcKindProto where
  "RPC_PROTOCOL_BUFFFER = RpcKindProto_RPC_PROTOCOL_BUFFER"
definition RPC_FINAL_PACKET :: RpcRequestHeaderProto_OperationProto where
  "RPC_FINAL_PACKET = RpcRequestHeaderProto_RPC_FINAL_PACKET"
definition RPC_DEFAULT_RETRY_COUNT :: int32 where "RPC_DEFAULT_RETRY_COUNT = - 1"
definition CLIENT_PROTOCOL_VERSION :: uint64 where "CLIENT_PROTOCOL_VERSION = 1"

type_synonym AuthMethod = byte

definition AUTH_SIMPLE :: AuthMethod where "AUTH_SIMPLE = 0x50"
definition AUTH_KERBEROS :: AuthMethod where "AUTH_KERBEROS = 0x51"
definition AUTH_TOKEN :: AuthMethod where "AUTH_TOKEN = 0x52"
definition AUTH_PLAIN :: AuthMethod where "AUTH_PLAIN = 0x53"

definition AuthMethod_String :: "AuthMethod \<Rightarrow> string" where
  "AuthMethod_String authmethod =
     (if authmethod = AUTH_SIMPLE then ''SIMPLE''
      else if authmethod = AUTH_KERBEROS then ''GSSAPI''
      else if authmethod = AUTH_TOKEN then ''DIGEST-MD5''
      else if authmethod = AUTH_PLAIN then ''PLAIN''
      else ''ERROR-UNKNOWN'')"

type_synonym AuthProtocol = byte

definition AUTH_PROTOCOL_NONE :: AuthProtocol where "AUTH_PROTOCOL_NONE = 0x00"
definition AUTH_PROTOCOL_SASL :: AuthProtocol where "AUTH_PROTOCOL_SASL = 0xDF"

definition AuthProtocol_String :: "AuthProtocol \<Rightarrow> string" where
  "AuthProtocol_String authprotocol =
     (if authprotocol = AUTH_PROTOCOL_NONE then ''NONE''
      else if authprotocol = AUTH_PROTOCOL_SASL then ''SASL''
      else ''ERROR-UNKNOWN'')"

section \<open>Fixed-size values\<close>

text \<open>The values the program hands to \<open>binary.Write\<close>: a byte (also \<open>AuthProtocol\<close>) or an int32.\<close>

datatype fixed = FixedByte byte | FixedInt32 int32

definition ConvertFixedToBytes :: "fixed \<Rightarrow> byte list outcome" where
  "ConvertFixedToBytes data = (case data of FixedByte b \<Rightarrow> Ok [b] | FixedInt32 w \<Rightarrow> Ok (be32 w))"

text \<open>
  \<open>ConvertBytesToFixed\<close> into an int32: \<open>binary.Read\<close> takes the first four bytes of the buffer,
  and reports \<open>io.EOF\<close> on an empty and \<open>io.ErrUnexpectedEOF\<close> on a short one.
\<close>

definition ConvertBytesToFixed :: "byte list \<Rightarrow> int32 outcome" where
  "ConvertBytesToFixed rawBytes =
     (if rawBytes = [] then Err EOF
      else case of_be32 (take 4 rawBytes) of None \<Rightarrow> Err ErrUnexpectedEOF | Some w \<Rightarrow> Ok w)"

section \<open>Messages\<close>

definition ToLower :: "char \<Rightarrow> char" where
  "ToLower c = (if 65 \<le> (of_char c :: nat) \<and> (of_char c :: nat) \<le> 90 then char_of ((of_char c :: nat) + 32) else c)"

text \<open>
  The method name of a call is taken from the name of the calling Go function, which
  \<open>runtime.FuncForPC\<close> gives in full; here it is an argument.
\<close>

definition GetCalleeRPCRequestHeaderProto :: "string \<Rightarrow> string option \<Rightarrow> RequestHeaderProto outcome" where
  "GetCalleeRPCRequestHeaderProto fullName protocolName =
     (let names = Split fullName CHR ''.''
      in case last names of
           [] \<Rightarrow> Panic IndexRange
         | c # cs \<Rightarrow>
             Ok \<lparr>RequestHeader_MethodName = Some (ToLower c # cs),
                 RequestHeader_DeclaringClassProtocolName = protocolName,
                 RequestHeader_ClientProtocolVersion = Some CLIENT_PROTOCOL_VERSION\<rparr>)"

definition CreateSimpleUGIProto :: "error + string \<Rightarrow> UserInformationProto outcome" where
  "CreateSimpleUGIProto currentUser =
     (case currentUser of
        Inl err \<Rightarrow> Err err
      | Inr username \<Rightarrow> Ok \<lparr>UserInformation_EffectiveUser = None, UserInformation_RealUser = Some username\<rparr>)"

lemma ConvertBytesToFixed_be32: "ConvertBytesToFixed (be32 w @ rest) = Ok w"
proof -
  have "be32 w @ rest \<noteq> []" by (simp add: be32_def)
  then show ?thesis by (simp add: ConvertBytesToFixed_def)
qed

lemma ConvertFixedToBytes_simps [simp]:
  "ConvertFixedToBytes (FixedByte b) = Ok [b]" "ConvertFixedToBytes (FixedInt32 w) = Ok (be32 w)"
  by (simp_all add: ConvertFixedToBytes_def)

lemma last_Split: "c \<notin> set t \<Longrightarrow> last (Split (s @ c # t) c) = t"
proof (induction s)
  case Nil
  then show ?case by (simp add: Split_no_sep)
next
  case (Cons a s)
  obtain y ys where y: "Split (s @ c # t) c = y # ys" by (cases "Split (s @ c # t) c") simp_all
  from Cons have l: "last (Split (s @ c # t) c) = t" by simp
  have "ys \<noteq> []"
  proof
    assume "ys = []"
    then have "s @ c # t = y" using Join_Split [of "s @ c # t" c] y by simp
    moreover have "c \<notin> set y" using Split_elems_no_sep [of y "s @ c # t" c] y by simp
    ultimately show False by auto
  qed
  with l y show ?case by auto
qed

section \<open>Properties\<close>

text \<open>Every int32 the client puts on the wire as a length is read back as the same
int32, whatever bytes follow it, while fewer than four bytes are an error and never a
length.\<close>

lemma fixed_int32_roundtrip:
  "(\<exists>bs. ConvertFixedToBytes (FixedInt32 w) = Ok bs \<and> length bs = 4 \<and> ConvertBytesToFixed (bs @ rest) = Ok w) \<and>
   (length raw < 4 \<longrightarrow> (\<exists>e. ConvertBytesToFixed raw = Err e))"
proof -
  have "length raw < 4 \<longrightarrow> of_be32 (take 4 raw) = None"
    by (auto simp: of_be32_def split: list.splits)
  then have "length raw < 4 \<longrightarrow> (\<exists>e. ConvertBytesToFixed raw = Err e)"
    by (simp add: ConvertBytesToFixed_def)
  then show ?thesis by (simp add: ConvertBytesToFixed_be32)
qed

lemma fixed_int32_roundtrip_instance:
  "ConvertFixedToBytes (FixedInt32 258) = Ok [0, 0, 1, 2] \<and> ConvertBytesToFixed [0, 0, 1, 2, 9] = Ok 258 \<and>
   (\<exists>e. ConvertBytesToFixed [0, 0, 1] = Err e)"
proof -
  have "be32 258 = [0, 0, 1, 2]" by code_simp
  then show ?thesis using fixed_int32_roundtrip [of 258 "[9]" "[0, 0, 1]"] by simp
qed

text \<open>The request header of a call names the method of the calling Go function with a
lower-case first letter, the declaring protocol it was given and protocol version 1.\<close>

lemma callee_header_names_method:
  assumes "CHR ''.'' \<notin> set (c # m)"
  shows "\<exists>h. GetCalleeRPCRequestHeaderProto (pkg @ ''.'' @ c # m) (Some proto) = Ok h \<and>
             RequestHeader_GetMethodName (Some h) = ToLower c # m \<and>
             RequestHeader_GetDeclaringClassProtocolName (Some h) = proto \<and>
             RequestHeader_GetClientProtocolVersion (Some h) = 1"
  using last_Split [OF assms, of pkg]
  by (simp add: GetCalleeRPCRequestHeaderProto_def RequestHeader_GetMethodName_def
      RequestHeader_GetDeclaringClassProtocolName_def RequestHeader_GetClientProtocolVersion_def
      CLIENT_PROTOCOL_VERSION_def)

lemma callee_header_names_method_instance:
  "\<exists>h. GetCalleeRPCRequestHeaderProto ''service.(*HAServiceProtocolServiceClient).GetServiceStatus'' (Some ''p'') = Ok h \<and>
       RequestHeader_GetMethodName (Some h) = ''getServiceStatus''"
proof -
  have "ToLower (CHR ''G'') = CHR ''g''" by code_simp
  then show ?thesis
    using callee_header_names_method
      [of "CHR ''G''" "''etServiceStatus''" "''service.(*HAServiceProtocolServiceClient)''" "''p''"]
    by auto
qed

end
