(* ===== verification/Ugi.thy ===== *)
theory Ugi
  imports Protos "HOL-Library.AList"
begin

text \<open>
  \<open>pkg/yarn/apis/security/ugi.go\<close>: the user of the process and the delegation tokens it
  holds.  The token map is an association list without repeated aliases, so that its
  length is Go's \<open>len\<close>; the package variables \<open>once\<close> and \<open>currentUserGroupInformation\<close> are the
  record \<open>ugi_globals\<close>.  \<open>user.Current()\<close> is a parameter.
\<close>

record UserGroupInformation =
  userInfo :: "UserInformationProto option"
  userTokens :: "(string \<times> TokenProto option) list"

record ugi_globals =
  once :: bool
  currentUserGroupInformation :: "UserGroupInformation option"

definition maxTokens :: nat where "maxTokens = 16"

definition CreateCurrentUserInfoProto :: "error + string \<Rightarrow> UserInformationProto outcome" where
  "CreateCurrentUserInfoProto currentUser =
     (case currentUser of
        Inl err \<Rightarrow> Err err
      | Inr username \<Rightarrow> Ok \<lparr>UserInformation_EffectiveUser = None, UserInformation_RealUser = Some username\<rparr>)"

definition Allocate ::
  "error + string \<Rightarrow> UserInformationProto option \<Rightarrow> (string \<times> TokenProto option) list option \<Rightarrow> UserGroupInformation"
where
  "Allocate currentUser info tokens =
     \<lparr>userInfo = (case info of
                   Some u \<Rightarrow> Some u
                 | None \<Rightarrow> (case CreateCurrentUserInfoProto currentUser of Ok u \<Rightarrow> Some u | _ \<Rightarrow> None)),
      userTokens = (case tokens of Some ts \<Rightarrow> ts | None \<Rightarrow> [])\<rparr>"

definition initializeCurrentUser :: "error + string \<Rightarrow> ugi_globals \<Rightarrow> ugi_globals" where
  "initializeCurrentUser currentUser g =
     (if once g then g
      else \<lparr>once = True, currentUserGroupInformation = Some (Allocate currentUser None None)\<rparr>)"

definition GetUserInformation :: "UserGroupInformation \<Rightarrow> UserInformationProto option" where
  "GetUserInformation ugi = userInfo ugi"

definition GetUserTokens :: "UserGroupInformation \<Rightarrow> (string \<times> TokenProto option) list" where
  "GetUserTokens ugi = userTokens ugi"

definition AddUserTokenWithAlias :: "UserGroupInformation \<Rightarrow> string \<Rightarrow> TokenProto option \<Rightarrow> UserGroupInformation" where
  "AddUserTokenWithAlias ugi alias token =
     (case token of
        None \<Rightarrow> ugi
      | Some _ \<Rightarrow>
          if length (userTokens ugi) < maxTokens
          then ugi\<lparr>userTokens := AList.update alias token (userTokens ugi)\<rparr>
          else ugi)"

definition AddUserToken :: "UserGroupInformation \<Rightarrow> TokenProto option \<Rightarrow> UserGroupInformation" where
  "AddUserToken ugi token =
     (case token of
        None \<Rightarrow> ugi
      | Some _ \<Rightarrow> AddUserTokenWithAlias ugi (Token_GetService token) token)"

definition GetCurrentUser :: "error + string \<Rightarrow> ugi_globals \<Rightarrow> UserGroupInformation option \<times> ugi_globals" where
  "GetCurrentUser currentUser g =
     (let g' = initializeCurrentUser currentUser g in (currentUserGroupInformation g', g'))"

section \<open>The token table\<close>

text \<open>The operations on a \<open>UserGroupInformation\<close>, as events.\<close>

datatype token_event = WithAlias string "TokenProto option" | ByService "TokenProto option"

definition token_step :: "UserGroupInformation \<Rightarrow> token_event \<Rightarrow> UserGroupInformation" where
  "token_step ugi e =
     (case e of WithAlias a t \<Rightarrow> AddUserTokenWithAlias ugi a t | ByService t \<Rightarrow> AddUserToken ugi t)"

definition tokens_inv :: "UserGroupInformation \<Rightarrow> bool" where
  "tokens_inv ugi \<longleftrightarrow>
     distinct (map fst (userTokens ugi)) \<and> length (userTokens ugi) \<le> maxTokens \<and>
     None \<notin> snd ` set (userTokens ugi)"

lemma length_update_le: "length (AList.update k v xs) \<le> Suc (length xs)"
  by (induction xs) auto

lemma snd_update: "snd ` set (AList.update k v xs) \<subseteq> insert v (snd ` set xs)"
  by (induction xs) auto

lemma AddUserTokenWithAlias_inv:
  assumes "tokens_inv ugi"
  shows "tokens_inv (AddUserTokenWithAlias ugi alias token)"
proof (cases "token = None \<or> \<not> length (userTokens ugi) < maxTokens")
  case True
  then show ?thesis using assms by (auto simp: AddUserTokenWithAlias_def split: option.splits)
next
  case False
  then obtain t where t: "token = Some t" and len: "length (userTokens ugi) < maxTokens" by auto
  have "None \<notin> snd ` set (AList.update alias token (userTokens ugi))"
    using assms snd_update [of "alias" token "userTokens ugi"] t by (auto simp: tokens_inv_def)
  moreover have "length (AList.update alias token (userTokens ugi)) \<le> maxTokens"
    using length_update_le [of "alias" token "userTokens ugi"] len by simp
  ultimately show ?thesis
    using assms t len by (simp add: AddUserTokenWithAlias_def tokens_inv_def distinct_update)
qed

lemma AddUserToken_inv: "tokens_inv ugi \<Longrightarrow> tokens_inv (AddUserToken ugi token)"
  by (auto simp: AddUserToken_def AddUserTokenWithAlias_inv split: option.splits)

interpretation token_table: invariant_machine token_step tokens_inv
  by unfold_locales
    (simp add: token_step_def AddUserTokenWithAlias_inv AddUserToken_inv split: token_event.splits)

lemma Allocate_inv: "tokens_inv (Allocate currentUser info None)"
  by (simp add: Allocate_def tokens_inv_def)

section \<open>Properties\<close>

text \<open>Whatever sequence of token additions a fresh user goes through, the table holds
at most sixteen tokens, one per alias, and never a nil token; and while there is room, an
added token is found under its alias and no other alias changes.\<close>

lemma token_table_bounded:
  assumes "ugi = foldl token_step (Allocate currentUser info None) es"
  shows "distinct (map fst (userTokens ugi)) \<and> length (userTokens ugi) \<le> 16 \<and>
         None \<notin> snd ` set (userTokens ugi) \<and>
         (length (userTokens ugi) < 16 \<longrightarrow>
            map_of (GetUserTokens (AddUserTokenWithAlias ugi alias (Some t))) =
              (map_of (GetUserTokens ugi))(alias \<mapsto> Some t))"
  using token_table.run_inv [OF Allocate_inv, of currentUser info es] assms
  by (simp add: tokens_inv_def maxTokens_def AddUserTokenWithAlias_def GetUserTokens_def update_conv')

lemma token_table_bounded_instance:
  "let ugi = foldl token_step (Allocate (Inr ''yarn'') None None)
               [WithAlias ''a'' (Some new_TokenProto), WithAlias ''b'' None, ByService (Some new_TokenProto)]
   in map_of (GetUserTokens (AddUserTokenWithAlias ugi ''c'' (Some new_TokenProto))) ''a'' =
        Some (Some new_TokenProto)"
proof -
  let ?es = "[WithAlias ''a'' (Some new_TokenProto), WithAlias ''b'' None, ByService (Some new_TokenProto)]"
  let ?u = "foldl token_step (Allocate (Inr ''yarn'') None None) ?es"
  have u: "userTokens ?u = [(''a'', Some new_TokenProto), ('''', Some new_TokenProto)]"
    by code_simp
  then show ?thesis
    using token_table_bounded [of ?u "Inr ''yarn''" None ?es "''c''" new_TokenProto]
    by (simp add: Let_def GetUserTokens_def)
qed

text \<open>A full table ignores every further addition, including one that would only
replace the token of an alias it already holds.\<close>

lemma full_token_table_keeps_stale_token:
  assumes "length (userTokens ugi) \<ge> 16"
  shows "AddUserTokenWithAlias ugi alias token = ugi \<and> AddUserToken ugi token = ugi"
  using assms by (simp add: AddUserTokenWithAlias_def AddUserToken_def maxTokens_def split: option.splits)

lemma full_token_table_keeps_stale_token_instance:
  "AddUserTokenWithAlias \<lparr>userInfo = None, userTokens = map (\<lambda>i. (replicate i CHR ''a'', None)) [0..<16]\<rparr>
     '''' (Some new_TokenProto) =
   \<lparr>userInfo = None, userTokens = map (\<lambda>i. (replicate i CHR ''a'', None)) [0..<16]\<rparr>"
  by (rule full_token_table_keeps_stale_token [THEN conjunct1]) simp

text \<open>The current user is created once: after the first call every later call returns
the same object and leaves the globals alone, and a failing \<open>user.Current()\<close> leaves its
user information nil for good.\<close>

lemma GetCurrentUser_once:
  "let (u, g) = GetCurrentUser cu \<lparr>once = False, currentUserGroupInformation = None\<rparr>
   in GetCurrentUser cu' g = (u, g) \<and> u = Some (Allocate cu None None) \<and>
      (userInfo (Allocate cu None None) = None \<longleftrightarrow> (\<exists>e. cu = Inl e))"
  by (auto simp: GetCurrentUser_def initializeCurrentUser_def Allocate_def Let_def
      CreateCurrentUserInfoProto_def split: sum.splits)

end
