(* ===== verification/Digest_Md5.thy ===== *)
theory Digest_Md5
  imports Auth
begin

text \<open>
  \<open>pkg/yarn/apis/security/digestmd5.go\<close>: parsing and validating a DIGEST-MD5 challenge and
  answering it.  \<open>md5.Sum\<close> and \<open>rand.Read\<close> are parameters; base64 and hexadecimal encoding
  are written out.
\<close>

section \<open>Encodings\<close>

definition base64_alphabet :: string where
  "base64_alphabet = ''ABCDEFGHIJKLMNOPQRSTUVWXYZabcdefghijklmnopqrstuvwxyz0123456789+/''"

definition sextet :: "nat \<Rightarrow> nat \<Rightarrow> char" where
  "sextet n i = base64_alphabet ! (n div 64 ^ i mod 64)"

fun base64_EncodeToString :: "byte list \<Rightarrow> string" where
  "base64_EncodeToString [] = []"
| "base64_EncodeToString [a] =
     (let n = unat a * 65536 in [sextet n 3, sextet n 2, CHR ''='', CHR ''=''])"
| "base64_EncodeToString [a, b] =
     (let n = unat a * 65536 + unat b * 256 in [sextet n 3, sextet n 2, sextet n 1, CHR ''=''])"
| "base64_EncodeToString (a # b # c # rest) =
     (let n = unat a * 65536 + unat b * 256 + unat c
      in sextet n 3 # sextet n 2 # sextet n 1 # sextet n 0 # base64_EncodeToString rest)"

definition hex_alphabet :: string where "hex_alphabet = ''0123456789abcdef''"

definition hex_EncodeToString :: "byte list \<Rightarrow> string" where
  "hex_EncodeToString bs =
     concat (map (\<lambda>b. [hex_alphabet ! (unat b div 16 mod 16), hex_alphabet ! (unat b mod 16)]) bs)"

section \<open>Challenge parameters\<close>

definition quote :: string where "quote = [CHR 0x22]"

text \<open>
  Stripping the quotes: \<open>value[1:]\<close>, then \<open>value[:len(value)-1]\<close>, which is out of bounds
  when the value was a lone quote.
\<close>

definition strip_quotes :: "string \<Rightarrow> string outcome" where
  "strip_quotes value =
     (if HasPrefix value quote \<and> HasSuffix value quote
      then let value' = drop (length quote) value
           in if length value' < length quote then Panic SliceBounds
              else Ok (take (length value' - length quote) value')
      else Ok value)"

definition challenge_param :: "string \<Rightarrow> (string \<rightharpoonup> string) \<Rightarrow> (string \<rightharpoonup> string) outcome" where
  "challenge_param split challengeParams =
     (case SplitN2 split CHR ''='' of
        [key, val] \<Rightarrow> obind (strip_quotes val) (\<lambda>v. Ok (challengeParams(key \<mapsto> v)))
      | _ \<Rightarrow> Err (ErrorNew (''found invalid param: '' @ split)))"

definition getChallengeParams :: "string \<Rightarrow> (string \<rightharpoonup> string) outcome" where
  "getChallengeParams challenge = ofold challenge_param (Split challenge CHR '','') Map.empty"

definition lookup_or_empty :: "(string \<rightharpoonup> string) \<Rightarrow> string \<Rightarrow> string" where
  "lookup_or_empty m k = (case m k of Some v \<Rightarrow> v | None \<Rightarrow> [])"

definition validateChallengeParameters :: "(string \<rightharpoonup> string) \<Rightarrow> unit outcome" where
  "validateChallengeParameters challengeParams =
     (let bad = (\<lambda>k wrong. challengeParams k = None \<or> wrong (lookup_or_empty challengeParams k));
          errString =
            (if bad ''realm'' (\<lambda>realm. length realm = 0) then ''missing or invalid realm. '' else []) @
            (if bad ''nonce'' (\<lambda>nonce. length nonce = 0) then ''missing or invalid nonce. '' else []) @
            (if bad ''qop'' (\<lambda>qop. qop \<noteq> ''auth'') then ''missing, invalid or unsupported qop. '' else []) @
            (if bad ''charset'' (\<lambda>charset. charset \<noteq> ''utf-8'') then ''missing, invalid or unsupported charset. '' else []) @
            (if bad ''algorithm'' (\<lambda>algorithm. algorithm \<noteq> ''md5-sess'') then ''missing, invalid or unsupported algorithm. '' else [])
      in if length errString > 0 then Err (ErrorNew errString) else Ok ())"

section \<open>The response\<close>

record digest_env =
  md5_Sum :: "byte list \<Rightarrow> byte list"
  rand_Read :: "error + byte list"

definition hashSize :: nat where "hashSize = 16"

definition generateChallengeReponse ::
  "digest_env \<Rightarrow> string \<Rightarrow> string \<Rightarrow> string \<Rightarrow> string \<Rightarrow> (string \<rightharpoonup> string) \<Rightarrow> string outcome" where
  "generateChallengeReponse E username password protocol serverId challengeParams =
     (let charset = ''charset=utf-8''; comma = '',''; maxbuf = ''maxbuf=65536'';
          nonceCount = ''nc=00000001''; nonceCountHex = ''00000001'';
          realm = lookup_or_empty challengeParams ''realm'';
          nonce = lookup_or_empty challengeParams ''nonce'';
          qop = lookup_or_empty challengeParams ''qop'';
          digestUri = protocol @ ''/'' @ serverId;
          meth = ''AUTHENTICATE'';
          buffer1 = [charset, comma] @ [''username='', quote, username, quote, comma] @
                    [''realm='', quote, realm, quote, comma] @ [''nonce='', quote, nonce, quote, comma] @
                    [nonceCount, comma]
      in obind (of_sum (rand_Read E)) (\<lambda>nonceBuffer.
         let encodedNonce = base64_EncodeToString nonceBuffer;
             buffer2 = buffer1 @ [''cnonce='', quote, encodedNonce, quote, comma] @
                       [''digest-uri='', quote, digestUri, quote, comma] @ [maxbuf, comma];
             ha1Part1 = username @ '':'' @ realm @ '':'' @ password;
             ha1Part2 = '':'' @ nonce @ '':'' @ encodedNonce;
             ha1Part1md5 = md5_Sum E (bytes_of ha1Part1);
             ha1Input = string_of (take hashSize ha1Part1md5) @ ha1Part2;
             HA1 = md5_Sum E (bytes_of ha1Input);
             HA2 = md5_Sum E (bytes_of (meth @ '':'' @ digestUri));
             ha1Hex = hex_EncodeToString (take hashSize HA1);
             ha2Hex = hex_EncodeToString (take hashSize HA2);
             responseHashInput = ha1Hex @ '':'' @ nonce @ '':'' @ nonceCountHex @ '':'' @ encodedNonce @ '':'' @
                                 qop @ '':'' @ ha2Hex;
             responseHash = md5_Sum E (bytes_of responseHashInput);
             responseHashHex = hex_EncodeToString (take hashSize responseHash);
             buffer3 = buffer2 @ [''response='', responseHashHex, comma] @ [''qop='', qop]
         in Ok (Join buffer3 [])))"

definition GetDigestMD5ChallengeResponse ::
  "digest_env \<Rightarrow> string \<Rightarrow> string \<Rightarrow> byte list \<Rightarrow> TokenProto option \<Rightarrow> string outcome" where
  "GetDigestMD5ChallengeResponse E protocol serverId challenge userToken =
     (if length challenge \<le> 0 then Err (ErrorNew ''challenge cannot be empty!'')
      else obind (getChallengeParams (string_of challenge)) (\<lambda>challengeParams.
           obind (validateChallengeParameters challengeParams) (\<lambda>_.
             let bytes_or_nil = (\<lambda>b. case b of Some bs \<Rightarrow> bs | None \<Rightarrow> []);
                 username = base64_EncodeToString (bytes_or_nil (Token_GetIdentifier userToken));
                 password = base64_EncodeToString (bytes_or_nil (Token_GetPassword userToken))
             in generateChallengeReponse E username password protocol serverId challengeParams)))"

section \<open>Printing parameters\<close>

text \<open>A parameter list as a peer writes it: key, value, and whether the value is quoted.\<close>

type_synonym param = "string \<times> string \<times> bool"

definition print_param :: "param \<Rightarrow> string" where
  "print_param p = (case p of (k, v, q) \<Rightarrow> k @ ''='' @ (if q then quote @ v @ quote else v))"

definition print_params :: "param list \<Rightarrow> string" where
  "print_params ps = Join (map print_param ps) '',''"

definition param_map :: "param list \<Rightarrow> (string \<rightharpoonup> string)" where
  "param_map ps = map_of (rev (map (\<lambda>(k, v, q). (k, v)) ps))"

definition param_ok :: "param \<Rightarrow> bool" where
  "param_ok p = (case p of (k, v, q) \<Rightarrow>
     CHR '','' \<notin> set k \<and> CHR ''='' \<notin> set k \<and> CHR '','' \<notin> set v \<and> (q \<or> \<not> HasPrefix v quote))"

lemma strip_quotes_quoted: "strip_quotes (quote @ v @ quote) = Ok v"
  by (simp add: strip_quotes_def HasPrefix_def HasSuffix_def quote_def)

lemma strip_quotes_plain: "\<not> HasPrefix v quote \<Longrightarrow> strip_quotes v = Ok v"
  by (simp add: strip_quotes_def)

lemma strip_quotes_panic_iff: "strip_quotes v = Panic p \<longleftrightarrow> v = quote \<and> p = SliceBounds"
proof
  assume a: "strip_quotes v = Panic p"
  then have pre: "HasPrefix v quote" and len: "length v < 2" and p: "p = SliceBounds"
    by (auto simp: strip_quotes_def quote_def Let_def split: if_splits)
  then obtain t where "v = CHR 0x22 # t" by (auto simp: HasPrefix_iff quote_def)
  with len p show "v = quote \<and> p = SliceBounds" by (simp add: quote_def)
qed (simp add: strip_quotes_def HasPrefix_def HasSuffix_def quote_def)

lemma strip_quotes_no_err: "strip_quotes v \<noteq> Err e"
  by (simp add: strip_quotes_def Let_def)

lemma challenge_param_print:
  assumes "param_ok p"
  shows "challenge_param (print_param p) m = Ok (m(fst p \<mapsto> fst (snd p)))"
proof -
  obtain k v q where p: "p = (k, v, q)" by (cases p)
  let ?w = "if q then quote @ v @ quote else v"
  have "SplitN2 (k @ CHR ''='' # ?w) CHR ''='' = [k, ?w]"
    using assms by (intro SplitN2_append_sep) (simp add: param_ok_def p)
  moreover have "strip_quotes ?w = Ok v"
    using assms by (auto simp: strip_quotes_quoted strip_quotes_plain param_ok_def p)
  ultimately show ?thesis by (simp add: challenge_param_def print_param_def p)
qed

lemma challenge_params_print:
  "\<forall>p\<in>set ps. param_ok p \<Longrightarrow>
   ofold challenge_param (map print_param ps) m = Ok (m ++ param_map ps)"
  by (induction ps arbitrary: m) (auto simp: challenge_param_print param_map_def map_add_def fun_eq_iff split: option.splits)

lemma print_param_no_comma: "param_ok p \<Longrightarrow> CHR '','' \<notin> set (print_param p)"
  by (auto simp: param_ok_def print_param_def quote_def split: prod.splits if_splits)

lemma getChallengeParams_print:
  assumes "ps \<noteq> []" and "\<forall>p\<in>set ps. param_ok p"
  shows "getChallengeParams (print_params ps) = Ok (param_map ps)"
proof -
  have "Split (print_params ps) CHR '','' = map print_param ps"
    unfolding print_params_def using assms by (intro Split_Join) (auto dest: print_param_no_comma)
  then show ?thesis
    using assms(2) by (simp add: getChallengeParams_def challenge_params_print)
qed

section \<open>Validation\<close>

definition valid_challenge :: "(string \<rightharpoonup> string) \<Rightarrow> bool" where
  "valid_challenge m \<longleftrightarrow>
     (\<exists>r. m ''realm'' = Some r \<and> r \<noteq> []) \<and> (\<exists>n. m ''nonce'' = Some n \<and> n \<noteq> []) \<and>
     m ''qop'' = Some ''auth'' \<and> m ''charset'' = Some ''utf-8'' \<and> m ''algorithm'' = Some ''md5-sess''"

lemma bad_param: "(m k = None \<or> P (lookup_or_empty m k)) = (\<not> (\<exists>v. m k = Some v \<and> \<not> P v))"
  by (auto simp: lookup_or_empty_def split: option.splits)

lemma validate_Ok_iff: "validateChallengeParameters m = Ok () \<longleftrightarrow> valid_challenge m"
  unfolding validateChallengeParameters_def valid_challenge_def Let_def bad_param
  by (auto split: if_splits)

lemma validate_not_panic: "\<not> is_panic (validateChallengeParameters m)"
  by (simp add: validateChallengeParameters_def Let_def)

section \<open>The response as a parameter list\<close>

lemma nth_mod: "xs \<noteq> [] \<Longrightarrow> xs ! (n mod length xs) \<in> set xs"
  by simp

lemma sextet_in: "sextet n i \<in> set base64_alphabet"
  using nth_mod [of base64_alphabet "n div 64 ^ i"] by (simp add: sextet_def base64_alphabet_def)

lemma base64_chars: "set (base64_EncodeToString bs) \<subseteq> insert CHR ''='' (set base64_alphabet)"
  by (induction bs rule: base64_EncodeToString.induct) (auto simp: Let_def sextet_in)

lemma base64_no_comma: "CHR '','' \<notin> set (base64_EncodeToString bs)"
  using base64_chars [of bs] by (auto simp: base64_alphabet_def)

lemma hex_chars: "set (hex_EncodeToString bs) \<subseteq> set hex_alphabet"
proof -
  have "hex_alphabet ! (n mod 16) \<in> set hex_alphabet" for n
    using nth_mod [of hex_alphabet n] by (simp add: hex_alphabet_def)
  then show ?thesis by (auto simp: hex_EncodeToString_def)
qed

lemma hex_plain: "CHR '','' \<notin> set (hex_EncodeToString bs)" "\<not> HasPrefix (hex_EncodeToString bs) quote"
  using hex_chars [of bs] by (auto simp: hex_alphabet_def HasPrefix_iff quote_def)

text \<open>The digest of RFC 2831 for \<open>qop=auth\<close> and the algorithm \<open>md5-sess\<close>.\<close>

definition md5_hex :: "digest_env \<Rightarrow> string \<Rightarrow> string" where
  "md5_hex E s = hex_EncodeToString (take 16 (md5_Sum E (bytes_of s)))"

definition rfc2831_response :: "digest_env \<Rightarrow> string \<Rightarrow> string \<Rightarrow> string \<Rightarrow> string \<Rightarrow> string \<Rightarrow> string \<Rightarrow> string \<Rightarrow> string" where
  "rfc2831_response E username realm password nonce cnonce qop uri =
     md5_hex E (Join
       [md5_hex E (Join [string_of (take 16 (md5_Sum E (bytes_of (Join [username, realm, password] '':'')))), nonce, cnonce] '':''),
        nonce, ''00000001'', cnonce, qop, md5_hex E (''AUTHENTICATE:'' @ uri)] '':'')"

definition response_params :: "digest_env \<Rightarrow> string \<Rightarrow> string \<Rightarrow> string \<Rightarrow> string \<Rightarrow> string \<Rightarrow> string \<Rightarrow> string \<Rightarrow> param list" where
  "response_params E username realm password nonce cnonce qop uri =
     [(''charset'', ''utf-8'', False), (''username'', username, True), (''realm'', realm, True),
      (''nonce'', nonce, True), (''nc'', ''00000001'', False), (''cnonce'', cnonce, True),
      (''digest-uri'', uri, True), (''maxbuf'', ''65536'', False),
      (''response'', rfc2831_response E username realm password nonce cnonce qop uri, False), (''qop'', qop, False)]"

lemma response_plain:
  "CHR '','' \<notin> set (rfc2831_response E u r p n c q uri)"
  "\<not> HasPrefix (rfc2831_response E u r p n c q uri) quote"
  by (simp_all only: rfc2831_response_def md5_hex_def hex_plain not_False_eq_True)

lemma plain_values:
  "\<not> HasPrefix ''utf-8'' quote" "\<not> HasPrefix ''00000001'' quote"
  "\<not> HasPrefix ''65536'' quote" "\<not> HasPrefix ''auth'' quote"
  by (simp_all add: HasPrefix_def quote_def)

lemma generateChallengeReponse_eq:
  assumes "rand_Read E = Inr bs"
  shows "generateChallengeReponse E username password protocol serverId m =
         Ok (print_params (response_params E username (lookup_or_empty m ''realm'') password
               (lookup_or_empty m ''nonce'') (base64_EncodeToString bs) (lookup_or_empty m ''qop'')
               (protocol @ ''/'' @ serverId)))"
  using assms
  by (simp add: generateChallengeReponse_def Let_def print_params_def response_params_def print_param_def
      rfc2831_response_def md5_hex_def hashSize_def)

section \<open>Properties\<close>

lemma ofold_panic_iff:
  assumes "\<And>x s. f x s = Panic p \<longleftrightarrow> bad x"
  shows "ofold f xs s = Panic p \<longleftrightarrow>
         (\<exists>pre x post t. xs = pre @ x # post \<and> ofold f pre s = Ok t \<and> bad x)"
proof (induction xs arbitrary: s)
  case Nil
  then show ?case by simp
next
  case (Cons y ys)
  show ?case
  proof (cases "f y s")
    case (Ok t)
    then have "\<not> bad y" using assms [of y s] by simp
    have "(\<exists>pre x post u. y # ys = pre @ x # post \<and> ofold f pre s = Ok u \<and> bad x) \<longleftrightarrow>
          (\<exists>pre x post u. ys = pre @ x # post \<and> ofold f pre t = Ok u \<and> bad x)" (is "?l = ?r")
    proof
      assume ?l
      then obtain pre x post u where h: "y # ys = pre @ x # post" "ofold f pre s = Ok u" "bad x" by blast
      with \<open>\<not> bad y\<close> obtain pre' where "pre = y # pre'" by (cases pre) auto
      with h Ok show ?r by auto
    next
      assume ?r
      then obtain pre x post u where h: "ys = pre @ x # post" "ofold f pre t = Ok u" "bad x" by blast
      then have "y # ys = (y # pre) @ x # post" "ofold f (y # pre) s = Ok u" using Ok by simp_all
      with \<open>bad x\<close> show ?l by blast
    qed
    with Ok Cons.IH [of t] show ?thesis by simp
  next
    case (Err e)
    then have "\<not> bad y" using assms [of y s] by simp
    with Err show ?thesis by (auto simp: Cons_eq_append_conv)
  next
    case (Panic q)
    then show ?thesis using assms [of y s]
      by (fastforce simp: Cons_eq_append_conv)
  qed
qed

lemma challenge_param_panic_iff:
  "challenge_param x m = Panic p \<longleftrightarrow> (\<exists>k. SplitN2 x CHR ''='' = [k, quote]) \<and> p = SliceBounds"
proof (cases "\<exists>k v. SplitN2 x CHR ''='' = [k, v]")
  case True
  then obtain k v where kv: "SplitN2 x CHR ''='' = [k, v]" by blast
  have "obind (strip_quotes v) (\<lambda>v. Ok (m(k \<mapsto> v))) = Panic p \<longleftrightarrow> strip_quotes v = Panic p"
    by (cases "strip_quotes v") simp_all
  then show ?thesis by (auto simp: challenge_param_def kv strip_quotes_panic_iff)
next
  case False
  then show ?thesis by (auto simp: challenge_param_def split: list.splits)
qed

text \<open>C35. Parsing a challenge inverts printing it: any nonempty list of parameters whose keys
and values avoid the separators is read back as the map in which the last occurrence of a
key wins, quotes removed.\<close>

theorem challenge_roundtrip:
  assumes "ps \<noteq> []" and "\<forall>p\<in>set ps. param_ok p"
  shows "getChallengeParams (print_params ps) = Ok (map_of (rev (map (\<lambda>(k, v, q). (k, v)) ps)))"
  using getChallengeParams_print [OF assms] by (simp add: param_map_def)

theorem challenge_roundtrip_witness:
  "getChallengeParams (print_params [(''realm'', ''default'', True), (''qop'', ''auth'', False)]) =
   Ok [''realm'' \<mapsto> ''default'', ''qop'' \<mapsto> ''auth'']"
proof -
  have "\<forall>p\<in>set [(''realm'', ''default'', True), (''qop'', ''auth'', False)]. param_ok p"
    by (simp add: param_ok_def HasPrefix_def quote_def)
  then show ?thesis
    using challenge_roundtrip [of "[(''realm'', ''default'', True), (''qop'', ''auth'', False)]"]
    by (auto simp: fun_upd_twist)
qed

text \<open>Parsing a challenge panics exactly when some parameter has a lone quote as its
value and every parameter before it is well formed.\<close>

lemma challenge_panic_iff:
  "is_panic (getChallengeParams s) \<longleftrightarrow>
   (\<exists>pre x post m k. Split s CHR '','' = pre @ x # post \<and> ofold challenge_param pre Map.empty = Ok m \<and>
                     SplitN2 x CHR ''='' = [k, [CHR 0x22]])"
proof -
  let ?bad = "\<lambda>x. \<exists>k. SplitN2 x CHR ''='' = [k, quote]"
  have only: "ofold challenge_param xs m = Panic p \<Longrightarrow> p = SliceBounds" for xs m p
  proof (induction xs arbitrary: m)
    case (Cons x xs)
    then show ?case by (cases "challenge_param x m") (auto simp: challenge_param_panic_iff)
  qed simp
  have "is_panic (getChallengeParams s) \<longleftrightarrow> getChallengeParams s = Panic SliceBounds"
    using only by (cases "getChallengeParams s") (auto simp: getChallengeParams_def)
  also have "\<dots> \<longleftrightarrow> (\<exists>pre x post t. Split s CHR '','' = pre @ x # post \<and>
                                  ofold challenge_param pre Map.empty = Ok t \<and> ?bad x)"
    unfolding getChallengeParams_def by (rule ofold_panic_iff) (simp add: challenge_param_panic_iff)
  finally show ?thesis unfolding quote_def by blast
qed

text \<open>A challenge is accepted exactly when it has a nonempty realm and nonce and asks
for \<open>qop=auth\<close>, \<open>charset=utf-8\<close> and \<open>algorithm=md5-sess\<close>; every other challenge gives an error.\<close>

lemma validate_accepts_iff:
  "(validateChallengeParameters m = Ok () \<longleftrightarrow>
      (\<exists>r. m ''realm'' = Some r \<and> r \<noteq> []) \<and> (\<exists>n. m ''nonce'' = Some n \<and> n \<noteq> []) \<and>
      m ''qop'' = Some ''auth'' \<and> m ''charset'' = Some ''utf-8'' \<and> m ''algorithm'' = Some ''md5-sess'') \<and>
   (validateChallengeParameters m = Ok () \<or> (\<exists>e. validateChallengeParameters m = Err e))"
  using validate_Ok_iff [of m] validate_not_panic [of m]
  by (cases "validateChallengeParameters m") (simp_all add: valid_challenge_def)

text \<open>C25. The response to an accepted challenge can be read back by the server: it parses to
the identity of the token, the realm and nonce of the challenge, the service's URI, and the
RFC 2831 digest of them under the token's password.\<close>

theorem response_roundtrip:
  assumes "getChallengeParams (string_of challenge) = Ok m" and "challenge \<noteq> []"
    and "m ''realm'' = Some realm" "realm \<noteq> []" "CHR '','' \<notin> set realm"
    and "m ''nonce'' = Some nonce" "nonce \<noteq> []" "CHR '','' \<notin> set nonce"
    and "m ''qop'' = Some ''auth''" "m ''charset'' = Some ''utf-8''" "m ''algorithm'' = Some ''md5-sess''"
    and "rand_Read E = Inr bs" and "CHR '','' \<notin> set protocol" "CHR '','' \<notin> set serverId"
    and "Token_Identifier token = Some ident" "Token_Password token = Some pw"
  shows "\<exists>resp params.
           GetDigestMD5ChallengeResponse E protocol serverId challenge (Some token) = Ok resp \<and>
           getChallengeParams resp = Ok params \<and>
           params ''username'' = Some (base64_EncodeToString ident) \<and> params ''realm'' = Some realm \<and>
           params ''nonce'' = Some nonce \<and> params ''cnonce'' = Some (base64_EncodeToString bs) \<and>
           params ''digest-uri'' = Some (protocol @ ''/'' @ serverId) \<and> params ''qop'' = Some ''auth'' \<and>
           params ''response'' = Some (rfc2831_response E (base64_EncodeToString ident) realm
             (base64_EncodeToString pw) nonce (base64_EncodeToString bs) ''auth'' (protocol @ ''/'' @ serverId))"
proof -
  let ?ps = "response_params E (base64_EncodeToString ident) realm (base64_EncodeToString pw) nonce
               (base64_EncodeToString bs) ''auth'' (protocol @ ''/'' @ serverId)"
  have "validateChallengeParameters m = Ok ()"
    using assms by (simp add: validate_Ok_iff valid_challenge_def)
  then have "GetDigestMD5ChallengeResponse E protocol serverId challenge (Some token) = Ok (print_params ?ps)"
    using assms by (simp add: GetDigestMD5ChallengeResponse_def Token_GetIdentifier_def
        Token_GetPassword_def lookup_or_empty_def generateChallengeReponse_eq)
  moreover have "getChallengeParams (print_params ?ps) = Ok (param_map ?ps)"
    using assms by (intro getChallengeParams_print)
      (simp_all add: response_params_def param_ok_def base64_no_comma response_plain plain_values)
  ultimately show ?thesis by (simp add: param_map_def response_params_def)
qed

definition sample_digest_env :: digest_env where
  "sample_digest_env = \<lparr>md5_Sum = (\<lambda>bs. take 16 (bs @ replicate 16 0)), rand_Read = Inr [1, 2, 3]\<rparr>"

definition sample_challenge :: string where
  "sample_challenge = print_params
     [(''realm'', ''default'', True), (''nonce'', ''abc'', True), (''qop'', ''auth'', True),
      (''charset'', ''utf-8'', False), (''algorithm'', ''md5-sess'', False)]"

lemma sample_challenge_params:
  "getChallengeParams sample_challenge =
   Ok [''realm'' \<mapsto> ''default'', ''nonce'' \<mapsto> ''abc'', ''qop'' \<mapsto> ''auth'', ''charset'' \<mapsto> ''utf-8'',
       ''algorithm'' \<mapsto> ''md5-sess'']"
proof -
  have "getChallengeParams sample_challenge = Ok (param_map
     [(''realm'', ''default'', True), (''nonce'', ''abc'', True), (''qop'', ''auth'', True),
      (''charset'', ''utf-8'', False), (''algorithm'', ''md5-sess'', False)])"
    unfolding sample_challenge_def
    by (rule getChallengeParams_print) (simp_all add: param_ok_def HasPrefix_def quote_def)
  then show ?thesis by (simp add: param_map_def)
qed

definition sample_token :: TokenProto where
  "sample_token = new_TokenProto\<lparr>Token_Identifier := Some [1], Token_Password := Some [2]\<rparr>"

theorem response_roundtrip_witness:
  "\<exists>resp params.
     GetDigestMD5ChallengeResponse sample_digest_env ''p'' ''s'' (bytes_of sample_challenge) (Some sample_token) = Ok resp \<and>
     getChallengeParams resp = Ok params \<and> params ''username'' = Some ''AQ=='' \<and> params ''realm'' = Some ''default''"
proof -
  have enc: "base64_EncodeToString [1] = ''AQ==''"
    by (simp add: sextet_def base64_alphabet_def)
  have ne: "bytes_of sample_challenge \<noteq> []"
    by (simp add: bytes_of_def sample_challenge_def print_params_def print_param_def)
  have c: "getChallengeParams (string_of (bytes_of sample_challenge)) =
    Ok [''realm'' \<mapsto> ''default'', ''nonce'' \<mapsto> ''abc'', ''qop'' \<mapsto> ''auth'', ''charset'' \<mapsto> ''utf-8'',
        ''algorithm'' \<mapsto> ''md5-sess'']"
    by (simp only: string_of_bytes_of sample_challenge_params)
  have t: "Token_Identifier sample_token = Some [1]" "Token_Password sample_token = Some [2]"
    and r: "rand_Read sample_digest_env = Inr [1, 2, 3]"
    by (simp_all add: sample_token_def sample_digest_env_def)
  have "CHR '','' \<notin> set ''default''" "CHR '','' \<notin> set ''abc''" "CHR '','' \<notin> set ''p''" "CHR '','' \<notin> set ''s''"
    by simp_all
  from response_roundtrip [OF c ne _ _ this(1) _ _ this(2) _ _ _ r this(3,4) t]
  show ?thesis unfolding enc by fastforce
qed

end
