(* ===== verification/Ipc.thy ===== *)
theory Ipc
  imports Auth Ugi Digest_Md5
begin

text \<open>
  \<open>pkg/yarn/client/ipc/client.go\<close>: the Hadoop RPC client. A TCP connection is the record
  \<open>connection\<close>: the chunks the peer's bytes arrive in, the error a read reports once they are
  used up, the bytes written so far, what the next deadlines and writes do (succeed, or fail
  after some bytes), and whether \<open>Close\<close> was called. A read never returns more than one
  chunk, which is what TCP promises and no more. The codecs of package \<open>proto\<close>, MD5, the
  random source, the operating system's user and the capacity Go's allocator gives a byte
  slice are parameters, collected in \<open>ipc_env\<close>.
\<close>

section \<open>Connections\<close>

record connection =
  inp :: "byte list list"
  rd_err :: error
  outp :: "byte list"
  io :: "(error \<times> nat) option list"
  closed :: bool

definition take_io :: "connection \<Rightarrow> (error \<times> nat) option \<times> connection" where
  "take_io con = (case io con of [] \<Rightarrow> (None, con) | x # xs \<Rightarrow> (x, con\<lparr>io := xs\<rparr>))"

definition conn_SetDeadline :: "connection \<Rightarrow> unit outcome \<times> connection" where
  "conn_SetDeadline con =
     (case take_io con of
        (None, con') \<Rightarrow> (Ok (), con')
      | (Some (err, n), con') \<Rightarrow> (Err err, con'))"

definition conn_Write :: "byte list \<Rightarrow> connection \<Rightarrow> unit outcome \<times> connection" where
  "conn_Write data con =
     (case take_io con of
        (None, con') \<Rightarrow> (Ok (), con'\<lparr>outp := outp con' @ data\<rparr>)
      | (Some (err, n), con') \<Rightarrow> (Err err, con'\<lparr>outp := outp con' @ take n data\<rparr>))"

definition conn_Read :: "nat \<Rightarrow> connection \<Rightarrow> byte list outcome \<times> connection" where
  "conn_Read n con =
     (if n = 0 then (Ok [], con)
      else case dropWhile (\<lambda>ch. ch = []) (inp con) of
             [] \<Rightarrow> (Err (rd_err con), con\<lparr>inp := []\<rparr>)
           | ch # rest \<Rightarrow>
               (Ok (take n ch), con\<lparr>inp := (if length ch \<le> n then rest else drop n ch # rest)\<rparr>))"

definition conn_Close :: "connection \<Rightarrow> connection" where
  "conn_Close con = con\<lparr>closed := True\<rparr>"

text \<open>Reading into an array of \<open>n\<close> zero bytes: a short read leaves the rest of it zero.\<close>

definition Read_array :: "nat \<Rightarrow> connection \<Rightarrow> byte list outcome \<times> connection" where
  "Read_array n = sbind (conn_Read n) (\<lambda>bs. sret (bs @ replicate (n - length bs) 0))"

section \<open>Buffered reading\<close>

text \<open>\<open>bufio.Reader\<close> with its default buffer, and \<open>io.ReadFull\<close> on it.\<close>

definition bufio_size :: nat where "bufio_size = 4096"

definition bufio_Read :: "nat \<Rightarrow> byte list \<times> connection \<Rightarrow> byte list outcome \<times> byte list \<times> connection" where
  "bufio_Read p b =
     (case b of (buf, con) \<Rightarrow>
        if buf \<noteq> [] then (Ok (take p buf), drop p buf, con)
        else if p \<ge> bufio_size then
          (case conn_Read p con of (r, con') \<Rightarrow> (r, [], con'))
        else
          (case conn_Read bufio_size con of
             (Ok bs, con') \<Rightarrow> (Ok (take p bs), drop p bs, con')
           | (r, con') \<Rightarrow> (r, [], con')))"

lemma conn_Read_Ok:
  assumes "conn_Read n con = (Ok bs, con')" and "0 < n"
  shows "bs \<noteq> [] \<and> length bs \<le> n \<and> concat (inp con) = bs @ concat (inp con') \<and>
         con' = con\<lparr>inp := inp con'\<rparr>"
proof -
  obtain ch rest where d: "dropWhile (\<lambda>ch. ch = []) (inp con) = ch # rest"
    using assms by (cases "dropWhile (\<lambda>ch. ch = []) (inp con)") (auto simp: conn_Read_def)
  have ne: "ch \<noteq> []" using d by (auto simp: dropWhile_eq_Cons_conv)
  have "concat xs = concat (dropWhile (\<lambda>ch. ch = []) xs)" for xs :: "byte list list"
    by (induction xs) auto
  from this [of "inp con"] have "concat (inp con) = ch @ concat rest" by (simp add: d)
  then show ?thesis using assms d ne by (auto simp: conn_Read_def split: if_splits)
qed

lemma conn_Read_Err:
  assumes "conn_Read n con = (Err e, con')"
  shows "concat (inp con) = [] \<and> e = rd_err con \<and> con' = con\<lparr>inp := []\<rparr>"
proof -
  have "dropWhile (\<lambda>ch. ch = []) (inp con) = []" and "e = rd_err con" "con' = con\<lparr>inp := []\<rparr>"
    using assms by (auto simp: conn_Read_def split: if_splits list.splits)
  then show ?thesis by (auto simp: dropWhile_eq_Nil_conv)
qed

lemma conn_Read_no_panic: "conn_Read n con \<noteq> (Panic q, con')"
  by (auto simp: conn_Read_def split: list.splits)

lemma bufio_Read_Ok:
  assumes "bufio_Read p (buf, con) = (Ok bs, buf', con')" and "0 < p"
  shows "bs \<noteq> [] \<and> length bs \<le> p \<and> buf @ concat (inp con) = bs @ buf' @ concat (inp con') \<and>
         con' = con\<lparr>inp := inp con'\<rparr>"
proof (cases "buf = [] \<and> p < bufio_size")
  case True
  then obtain xs where x: "conn_Read bufio_size con = (Ok xs, con')" "bs = take p xs" "buf' = drop p xs"
    using assms by (auto simp: bufio_Read_def split: outcome.splits prod.splits)
  have "0 < bufio_size" by (simp add: bufio_size_def)
  from conn_Read_Ok [OF x(1) this] show ?thesis using True x \<open>0 < p\<close> by auto
next
  case False
  then show ?thesis using assms conn_Read_Ok [of p con bs con']
    by (auto simp: bufio_Read_def split: if_splits prod.splits)
qed

lemma bufio_Read_Err:
  "bufio_Read p (buf, con) = (Err e, buf', con') \<Longrightarrow>
   buf = [] \<and> concat (inp con) = [] \<and> e = rd_err con \<and> con' = con\<lparr>inp := []\<rparr>"
  by (auto simp: bufio_Read_def dest!: conn_Read_Err split: if_splits prod.splits outcome.splits)

lemma bufio_Read_no_panic: "bufio_Read p (buf, con) \<noteq> (Panic q, b')"
  by (auto simp: bufio_Read_def conn_Read_no_panic split: prod.splits outcome.splits)

lemma bufio_Read_progress: "(Ok bs, b') = bufio_Read p b \<Longrightarrow> 0 < p \<Longrightarrow> bs \<noteq> []"
  using bufio_Read_Ok [of p "fst b" "snd b" bs "fst b'" "snd b'"] by simp

function ReadFull :: "nat \<Rightarrow> byte list \<Rightarrow> byte list \<times> connection \<Rightarrow> byte list outcome \<times> byte list \<times> connection" where
  "ReadFull p acc b =
     (if p = 0 then (Ok acc, b)
      else case bufio_Read p b of
             (Ok bs, b') \<Rightarrow> ReadFull (p - length bs) (acc @ bs) b'
           | (Err e, b') \<Rightarrow> (Err (if acc \<noteq> [] \<and> e = EOF then ErrUnexpectedEOF else e), b')
           | (Panic q, b') \<Rightarrow> (Panic q, b'))"
  by pat_completeness auto
termination
  by (relation "measure fst") (auto dest: bufio_Read_progress)

declare ReadFull.simps [simp del]

text \<open>Reading \<open>n\<close> bytes through the buffer, which is dropped afterwards.\<close>

definition io_ReadFull :: "nat \<Rightarrow> connection \<Rightarrow> byte list outcome \<times> connection" where
  "io_ReadFull n con = (case ReadFull n [] ([], con) of (r, buf, con') \<Rightarrow> (r, con'))"

lemma ReadFull_enough:
  "p \<le> length (buf @ concat (inp con)) \<Longrightarrow>
   \<exists>buf' con'. ReadFull p acc (buf, con) = (Ok (acc @ take p (buf @ concat (inp con))), buf', con') \<and>
               con' = con\<lparr>inp := inp con'\<rparr>"
proof (induction p arbitrary: acc buf con rule: less_induct)
  case (less p)
  show ?case
  proof (cases "p = 0")
    case True
    then show ?thesis by (simp add: ReadFull.simps)
  next
    case False
    obtain r buf' con' where br: "bufio_Read p (buf, con) = (r, buf', con')" by (metis prod.exhaust)
    have "buf @ concat (inp con) \<noteq> []" using less.prems False by (metis le_zero_eq list.size(3))
    then obtain bs where r: "r = Ok bs"
      using br bufio_Read_Err [of p buf con] bufio_Read_no_panic [of p buf con] by (cases r) auto
    note ok = bufio_Read_Ok [OF br [unfolded r]]
    have lt: "p - length bs < p" using ok False by (cases bs) simp_all
    have st: "buf @ concat (inp con) = bs @ buf' @ concat (inp con')" "length bs \<le> p"
      and c: "con' = con\<lparr>inp := inp con'\<rparr>" using ok False by simp_all
    have "p - length bs \<le> length (buf' @ concat (inp con'))" using less.prems st by simp
    from less.IH [OF lt this, of "acc @ bs"]
    obtain b2 c2 where "ReadFull (p - length bs) (acc @ bs) (buf', con') =
        (Ok ((acc @ bs) @ take (p - length bs) (buf' @ concat (inp con'))), b2, c2)"
      and c2: "c2 = con'\<lparr>inp := inp c2\<rparr>" by blast
    moreover have "c2 = con\<lparr>inp := inp c2\<rparr>" using c c2 by (metis connection.update_convs(1) connection.surjective)
    ultimately show ?thesis
      using False br r st by (simp add: ReadFull.simps [of p])
  qed
qed

lemma ReadFull_short:
  "length (buf @ concat (inp con)) < p \<Longrightarrow>
   \<exists>e b'. ReadFull p acc (buf, con) = (Err e, b') \<and>
          e = (if (acc \<noteq> [] \<or> buf @ concat (inp con) \<noteq> []) \<and> rd_err con = EOF then ErrUnexpectedEOF else rd_err con)"
proof (induction p arbitrary: acc buf con rule: less_induct)
  case (less p)
  obtain r buf' con' where br: "bufio_Read p (buf, con) = (r, buf', con')" by (metis prod.exhaust)
  show ?case
  proof (cases r)
    case (Ok bs)
    note ok = bufio_Read_Ok [OF br [unfolded Ok]]
    have st: "buf @ concat (inp con) = bs @ buf' @ concat (inp con')" "bs \<noteq> []" "length bs \<le> p"
      and c: "con' = con\<lparr>inp := inp con'\<rparr>" using ok less.prems by simp_all
    have rd: "rd_err con' = rd_err con" by (subst c) simp
    have "p - length bs < p" "length (buf' @ concat (inp con')) < p - length bs"
      using less.prems st by (cases bs; simp)+
    from less.IH [OF this, of "acc @ bs"] show ?thesis
      using less.prems br Ok st rd by (auto simp: ReadFull.simps [of p] simp del: concat_eq_Nil_conv)
  next
    case (Err e)
    then show ?thesis
      using less.prems br bufio_Read_Err [OF br [unfolded Err]] by (auto simp: ReadFull.simps [of p])
  next
    case (Panic q)
    then show ?thesis using br bufio_Read_no_panic [of p buf con] by auto
  qed
qed

section \<open>The client\<close>

record Client =
  ClientId :: "byte list option"
  Client_Ugi :: "UserInformationProto option"
  ServerAddress :: string
  TCPNoDelay :: bool

record connection_id =
  cid_user :: string
  cid_protocol :: string
  cid_address :: string
  cid_ClientId :: "byte list"

record ('req, 'resp) rpc_call =
  callId :: int32
  procedure :: RequestHeaderProto
  request :: 'req
  response :: 'resp
  retryCount :: int32
  marshal_request :: "'req \<Rightarrow> error + byte list"
  unmarshal_response :: "byte list \<Rightarrow> error + 'resp"

definition SASL_RPC_DUMMY_CLIENT_ID :: "byte list" where "SASL_RPC_DUMMY_CLIENT_ID = []"
definition SASL_RPC_CALL_ID :: int32 where "SASL_RPC_CALL_ID = - 33"
definition SASL_RPC_INVALID_RETRY_COUNT :: int32 where "SASL_RPC_INVALID_RETRY_COUNT = - 1"

record ipc_env =
  lib :: protolib
  user_Current :: "error + string"
  denv :: digest_env
  slice_cap :: "nat \<Rightarrow> nat"

record ipc_state =
  s_conn :: connection
  s_ugi :: ugi_globals

definition on_conn :: "(connection \<Rightarrow> 'a outcome \<times> connection) \<Rightarrow> ipc_state \<Rightarrow> 'a outcome \<times> ipc_state" where
  "on_conn f s = (case f (s_conn s) of (r, con) \<Rightarrow> (r, s\<lparr>s_conn := con\<rparr>))"

definition on_ugi :: "(ugi_globals \<Rightarrow> 'a outcome \<times> ugi_globals) \<Rightarrow> ipc_state \<Rightarrow> 'a outcome \<times> ipc_state" where
  "on_ugi f s = (case f (s_ugi s) of (r, g) \<Rightarrow> (r, s\<lparr>s_ugi := g\<rparr>))"

section \<open>Writing frames\<close>

fun sizeVarint :: "nat \<Rightarrow> nat" where
  "sizeVarint x = (if x div 128 = 0 then 1 else Suc (sizeVarint (x div 128)))"

declare sizeVarint.simps [simp del]

definition writeDelimitedBytes :: "protolib \<Rightarrow> byte list \<Rightarrow> connection \<Rightarrow> unit outcome \<times> connection" where
  "writeDelimitedBytes L data =
     sbind (conn_Write (AppendVarint L [] (of_nat (length data)))) (\<lambda>_.
     conn_Write data)"

definition writeConnectionHeader :: "AuthProtocol \<Rightarrow> connection \<Rightarrow> unit outcome \<times> connection" where
  "writeConnectionHeader authProtocol =
     sbind conn_SetDeadline (\<lambda>_.
     sbind (conn_Write RPC_HEADER) (\<lambda>_.
     sbind (conn_Write VERSION) (\<lambda>_.
     sbind (slift (ConvertFixedToBytes (FixedByte RPC_SERVICE_CLASS))) (\<lambda>serviceClass.
     sbind (conn_Write serviceClass) (\<lambda>_.
     sbind (slift (ConvertFixedToBytes (FixedByte authProtocol))) (\<lambda>authProtocolBytes.
     conn_Write authProtocolBytes))))))"

definition writeConnectionContext ::
  "ipc_env \<Rightarrow> Client \<Rightarrow> connection_id \<Rightarrow> AuthProtocol \<Rightarrow> connection \<Rightarrow> unit outcome \<times> connection" where
  "writeConnectionContext E c connectionId authProtocol =
     sbind conn_SetDeadline (\<lambda>_.
     let ugi = (case CreateSimpleUGIProto (user_Current E) of Ok u \<Rightarrow> Some u | _ \<Rightarrow> None);
         ipcCtxProto = \<lparr>IpcConnectionContext_UserInfo = ugi,
                        IpcConnectionContext_Protocol = Some (cid_protocol connectionId)\<rparr>
     in sbind (slift (deref (ClientId c))) (\<lambda>clientId.
        let rpcReqHeaderProto = new_RpcRequestHeaderProto
              \<lparr>RpcRequestHeader_RpcKind := Some RPC_PROTOCOL_BUFFFER, RpcRequestHeader_RpcOp := Some RPC_FINAL_PACKET,
               RpcRequestHeader_CallId := Some (- 3), RpcRequestHeader_ClientId := Some clientId,
               RpcRequestHeader_RetryCount := Some RPC_DEFAULT_RETRY_COUNT\<rparr>
        in sbind (slift (of_sum (Marshal_RpcRequestHeader (lib E) rpcReqHeaderProto))) (\<lambda>rpcReqHeaderProtoBytes.
           sbind (slift (of_sum (Marshal_IpcConnectionContext (lib E) ipcCtxProto))) (\<lambda>ipcCtxProtoBytes.
           let totalLength = length rpcReqHeaderProtoBytes + sizeVarint (length rpcReqHeaderProtoBytes) +
                             length ipcCtxProtoBytes + sizeVarint (length ipcCtxProtoBytes);
               tLen = (of_nat totalLength :: int32)
           in sbind (slift (ConvertFixedToBytes (FixedInt32 tLen))) (\<lambda>totalLengthBytes.
              sbind (conn_Write totalLengthBytes) (\<lambda>_.
              sbind (writeDelimitedBytes (lib E) rpcReqHeaderProtoBytes) (\<lambda>_.
              writeDelimitedBytes (lib E) ipcCtxProtoBytes)))))))"

definition sendRequest ::
  "ipc_env \<Rightarrow> Client \<Rightarrow> ('req, 'resp) rpc_call \<Rightarrow> connection \<Rightarrow> unit outcome \<times> connection" where
  "sendRequest E c rpcCall =
     sbind conn_SetDeadline (\<lambda>_.
     sbind (slift (deref (ClientId c))) (\<lambda>clientId.
     let rpcReqHeaderProto = new_RpcRequestHeaderProto
           \<lparr>RpcRequestHeader_RpcKind := Some RPC_PROTOCOL_BUFFFER, RpcRequestHeader_RpcOp := Some RPC_FINAL_PACKET,
            RpcRequestHeader_CallId := Some (callId rpcCall), RpcRequestHeader_ClientId := Some clientId,
            RpcRequestHeader_RetryCount := Some (retryCount rpcCall)\<rparr>
     in sbind (slift (of_sum (Marshal_RpcRequestHeader (lib E) rpcReqHeaderProto))) (\<lambda>rpcReqHeaderProtoBytes.
        sbind (slift (of_sum (Marshal_RequestHeader (lib E) (procedure rpcCall)))) (\<lambda>requestHeaderProtoBytes.
        sbind (slift (of_sum (marshal_request rpcCall (request rpcCall)))) (\<lambda>paramProtoBytes.
        let totalLength = length rpcReqHeaderProtoBytes + sizeVarint (length rpcReqHeaderProtoBytes) +
                          length requestHeaderProtoBytes + sizeVarint (length requestHeaderProtoBytes) +
                          length paramProtoBytes + sizeVarint (length paramProtoBytes);
            tLen = (of_nat totalLength :: int32)
        in sbind (slift (ConvertFixedToBytes (FixedInt32 tLen))) (\<lambda>totalLengthBytes.
           sbind (conn_Write totalLengthBytes) (\<lambda>_.
           sbind (writeDelimitedBytes (lib E) rpcReqHeaderProtoBytes) (\<lambda>_.
           sbind (writeDelimitedBytes (lib E) requestHeaderProtoBytes) (\<lambda>_.
           writeDelimitedBytes (lib E) paramProtoBytes)))))))))"

definition sendSaslMessage :: "ipc_env \<Rightarrow> RpcSaslProto \<Rightarrow> connection \<Rightarrow> unit outcome \<times> connection" where
  "sendSaslMessage E message =
     (let saslRpcHeaderProto = new_RpcRequestHeaderProto
            \<lparr>RpcRequestHeader_RpcKind := Some RPC_PROTOCOL_BUFFFER, RpcRequestHeader_RpcOp := Some RPC_FINAL_PACKET,
             RpcRequestHeader_CallId := Some SASL_RPC_CALL_ID, RpcRequestHeader_ClientId := Some SASL_RPC_DUMMY_CLIENT_ID,
             RpcRequestHeader_RetryCount := Some SASL_RPC_INVALID_RETRY_COUNT\<rparr>
      in sbind (slift (of_sum (Marshal_RpcRequestHeader (lib E) saslRpcHeaderProto))) (\<lambda>saslRpcHeaderProtoBytes.
         sbind (slift (of_sum (Marshal_RpcSasl (lib E) message))) (\<lambda>saslRpcMessageProtoBytes.
         let totalLength = length saslRpcHeaderProtoBytes + sizeVarint (length saslRpcHeaderProtoBytes) +
                           length saslRpcMessageProtoBytes + sizeVarint (length saslRpcMessageProtoBytes);
             tLen = (of_nat totalLength :: int32)
         in sbind conn_SetDeadline (\<lambda>_.
            sbind (slift (ConvertFixedToBytes (FixedInt32 tLen))) (\<lambda>totalLengthBytes.
            sbind (conn_Write totalLengthBytes) (\<lambda>_.
            sbind (writeDelimitedBytes (lib E) saslRpcHeaderProtoBytes) (\<lambda>_.
            writeDelimitedBytes (lib E) saslRpcMessageProtoBytes)))))))"

section \<open>Reading frames\<close>

text \<open>Go's slice expression \<open>xs[lo:hi]\<close> on a slice whose capacity is its length.\<close>

definition slice :: "'a list \<Rightarrow> int \<Rightarrow> int \<Rightarrow> 'a list outcome" where
  "slice xs lo hi =
     (if 0 \<le> lo \<and> lo \<le> hi \<and> hi \<le> int (length xs) then Ok (take (nat (hi - lo)) (drop (nat lo) xs))
      else Panic SliceBounds)"

definition make_bytes :: "int32 \<Rightarrow> nat outcome" where
  "make_bytes n = (if sint n < 0 then Panic MakeLen else Ok (nat (sint n)))"

definition readDelimited ::
  "protolib \<Rightarrow> (byte list \<Rightarrow> error + 'm) \<Rightarrow> byte list \<Rightarrow> 'm \<Rightarrow> (int \<times> 'm) outcome" where
  "readDelimited L unmarshal rawData msg =
     (case ConsumeVarint L rawData of (headerLength, off) \<Rightarrow>
        if off = 0 then Ok (- 1, msg)
        else let end_off = sint ((of_int off :: int64) + headerLength)
             in obind (slice rawData off end_off) (\<lambda>b.
                obind (of_sum (unmarshal b)) (\<lambda>msg'.
                Ok (end_off, msg'))))"

definition checkRpcHeader :: "ipc_env \<Rightarrow> Client \<Rightarrow> RpcResponseHeaderProto \<Rightarrow> unit outcome" where
  "checkRpcHeader E c rpcResponseHeaderProto =
     obind (deref (ClientId c)) (\<lambda>callClientId.
     case RpcResponseHeader_ClientId rpcResponseHeaderProto of
       None \<Rightarrow> Ok ()
     | Some headerClientId \<Rightarrow>
         if slice_cap E (length headerClientId) < 16 then Panic SliceBounds
         else if callClientId \<noteq> take 16 (headerClientId @ replicate (16 - length headerClientId) 0)
         then Err (ErrorNew ''Incorrect clientId'')
         else Ok ())"

definition checkSaslRpcHeader :: "RpcResponseHeaderProto \<Rightarrow> unit outcome" where
  "checkSaslRpcHeader rpcResponseHeaderProto =
     (case RpcResponseHeader_ClientId rpcResponseHeaderProto of
        None \<Rightarrow> Ok ()
      | Some headerClientId \<Rightarrow>
          if SASL_RPC_DUMMY_CLIENT_ID \<noteq> headerClientId then Err (ErrorNew ''Incorrect clientId'') else Ok ())"

text \<open>The error built from a response header whose status is not SUCCESS.\<close>

definition rpc_failure :: "RpcResponseHeaderProto_RpcStatusProto \<Rightarrow> RpcResponseHeaderProto \<Rightarrow> error" where
  "rpc_failure status h =
     (let errorDetails0 = [RpcResponseHeaderProto_RpcStatusProto_name status, ''ServerDidNotSetExceptionClassName'',
                           ''ServerDidNotSetErrorMsg'', ''ServerDidNotSetErrorDetail''];
          errorDetails1 = (case RpcResponseHeader_ExceptionClassName h of
                             Some s \<Rightarrow> errorDetails0[0 := s] | None \<Rightarrow> errorDetails0);
          errorDetails2 = (case RpcResponseHeader_ErrorMsg h of
                             Some s \<Rightarrow> errorDetails1[1 := s] | None \<Rightarrow> errorDetails1);
          errorDetails3 = (case RpcResponseHeader_ErrorDetail h of
                             Some d \<Rightarrow> errorDetails2[2 := RpcResponseHeaderProto_RpcErrorCodeProto_name d]
                           | None \<Rightarrow> errorDetails2)
      in ErrorNew (Join errorDetails3 '':''))"

text \<open>What \<open>readResponse\<close> does with the bytes of a frame.\<close>

definition parse_response ::
  "ipc_env \<Rightarrow> Client \<Rightarrow> ('req, 'resp) rpc_call \<Rightarrow> byte list \<Rightarrow> 'resp outcome" where
  "parse_response E c rpcCall responseBytes =
     obind (readDelimited (lib E) (Unmarshal_RpcResponseHeader (lib E)) responseBytes new_RpcResponseHeaderProto)
       (\<lambda>(off, rpcResponseHeaderProto).
     obind (checkRpcHeader E c rpcResponseHeaderProto) (\<lambda>_.
     obind (deref (RpcResponseHeader_Status rpcResponseHeaderProto)) (\<lambda>status.
     if status = RpcResponseHeaderProto_SUCCESS
     then obind (slice responseBytes off (int (length responseBytes))) (\<lambda>rest.
          obind (readDelimited (lib E) (unmarshal_response rpcCall) rest (response rpcCall)) (\<lambda>(_, resp).
          Ok resp))
     else Err (rpc_failure status rpcResponseHeaderProto))))"

definition readResponse ::
  "ipc_env \<Rightarrow> Client \<Rightarrow> ('req, 'resp) rpc_call \<Rightarrow> connection \<Rightarrow> 'resp outcome \<times> connection" where
  "readResponse E c rpcCall =
     sbind (Read_array 4) (\<lambda>totalLengthBytes.
     sbind (slift (ConvertBytesToFixed totalLengthBytes)) (\<lambda>totalLength.
     sbind (slift (make_bytes totalLength)) (\<lambda>len.
     sbind (io_ReadFull len) (\<lambda>responseBytes.
     if (of_nat (length responseBytes) :: int32) \<noteq> totalLength
     then slift (Err (Errorf ''actural read length %v does not match the total length %v''
            [Itoa (int (length responseBytes)), Itoa (sint totalLength)] []))
     else slift (parse_response E c rpcCall responseBytes)))))"

definition parse_sasl :: "ipc_env \<Rightarrow> byte list \<Rightarrow> RpcSaslProto outcome" where
  "parse_sasl E responseBytes =
     obind (readDelimited (lib E) (Unmarshal_RpcResponseHeader (lib E)) responseBytes new_RpcResponseHeaderProto)
       (\<lambda>(off, rpcResponseHeaderProto).
     obind (checkSaslRpcHeader rpcResponseHeaderProto) (\<lambda>_.
     obind (deref (RpcResponseHeader_Status rpcResponseHeaderProto)) (\<lambda>status.
     if status = RpcResponseHeaderProto_SUCCESS
     then obind (slice responseBytes off (int (length responseBytes))) (\<lambda>rest.
          obind (readDelimited (lib E) (Unmarshal_RpcSasl (lib E)) rest new_RpcSaslProto) (\<lambda>(_, saslRpcMessage).
          Ok saslRpcMessage))
     else Err (rpc_failure status rpcResponseHeaderProto))))"

definition receiveSaslMessage :: "ipc_env \<Rightarrow> connection \<Rightarrow> RpcSaslProto outcome \<times> connection" where
  "receiveSaslMessage E =
     sbind conn_SetDeadline (\<lambda>_.
     sbind (Read_array 4) (\<lambda>totalLengthBytes.
     sbind (slift (ConvertBytesToFixed totalLengthBytes)) (\<lambda>totalLength.
     sbind (slift (make_bytes totalLength)) (\<lambda>len.
     sbind (Read_array len) (\<lambda>responseBytes.
     slift (parse_sasl E responseBytes))))))"

section \<open>Authentication\<close>

definition findUsableTokenForService ::
  "ipc_env \<Rightarrow> string \<Rightarrow> ugi_globals \<Rightarrow> (TokenProto option \<times> bool) outcome \<times> ugi_globals" where
  "findUsableTokenForService E service g =
     (case GetCurrentUser (user_Current E) g of (ugi, g') \<Rightarrow>
        (obind (deref ugi) (\<lambda>u.
           let tokens = GetUserTokens u
           in if length tokens = 0 then Ok (None, False)
              else case map_of tokens service of
                     Some (Some token) \<Rightarrow> Ok (Some token, True)
                   | _ \<Rightarrow> Ok (None, False)), g'))"

text \<open>The second half of the negotiation: the answer to the challenge and the server's verdict.\<close>

definition initiateTokenAuth ::
  "ipc_env \<Rightarrow> Client \<Rightarrow> RpcSaslProto_SaslAuth \<Rightarrow> ipc_state \<Rightarrow> unit outcome \<times> ipc_state" where
  "initiateTokenAuth E client auth =
     (let meth = SaslAuth_GetMethod (Some auth); mechanism = SaslAuth_GetMechanism (Some auth);
          protocol = SaslAuth_GetProtocol (Some auth); serverId = SaslAuth_GetServerId (Some auth);
          challenge = (case SaslAuth_GetChallenge (Some auth) of Some ch \<Rightarrow> ch | None \<Rightarrow> [])
      in sbind (on_ugi (findUsableTokenForService E (ServerAddress client))) (\<lambda>(userToken, _).
         sbind (slift (GetDigestMD5ChallengeResponse (denv E) protocol serverId challenge userToken)) (\<lambda>resp.
         let authSend = new_RpcSaslProto_SaslAuth
               \<lparr>SaslAuth_Method := Some meth, SaslAuth_Mechanism := Some mechanism,
                SaslAuth_Protocol := Some protocol, SaslAuth_ServerId := Some serverId\<rparr>;
             saslInitiateMessage = new_RpcSaslProto
               \<lparr>RpcSasl_State := Some RpcSaslProto_INITIATE, RpcSasl_Token := Some (bytes_of resp),
                RpcSasl_Auths := [authSend]\<rparr>
         in sbind (on_conn (sendSaslMessage E saslInitiateMessage)) (\<lambda>_.
            sbind (on_conn (receiveSaslMessage E)) (\<lambda>saslResponseMessage.
            if RpcSasl_GetState (Some saslResponseMessage) \<noteq> RpcSaslProto_SUCCESS
            then slift (Err (ErrorNew ''expected SASL SUCCESS response!''))
            else sret ())))))"

definition negotiateSimpleTokenAuth :: "ipc_env \<Rightarrow> Client \<Rightarrow> ipc_state \<Rightarrow> unit outcome \<times> ipc_state" where
  "negotiateSimpleTokenAuth E client =
     sbind (on_conn (sendSaslMessage E (new_RpcSaslProto\<lparr>RpcSasl_State := Some RpcSaslProto_NEGOTIATE\<rparr>))) (\<lambda>_.
     sbind (on_conn (receiveSaslMessage E)) (\<lambda>saslResponseMessage.
     case RpcSasl_GetAuths (Some saslResponseMessage) of
       [] \<Rightarrow> slift (Err (ErrorNew ''No supported auth mechanisms!''))
     | auth # _ \<Rightarrow>
         if \<not> (SaslAuth_GetMethod (Some auth) = ''TOKEN'' \<and> SaslAuth_GetMechanism (Some auth) = ''DIGEST-MD5'')
         then slift (Err (ErrorNew ''yarnauth only supports TOKEN/DIGEST-MD5 auth!''))
         else initiateTokenAuth E client auth))"

section \<open>Calls\<close>

text \<open>
  The network as a client sees it: what the next dials give (an error, a TCP connection, or
  a connection of another type), the connections the client no longer holds, and the
  package variables of the process.
\<close>

datatype dialed = TCP connection | OtherConn connection

record net_world =
  dials :: "(error + dialed) list"
  conns :: "connection list"
  w_ugi :: ugi_globals

definition net_Dial :: "net_world \<Rightarrow> dialed outcome \<times> net_world" where
  "net_Dial w = (case dials w of
                   [] \<Rightarrow> (Err (EnvError ''dial''), w)
                 | d # ds \<Rightarrow> (of_sum d, w\<lparr>dials := ds\<rparr>))"

definition drop_conn :: "connection \<Rightarrow> net_world \<Rightarrow> net_world" where
  "drop_conn con w = w\<lparr>conns := conns w @ [con]\<rparr>"

definition setupConnection :: "Client \<Rightarrow> net_world \<Rightarrow> connection outcome \<times> net_world" where
  "setupConnection c w =
     (case net_Dial w of
        (Ok (TCP con), w') \<Rightarrow>
          (case take_io con of
             (None, con') \<Rightarrow> (Ok con', w')
           | (Some (err, n), con') \<Rightarrow> (Err err, drop_conn con' w'))
      | (Ok (OtherConn con), w') \<Rightarrow> (Err (Errorf ''net.TCPConn type assert failed'' [] []), drop_conn con w')
      | (Err err, w') \<Rightarrow> (Err err, w')
      | (Panic p, w') \<Rightarrow> (Panic p, w'))"

definition handshake :: "ipc_env \<Rightarrow> Client \<Rightarrow> connection_id \<Rightarrow> ipc_state \<Rightarrow> unit outcome \<times> ipc_state" where
  "handshake E c connectionId =
     sbind (on_ugi (findUsableTokenForService E (ServerAddress c))) (\<lambda>(_, found).
     let authProtocol = (if found then AUTH_PROTOCOL_SASL else AUTH_PROTOCOL_NONE)
     in sbind (on_conn (writeConnectionHeader authProtocol)) (\<lambda>_.
        sbind (if authProtocol = AUTH_PROTOCOL_SASL then negotiateSimpleTokenAuth E c else sret ()) (\<lambda>_.
        on_conn (writeConnectionContext E c connectionId authProtocol))))"

definition getConnection :: "ipc_env \<Rightarrow> Client \<Rightarrow> connection_id \<Rightarrow> net_world \<Rightarrow> connection outcome \<times> net_world" where
  "getConnection E c connectionId w =
     (case setupConnection c w of
        (Ok con, w') \<Rightarrow>
          (case handshake E c connectionId \<lparr>s_conn = con, s_ugi = w_ugi w'\<rparr> of
             (Ok _, s) \<Rightarrow> (Ok (s_conn s), w'\<lparr>w_ugi := s_ugi s\<rparr>)
           | (Err err, s) \<Rightarrow> (Err err, drop_conn (s_conn s) (w'\<lparr>w_ugi := s_ugi s\<rparr>))
           | (Panic p, s) \<Rightarrow> (Panic p, drop_conn (s_conn s) (w'\<lparr>w_ugi := s_ugi s\<rparr>)))
      | (Err err, w') \<Rightarrow> (Err err, w')
      | (Panic p, w') \<Rightarrow> (Panic p, w'))"

text \<open>
  \<open>Call\<close>: the request and the response codec come with the messages; the result is the
  response message as the call leaves it.
\<close>

definition Call ::
  "ipc_env \<Rightarrow> Client \<Rightarrow> RequestHeaderProto \<Rightarrow> 'req \<Rightarrow> 'resp \<Rightarrow> ('req \<Rightarrow> error + byte list) \<Rightarrow>
   (byte list \<Rightarrow> error + 'resp) \<Rightarrow> net_world \<Rightarrow> 'resp outcome \<times> net_world" where
  "Call E c rpc rpcRequest rpcResponse marshal unmarshal =
     sbind (slift (obind (deref (Client_Ugi c)) (\<lambda>ugi. deref (UserInformation_RealUser ugi)))) (\<lambda>user.
     sbind (slift (deref (RequestHeader_DeclaringClassProtocolName rpc))) (\<lambda>protocol.
     sbind (slift (deref (ClientId c))) (\<lambda>clientId.
     let connectionId = \<lparr>cid_user = user, cid_protocol = protocol, cid_address = ServerAddress c,
                         cid_ClientId = clientId\<rparr>
     in sbind (getConnection E c connectionId) (\<lambda>conn w.
        let rpcCall = \<lparr>callId = 0, procedure = rpc, request = rpcRequest, response = rpcResponse, retryCount = 0,
                       marshal_request = marshal, unmarshal_response = unmarshal\<rparr>
        in case sendRequest E c rpcCall conn of
             (Ok _, conn1) \<Rightarrow>
               (case readResponse E c rpcCall conn1 of
                  (Panic p, conn2) \<Rightarrow> (Panic p, drop_conn conn2 w)
                | (r, conn2) \<Rightarrow> (r, drop_conn (conn_Close conn2) w))
           | (Err err, conn1) \<Rightarrow> (Err err, drop_conn conn1 w)
           | (Panic p, conn1) \<Rightarrow> (Panic p, drop_conn conn1 w)))))"

section \<open>Frames\<close>

definition delimited :: "byte list \<Rightarrow> byte list" where
  "delimited data = varint (length data) @ data"

definition frame :: "byte list list \<Rightarrow> byte list" where
  "frame parts = (let body = concat (map delimited parts) in be32 (of_nat (length body)) @ body)"

text \<open>A server's reading of a frame: the length, then that many bytes, cut into delimited parts.\<close>

fun read_parts :: "nat \<Rightarrow> byte list \<Rightarrow> byte list list option" where
  "read_parts 0 bs = (if bs = [] then Some [] else None)"
| "read_parts (Suc k) bs =
     (case varint_read 10 bs of
        None \<Rightarrow> None
      | Some (n, off) \<Rightarrow>
          (let rest = drop off bs
           in if length rest < n then None else map_option (Cons (take n rest)) (read_parts k (drop n rest))))"

definition read_frame :: "nat \<Rightarrow> byte list \<Rightarrow> byte list list option" where
  "read_frame k bs =
     (case of_be32 (take 4 bs) of
        None \<Rightarrow> None
      | Some n \<Rightarrow> if sint n = int (length (drop 4 bs)) then read_parts k (drop 4 bs) else None)"

lemma sizeVarint_length: "sizeVarint n = length (varint n)"
proof (induction n rule: varint.induct)
  case (1 n)
  then show ?case
    by (cases "n < 128") (simp_all add: sizeVarint.simps [of n] varint.simps [of n] div_eq_0_iff)
qed

lemma length_delimited [wire_simps]: "length (delimited b) = length b + sizeVarint (length b)"
  by (simp add: delimited_def sizeVarint_length)

lemma varint_read_10: "n < 2 ^ 64 \<Longrightarrow> varint_read 10 (varint n @ rest) = Some (n, length (varint n))"
  by (rule varint_read_varint) simp_all

lemma read_parts_delimited:
  "\<forall>b\<in>set parts. length b < 2 ^ 64 \<Longrightarrow> read_parts (length parts) (concat (map delimited parts)) = Some parts"
  by (induction parts) (simp_all add: delimited_def varint_read_10)

lemma length_part_le: "b \<in> set parts \<Longrightarrow> length b \<le> length (concat (map delimited parts))"
  by (induction parts) (auto simp: delimited_def)

lemma sint_of_nat_int32: "n < 2 ^ 31 \<Longrightarrow> sint (of_nat n :: int32) = int n"
  by (simp add: signed_of_nat signed_take_bit_int_eq_self)

lemma read_frame_frame:
  assumes "length (concat (map delimited parts)) < 2 ^ 31"
  shows "read_frame (length parts) (frame parts) = Some parts"
proof -
  let ?body = "concat (map delimited parts)"
  have "length b < 2 ^ 64" if "b \<in> set parts" for b
    using length_part_le [OF that] assms by simp
  then show ?thesis
    using assms by (simp add: read_frame_def frame_def Let_def read_parts_delimited sint_of_nat_int32)
qed

text \<open>Writing on a connection none of whose next operations fails.\<close>

lemma take_io_Nil: "io con = [] \<Longrightarrow> take_io con = (None, con)"
  by (simp add: take_io_def)

lemma SetDeadline_ok: "io con = [] \<Longrightarrow> conn_SetDeadline con = (Ok (), con)"
  by (simp add: conn_SetDeadline_def take_io_Nil)

lemma Write_ok: "io con = [] \<Longrightarrow> conn_Write data con = (Ok (), con\<lparr>outp := outp con @ data\<rparr>)"
  by (simp add: conn_Write_def take_io_Nil)

lemma AppendVarint_spec: "protowire_spec L \<Longrightarrow> AppendVarint L b v = b @ varint (unat v)"
  by (simp add: protowire_spec_def)

lemma unat_of_nat_uint64: "n < 2 ^ 64 \<Longrightarrow> unat (of_nat n :: uint64) = n"
  by (simp add: unat_of_nat take_bit_nat_eq_self)

lemma writeDelimitedBytes_ok:
  "io con = [] \<Longrightarrow> protowire_spec L \<Longrightarrow> length data < 2 ^ 64 \<Longrightarrow>
   writeDelimitedBytes L data con = (Ok (), con\<lparr>outp := outp con @ delimited data\<rparr>)"
  by (simp add: writeDelimitedBytes_def Write_ok AppendVarint_spec unat_of_nat_uint64 delimited_def)

lemma writeConnectionHeader_ok:
  "io con = [] \<Longrightarrow>
   writeConnectionHeader a con = (Ok (), con\<lparr>outp := outp con @ [0x68, 0x72, 0x70, 0x63, 9, 0, a]\<rparr>)"
  by (simp add: writeConnectionHeader_def SetDeadline_ok Write_ok RPC_HEADER_def VERSION_def RPC_SERVICE_CLASS_def
      bytes_of_def)

definition request_header :: "byte list \<Rightarrow> int32 \<Rightarrow> int32 \<Rightarrow> RpcRequestHeaderProto" where
  "request_header clientId call retry = new_RpcRequestHeaderProto
     \<lparr>RpcRequestHeader_RpcKind := Some RPC_PROTOCOL_BUFFFER, RpcRequestHeader_RpcOp := Some RPC_FINAL_PACKET,
      RpcRequestHeader_CallId := Some call, RpcRequestHeader_ClientId := Some clientId,
      RpcRequestHeader_RetryCount := Some retry\<rparr>"

lemma sendRequest_ok:
  assumes "io con = []" and "protowire_spec (lib E)" and "ClientId c = Some clientId"
    and "Marshal_RpcRequestHeader (lib E) (request_header clientId (callId rc) (retryCount rc)) = Inr h"
    and "Marshal_RequestHeader (lib E) (procedure rc) = Inr r"
    and "marshal_request rc (request rc) = Inr p"
    and "length h < 2 ^ 64" "length r < 2 ^ 64" "length p < 2 ^ 64"
  shows "sendRequest E c rc con = (Ok (), con\<lparr>outp := outp con @ frame [h, r, p]\<rparr>)"
  using assms
  by (simp add: sendRequest_def SetDeadline_ok Write_ok writeDelimitedBytes_ok request_header_def frame_def
      Let_def length_delimited add.assoc)

lemma writeConnectionContext_ok:
  assumes "io con = []" and "protowire_spec (lib E)" and "ClientId c = Some clientId"
    and "Marshal_RpcRequestHeader (lib E) (request_header clientId (- 3) (- 1)) = Inr h"
    and "Marshal_IpcConnectionContext (lib E)
           \<lparr>IpcConnectionContext_UserInfo = (case CreateSimpleUGIProto (user_Current E) of Ok u \<Rightarrow> Some u | _ \<Rightarrow> None),
            IpcConnectionContext_Protocol = Some (cid_protocol cid)\<rparr> = Inr x"
    and "length h < 2 ^ 64" "length x < 2 ^ 64"
  shows "writeConnectionContext E c cid a con = (Ok (), con\<lparr>outp := outp con @ frame [h, x]\<rparr>)"
  using assms
  by (simp add: writeConnectionContext_def SetDeadline_ok Write_ok writeDelimitedBytes_ok request_header_def frame_def
      Let_def length_delimited add.assoc RPC_DEFAULT_RETRY_COUNT_def)

lemma sendSaslMessage_ok:
  assumes "io con = []" and "protowire_spec (lib E)"
    and "Marshal_RpcRequestHeader (lib E) (request_header [] (- 33) (- 1)) = Inr h"
    and "Marshal_RpcSasl (lib E) m = Inr x"
    and "length h < 2 ^ 64" "length x < 2 ^ 64"
  shows "sendSaslMessage E m con = (Ok (), con\<lparr>outp := outp con @ frame [h, x]\<rparr>)"
  using assms
  by (simp add: sendSaslMessage_def SetDeadline_ok Write_ok writeDelimitedBytes_ok request_header_def frame_def
      Let_def length_delimited add.assoc SASL_RPC_CALL_ID_def SASL_RPC_DUMMY_CLIENT_ID_def
      SASL_RPC_INVALID_RETRY_COUNT_def)

section \<open>Reading back\<close>

lemma ConsumeVarint_spec:
  assumes "protowire_spec L"
  shows "ConsumeVarint L (varint (unat v) @ rest) = (v, int (length (varint (unat v))))"
    and "snd (ConsumeVarint L bs) \<noteq> 0" and "snd (ConsumeVarint L bs) \<le> int (length bs)"
  using assms unfolding protowire_spec_def by blast+

lemma slice_append: "slice (xs @ ys @ zs) (int (length xs)) (int (length xs + length ys)) = Ok ys"
  by (simp add: slice_def)

lemma slice_from: "slice (xs @ ys) (int (length xs)) (int (length (xs @ ys))) = Ok ys"
  using slice_append [of xs ys "[]"] by simp

lemma sint_of_nat_int64: "n < 2 ^ 63 \<Longrightarrow> sint (of_nat n :: int64) = int n"
  by (simp add: signed_of_nat signed_take_bit_int_eq_self)

lemma readDelimited_delimited:
  assumes "protowire_spec L" and "length (delimited b @ rest) < 2 ^ 31" and "unmarshal b = Inr m"
  shows "readDelimited L unmarshal (delimited b @ rest) m0 = Ok (int (length (delimited b)), m)"
proof -
  have len: "length b < 2 ^ 64" "length (delimited b) < 2 ^ 63" using assms(2) by (simp_all add: delimited_def)
  have "ConsumeVarint L (delimited b @ rest) = (of_nat (length b), int (length (varint (length b))))"
    using ConsumeVarint_spec(1) [OF assms(1), of "of_nat (length b)" "b @ rest"]
    by (simp only: delimited_def unat_of_nat_uint64 [OF len(1)] append_assoc)
  moreover have "sint ((of_int (int (length (varint (length b)))) :: int64) + of_nat (length b)) =
                 int (length (delimited b))"
    using sint_of_nat_int64 [OF len(2)] by (simp add: delimited_def)
  moreover have "slice (delimited b @ rest) (int (length (varint (length b)))) (int (length (delimited b))) = Ok b"
    using slice_append [of "varint (length b)" b rest] by (simp add: delimited_def)
  ultimately show ?thesis using assms(3) by (simp add: readDelimited_def)
qed

lemma readDelimited_panic_iff:
  assumes "protowire_spec L" and "ConsumeVarint L bs = (v, off)"
  shows "is_panic (readDelimited L unmarshal bs m0) \<longleftrightarrow>
         off < 0 \<or> sint ((of_int off :: int64) + v) < off \<or> int (length bs) < sint ((of_int off :: int64) + v)"
proof -
  have "off \<noteq> 0" using ConsumeVarint_spec(2) [OF assms(1), of bs] assms(2) by simp
  let ?e = "sint ((of_int off :: int64) + v)"
  show ?thesis
  proof (cases "slice bs off ?e")
    case (Ok b)
    then have "is_panic (readDelimited L unmarshal bs m0) = is_panic (of_sum (unmarshal b))"
      using assms(2) \<open>off \<noteq> 0\<close> by (cases "unmarshal b") (simp_all add: readDelimited_def Let_def)
    moreover have "\<not> is_panic (of_sum (unmarshal b))" by (cases "unmarshal b") simp_all
    ultimately show ?thesis using Ok by (auto simp: slice_def split: if_splits)
  next
    case (Err e)
    then show ?thesis by (simp add: slice_def split: if_splits)
  next
    case (Panic q)
    then show ?thesis using assms(2) \<open>off \<noteq> 0\<close>
      by (auto simp: readDelimited_def Let_def slice_def split: if_splits)
  qed
qed

lemma readDelimited_offset:
  assumes "protowire_spec L" and "readDelimited L unmarshal bs m0 = Ok (k, m)"
  shows "0 \<le> k"
proof -
  obtain v off where c: "ConsumeVarint L bs = (v, off)" by (metis prod.exhaust)
  have "off \<noteq> 0" using ConsumeVarint_spec(2) [OF assms(1), of bs] c by simp
  then obtain b where "slice bs off k = Ok b"
    using assms(2) c by (auto simp: readDelimited_def Let_def obind_eq_Ok_iff)
  then show ?thesis by (auto simp: slice_def split: if_splits)
qed

lemma readDelimited_Nil:
  assumes "protowire_spec L"
  shows "readDelimited L unmarshal [] m0 = Panic SliceBounds"
proof -
  obtain v off where c: "ConsumeVarint L [] = (v, off)" by (metis prod.exhaust)
  then have "off < 0" using ConsumeVarint_spec(2,3) [OF assms, of "[]"] by simp
  with c show ?thesis by (simp add: readDelimited_def slice_def Let_def)
qed

text \<open>A read that gets its bytes from the first segment.\<close>

lemma Read_array_full:
  assumes "inp con = ch # rest" and "n \<le> length ch" and "0 < n"
  shows "\<exists>con'. Read_array n con = (Ok (take n ch), con') \<and> concat (inp con') = drop n ch @ concat rest \<and>
                con' = con\<lparr>inp := inp con'\<rparr>"
proof -
  have "ch \<noteq> []" using assms by auto
  then have r: "conn_Read n con = (Ok (take n ch), con\<lparr>inp := (if length ch \<le> n then rest else drop n ch # rest)\<rparr>)"
    using assms by (simp add: conn_Read_def)
  show ?thesis using assms
    by (simp add: Read_array_def sbind_def r)
qed

lemma io_ReadFull_ok:
  assumes "n \<le> length (concat (inp con))"
  shows "\<exists>con'. io_ReadFull n con = (Ok (take n (concat (inp con))), con') \<and> con' = con\<lparr>inp := inp con'\<rparr>"
  using ReadFull_enough [of n "[]" con "[]"] assms by (auto simp: io_ReadFull_def)

lemma of_be32_take: "of_be32 (take 4 (be32 w @ bs)) = Some w"
  by simp

lemma ConvertBytesToFixed_take: "ConvertBytesToFixed (take 4 (be32 w @ bs)) = Ok w"
  using ConvertBytesToFixed_be32 [of w "[]"] by simp

text \<open>
  A response is read from any segmentation of the stream whose first segment holds the
  length, and only the body decides the outcome.
\<close>

lemma readResponse_stream:
  assumes "inp con = ch # rest" and "4 \<le> length ch"
    and "concat (inp con) = be32 n @ body @ extra" and "sint n = int (length body)"
  shows "\<exists>con'. readResponse E c rc con = (parse_response E c rc body, con') \<and>
                outp con' = outp con \<and> closed con' = closed con"
proof -
  obtain con1 where r1: "Read_array 4 con = (Ok (take 4 ch), con1)"
    and i1: "concat (inp con1) = drop 4 ch @ concat rest" and c1: "con1 = con\<lparr>inp := inp con1\<rparr>"
    using Read_array_full [OF assms(1,2)] by auto
  have st: "ch @ concat rest = be32 n @ body @ extra" using assms(1,3) by simp
  have pre: "take 4 ch = be32 n"
    using arg_cong [OF st, of "take 4"] assms(2) by simp
  have "drop 4 (ch @ concat rest) = body @ extra" by (simp add: st)
  then have i1': "concat (inp con1) = body @ extra" using i1 assms(2) by simp
  obtain con2 where r2: "io_ReadFull (length body) con1 = (Ok body, con2)" and c2: "con2 = con1\<lparr>inp := inp con2\<rparr>"
    using io_ReadFull_ok [of "length body" con1] i1' by auto
  have "ConvertBytesToFixed (take 4 ch) = Ok n" using ConvertBytesToFixed_be32 [of n "[]"] pre by simp
  moreover have "make_bytes n = Ok (length body)" using assms(4) by (simp add: make_bytes_def)
  moreover have "(of_nat (length body) :: int32) = n"
    using arg_cong [OF assms(4), of "of_int :: int \<Rightarrow> int32"] by simp
  moreover have "outp con2 = outp con" "closed con2 = closed con" by (subst c2, simp, subst c1, simp)+
  ultimately show ?thesis using r1 r2 by (simp add: readResponse_def)
qed

lemma parse_response_ok:
  assumes "protowire_spec (lib E)" and "length (delimited hb @ delimited mb) < 2 ^ 31"
    and "Unmarshal_RpcResponseHeader (lib E) hb = Inr h" and "checkRpcHeader E c h = Ok ()"
    and "RpcResponseHeader_Status h = Some RpcResponseHeaderProto_SUCCESS"
    and "unmarshal_response rc mb = Inr m"
  shows "parse_response E c rc (delimited hb @ delimited mb) = Ok m"
proof -
  have "readDelimited (lib E) (Unmarshal_RpcResponseHeader (lib E)) (delimited hb @ delimited mb) new_RpcResponseHeaderProto
      = Ok (int (length (delimited hb)), h)"
    by (rule readDelimited_delimited) (use assms in simp_all)
  moreover have "readDelimited (lib E) (unmarshal_response rc) (delimited mb @ []) (response rc) =
      Ok (int (length (delimited mb)), m)"
    by (rule readDelimited_delimited) (use assms in simp_all)
  ultimately show ?thesis
    using assms slice_from [of "delimited hb" "delimited mb"] by (simp add: parse_response_def)
qed

lemma parse_response_failure:
  assumes "protowire_spec (lib E)" and "length (delimited hb @ rest) < 2 ^ 31"
    and "Unmarshal_RpcResponseHeader (lib E) hb = Inr h" and "checkRpcHeader E c h = Ok ()"
    and "RpcResponseHeader_Status h = Some st" and "st \<noteq> RpcResponseHeaderProto_SUCCESS"
  shows "parse_response E c rc (delimited hb @ rest) = Err (rpc_failure st h)"
proof -
  have "readDelimited (lib E) (Unmarshal_RpcResponseHeader (lib E)) (delimited hb @ rest) new_RpcResponseHeaderProto
      = Ok (int (length (delimited hb)), h)"
    by (rule readDelimited_delimited) (use assms in simp_all)
  then show ?thesis using assms by (simp add: parse_response_def)
qed

section \<open>Writes under failure\<close>

text \<open>
  \<open>writes_prefix m bs\<close>: whatever the deadlines and writes of the connection do, \<open>m\<close> puts a
  prefix of \<open>bs\<close> on the wire, and all of it when it returns; it neither reads nor closes.
\<close>

definition writes_prefix :: "(connection \<Rightarrow> unit outcome \<times> connection) \<Rightarrow> byte list \<Rightarrow> bool" where
  "writes_prefix m bs \<longleftrightarrow>
     (\<forall>con r con'. m con = (r, con') \<longrightarrow>
        (\<exists>k. outp con' = outp con @ take k bs \<and> (is_ok r \<longrightarrow> take k bs = bs)) \<and>
        inp con' = inp con \<and> rd_err con' = rd_err con \<and> closed con' = closed con)"

lemma writes_prefix_SetDeadline: "writes_prefix conn_SetDeadline []"
  by (auto simp: writes_prefix_def conn_SetDeadline_def take_io_def split: list.splits option.splits)

lemma writes_prefix_Write: "writes_prefix (conn_Write data) data"
  unfolding writes_prefix_def
proof (intro allI impI)
  fix con con' :: connection and r
  assume w: "conn_Write data con = (r, con')"
  have "take (length data) data = data" by simp
  with w show "(\<exists>k. outp con' = outp con @ take k data \<and> (is_ok r \<longrightarrow> take k data = data)) \<and>
                inp con' = inp con \<and> rd_err con' = rd_err con \<and> closed con' = closed con"
    by (auto simp: conn_Write_def take_io_def split: list.splits option.splits intro: exI [of _ "length data"])
qed

lemma writes_prefix_sbind:
  assumes m: "writes_prefix m bs" and f: "writes_prefix (f ()) cs"
  shows "writes_prefix (sbind m f) (bs @ cs)"
  unfolding writes_prefix_def
proof (intro allI impI)
  fix con con2 :: connection and r
  assume run: "sbind m f con = (r, con2)"
  obtain r1 con1 where m1: "m con = (r1, con1)" by (metis prod.exhaust)
  obtain k where k: "outp con1 = outp con @ take k bs" "is_ok r1 \<longrightarrow> take k bs = bs"
    and keep: "inp con1 = inp con" "rd_err con1 = rd_err con" "closed con1 = closed con"
    using m m1 unfolding writes_prefix_def by blast
  show "(\<exists>k. outp con2 = outp con @ take k (bs @ cs) \<and> (is_ok r \<longrightarrow> take k (bs @ cs) = bs @ cs)) \<and>
        inp con2 = inp con \<and> rd_err con2 = rd_err con \<and> closed con2 = closed con"
  proof (cases "is_ok r1")
    case True
    then have "f () con1 = (r, con2)" using run m1 by (cases r1) (simp_all add: sbind_def)
    with f obtain j where j: "outp con2 = outp con1 @ take j cs" "is_ok r \<longrightarrow> take j cs = cs"
      and "inp con2 = inp con1" "rd_err con2 = rd_err con1" "closed con2 = closed con1"
      unfolding writes_prefix_def by blast
    moreover from j k True have "outp con2 = outp con @ take (length bs + j) (bs @ cs)"
      and "is_ok r \<longrightarrow> take (length bs + j) (bs @ cs) = bs @ cs" by simp_all
    ultimately show ?thesis using keep by metis
  next
    case False
    then have "r = r1 \<or> \<not> is_ok r" and "con2 = con1" using run m1 by (cases r1; auto simp: sbind_def)+
    moreover have "outp con1 = outp con @ take (min k (length bs)) (bs @ cs)" using k by (simp add: min_def)
    ultimately show ?thesis using keep False by metis
  qed
qed

lemma writes_prefix_slift:
  assumes "\<And>a. r = Ok a \<Longrightarrow> writes_prefix (f a) bs"
  shows "writes_prefix (sbind (slift r) f) bs"
proof (cases r)
  case (Ok a)
  then show ?thesis using assms by (simp add: sbind_slift_Ok)
qed (auto simp: writes_prefix_def sbind_def intro: exI [of _ 0])

lemmas writes_prefix_intros =
  writes_prefix_slift writes_prefix_sbind [OF writes_prefix_SetDeadline, simplified]
  writes_prefix_sbind [OF writes_prefix_Write] writes_prefix_Write

lemma writes_prefix_delimited:
  assumes "protowire_spec L" and "length data < 2 ^ 64"
  shows "writes_prefix (writeDelimitedBytes L data) (delimited data)"
proof -
  have "AppendVarint L [] (of_nat (length data)) = varint (length data)"
    using assms by (simp only: AppendVarint_spec unat_of_nat_uint64 append_Nil)
  then show ?thesis
    unfolding writeDelimitedBytes_def delimited_def by (simp add: writes_prefix_intros)
qed

lemma writes_prefix_frame:
  assumes "protowire_spec L" and "\<forall>b\<in>{h, r, p}. length b < 2 ^ 64"
    and "t = (of_nat (length (delimited h) + length (delimited r) + length (delimited p)) :: int32)"
  shows "writes_prefix (sbind (conn_Write (be32 t)) (\<lambda>_. sbind (writeDelimitedBytes L h) (\<lambda>_.
           sbind (writeDelimitedBytes L r) (\<lambda>_. writeDelimitedBytes L p)))) (frame [h, r, p])"
proof -
  have "frame [h, r, p] = be32 t @ delimited h @ delimited r @ delimited p"
    by (simp add: frame_def Let_def assms(3) add.assoc)
  moreover have "writes_prefix (writeDelimitedBytes L b) (delimited b)" if "b \<in> {h, r, p}" for b
    using assms(1,2) that by (blast intro: writes_prefix_delimited)
  ultimately show ?thesis by (auto intro!: writes_prefix_intros writes_prefix_sbind)
qed

lemma sendRequest_writes:
  assumes "protowire_spec (lib E)" and "ClientId c = Some clientId"
    and "Marshal_RpcRequestHeader (lib E) (request_header clientId (callId rc) (retryCount rc)) = Inr h"
    and "Marshal_RequestHeader (lib E) (procedure rc) = Inr r"
    and "marshal_request rc (request rc) = Inr p"
    and "length h < 2 ^ 64" "length r < 2 ^ 64" "length p < 2 ^ 64"
  shows "writes_prefix (sendRequest E c rc) (frame [h, r, p])"
proof -
  have "writes_prefix (sbind (conn_Write (be32 (of_nat (length h + sizeVarint (length h) + length r +
      sizeVarint (length r) + length p + sizeVarint (length p))))) (\<lambda>_. sbind (writeDelimitedBytes (lib E) h) (\<lambda>_.
      sbind (writeDelimitedBytes (lib E) r) (\<lambda>_. writeDelimitedBytes (lib E) p)))) (frame [h, r, p])"
    by (rule writes_prefix_frame) (use assms in \<open>simp_all add: length_delimited add_ac\<close>)
  then show ?thesis
    using assms unfolding sendRequest_def Let_def request_header_def
    by (auto intro!: writes_prefix_intros simp: sbind_slift_Ok)
qed

lemma writeConnectionHeader_writes:
  "writes_prefix (writeConnectionHeader a) ([0x68, 0x72, 0x70, 0x63] @ [9] @ [0] @ [a])"
proof -
  have "RPC_HEADER = [0x68, 0x72, 0x70, 0x63]" by (simp add: RPC_HEADER_def bytes_of_def)
  then show ?thesis
    unfolding writeConnectionHeader_def VERSION_def
      ConvertFixedToBytes_simps sbind_slift_Ok RPC_SERVICE_CLASS_def
    by (auto intro!: writes_prefix_intros simp del: append_Cons)
qed

section \<open>Nothing but \<open>Close\<close> closes\<close>

lemma keeps_closed_prims [keeps_intros]:
  "keeps closed conn_SetDeadline" "keeps closed (conn_Write data)" "keeps closed (conn_Read n)"
  by (auto simp: keeps_def conn_SetDeadline_def conn_Write_def conn_Read_def take_io_def
      split: list.splits option.splits)

lemma keeps_closed_bufio: "closed (snd (snd (bufio_Read p (buf, con)))) = closed con"
  by (auto simp: bufio_Read_def dest: keepsD [OF keeps_closed_prims(3)] split: prod.splits outcome.splits)

lemma keeps_closed_ReadFull: "closed (snd (snd (ReadFull p acc (buf, con)))) = closed con"
proof (induction p arbitrary: acc buf con rule: less_induct)
  case (less p)
  obtain r buf' con' where br: "bufio_Read p (buf, con) = (r, buf', con')" by (metis prod.exhaust)
  have c: "closed con' = closed con" using keeps_closed_bufio [of p buf con] br by simp
  show ?case
  proof (cases "p = 0")
    case False
    have "closed (snd (snd (ReadFull (p - length bs) (acc @ bs) (buf', con')))) = closed con" if "r = Ok bs" for bs
    proof -
      have "bs \<noteq> []" using bufio_Read_Ok [OF br [unfolded that]] False by simp
      then have "p - length bs < p" using False by (cases bs) simp_all
      then show ?thesis using less.IH c by simp
    qed
    then show ?thesis using False br c by (cases r) (simp_all add: ReadFull.simps [of p])
  qed (simp add: ReadFull.simps)
qed

lemma keeps_closed_io_ReadFull [keeps_intros]: "keeps closed (io_ReadFull n)"
  unfolding keeps_def
proof
  fix con
  show "closed (snd (io_ReadFull n con)) = closed con"
    using keeps_closed_ReadFull [of n "[]" "[]" con] by (auto simp: io_ReadFull_def split: prod.splits)
qed

lemma keeps_closed_Read_array [keeps_intros]: "keeps closed (Read_array n)"
  unfolding Read_array_def by (intro keeps_intros)

lemma keeps_closed_ops [keeps_intros]:
  "keeps closed (writeDelimitedBytes L data)" "keeps closed (writeConnectionHeader a)"
  "keeps closed (writeConnectionContext E c cid a)" "keeps closed (sendRequest E c rc)"
  "keeps closed (sendSaslMessage E m)" "keeps closed (receiveSaslMessage E)" "keeps closed (readResponse E c rc)"
proof -
  show d: "keeps closed (writeDelimitedBytes L data)" for L data
    unfolding writeDelimitedBytes_def by (intro keeps_intros)
  show "keeps closed (writeConnectionHeader a)"
    unfolding writeConnectionHeader_def by (intro keeps_intros)
  show "keeps closed (writeConnectionContext E c cid a)"
    unfolding writeConnectionContext_def Let_def by (intro keeps_intros d)
  show "keeps closed (sendRequest E c rc)"
    unfolding sendRequest_def Let_def by (intro keeps_intros d)
  show "keeps closed (sendSaslMessage E m)"
    unfolding sendSaslMessage_def Let_def by (intro keeps_intros d)
  show "keeps closed (receiveSaslMessage E)"
    unfolding receiveSaslMessage_def by (intro keeps_intros)
  show "keeps closed (readResponse E c rc)"
    unfolding readResponse_def by (auto intro!: keeps_intros)
qed

lemma keeps_on_conn [keeps_intros]: "keeps closed m \<Longrightarrow> keeps (\<lambda>s. closed (s_conn s)) (on_conn m)"
  by (auto simp: keeps_def [of "\<lambda>s. closed (s_conn s)"] on_conn_def dest: keepsD split: prod.splits)

lemma keeps_on_ugi [keeps_intros]: "keeps (\<lambda>s. closed (s_conn s)) (on_ugi m)"
  by (auto simp: keeps_def on_ugi_def split: prod.splits)

lemma keeps_handshake: "keeps (\<lambda>s. closed (s_conn s)) (handshake E c cid)"
proof -
  have "keeps (\<lambda>s. closed (s_conn s)) (negotiateSimpleTokenAuth E c)"
    unfolding negotiateSimpleTokenAuth_def initiateTokenAuth_def Let_def
    by (intro keeps_intros) (auto intro!: keeps_intros split: list.splits)
  then show ?thesis
    unfolding handshake_def Let_def by (auto intro!: keeps_intros split: prod.splits)
qed

section \<open>A concrete environment\<close>

text \<open>
  An instance of the parameters for the witnesses: the documented varint codec, marshalling
  to fixed bytes, a server that answers SUCCESS, and Go's smallest size classes.
\<close>

definition sample_auth :: RpcSaslProto_SaslAuth where
  "sample_auth = new_RpcSaslProto_SaslAuth
     \<lparr>SaslAuth_Method := Some ''TOKEN'', SaslAuth_Mechanism := Some ''DIGEST-MD5'', SaslAuth_Protocol := Some ''p'',
      SaslAuth_ServerId := Some ''s'', SaslAuth_Challenge := Some (bytes_of sample_challenge)\<rparr>"

definition sample_sasl :: RpcSaslProto where
  "sample_sasl = new_RpcSaslProto\<lparr>RpcSasl_State := Some RpcSaslProto_SUCCESS, RpcSasl_Auths := [sample_auth]\<rparr>"

definition sample_lib :: protolib where
  "sample_lib =
     \<lparr>AppendVarint = (\<lambda>b v. b @ varint (unat v)), ConsumeVarint = sample_ConsumeVarint,
      Marshal_RpcRequestHeader = (\<lambda>_. Inr [8, 2]), Marshal_RequestHeader = (\<lambda>_. Inr [10, 1, 97]),
      Marshal_IpcConnectionContext = (\<lambda>_. Inr [26]), Marshal_RpcSasl = (\<lambda>_. Inr [16, 1]),
      Unmarshal_RpcResponseHeader =
        (\<lambda>bs. if bs = [8, 1] then Inr (new_RpcResponseHeaderProto\<lparr>RpcResponseHeader_Status := Some RpcResponseHeaderProto_ERROR\<rparr>)
              else Inr (new_RpcResponseHeaderProto\<lparr>RpcResponseHeader_Status := Some RpcResponseHeaderProto_SUCCESS\<rparr>)),
      Unmarshal_RpcSasl = (\<lambda>_. Inr sample_sasl),
      Marshal_GetClusterNodesRequest = (\<lambda>_. Inr []),
      Unmarshal_GetClusterNodesResponse = (\<lambda>_. Inr new_GetClusterNodesResponseProto),
      Marshal_UpdateNodeResourceRequest = (\<lambda>_. Inr []), Unmarshal_UpdateNodeResourceResponse = (\<lambda>_. Inr ()),
      Marshal_GetServiceStatusRequest = (\<lambda>_. Inr []),
      Unmarshal_GetServiceStatusResponse = (\<lambda>_. Inr new_GetServiceStatusResponseProto)\<rparr>"

definition sample_env :: ipc_env where
  "sample_env = \<lparr>lib = sample_lib, user_Current = Inr ''yarn'', denv = sample_digest_env,
                 slice_cap = (\<lambda>n. if n \<le> 8 then 8 else if n \<le> 16 then 16 else n)\<rparr>"

definition sample_client :: Client where
  "sample_client = \<lparr>ClientId = Some (replicate 16 7), Client_Ugi = Some (new_UserInformationProto\<lparr>UserInformation_RealUser := Some ''yarn''\<rparr>),
                    ServerAddress = ''rm:8032'', TCPNoDelay = False\<rparr>"

definition sample_rpc :: "(unit, nat) rpc_call" where
  "sample_rpc = \<lparr>callId = 0, procedure = new_RequestHeaderProto, request = (), response = 0, retryCount = 0,
                 marshal_request = (\<lambda>_. Inr []), unmarshal_response = (\<lambda>bs. Inr (length bs))\<rparr>"

definition fresh_conn :: "byte list list \<Rightarrow> connection" where
  "fresh_conn chunks = \<lparr>inp = chunks, rd_err = EOF, outp = [], io = [], closed = False\<rparr>"

lemma sample_lib_spec: "protowire_spec sample_lib"
  by (rule protowire_spec_sample) (simp_all add: sample_lib_def)

lemma varint_small: "n < 128 \<Longrightarrow> varint n = [of_nat n]"
  by (simp add: varint.simps)

section \<open>Properties\<close>

text \<open>The number of bytes the client counts for a length is the number of bytes its
varint has, so the total length it announces for a frame is the length of what follows.\<close>

lemma sizeVarint_is_varint_length:
  "sizeVarint n = length (varint n) \<and>
   length (frame parts) = 4 + (\<Sum>b\<leftarrow>parts. length b + sizeVarint (length b))"
proof -
  have "length (concat (map delimited parts)) = (\<Sum>b\<leftarrow>parts. length b + sizeVarint (length b))"
    by (induction parts) (simp_all add: length_delimited)
  then show ?thesis by (simp add: sizeVarint_length frame_def Let_def)
qed

text \<open>C9. Whatever the deadlines and writes of the connection do, sending a request puts a
prefix of one frame on the wire; when it returns without an error the whole frame is there,
and a server that reads the announced length and then three delimited messages gets back
exactly the marshalled RPC header, request header and parameter.\<close>

theorem request_frame_roundtrip:
  assumes "protowire_spec (lib E)" and "ClientId c = Some clientId"
    and "Marshal_RpcRequestHeader (lib E) (request_header clientId (callId rc) (retryCount rc)) = Inr h"
    and "Marshal_RequestHeader (lib E) (procedure rc) = Inr r"
    and "marshal_request rc (request rc) = Inr p"
    and "length (frame [h, r, p]) < 2 ^ 31" and "sendRequest E c rc con = (res, con')"
  shows "(\<exists>k. outp con' = outp con @ take k (frame [h, r, p])) \<and>
         (res = Ok () \<longrightarrow> outp con' = outp con @ frame [h, r, p]) \<and>
         (io con = [] \<longrightarrow> res = Ok ()) \<and> read_frame 3 (frame [h, r, p]) = Some [h, r, p]"
proof -
  have body: "length (concat (map delimited [h, r, p])) < 2 ^ 31"
    using assms(6) by (simp add: frame_def Let_def)
  have len: "length h < 2 ^ 64" "length r < 2 ^ 64" "length p < 2 ^ 64"
    using length_part_le [of _ "[h, r, p]"] body by force+
  have "writes_prefix (sendRequest E c rc) (frame [h, r, p])"
    by (rule sendRequest_writes [OF assms(1-5) len])
  then obtain k where "outp con' = outp con @ take k (frame [h, r, p])"
    and "is_ok res \<longrightarrow> take k (frame [h, r, p]) = frame [h, r, p]"
    using assms(7) unfolding writes_prefix_def by blast
  moreover have "io con = [] \<longrightarrow> res = Ok ()"
    using sendRequest_ok [OF _ assms(1-5) len] assms(7) by auto
  moreover have "read_frame 3 (frame [h, r, p]) = Some [h, r, p]"
    using read_frame_frame [OF body] by (simp add: numeral_3_eq_3)
  ultimately show ?thesis by auto
qed

theorem request_frame_roundtrip_witness:
  "outp (snd (sendRequest sample_env sample_client sample_rpc (fresh_conn []))) = frame [[8, 2], [10, 1, 97], []]"
proof -
  have "length (frame [[8, 2], [10, 1, 97], []]) < 2 ^ 31"
    by (simp add: frame_def Let_def delimited_def varint_small)
  then show ?thesis
    using request_frame_roundtrip [of sample_env sample_client "replicate 16 7" sample_rpc "[8, 2]" "[10, 1, 97]" "[]"
        "fresh_conn []" "fst (sendRequest sample_env sample_client sample_rpc (fresh_conn []))"
        "snd (sendRequest sample_env sample_client sample_rpc (fresh_conn []))"]
      sample_lib_spec
    by (simp add: sample_env_def sample_client_def sample_rpc_def sample_lib_def fresh_conn_def)
qed

text \<open>The connection header is the seven bytes \<open>hrpc\<close>, version 9, service class 0 and the
authentication protocol; under write failures the wire holds a prefix of them, and
the header is only reported written when it is complete.\<close>

lemma connection_header_bytes:
  assumes "writeConnectionHeader a con = (r, con')"
  shows "(\<exists>k. outp con' = outp con @ take k [0x68, 0x72, 0x70, 0x63, 9, 0, a]) \<and>
         (r = Ok () \<longrightarrow> outp con' = outp con @ [0x68, 0x72, 0x70, 0x63, 9, 0, a]) \<and>
         closed con' = closed con \<and> inp con' = inp con"
proof -
  obtain k where "outp con' = outp con @ take k ([0x68, 0x72, 0x70, 0x63] @ [9] @ [0] @ [a])"
    and "is_ok r \<longrightarrow> take k ([0x68, 0x72, 0x70, 0x63] @ [9] @ [0] @ [a]) = [0x68, 0x72, 0x70, 0x63] @ [9] @ [0] @ [a]"
    and "inp con' = inp con" "closed con' = closed con"
    using writeConnectionHeader_writes [of a] assms unfolding writes_prefix_def by blast
  then show ?thesis by auto
qed

lemma connection_header_bytes_instance:
  "outp (snd (writeConnectionHeader AUTH_PROTOCOL_NONE (fresh_conn []))) = [0x68, 0x72, 0x70, 0x63, 9, 0, 0]"
  using connection_header_bytes [of AUTH_PROTOCOL_NONE "fresh_conn []"
      "fst (writeConnectionHeader AUTH_PROTOCOL_NONE (fresh_conn []))"
      "snd (writeConnectionHeader AUTH_PROTOCOL_NONE (fresh_conn []))"]
    writeConnectionHeader_ok [of "fresh_conn []" AUTH_PROTOCOL_NONE]
  by (simp add: fresh_conn_def AUTH_PROTOCOL_NONE_def)

text \<open>Reading the body of a response through the 4096-byte buffer gives exactly the next
\<open>n\<close> bytes of the stream however TCP cut it into segments, and an error exactly when the peer
sends fewer, \<open>io.ErrUnexpectedEOF\<close> when it stops in the middle.\<close>

lemma ReadFull_is_take:
  "fst (io_ReadFull n con) =
     (if n \<le> length (concat (inp con)) then Ok (take n (concat (inp con)))
      else Err (if concat (inp con) \<noteq> [] \<and> rd_err con = EOF then ErrUnexpectedEOF else rd_err con))"
proof (cases "n \<le> length (concat (inp con))")
  case True
  then show ?thesis using io_ReadFull_ok [OF True] by auto
next
  case False
  then show ?thesis using ReadFull_short [of "[]" con n "[]"]
    by (auto simp: io_ReadFull_def simp del: concat_eq_Nil_conv split: prod.splits)
qed



text \<open>C40. The four length bytes are read with a single \<open>Read\<close>. If the first segment carries
only one to three of them, and these are zero as for every frame below 16 MiB that arrives
one byte at a time, the client takes the length to be zero and panics, whatever follows.\<close>

theorem split_length_prefix_panics:
  assumes "protowire_spec (lib E)" and "inp con = replicate k 0 # rest" and "0 < k" and "k < 4"
  shows "fst (readResponse E c rc con) = Panic SliceBounds"
proof -
  have "conn_Read 4 con = (Ok (replicate k 0), con\<lparr>inp := rest\<rparr>)"
    using assms(2-4) by (cases k) (simp_all add: conn_Read_def)
  moreover have "replicate k (0 :: byte) @ replicate (4 - k) 0 = [0, 0, 0, 0]"
    using assms(4) by (simp add: replicate_add [symmetric] numeral_eq_Suc)
  ultimately have r: "Read_array 4 con = (Ok [0, 0, 0, 0], con\<lparr>inp := rest\<rparr>)"
    by (simp add: Read_array_def)
  have z: "be32 0 = [0, 0, 0, 0]" by code_simp
  have "ConvertBytesToFixed [0, 0, 0, 0] = Ok 0" using ConvertBytesToFixed_be32 [of 0 "[]"] by (simp add: z)
  moreover have "make_bytes 0 = Ok 0" by (simp add: make_bytes_def)
  moreover have "io_ReadFull 0 con' = (Ok [], con')" for con' by (simp add: io_ReadFull_def ReadFull.simps)
  moreover have "parse_response E c rc [] = Panic SliceBounds"
    using assms(1) by (simp add: parse_response_def readDelimited_Nil)
  ultimately show ?thesis using r by (simp add: readResponse_def)
qed

theorem split_length_prefix_panics_witness:
  "fst (readResponse sample_env sample_client sample_rpc (fresh_conn [[0], [0, 0, 6, 2, 8, 0, 2, 5, 5]])) = Panic SliceBounds"
  using split_length_prefix_panics [of sample_env "fresh_conn [[0], [0, 0, 6, 2, 8, 0, 2, 5, 5]]" 1
      "[[0, 0, 6, 2, 8, 0, 2, 5, 5]]" sample_client sample_rpc] sample_lib_spec
  by (simp add: fresh_conn_def sample_env_def)

text \<open>C39. Malformed responses crash the client instead of failing the call: a negative
announced length panics in \<open>make\<close>, and a delimited message panics exactly when its varint is
malformed or its length runs past the frame; the check for a zero-byte varint never fires.\<close>

theorem malformed_response_panics:
  assumes "protowire_spec (lib E)"
  shows "(inp con = ch # rest \<and> 4 \<le> length ch \<and> take 4 ch = be32 n \<and> sint n < 0 \<longrightarrow>
            fst (readResponse E c rc con) = Panic MakeLen) \<and>
         (ConsumeVarint (lib E) bs = (v, off) \<longrightarrow>
            (is_panic (readDelimited (lib E) unmarshal bs m0) \<longleftrightarrow>
               off < 0 \<or> sint ((of_int off :: int64) + v) < off \<or>
               int (length bs) < sint ((of_int off :: int64) + v)) \<and>
            (\<forall>m. readDelimited (lib E) unmarshal bs m0 \<noteq> Ok (- 1, m)))"
proof -
  have "fst (readResponse E c rc con) = Panic MakeLen"
    if h: "inp con = ch # rest" "4 \<le> length ch" "take 4 ch = be32 n" "sint n < 0"
  proof -
    obtain con1 where "Read_array 4 con = (Ok (be32 n), con1)"
      using Read_array_full [OF h(1,2)] h(3) by auto
    moreover have "ConvertBytesToFixed (be32 n) = Ok n" using ConvertBytesToFixed_be32 [of n "[]"] by simp
    moreover have "make_bytes n = Panic MakeLen" using h(4) by (simp add: make_bytes_def)
    ultimately show ?thesis by (simp add: readResponse_def)
  qed
  moreover have "readDelimited (lib E) unmarshal bs m0 \<noteq> Ok (- 1, m)" for m
    using readDelimited_offset [OF assms, of unmarshal bs m0 "- 1" m] by linarith
  ultimately show ?thesis using readDelimited_panic_iff [OF assms] by (intro conjI impI allI) simp_all
qed

theorem malformed_response_panics_witness:
  "fst (readResponse sample_env sample_client sample_rpc (fresh_conn [[0xff, 0xff, 0xff, 0xff, 1]])) = Panic MakeLen"
proof -
  have "be32 (- 1) = [0xff, 0xff, 0xff, 0xff]" by code_simp
  then show ?thesis
    using malformed_response_panics [of sample_env "fresh_conn [[0xff, 0xff, 0xff, 0xff, 1]]" "[0xff, 0xff, 0xff, 0xff, 1]"
        "[]" "- 1" sample_client sample_rpc "[]" 0 0 "\<lambda>_. Inr ()" "()"] sample_lib_spec
    by (simp add: fresh_conn_def sample_env_def)
qed

text \<open>The error of a failed call never names the status the server sent once the server
sets an exception class, always ends with the placeholder for a missing error detail, and puts
class, message and detail one place too early.\<close>

lemma failure_details_shifted:
  "rpc_failure st h = ErrorNew (Join
     [case RpcResponseHeader_ExceptionClassName h of Some s \<Rightarrow> s | None \<Rightarrow> RpcResponseHeaderProto_RpcStatusProto_name st,
      case RpcResponseHeader_ErrorMsg h of Some s \<Rightarrow> s | None \<Rightarrow> ''ServerDidNotSetExceptionClassName'',
      case RpcResponseHeader_ErrorDetail h of
        Some d \<Rightarrow> RpcResponseHeaderProto_RpcErrorCodeProto_name d | None \<Rightarrow> ''ServerDidNotSetErrorMsg'',
      ''ServerDidNotSetErrorDetail''] '':'')"
  by (simp add: rpc_failure_def Let_def split: option.splits)

lemma on_conn_Ok_iff:
  "on_conn m s = (Ok a, s') \<longleftrightarrow> (\<exists>con. m (s_conn s) = (Ok a, con) \<and> s' = s\<lparr>s_conn := con\<rparr>)"
  by (auto simp: on_conn_def split: prod.splits)

lemma on_ugi_Ok_iff:
  "on_ugi m s = (Ok a, s') \<longleftrightarrow> (\<exists>g. m (s_ugi s) = (Ok a, g) \<and> s' = s\<lparr>s_ugi := g\<rparr>)"
  by (auto simp: on_ugi_def split: prod.splits)

lemma on_conn_ok: "m (s_conn s) = (Ok a, con) \<Longrightarrow> on_conn m s = (Ok a, s\<lparr>s_conn := con\<rparr>)"
  by (simp add: on_conn_def)

lemma negotiate_Ok:
  assumes "negotiateSimpleTokenAuth E c s = (Ok (), s')"
  shows "\<exists>con1 m1 con2 auth more.
           receiveSaslMessage E con1 = (Ok m1, con2) \<and> RpcSasl_Auths m1 = auth # more \<and>
           SaslAuth_Method auth = Some ''TOKEN'' \<and> SaslAuth_Mechanism auth = Some ''DIGEST-MD5'' \<and>
           initiateTokenAuth E c auth (s\<lparr>s_conn := con2\<rparr>) = (Ok (), s')"
proof -
  from assms obtain con1 m1 con2 where r: "receiveSaslMessage E con1 = (Ok m1, con2)"
    and rest: "(case RpcSasl_Auths m1 of
       [] \<Rightarrow> slift (Err (ErrorNew ''No supported auth mechanisms!''))
     | auth # _ \<Rightarrow>
         if \<not> (SaslAuth_GetMethod (Some auth) = ''TOKEN'' \<and> SaslAuth_GetMechanism (Some auth) = ''DIGEST-MD5'')
         then slift (Err (ErrorNew ''yarnauth only supports TOKEN/DIGEST-MD5 auth!''))
         else initiateTokenAuth E c auth) (s\<lparr>s_conn := con2\<rparr>) = (Ok (), s')"
    by (auto simp: negotiateSimpleTokenAuth_def sbind_eq_Ok_iff on_conn_Ok_iff RpcSasl_GetAuths_def)
  obtain auth more where a: "RpcSasl_Auths m1 = auth # more"
    using rest by (cases "RpcSasl_Auths m1") simp_all
  moreover from rest a have "SaslAuth_Method auth = Some ''TOKEN''" "SaslAuth_Mechanism auth = Some ''DIGEST-MD5''"
    by (auto simp: SaslAuth_GetMethod_def SaslAuth_GetMechanism_def split: if_splits option.splits)
  moreover from calculation rest have "initiateTokenAuth E c auth (s\<lparr>s_conn := con2\<rparr>) = (Ok (), s')"
    by (simp add: SaslAuth_GetMethod_def SaslAuth_GetMechanism_def)
  ultimately show ?thesis using r by blast
qed

lemma initiate_Ok:
  assumes "initiateTokenAuth E c auth s = (Ok (), s')"
  shows "\<exists>token resp con m.
           (\<exists>found. fst (findUsableTokenForService E (ServerAddress c) (s_ugi s)) = Ok (token, found)) \<and>
           GetDigestMD5ChallengeResponse (denv E) (SaslAuth_GetProtocol (Some auth)) (SaslAuth_GetServerId (Some auth))
             (case SaslAuth_Challenge auth of Some ch \<Rightarrow> ch | None \<Rightarrow> []) token = Ok resp \<and>
           receiveSaslMessage E con = (Ok m, s_conn s') \<and> RpcSasl_GetState (Some m) = RpcSaslProto_SUCCESS"
  using assms
  by (auto simp: initiateTokenAuth_def Let_def SaslAuth_GetChallenge_def sbind_eq_Ok_iff on_conn_Ok_iff on_ugi_Ok_iff
      split: if_splits) (metis fst_conv)


lemma receiveSaslMessage_ok:
  assumes "io con = []" and "inp con = be32 (of_nat (length body)) # body # rest"
    and "body = delimited hb @ delimited mb" and "length body < 2 ^ 31" and "protowire_spec (lib E)"
    and "Unmarshal_RpcResponseHeader (lib E) hb = Inr h" and "checkSaslRpcHeader h = Ok ()"
    and "RpcResponseHeader_Status h = Some RpcResponseHeaderProto_SUCCESS" and "Unmarshal_RpcSasl (lib E) mb = Inr m"
  shows "receiveSaslMessage E con = (Ok m, con\<lparr>inp := rest\<rparr>)"
proof -
  have ne: "body \<noteq> []" "be32 (of_nat (length body)) \<noteq> []" using assms(3) by (simp_all add: delimited_def be32_def)
  have r1: "Read_array 4 con = (Ok (be32 (of_nat (length body))), con\<lparr>inp := body # rest\<rparr>)"
    using assms(2) ne by (simp add: Read_array_def conn_Read_def)
  have r2: "Read_array (length body) (con\<lparr>inp := body # rest\<rparr>) = (Ok body, con\<lparr>inp := rest\<rparr>)"
    using ne by (simp add: Read_array_def conn_Read_def)
  have "make_bytes (of_nat (length body)) = Ok (length body)"
    using sint_of_nat_int32 [OF assms(4)] by (simp add: make_bytes_def)
  moreover have "readDelimited (lib E) (Unmarshal_RpcResponseHeader (lib E)) body new_RpcResponseHeaderProto =
      Ok (int (length (delimited hb)), h)"
    unfolding assms(3) by (rule readDelimited_delimited) (use assms in simp_all)
  moreover have "readDelimited (lib E) (Unmarshal_RpcSasl (lib E)) (delimited mb @ []) new_RpcSaslProto =
      Ok (int (length (delimited mb)), m)"
    by (rule readDelimited_delimited) (use assms in simp_all)
  moreover have "slice body (int (length (delimited hb))) (int (length body)) = Ok (delimited mb)"
    unfolding assms(3) by (rule slice_from)
  ultimately have "parse_sasl E body = Ok m" using assms(7,8) by (simp add: parse_sasl_def)
  then show ?thesis
    using r1 r2 \<open>make_bytes _ = _\<close> ConvertBytesToFixed_be32 [of "of_nat (length body)" "[]"]
    by (simp add: receiveSaslMessage_def SetDeadline_ok [OF assms(1)])
qed

lemma sample_spec: "protowire_spec (lib sample_env)"
  using sample_lib_spec by (simp add: sample_env_def)

lemma sample_receive:
  assumes "io con = []" and "inp con = [0, 0, 0, 6] # [2, 8, 0, 2, 5, 5] # rest"
  shows "receiveSaslMessage sample_env con = (Ok sample_sasl, con\<lparr>inp := rest\<rparr>)"
proof -
  have b: "be32 6 = [0, 0, 0, 6]" by code_simp
  show ?thesis
    by (rule receiveSaslMessage_ok [where body = "[2, 8, 0, 2, 5, 5]" and hb = "[8, 0]" and mb = "[5, 5]"
          and h = "new_RpcResponseHeaderProto\<lparr>RpcResponseHeader_Status := Some RpcResponseHeaderProto_SUCCESS\<rparr>",
          OF assms(1) _ _ _ sample_spec])
      (simp_all add: assms(2) b delimited_def varint_small sample_env_def sample_lib_def checkSaslRpcHeader_def
        new_RpcResponseHeaderProto_def)
qed

definition sample_ugi :: ugi_globals where
  "sample_ugi = \<lparr>once = True,
     currentUserGroupInformation = Some \<lparr>userInfo = None, userTokens = [(''rm:8032'', Some sample_token)]\<rparr>\<rparr>"

lemma sample_find:
  "findUsableTokenForService sample_env (ServerAddress sample_client) sample_ugi = (Ok (Some sample_token, True), sample_ugi)"
  by (simp add: findUsableTokenForService_def sample_ugi_def GetCurrentUser_def initializeCurrentUser_def
      GetUserTokens_def sample_client_def)

lemma sample_send: "io con = [] \<Longrightarrow> \<exists>bs. sendSaslMessage sample_env m con = (Ok (), con\<lparr>outp := bs\<rparr>)"
  using sendSaslMessage_ok [of con sample_env "[8, 2]" m "[16, 1]"] sample_spec
  by (auto simp: sample_env_def sample_lib_def)

lemma sample_digest:
  "\<exists>resp. GetDigestMD5ChallengeResponse (denv sample_env) ''p'' ''s'' (bytes_of sample_challenge) t = Ok resp"
proof -
  have ne: "sample_challenge \<noteq> []"
    by (simp add: sample_challenge_def print_params_def print_param_def)
  have "validateChallengeParameters [''realm'' \<mapsto> ''default'', ''nonce'' \<mapsto> ''abc'', ''qop'' \<mapsto> ''auth'',
          ''charset'' \<mapsto> ''utf-8'', ''algorithm'' \<mapsto> ''md5-sess''] = Ok ()"
    by (simp add: validate_Ok_iff valid_challenge_def)
  moreover have "rand_Read (denv sample_env) = Inr [1, 2, 3]" by (simp add: sample_env_def sample_digest_env_def)
  ultimately show ?thesis
    using ne by (simp add: GetDigestMD5ChallengeResponse_def bytes_of_def [of sample_challenge]
        string_of_bytes_of [unfolded bytes_of_def] sample_challenge_params Let_def
        generateChallengeReponse_eq)
qed

lemma sample_negotiation:
  "\<exists>s'. negotiateSimpleTokenAuth sample_env sample_client
     \<lparr>s_conn = fresh_conn [[0, 0, 0, 6], [2, 8, 0, 2, 5, 5], [0, 0, 0, 6], [2, 8, 0, 2, 5, 5]], s_ugi = sample_ugi\<rparr> = (Ok (), s')"
proof -
  let ?f = "[[0, 0, 0, 6], [2, 8, 0, 2, 5, 5]] :: byte list list"
  let ?con = "\<lambda>chunks out. (fresh_conn chunks)\<lparr>outp := out\<rparr>"
  let ?s = "\<lambda>chunks out. \<lparr>s_conn = ?con chunks out, s_ugi = sample_ugi\<rparr>"
  have send: "\<exists>out'. on_conn (sendSaslMessage sample_env m) (?s chunks out) = (Ok (), ?s chunks out')" for m chunks out
    using sample_send [of "?con chunks out" m] by (auto simp: on_conn_def fresh_conn_def)
  have recv: "on_conn (receiveSaslMessage sample_env) (?s (?f @ rest) out) = (Ok sample_sasl, ?s rest out)" for rest out
    using sample_receive [of "?con (?f @ rest) out" rest] by (simp add: on_conn_def fresh_conn_def)
  have recv1: "on_conn (receiveSaslMessage sample_env) (?s ?f out) = (Ok sample_sasl, ?s [] out)" for out
    using recv [where rest = "[]" and out = out] by (simp only: append_Nil2)
  have sample_state: "RpcSasl_State sample_sasl = Some RpcSaslProto_SUCCESS" by (simp add: sample_sasl_def)
  have find: "on_ugi (findUsableTokenForService sample_env (ServerAddress sample_client)) (?s chunks out) =
      (Ok (Some sample_token, True), ?s chunks out)" for chunks out
    by (simp add: on_ugi_def sample_find)
  obtain resp where resp: "GetDigestMD5ChallengeResponse (denv sample_env) ''p'' ''s'' (bytes_of sample_challenge)
      (Some sample_token) = Ok resp" using sample_digest by blast
  have auth: "SaslAuth_GetMethod (Some sample_auth) = ''TOKEN''" "SaslAuth_GetMechanism (Some sample_auth) = ''DIGEST-MD5''"
    "SaslAuth_GetProtocol (Some sample_auth) = ''p''" "SaslAuth_GetServerId (Some sample_auth) = ''s''"
    "SaslAuth_GetChallenge (Some sample_auth) = Some (bytes_of sample_challenge)"
    by (simp_all add: sample_auth_def SaslAuth_GetMethod_def SaslAuth_GetMechanism_def SaslAuth_GetProtocol_def
        SaslAuth_GetServerId_def SaslAuth_GetChallenge_def)
  have "\<exists>s'. initiateTokenAuth sample_env sample_client sample_auth (?s (?f @ []) out) = (Ok (), s')" for out
  proof -
    obtain out' where o: "on_conn (sendSaslMessage sample_env (new_RpcSaslProto
        \<lparr>RpcSasl_State := Some RpcSaslProto_INITIATE, RpcSasl_Token := Some (bytes_of resp),
         RpcSasl_Auths := [new_RpcSaslProto_SaslAuth
           \<lparr>SaslAuth_Method := Some ''TOKEN'', SaslAuth_Mechanism := Some ''DIGEST-MD5'',
            SaslAuth_Protocol := Some ''p'', SaslAuth_ServerId := Some ''s''\<rparr>]\<rparr>)) (?s (?f @ []) out) =
        (Ok (), ?s (?f @ []) out')" using send by blast
    show ?thesis
      unfolding initiateTokenAuth_def Let_def auth
      by (simp add: sbind_def find resp o [simplified] recv1 RpcSasl_GetState_def sample_state)
  qed
  note init = this
  obtain out where o: "on_conn (sendSaslMessage sample_env (new_RpcSaslProto\<lparr>RpcSasl_State := Some RpcSaslProto_NEGOTIATE\<rparr>))
      (?s (?f @ ?f) []) = (Ok (), ?s (?f @ ?f) out)" using send by blast
  have st: "\<lparr>s_conn = fresh_conn (?f @ ?f), s_ugi = sample_ugi\<rparr> = ?s (?f @ ?f) []" by (simp add: fresh_conn_def)
  have "negotiateSimpleTokenAuth sample_env sample_client (?s (?f @ ?f) []) =
      initiateTokenAuth sample_env sample_client sample_auth (?s (?f @ []) out)"
    unfolding negotiateSimpleTokenAuth_def
    by (simp add: sbind_def o [simplified] recv [where rest = ?f, simplified] auth RpcSasl_GetAuths_def sample_sasl_def)
  then show ?thesis using init [of out] st by simp
qed


lemma handshake_plain:
  assumes "findUsableTokenForService E (ServerAddress c) g = (Ok (None, False), g')"
    and "io con = []" and "protowire_spec (lib E)" and "ClientId c = Some clientId"
    and "Marshal_RpcRequestHeader (lib E) (request_header clientId (- 3) (- 1)) = Inr h"
    and "Marshal_IpcConnectionContext (lib E)
           \<lparr>IpcConnectionContext_UserInfo = (case CreateSimpleUGIProto (user_Current E) of Ok u \<Rightarrow> Some u | _ \<Rightarrow> None),
            IpcConnectionContext_Protocol = Some (cid_protocol cid)\<rparr> = Inr x"
    and "length h < 2 ^ 64" "length x < 2 ^ 64"
  shows "handshake E c cid \<lparr>s_conn = con, s_ugi = g\<rparr> =
         (Ok (), \<lparr>s_conn = con\<lparr>outp := outp con @ [0x68, 0x72, 0x70, 0x63, 9, 0, 0] @ frame [h, x]\<rparr>, s_ugi = g'\<rparr>)"
proof -
  let ?con1 = "con\<lparr>outp := outp con @ [0x68, 0x72, 0x70, 0x63, 9, 0, 0]\<rparr>"
  have f: "on_ugi (findUsableTokenForService E (ServerAddress c)) \<lparr>s_conn = con, s_ugi = g\<rparr> =
      (Ok (None, False), \<lparr>s_conn = con, s_ugi = g'\<rparr>)" using assms(1) by (simp add: on_ugi_def)
  have h: "on_conn (writeConnectionHeader AUTH_PROTOCOL_NONE) \<lparr>s_conn = con, s_ugi = g'\<rparr> =
      (Ok (), \<lparr>s_conn = ?con1, s_ugi = g'\<rparr>)"
    using assms(2) by (simp add: on_conn_def writeConnectionHeader_ok AUTH_PROTOCOL_NONE_def)
  have x: "on_conn (writeConnectionContext E c cid AUTH_PROTOCOL_NONE) \<lparr>s_conn = ?con1, s_ugi = g'\<rparr> =
      (Ok (), \<lparr>s_conn = ?con1\<lparr>outp := outp ?con1 @ frame [h, x]\<rparr>, s_ugi = g'\<rparr>)"
    using writeConnectionContext_ok [of ?con1, OF _ assms(3-8)] assms(2) by (simp add: on_conn_def)
  have "AUTH_PROTOCOL_NONE \<noteq> AUTH_PROTOCOL_SASL" by (simp add: AUTH_PROTOCOL_NONE_def AUTH_PROTOCOL_SASL_def)
  then show ?thesis using f h x by (simp add: handshake_def sbind_def)
qed

lemma getConnection_plain:
  assumes "dials w = Inr (TCP con) # ds" and "io con = []"
    and "handshake E c cid \<lparr>s_conn = con, s_ugi = w_ugi w\<rparr> = (Ok (), \<lparr>s_conn = con', s_ugi = g'\<rparr>)"
  shows "getConnection E c cid w = (Ok con', w\<lparr>dials := ds, w_ugi := g'\<rparr>)"
  using assms by (simp add: getConnection_def setupConnection_def net_Dial_def take_io_Nil)

lemma Call_plain:
  assumes spec: "protowire_spec (lib E)"
    and client: "ClientId c = Some clientId" "Client_Ugi c = Some ugi" "UserInformation_RealUser ugi = Some user"
    and rpc: "RequestHeader_DeclaringClassProtocolName rpc = Some protocol"
    and net: "dials w = Inr (TCP con) # ds" "io con = []" "outp con = []"
    and token: "findUsableTokenForService E (ServerAddress c) (w_ugi w) = (Ok (None, False), g')"
    and ctx: "Marshal_RpcRequestHeader (lib E) (request_header clientId (- 3) (- 1)) = Inr h0"
      "Marshal_IpcConnectionContext (lib E)
           \<lparr>IpcConnectionContext_UserInfo = (case CreateSimpleUGIProto (user_Current E) of Ok u \<Rightarrow> Some u | _ \<Rightarrow> None),
            IpcConnectionContext_Protocol = Some protocol\<rparr> = Inr x"
    and req: "Marshal_RpcRequestHeader (lib E) (request_header clientId 0 0) = Inr h"
      "Marshal_RequestHeader (lib E) rpc = Inr r" "marshal rq = Inr p"
    and small: "\<forall>b\<in>{h0, x, h, r, p}. length b < 2 ^ 64"
    and resp: "inp con = ch # rest" "4 \<le> length ch" "concat (inp con) = frame [hb, mb] @ extra"
      "length (frame [hb, mb]) < 2 ^ 31" "Unmarshal_RpcResponseHeader (lib E) hb = Inr hdr"
      "checkRpcHeader E c hdr = Ok ()" "RpcResponseHeader_Status hdr = Some RpcResponseHeaderProto_SUCCESS"
      "unmarshal mb = Inr m"
  shows "\<exists>con'. Call E c rpc rq resp0 marshal unmarshal w =
                (Ok m, w\<lparr>dials := ds, w_ugi := g', conns := conns w @ [con']\<rparr>) \<and>
           closed con' \<and> outp con' = [0x68, 0x72, 0x70, 0x63, 9, 0, 0] @ frame [h0, x] @ frame [h, r, p]"
proof -
  let ?rc = "\<lparr>callId = 0, procedure = rpc, request = rq, response = resp0, retryCount = 0,
              marshal_request = marshal, unmarshal_response = unmarshal\<rparr>"
  let ?cid = "\<lparr>cid_user = user, cid_protocol = protocol, cid_address = ServerAddress c, cid_ClientId = clientId\<rparr>"
  let ?con1 = "con\<lparr>outp := outp con @ [0x68, 0x72, 0x70, 0x63, 9, 0, 0] @ frame [h0, x]\<rparr>"
  let ?con2 = "?con1\<lparr>outp := outp ?con1 @ frame [h, r, p]\<rparr>"
  have len: "length h0 < 2 ^ 64" "length x < 2 ^ 64" "length h < 2 ^ 64" "length r < 2 ^ 64" "length p < 2 ^ 64"
    using small by blast+
  have "handshake E c ?cid \<lparr>s_conn = con, s_ugi = w_ugi w\<rparr> = (Ok (), \<lparr>s_conn = ?con1, s_ugi = g'\<rparr>)"
    by (rule handshake_plain [OF token net(2) spec client(1) ctx(1) _ len(1,2)]) (simp add: ctx(2))
  then have get: "getConnection E c ?cid w = (Ok ?con1, w\<lparr>dials := ds, w_ugi := g'\<rparr>)"
    by (rule getConnection_plain [OF net(1,2)])
  have send: "sendRequest E c ?rc ?con1 = (Ok (), ?con2)"
    by (rule sendRequest_ok [OF _ spec client(1) _ _ _ len(3-5)]) (use net req in simp_all)
  have body: "length (delimited hb @ delimited mb) < 2 ^ 31" using resp(4) by (simp add: frame_def Let_def)
  have st: "concat (inp ?con2) = be32 (of_nat (length (delimited hb @ delimited mb))) @ (delimited hb @ delimited mb) @ extra"
    using resp(3) by (simp add: frame_def Let_def)
  have "inp ?con2 = ch # rest" using resp(1) by simp
  from readResponse_stream [OF this resp(2) st sint_of_nat_int32 [OF body], of E c ?rc]
  obtain con3 where read: "readResponse E c ?rc ?con2 = (parse_response E c ?rc (delimited hb @ delimited mb), con3)"
    and o3: "outp con3 = outp ?con2" by blast
  have "parse_response E c ?rc (delimited hb @ delimited mb) = Ok m"
    by (rule parse_response_ok [OF spec body resp(5-7)]) (simp add: resp(8))
  with read have "readResponse E c ?rc ?con2 = (Ok m, con3)" by simp
  with get send have "Call E c rpc rq resp0 marshal unmarshal w =
      (Ok m, drop_conn (conn_Close con3) (w\<lparr>dials := ds, w_ugi := g'\<rparr>))"
    by (simp add: Call_def sbind_def client rpc)
  then show ?thesis using o3 net(3)
    by (intro exI [of _ "conn_Close con3"]) (simp add: drop_conn_def conn_Close_def)
qed


lemma sample_marshal:
  "Marshal_RpcRequestHeader (lib sample_env) x1 = Inr [8, 2]" "Marshal_RequestHeader (lib sample_env) x2 = Inr [10, 1, 97]"
  "Marshal_IpcConnectionContext (lib sample_env) x3 = Inr [26]"
  "Unmarshal_RpcResponseHeader (lib sample_env) [8, 0] =
     Inr (new_RpcResponseHeaderProto\<lparr>RpcResponseHeader_Status := Some RpcResponseHeaderProto_SUCCESS\<rparr>)"
  by (simp_all add: sample_env_def sample_lib_def)

lemma sample_client_sel:
  "ClientId sample_client = Some (replicate 16 7)"
  "Client_Ugi sample_client = Some (new_UserInformationProto\<lparr>UserInformation_RealUser := Some ''yarn''\<rparr>)"
  by (simp_all add: sample_client_def)

lemma sample_header_ok:
  "checkRpcHeader sample_env sample_client
     (new_RpcResponseHeaderProto\<lparr>RpcResponseHeader_Status := Some RpcResponseHeaderProto_SUCCESS\<rparr>) = Ok ()"
  by (simp add: checkRpcHeader_def sample_client_def new_RpcResponseHeaderProto_def)


lemma getConnection_conns:
  assumes "dials w = Inr (TCP con) # ds" and "\<not> closed con" and "getConnection E c cid w = (r, w')"
  shows "(\<exists>con'. r = Ok con' \<and> conns w' = conns w \<and> \<not> closed con') \<or>
         (\<not> is_ok r \<and> (\<exists>con'. conns w' = conns w @ [con'] \<and> \<not> closed con'))"
proof (cases "take_io con")
  case (Pair o1 con1)
  then have c1: "closed con1 = closed con" by (auto simp: take_io_def split: list.splits)
  show ?thesis
  proof (cases o1)
    case None
    obtain hr s where h: "handshake E c cid \<lparr>s_conn = con1, s_ugi = w_ugi w\<rparr> = (hr, s)" by (metis prod.exhaust)
    then have "closed (s_conn s) = closed con1"
      using keepsD [OF keeps_handshake h] by simp
    then show ?thesis
      using assms Pair None h c1
      by (cases hr) (auto simp: getConnection_def setupConnection_def net_Dial_def drop_conn_def)
  next
    case (Some en)
    then show ?thesis
      using assms Pair c1
      by (cases en) (auto simp: getConnection_def setupConnection_def net_Dial_def drop_conn_def)
  qed
qed



end
