(* ===== verification/Yarn_Client.thy ===== *)
theory Yarn_Client
  imports Yarn_Config Ipc
begin

text \<open>
  \<open>pkg/yarn/apis/service\<close> and \<open>pkg/yarn/client\<close>: the three RPC services, the thin clients on
  top of them, \<open>yarnClient\<close> with its resource-manager failover, and the factory. The state of
  an operation is the client and the \<open>yworld\<close> around it: the network and the results the next
  calls of \<open>uuid.NewV4\<close> give. The directory tree the factory walks is a parameter.
\<close>

section \<open>The environment of a client\<close>

record yarn_env =
  ipc :: ipc_env
  cenv :: conf_env

record yworld =
  net :: net_world
  uuids :: "(error + byte list) list"

definition on_net :: "(net_world \<Rightarrow> 'a outcome \<times> net_world) \<Rightarrow> yworld \<Rightarrow> 'a outcome \<times> yworld" where
  "on_net f w = (case f (net w) of (r, n) \<Rightarrow> (r, w\<lparr>net := n\<rparr>))"

definition uuid_NewV4 :: "yworld \<Rightarrow> byte list outcome \<times> yworld" where
  "uuid_NewV4 w = (case uuids w of
                     [] \<Rightarrow> (Err (EnvError ''rand''), w)
                   | u # us \<Rightarrow> (of_sum u, w\<lparr>uuids := us\<rparr>))"

section \<open>Services\<close>

definition APPLICATION_CLIENT_PROTOCOL :: string where
  "APPLICATION_CLIENT_PROTOCOL = ''org.apache.hadoop.yarn.api.ApplicationClientProtocolPB''"

definition HA_SERVICE_PROTOCOL :: string where
  "HA_SERVICE_PROTOCOL = ''org.apache.hadoop.ha.HAServiceProtocol''"

definition RESOURCE_MANAGER_ADMIN_PROTOCOL :: string where
  "RESOURCE_MANAGER_ADMIN_PROTOCOL = ''org.apache.hadoop.yarn.server.api.ResourceManagerAdministrationProtocolPB''"

text \<open>The names \<open>runtime.FuncForPC\<close> gives for the three callers.\<close>

definition service_func :: "string \<Rightarrow> string \<Rightarrow> string" where
  "service_func recv meth = ''github.com/koordinator-sh/yarn-copilot/pkg/yarn/apis/service.(*'' @ recv @ '').'' @ meth"

definition service_GetClusterNodes ::
  "yarn_env \<Rightarrow> Client \<Rightarrow> GetClusterNodesRequestProto \<Rightarrow> GetClusterNodesResponseProto \<Rightarrow> yworld \<Rightarrow>
   GetClusterNodesResponseProto outcome \<times> yworld" where
  "service_GetClusterNodes E c i out =
     sbind (slift (GetCalleeRPCRequestHeaderProto
       (service_func ''ApplicationClientProtocolServiceClient'' ''GetClusterNodes'') (Some APPLICATION_CLIENT_PROTOCOL))) (\<lambda>rpc.
     on_net (Call (ipc E) c rpc i out
       (Marshal_GetClusterNodesRequest (lib (ipc E))) (Unmarshal_GetClusterNodesResponse (lib (ipc E)))))"

definition service_GetServiceStatus ::
  "yarn_env \<Rightarrow> Client \<Rightarrow> GetServiceStatusRequestProto \<Rightarrow> GetServiceStatusResponseProto \<Rightarrow> yworld \<Rightarrow>
   GetServiceStatusResponseProto outcome \<times> yworld" where
  "service_GetServiceStatus E c i out =
     sbind (slift (GetCalleeRPCRequestHeaderProto
       (service_func ''HAServiceProtocolServiceClient'' ''GetServiceStatus'') (Some HA_SERVICE_PROTOCOL))) (\<lambda>rpc.
     on_net (Call (ipc E) c rpc i out
       (Marshal_GetServiceStatusRequest (lib (ipc E))) (Unmarshal_GetServiceStatusResponse (lib (ipc E)))))"

definition service_UpdateNodeResource ::
  "yarn_env \<Rightarrow> Client \<Rightarrow> UpdateNodeResourceRequestProto \<Rightarrow> UpdateNodeResourceResponseProto \<Rightarrow> yworld \<Rightarrow>
   UpdateNodeResourceResponseProto outcome \<times> yworld" where
  "service_UpdateNodeResource E c i out =
     sbind (slift (GetCalleeRPCRequestHeaderProto
       (service_func ''ResourceManagerAdministrationProtocolServiceClient'' ''UpdateNodeResource'')
       (Some RESOURCE_MANAGER_ADMIN_PROTOCOL))) (\<lambda>rpc.
     on_net (Call (ipc E) c rpc i out
       (Marshal_UpdateNodeResourceRequest (lib (ipc E))) (Unmarshal_UpdateNodeResourceResponse (lib (ipc E)))))"

definition DialApplicationClientProtocolService ::
  "yarn_env \<Rightarrow> yarn_configuration option \<Rightarrow> string option \<Rightarrow> yworld \<Rightarrow> Client outcome \<times> yworld" where
  "DialApplicationClientProtocolService E conf rmAddress =
     sbind uuid_NewV4 (\<lambda>clientId.
     sbind (slift (CreateSimpleUGIProto (user_Current (ipc E)))) (\<lambda>ugi.
     sbind (slift (case rmAddress of
                     Some a \<Rightarrow> Ok a
                   | None \<Rightarrow> obind (deref conf) GetRMAddress)) (\<lambda>serverAddress.
     sret \<lparr>ClientId = Some clientId, Client_Ugi = Some ugi, ServerAddress = serverAddress, TCPNoDelay = False\<rparr>)))"

definition DialResourceManagerAdministrationProtocolService ::
  "yarn_env \<Rightarrow> yarn_configuration option \<Rightarrow> string option \<Rightarrow> yworld \<Rightarrow> Client outcome \<times> yworld" where
  "DialResourceManagerAdministrationProtocolService E conf rmAddress =
     sbind uuid_NewV4 (\<lambda>clientId.
     sbind (slift (CreateSimpleUGIProto (user_Current (ipc E)))) (\<lambda>ugi.
     sbind (slift (case rmAddress of
                     Some a \<Rightarrow> Ok a
                   | None \<Rightarrow> obind (deref conf) GetRMAdminAddress)) (\<lambda>serverAddress.
     sret \<lparr>ClientId = Some clientId, Client_Ugi = Some ugi, ServerAddress = serverAddress, TCPNoDelay = False\<rparr>)))"

text \<open>The errors of \<open>uuid.NewV4\<close> and \<open>CreateSimpleUGIProto\<close> are discarded here: they leave nil.\<close>

definition DialHAServiceProtocolService :: "yarn_env \<Rightarrow> string \<Rightarrow> yworld \<Rightarrow> Client outcome \<times> yworld" where
  "DialHAServiceProtocolService E serverAddress w =
     (case uuid_NewV4 w of (u, w') \<Rightarrow>
        (Ok \<lparr>ClientId = (case u of Ok clientId \<Rightarrow> Some clientId | _ \<Rightarrow> None),
             Client_Ugi = (case CreateSimpleUGIProto (user_Current (ipc E)) of Ok ugi \<Rightarrow> Some ugi | _ \<Rightarrow> None),
             ServerAddress = serverAddress, TCPNoDelay = False\<rparr>, w'))"

section \<open>Thin clients\<close>

definition CreateYarnApplicationClient ::
  "yarn_env \<Rightarrow> yarn_configuration option \<Rightarrow> string option \<Rightarrow> yworld \<Rightarrow> Client outcome \<times> yworld" where
  "CreateYarnApplicationClient E conf rmAddress = DialApplicationClientProtocolService E conf rmAddress"

definition app_GetClusterNode ::
  "yarn_env \<Rightarrow> Client \<Rightarrow> GetClusterNodesRequestProto \<Rightarrow> yworld \<Rightarrow> GetClusterNodesResponseProto outcome \<times> yworld" where
  "app_GetClusterNode E c req = service_GetClusterNodes E c req new_GetClusterNodesResponseProto"

definition CreateYarnHAClient :: "yarn_env \<Rightarrow> string \<Rightarrow> yworld \<Rightarrow> Client outcome \<times> yworld" where
  "CreateYarnHAClient E rmAddress = DialHAServiceProtocolService E rmAddress"

definition ha_GetServiceStatus ::
  "yarn_env \<Rightarrow> Client \<Rightarrow> GetServiceStatusRequestProto \<Rightarrow> yworld \<Rightarrow> GetServiceStatusResponseProto outcome \<times> yworld" where
  "ha_GetServiceStatus E c req = service_GetServiceStatus E c req new_GetServiceStatusResponseProto"

definition CreateYarnAdminClient ::
  "yarn_env \<Rightarrow> yarn_configuration option \<Rightarrow> string option \<Rightarrow> yworld \<Rightarrow> Client outcome \<times> yworld" where
  "CreateYarnAdminClient E conf rmAddress = DialResourceManagerAdministrationProtocolService E conf rmAddress"

definition admin_UpdateNodeResource ::
  "yarn_env \<Rightarrow> Client \<Rightarrow> UpdateNodeResourceRequestProto \<Rightarrow> yworld \<Rightarrow> UpdateNodeResourceResponseProto outcome \<times> yworld" where
  "admin_UpdateNodeResource E c req = service_UpdateNodeResource E c req ()"

section \<open>yarnClient\<close>

record yarnClient =
  confDir :: string
  yc_conf :: "yarn_configuration option"
  haEnabled :: bool
  activeRMAdminAddress :: "string option"
  activeRMAddress :: "string option"
  clusterID :: string

definition NewYarnClient :: "string \<Rightarrow> string \<Rightarrow> yarnClient" where
  "NewYarnClient dir cluster =
     \<lparr>confDir = dir, yc_conf = None, haEnabled = False, activeRMAdminAddress = None, activeRMAddress = None,
      clusterID = cluster\<rparr>"

definition is_active :: "GetServiceStatusResponseProto \<Rightarrow> bool" where
  "is_active resp \<longleftrightarrow> GetServiceStatusResponse_State resp = Some HAServiceStateProto_ACTIVE"

text \<open>
  The loop of \<open>GetActiveRMID\<close>: an error in reading the configuration or creating the client
  ends it, a failed status request goes on with the next resource manager.
\<close>

fun active_loop ::
  "yarn_env \<Rightarrow> yarn_configuration \<Rightarrow> string list \<Rightarrow> yworld \<Rightarrow> string option outcome \<times> yworld" where
  "active_loop E conf [] w = (Ok None, w)"
| "active_loop E conf (rmID # rmIDs) w =
     (case GetRMAdminAddressByID conf rmID of
        Err err \<Rightarrow> (Err err, w)
      | Panic p \<Rightarrow> (Panic p, w)
      | Ok rmAdminAddr \<Rightarrow>
          (case CreateYarnHAClient E rmAdminAddr w of
             (Err err, w1) \<Rightarrow>
               (Err (Errorf ''create yarn %v ha client for %v failed %v'' [rmID, rmAdminAddr] [err]), w1)
           | (Panic p, w1) \<Rightarrow> (Panic p, w1)
           | (Ok haClient, w1) \<Rightarrow>
               (case ha_GetServiceStatus E haClient () w1 of
                  (Err err, w2) \<Rightarrow> active_loop E conf rmIDs w2
                | (Panic p, w2) \<Rightarrow> (Panic p, w2)
                | (Ok resp, w2) \<Rightarrow>
                    if is_active resp then (Ok (Some rmID), w2) else active_loop E conf rmIDs w2)))"

definition GetActiveRMID :: "yarn_env \<Rightarrow> yarnClient \<Rightarrow> yworld \<Rightarrow> string outcome \<times> yworld" where
  "GetActiveRMID E c =
     sbind (slift (deref (yc_conf c))) (\<lambda>conf.
     sbind (slift (GetRMs conf)) (\<lambda>rmIDs.
     sbind (active_loop E conf rmIDs) (\<lambda>found.
     case found of
       Some rmID \<Rightarrow> sret rmID
     | None \<Rightarrow> slift (Err (Errorf ''active rm not found in %v'' rmIDs [])))))"

definition Initialize :: "yarn_env \<Rightarrow> yarnClient \<times> yworld \<Rightarrow> unit outcome \<times> yarnClient \<times> yworld" where
  "Initialize E s =
     (case s of (c, w) \<Rightarrow>
      case NewYarnConfiguration (cenv E) (confDir c) (clusterID c) of
        Err err \<Rightarrow> (Err err, c, w)
      | Panic p \<Rightarrow> (Panic p, c, w)
      | Ok conf \<Rightarrow>
          (let c1 = c\<lparr>yc_conf := Some conf\<rparr>
           in case GetRMEnabledHA conf of
                Err err \<Rightarrow> (Err err, c1, w)
              | Panic p \<Rightarrow> (Panic p, c1, w)
              | Ok ha \<Rightarrow>
                  (let c2 = c1\<lparr>haEnabled := ha\<rparr>
                   in if \<not> haEnabled c2
                      then (case GetRMAdminAddress conf of
                              Err err \<Rightarrow> (Err err, c2, w)
                            | Panic p \<Rightarrow> (Panic p, c2, w)
                            | Ok rmAdminAddr \<Rightarrow>
                                (let c3 = c2\<lparr>activeRMAdminAddress := Some rmAdminAddr\<rparr>
                                 in case GetRMAddress conf of
                                      Err err \<Rightarrow> (Err err, c3, w)
                                    | Panic p \<Rightarrow> (Panic p, c3, w)
                                    | Ok rmAddr \<Rightarrow> (Ok (), c3\<lparr>activeRMAddress := Some rmAddr\<rparr>, w)))
                      else (case GetActiveRMID E c2 w of
                              (Err err, w1) \<Rightarrow> (Err err, c2, w1)
                            | (Panic p, w1) \<Rightarrow> (Panic p, c2, w1)
                            | (Ok activeRMID, w1) \<Rightarrow>
                                (case GetRMAdminAddressByID conf activeRMID of
                                   Err err \<Rightarrow> (Err err, c2, w1)
                                 | Panic p \<Rightarrow> (Panic p, c2, w1)
                                 | Ok rmAdminAddr \<Rightarrow>
                                     (let c3 = c2\<lparr>activeRMAdminAddress := Some rmAdminAddr\<rparr>
                                      in case GetRMAddressByID conf activeRMID of
                                           Err err \<Rightarrow> (Err err, c3, w1)
                                         | Panic p \<Rightarrow> (Panic p, c3, w1)
                                         | Ok rmAddress \<Rightarrow>
                                             (Ok (), c3\<lparr>activeRMAddress := Some rmAddress\<rparr>, w1)))))))"

definition yc_Close :: "yarnClient \<Rightarrow> yarnClient" where
  "yc_Close c = c\<lparr>activeRMAdminAddress := None, activeRMAddress := None\<rparr>"

definition Reinitialize :: "yarn_env \<Rightarrow> yarnClient \<times> yworld \<Rightarrow> unit outcome \<times> yarnClient \<times> yworld" where
  "Reinitialize E s = (case s of (c, w) \<Rightarrow> Initialize E (yc_Close c, w))"

definition updateNodeResource ::
  "yarn_env \<Rightarrow> UpdateNodeResourceRequestProto \<Rightarrow> yarnClient \<Rightarrow> yworld \<Rightarrow> UpdateNodeResourceResponseProto outcome \<times> yworld" where
  "updateNodeResource E req c =
     sbind (CreateYarnAdminClient E (yc_conf c) (activeRMAdminAddress c)) (\<lambda>adminClient.
     admin_UpdateNodeResource E adminClient req)"

definition getClusterNodes ::
  "yarn_env \<Rightarrow> GetClusterNodesRequestProto \<Rightarrow> yarnClient \<Rightarrow> yworld \<Rightarrow> GetClusterNodesResponseProto outcome \<times> yworld" where
  "getClusterNodes E req c =
     sbind (CreateYarnApplicationClient E (yc_conf c) (activeRMAddress c)) (\<lambda>applicationClient.
     app_GetClusterNode E applicationClient req)"

text \<open>The lazy initialisation both operations start with.\<close>

definition ensureInitialized :: "yarn_env \<Rightarrow> yarnClient \<times> yworld \<Rightarrow> unit outcome \<times> yarnClient \<times> yworld" where
  "ensureInitialized E s =
     (if activeRMAdminAddress (fst s) = None \<and> haEnabled (fst s) then Initialize E s else (Ok (), s))"

definition with_world :: "(yarnClient \<Rightarrow> yworld \<Rightarrow> 'a outcome \<times> yworld) \<Rightarrow> yarnClient \<times> yworld \<Rightarrow>
   'a outcome \<times> yarnClient \<times> yworld" where
  "with_world f s = (case s of (c, w) \<Rightarrow> case f c w of (r, w') \<Rightarrow> (r, c, w'))"

definition UpdateNodeResource ::
  "yarn_env \<Rightarrow> UpdateNodeResourceRequestProto \<Rightarrow> yarnClient \<times> yworld \<Rightarrow>
   UpdateNodeResourceResponseProto outcome \<times> yarnClient \<times> yworld" where
  "UpdateNodeResource E req = sbind (ensureInitialized E) (\<lambda>_. with_world (updateNodeResource E req))"

definition GetClusterNodes ::
  "yarn_env \<Rightarrow> GetClusterNodesRequestProto \<Rightarrow> yarnClient \<times> yworld \<Rightarrow>
   GetClusterNodesResponseProto outcome \<times> yarnClient \<times> yworld" where
  "GetClusterNodes E req = sbind (ensureInitialized E) (\<lambda>_. with_world (getClusterNodes E req))"

section \<open>The factory\<close>

text \<open>A directory tree as \<open>filepath.WalkDir\<close> visits it, entries in lexical order.\<close>

datatype dirent = FileEnt string | DirEnt string "dirent list"

definition DefaultClusterID :: string where "DefaultClusterID = ''__default_yarn_cluster__''"

definition site_suffix :: string where "site_suffix = ''.yarn-site.xml''"

fun walk_ids :: "dirent \<Rightarrow> string list" where
  "walk_ids (FileEnt name) = (if HasSuffix name site_suffix then [RemoveAll_str name site_suffix] else [])"
| "walk_ids (DirEnt name entries) = concat (map walk_ids entries)"

text \<open>
  When the root cannot be opened, the callback is called with a nil entry and dereferences it.
\<close>

definition getAllKnownClusterID :: "(string \<Rightarrow> error + dirent) \<Rightarrow> string \<Rightarrow> string list outcome" where
  "getAllKnownClusterID fs_root configDir =
     (case fs_root configDir of Inl err \<Rightarrow> Panic NilDeref | Inr root \<Rightarrow> Ok (walk_ids root))"

definition CreateYarnClientByClusterID ::
  "yarn_env \<Rightarrow> string \<Rightarrow> string \<Rightarrow> yworld \<Rightarrow> yarnClient outcome \<times> yworld" where
  "CreateYarnClientByClusterID E configDir cluster w =
     (case Initialize E (NewYarnClient configDir cluster, w) of
        (Ok _, c, w') \<Rightarrow> (Ok c, w')
      | (Err err, c, w') \<Rightarrow> (Err err, w')
      | (Panic p, c, w') \<Rightarrow> (Panic p, w'))"

definition CreateDefaultYarnClient :: "yarn_env \<Rightarrow> string \<Rightarrow> yworld \<Rightarrow> yarnClient outcome \<times> yworld" where
  "CreateDefaultYarnClient E configDir w =
     (case Initialize E (NewYarnClient configDir [], w) of
        (Ok _, c, w') \<Rightarrow> (Ok c, w')
      | (Err err, c, w') \<Rightarrow> (Err err, w')
      | (Panic p, c, w') \<Rightarrow> (Panic p, w'))"

fun create_loop ::
  "yarn_env \<Rightarrow> string \<Rightarrow> string list \<Rightarrow> (string \<times> yarnClient) list \<Rightarrow> yworld \<Rightarrow>
   (string \<times> yarnClient) list outcome \<times> yworld" where
  "create_loop E configDir [] clients w = (Ok clients, w)"
| "create_loop E configDir (cluster # ids) clients w =
     sbind (CreateYarnClientByClusterID E configDir cluster) (\<lambda>yClient.
     create_loop E configDir ids (AList.update cluster yClient clients)) w"

definition CreateAllYarnClients ::
  "yarn_env \<Rightarrow> (string \<Rightarrow> error + dirent) \<Rightarrow> string \<Rightarrow> yworld \<Rightarrow> (string \<times> yarnClient) list outcome \<times> yworld" where
  "CreateAllYarnClients E fs_root configDir =
     sbind (slift (getAllKnownClusterID fs_root configDir)) (\<lambda>ids.
     sbind (create_loop E configDir ids []) (\<lambda>clients.
     sbind (CreateDefaultYarnClient E configDir) (\<lambda>defaultClient.
     sret (AList.update DefaultClusterID defaultClient clients))))"

section \<open>Configuration reads never fail\<close>

definition conf_value :: "yarn_configuration \<Rightarrow> string \<Rightarrow> string \<Rightarrow> string" where
  "conf_value conf k d = (case Properties (yconf conf) k of Some v \<Rightarrow> v | None \<Rightarrow> d)"

lemma conf_Get_value: "conf_Get (yconf conf) k d = Ok (conf_value conf k d)"
  by (simp add: conf_Get_def conf_value_def split: option.splits)

lemmas address_values =
  GetRMAddress_def GetRMAdminAddress_def GetRMAdminAddressByID_def GetRMAddressByID_def Let_def conf_Get_value

lemma GetRMs_value: "GetRMs conf = Ok (Split (conf_value conf RM_HA_RM_IDS []) CHR '','')"
  by (simp add: GetRMs_def conf_Get_value)

section \<open>The search for the active resource manager\<close>

text \<open>Asking one resource manager for its HA state.\<close>

definition rm_status ::
  "yarn_env \<Rightarrow> yarn_configuration \<Rightarrow> string \<Rightarrow> yworld \<Rightarrow> GetServiceStatusResponseProto outcome \<times> yworld" where
  "rm_status E conf rmID =
     sbind (slift (GetRMAdminAddressByID conf rmID)) (\<lambda>rmAdminAddr.
     sbind (CreateYarnHAClient E rmAdminAddr) (\<lambda>haClient.
     ha_GetServiceStatus E haClient ()))"

lemma CreateYarnHAClient_Ok: "\<exists>c w'. CreateYarnHAClient E a w = (Ok c, w')"
  by (simp add: CreateYarnHAClient_def DialHAServiceProtocolService_def split: prod.splits)

lemma active_loop_Cons:
  "active_loop E conf (rmID # rmIDs) w =
     (case rm_status E conf rmID w of
        (Ok resp, w') \<Rightarrow> if is_active resp then (Ok (Some rmID), w') else active_loop E conf rmIDs w'
      | (Err err, w') \<Rightarrow> active_loop E conf rmIDs w'
      | (Panic p, w') \<Rightarrow> (Panic p, w'))"
proof -
  obtain a where a: "GetRMAdminAddressByID conf rmID = Ok a" by (simp add: address_values)
  obtain c w1 where c: "CreateYarnHAClient E a w = (Ok c, w1)" using CreateYarnHAClient_Ok by blast
  show ?thesis by (simp add: rm_status_def a c split: prod.splits outcome.splits)
qed

text \<open>A sequence of resource managers each of which fails to answer or answers that it is not active.\<close>

inductive none_active :: "yarn_env \<Rightarrow> yarn_configuration \<Rightarrow> string list \<Rightarrow> yworld \<Rightarrow> yworld \<Rightarrow> bool" for E conf where
  none_Nil: "none_active E conf [] w w"
| none_Err: "rm_status E conf rmID w = (Err err, w1) \<Longrightarrow> none_active E conf rmIDs w1 w2 \<Longrightarrow>
             none_active E conf (rmID # rmIDs) w w2"
| none_Standby: "rm_status E conf rmID w = (Ok resp, w1) \<Longrightarrow> \<not> is_active resp \<Longrightarrow>
                 none_active E conf rmIDs w1 w2 \<Longrightarrow> none_active E conf (rmID # rmIDs) w w2"

inductive_cases none_active_NilE: "none_active E conf [] w w'"
inductive_cases none_active_ConsE: "none_active E conf (rmID # rmIDs) w w'"

lemma active_loop_None: "active_loop E conf rmIDs w = (Ok None, w') \<longleftrightarrow> none_active E conf rmIDs w w'"
proof (induction rmIDs arbitrary: w)
  case Nil
  show ?case by (auto intro: none_Nil elim: none_active_NilE)
next
  case (Cons rmID rmIDs)
  show ?case
    by (cases "rm_status E conf rmID w"; cases "fst (rm_status E conf rmID w)")
      (auto simp: active_loop_Cons Cons.IH simp del: active_loop.simps
        intro: none_Err none_Standby elim!: none_active_ConsE split: if_splits)
qed

lemma active_loop_Some:
  "active_loop E conf rmIDs w = (Ok (Some rmID), w') \<longleftrightarrow>
   (\<exists>pre post w1 resp. rmIDs = pre @ rmID # post \<and> none_active E conf pre w w1 \<and>
      rm_status E conf rmID w1 = (Ok resp, w') \<and> is_active resp)"
proof (induction rmIDs arbitrary: w)
  case Nil
  then show ?case by simp
next
  case (Cons x xs)
  obtain r w1 where s: "rm_status E conf x w = (r, w1)" by (metis prod.exhaust)
  show ?case (is "?l = ?r")
  proof
    assume ?l
    show ?r
    proof (cases "\<exists>resp. r = Ok resp \<and> is_active resp")
      case True
      with \<open>?l\<close> s have "x = rmID" "w1 = w'" by (auto simp: active_loop_Cons simp del: active_loop.simps)
      with True s show ?thesis by (metis append_Nil none_Nil)
    next
      case False
      with \<open>?l\<close> s have "active_loop E conf xs w1 = (Ok (Some rmID), w')"
        by (cases r) (auto simp: active_loop_Cons simp del: active_loop.simps split: if_splits)
      then obtain pre post w2 resp where h: "xs = pre @ rmID # post" "none_active E conf pre w1 w2"
        "rm_status E conf rmID w2 = (Ok resp, w')" "is_active resp" using Cons.IH by blast
      from \<open>?l\<close> s False h(2) have "none_active E conf (x # pre) w w2"
        by (cases r) (auto simp: active_loop_Cons simp del: active_loop.simps intro: none_Err none_Standby)
      with h show ?thesis by (metis append_Cons)
    qed
  next
    assume ?r
    then obtain pre post w2 resp where h: "x # xs = pre @ rmID # post" "none_active E conf pre w w2"
      "rm_status E conf rmID w2 = (Ok resp, w')" "is_active resp" by blast
    show ?l
    proof (cases pre)
      case Nil
      with h have "x = rmID" "w2 = w" by (auto elim: none_active_NilE)
      with h(3,4) show ?thesis by (simp add: active_loop_Cons del: active_loop.simps)
    next
      case (Cons y pre')
      with h(1,2) have "xs = pre' @ rmID # post" "none_active E conf (x # pre') w w2" by auto
      with h(3,4) show ?thesis
        by (auto simp: active_loop_Cons Cons.IH simp del: active_loop.simps elim!: none_active_ConsE)
          (use Cons.IH in blast)+
    qed
  qed
qed

section \<open>Addresses\<close>

text \<open>The two addresses of a client are set and cleared together.\<close>

definition addresses_inv :: "yarnClient \<Rightarrow> bool" where
  "addresses_inv c \<longleftrightarrow> (activeRMAdminAddress c = None \<longleftrightarrow> activeRMAddress c = None)"

lemma Initialize_cases:
  assumes "Initialize E (c, w) = (r, c', w')"
  shows "(\<not> is_ok r \<and> activeRMAdminAddress c' = activeRMAdminAddress c \<and> activeRMAddress c' = activeRMAddress c) \<or>
         (\<exists>conf a b. r = Ok () \<and> NewYarnConfiguration (cenv E) (confDir c) (clusterID c) = Ok conf \<and>
            yc_conf c' = Some conf \<and> GetRMEnabledHA conf = Ok (haEnabled c') \<and>
            activeRMAdminAddress c' = Some a \<and> activeRMAddress c' = Some b \<and>
            (if haEnabled c'
             then \<exists>rmID. GetActiveRMID E (c\<lparr>yc_conf := Some conf, haEnabled := True\<rparr>) w = (Ok rmID, w') \<and>
                         GetRMAdminAddressByID conf rmID = Ok a \<and> GetRMAddressByID conf rmID = Ok b
             else w' = w \<and> GetRMAdminAddress conf = Ok a \<and> GetRMAddress conf = Ok b))"
proof (cases "NewYarnConfiguration (cenv E) (confDir c) (clusterID c)")
  case (Ok conf)
  show ?thesis
  proof (cases "GetRMEnabledHA conf")
    case ha: (Ok ha)
    show ?thesis
    proof (cases ha)
      case True
      obtain r1 w1 where g: "GetActiveRMID E (c\<lparr>yc_conf := Some conf, haEnabled := True\<rparr>) w = (r1, w1)" by (metis prod.exhaust)
      then show ?thesis
        using assms Ok ha True by (cases r1) (auto simp: Initialize_def Let_def address_values)
    next
      case False
      then show ?thesis using assms Ok ha by (auto simp: Initialize_def Let_def address_values)
    qed
  qed (use assms Ok in \<open>auto simp: Initialize_def Let_def\<close>)
qed (use assms in \<open>auto simp: Initialize_def\<close>)

lemma Initialize_inv: "addresses_inv c \<Longrightarrow> addresses_inv (fst (snd (Initialize E (c, w))))"
  using Initialize_cases [of E c w "fst (Initialize E (c, w))" "fst (snd (Initialize E (c, w)))" "snd (snd (Initialize E (c, w)))"]
  by (auto simp: addresses_inv_def)

lemma ensureInitialized_inv: "addresses_inv c \<Longrightarrow> addresses_inv (fst (snd (ensureInitialized E (c, w))))"
  by (simp add: ensureInitialized_def Initialize_inv)

lemma with_ensure_inv:
  assumes "addresses_inv c"
  shows "addresses_inv (fst (snd (sbind (ensureInitialized E) (\<lambda>_. with_world f) (c, w))))"
proof -
  obtain r c1 w1 where e: "ensureInitialized E (c, w) = (r, c1, w1)" by (metis prod.exhaust)
  then have "addresses_inv c1" using ensureInitialized_inv [OF assms, of E w] by simp
  then show ?thesis
    by (cases r) (simp_all add: sbind_def e with_world_def split: prod.splits)
qed

text \<open>The operations of the \<open>YarnClient\<close> interface, each in the environment and world it meets.\<close>

datatype client_op =
    OpInitialize
  | OpReinitialize
  | OpClose
  | OpUpdateNodeResource UpdateNodeResourceRequestProto
  | OpGetClusterNodes GetClusterNodesRequestProto

definition client_step :: "yarnClient \<Rightarrow> yarn_env \<times> yworld \<times> client_op \<Rightarrow> yarnClient" where
  "client_step c e =
     (case e of (E, w, op) \<Rightarrow>
        (case op of
           OpInitialize \<Rightarrow> fst (snd (Initialize E (c, w)))
         | OpReinitialize \<Rightarrow> fst (snd (Reinitialize E (c, w)))
         | OpClose \<Rightarrow> yc_Close c
         | OpUpdateNodeResource req \<Rightarrow> fst (snd (UpdateNodeResource E req (c, w)))
         | OpGetClusterNodes req \<Rightarrow> fst (snd (GetClusterNodes E req (c, w)))))"

interpretation client_addresses: invariant_machine client_step addresses_inv
proof
  fix c and e :: "yarn_env \<times> yworld \<times> client_op"
  assume inv: "addresses_inv c"
  obtain E w op where e: "e = (E, w, op)" by (cases e)
  have "addresses_inv (yc_Close c)" by (simp add: addresses_inv_def yc_Close_def)
  then show "addresses_inv (client_step c e)"
    using inv by (cases op) (simp_all add: client_step_def e Initialize_inv Reinitialize_def UpdateNodeResource_def
        GetClusterNodes_def with_ensure_inv)
qed

section \<open>A concrete cluster\<close>

text \<open>
  A configuration directory with two resource managers under HA, and a network in which the
  first one refuses the connection and the second one answers that it is active.
\<close>

definition ha_conf_env :: "string \<Rightarrow> conf_env" where
  "ha_conf_env enabled =
     \<lparr>os_Open = (\<lambda>p. Inr (Inr ''x'')),
      xml_Unmarshal = (\<lambda>d. Inr \<lparr>hconf_Properties =
        [\<lparr>prop_Name = RM_HA_ENABLED, prop_Value = enabled\<rparr>, \<lparr>prop_Name = RM_HA_RM_IDS, prop_Value = ''rm1,rm2''\<rparr>]\<rparr>)\<rparr>"

definition ha_conf :: "string \<Rightarrow> yarn_configuration" where
  "ha_conf enabled = \<lparr>yconf = \<lparr>Properties = [RM_HA_ENABLED \<mapsto> enabled, RM_HA_RM_IDS \<mapsto> ''rm1,rm2'']\<rparr>\<rparr>"

definition active_lib :: protolib where
  "active_lib = sample_lib\<lparr>Unmarshal_GetServiceStatusResponse :=
     (\<lambda>_. Inr (new_GetServiceStatusResponseProto\<lparr>GetServiceStatusResponse_State := Some HAServiceStateProto_ACTIVE\<rparr>))\<rparr>"

definition sample_yarn_env :: "string \<Rightarrow> yarn_env" where
  "sample_yarn_env enabled = \<lparr>ipc = sample_env\<lparr>lib := active_lib\<rparr>, cenv = ha_conf_env enabled\<rparr>"

definition sample_yworld :: yworld where
  "sample_yworld =
     \<lparr>net = \<lparr>dials = [Inl (EnvError ''refused''), Inr (TCP (fresh_conn [[0, 0, 0, 6, 2, 8, 0, 2, 5, 5]]))], conns = [],
             w_ugi = \<lparr>once = False, currentUserGroupInformation = None\<rparr>\<rparr>,
      uuids = [Inr (replicate 16 7), Inr (replicate 16 8)]\<rparr>"

lemma ha_conf_load: "NewYarnConfiguration (ha_conf_env enabled) dir cluster = Ok (ha_conf enabled)"
  by (simp add: NewYarnConfiguration_def NewConfigurationResources_def loadResource_def ha_conf_env_def ha_conf_def
      conf_Set_def const_simps fun_upd_twist split: if_splits)

lemma ha_conf_RMs: "GetRMs (ha_conf enabled) = Ok [''rm1'', ''rm2'']"
  by (simp add: GetRMs_value ha_conf_def conf_value_def const_simps)

lemma active_lib_spec: "protowire_spec active_lib"
  by (rule protowire_spec_sample) (simp_all add: active_lib_def sample_lib_def)

definition sample_yworld1 :: yworld where
  "sample_yworld1 = sample_yworld\<lparr>net := (net sample_yworld)\<lparr>dials := tl (dials (net sample_yworld))\<rparr>,
                                  uuids := [Inr (replicate 16 8)]\<rparr>"

lemma callee_header:
  assumes "CHR ''.'' \<notin> set (a # meth)"
  shows "\<exists>h. GetCalleeRPCRequestHeaderProto (service_func recv (a # meth)) (Some p) = Ok h \<and>
             RequestHeader_DeclaringClassProtocolName h = Some p"
proof -
  have "service_func recv (a # meth) =
      (''github.com/koordinator-sh/yarn-copilot/pkg/yarn/apis/service.(*'' @ recv @ '')'') @ CHR ''.'' # a # meth"
    by (simp add: service_func_def)
  then have "last (Split (service_func recv (a # meth)) CHR ''.'') = a # meth"
    by (simp only: last_Split [OF assms])
  then show ?thesis by (simp add: GetCalleeRPCRequestHeaderProto_def)
qed

lemmas service_header =
  callee_header [of "CHR ''G''" "''etServiceStatus''", simplified]
lemmas nodes_header =
  callee_header [of "CHR ''G''" "''etClusterNodes''", simplified]
lemmas update_header =
  callee_header [of "CHR ''U''" "''pdateNodeResource''", simplified]

lemma sample_status_rm1:
  "rm_status (sample_yarn_env enabled) conf ''rm1'' sample_yworld = (Err (EnvError ''refused''), sample_yworld1)"
proof -
  obtain h where "GetCalleeRPCRequestHeaderProto
      (service_func ''HAServiceProtocolServiceClient'' ''GetServiceStatus'') (Some HA_SERVICE_PROTOCOL) = Ok h"
    and "RequestHeader_DeclaringClassProtocolName h = Some HA_SERVICE_PROTOCOL" using service_header by blast
  then show ?thesis
    by (simp add: rm_status_def address_values CreateYarnHAClient_def DialHAServiceProtocolService_def uuid_NewV4_def
        sample_yworld_def sample_yworld1_def sbind_def sample_yarn_env_def sample_env_def CreateSimpleUGIProto_def
        ha_GetServiceStatus_def service_GetServiceStatus_def on_net_def Call_def getConnection_def setupConnection_def
        net_Dial_def)
qed

text \<open>A call over a fresh connection on which the server answers SUCCESS with the payload \<open>[5, 5]\<close>.\<close>

definition sample_codec :: "protolib \<Rightarrow> bool" where
  "sample_codec L \<longleftrightarrow> protowire_spec L \<and> Marshal_RpcRequestHeader L = (\<lambda>_. Inr [8, 2]) \<and>
     Marshal_RequestHeader L = (\<lambda>_. Inr [10, 1, 97]) \<and> Marshal_IpcConnectionContext L = (\<lambda>_. Inr [26]) \<and>
     Unmarshal_RpcResponseHeader L [8, 0] =
       Inr (new_RpcResponseHeaderProto\<lparr>RpcResponseHeader_Status := Some RpcResponseHeaderProto_SUCCESS\<rparr>)"

lemma sample_codec_active: "sample_codec active_lib"
  using active_lib_spec by (simp add: sample_codec_def active_lib_def sample_lib_def)

lemma sample_call:
  assumes "sample_codec L" and "RequestHeader_DeclaringClassProtocolName h = Some p"
    and "ClientId c = Some cid" and "Client_Ugi c = Some ugi" and "UserInformation_RealUser ugi = Some user"
    and "dials w = Inr (TCP (fresh_conn [[0, 0, 0, 6, 2, 8, 0, 2, 5, 5]])) # ds"
    and "w_ugi w = \<lparr>once = False, currentUserGroupInformation = None\<rparr>"
    and "marshal rq = Inr []" and "unmarshal [5, 5] = Inr m"
  shows "\<exists>w'. Call (sample_env\<lparr>lib := L\<rparr>) c h rq r0 marshal unmarshal w = (Ok m, w')"
proof -
  let ?E = "sample_env\<lparr>lib := L\<rparr>"
  let ?hdr = "new_RpcResponseHeaderProto\<lparr>RpcResponseHeader_Status := Some RpcResponseHeaderProto_SUCCESS\<rparr>"
  let ?con = "fresh_conn [[0, 0, 0, 6, 2, 8, 0, 2, 5, 5]]"
  let ?g = "\<lparr>once = True, currentUserGroupInformation = Some (Allocate (Inr ''yarn'') None None)\<rparr>"
  have b: "be32 6 = [0, 0, 0, 6]" by code_simp
  have f: "frame [[8, 0], [5, 5]] = [0, 0, 0, 6, 2, 8, 0, 2, 5, 5]"
    by (simp add: frame_def Let_def delimited_def varint_small b)
  have find: "findUsableTokenForService ?E (ServerAddress c) (w_ugi w) = (Ok (None, False), ?g)"
    using assms(7) by (simp add: findUsableTokenForService_def GetCurrentUser_def initializeCurrentUser_def Allocate_def
        GetUserTokens_def sample_env_def Let_def)
  have "\<exists>con'. Call ?E c h rq r0 marshal unmarshal w =
      (Ok m, w\<lparr>dials := ds, w_ugi := ?g, conns := conns w @ [con']\<rparr>) \<and>
      closed con' \<and> outp con' = [0x68, 0x72, 0x70, 0x63, 9, 0, 0] @ frame [[8, 2], [26]] @ frame [[8, 2], [10, 1, 97], []]"
    by (rule Call_plain [where con = ?con and ch = "[0, 0, 0, 6, 2, 8, 0, 2, 5, 5]" and rest = "[]" and hb = "[8, 0]"
          and mb = "[5, 5]" and extra = "[]" and hdr = ?hdr, OF _ assms(3,4,5,2,6) _ _ find])
      (use assms(1) in \<open>simp_all add: f sample_codec_def fresh_conn_def checkRpcHeader_def assms
        new_RpcResponseHeaderProto_def\<close>)
  then show ?thesis by blast
qed

lemma sample_status_active:
  "\<exists>w resp. rm_status (sample_yarn_env enabled) conf rm sample_yworld1 = (Ok resp, w) \<and> is_active resp"
proof -
  let ?m = "new_GetServiceStatusResponseProto\<lparr>GetServiceStatusResponse_State := Some HAServiceStateProto_ACTIVE\<rparr>"
  obtain h where h: "GetCalleeRPCRequestHeaderProto
      (service_func ''HAServiceProtocolServiceClient'' ''GetServiceStatus'') (Some HA_SERVICE_PROTOCOL) = Ok h"
    and p: "RequestHeader_DeclaringClassProtocolName h = Some HA_SERVICE_PROTOCOL" using service_header by blast
  define c where "c = \<lparr>ClientId = Some (replicate 16 8),
      Client_Ugi = Some \<lparr>UserInformation_EffectiveUser = None, UserInformation_RealUser = Some ''yarn''\<rparr>,
      ServerAddress = conf_value conf (RM_ADMIN_ADDRESS @ ''.'' @ rm) DEFAULT_RM_ADMIN_ADDRESS, TCPNoDelay = False\<rparr>"
  have "\<exists>w'. Call (sample_env\<lparr>lib := active_lib\<rparr>) c h () new_GetServiceStatusResponseProto
      (Marshal_GetServiceStatusRequest active_lib) (Unmarshal_GetServiceStatusResponse active_lib) (net sample_yworld1) = (Ok ?m, w')"
    by (rule sample_call [where user = "''yarn''"
          and ugi = "\<lparr>UserInformation_EffectiveUser = None, UserInformation_RealUser = Some ''yarn''\<rparr>", OF sample_codec_active p])
      (simp_all add: c_def sample_yworld1_def sample_yworld_def active_lib_def sample_lib_def)
  moreover have "CreateYarnHAClient (sample_yarn_env enabled)
      (conf_value conf (RM_ADMIN_ADDRESS @ ''.'' @ rm) DEFAULT_RM_ADMIN_ADDRESS) sample_yworld1 = (Ok c, sample_yworld1\<lparr>uuids := []\<rparr>)"
    by (simp add: CreateYarnHAClient_def DialHAServiceProtocolService_def uuid_NewV4_def sample_yworld1_def c_def
        sample_yarn_env_def sample_env_def CreateSimpleUGIProto_def)
  ultimately show ?thesis using h
    by (auto simp: rm_status_def address_values ha_GetServiceStatus_def service_GetServiceStatus_def on_net_def sbind_def
        sample_yarn_env_def is_active_def)
qed

section \<open>The factory's map\<close>

lemma Initialize_frame:
  "Initialize E (c, w) = (r, c', w') \<Longrightarrow> confDir c' = confDir c \<and> clusterID c' = clusterID c"
  by (auto simp: Initialize_def Let_def split: prod.splits outcome.splits if_splits)

definition client_ready :: "string \<Rightarrow> string \<Rightarrow> yarnClient \<Rightarrow> bool" where
  "client_ready dir cluster c \<longleftrightarrow>
     confDir c = dir \<and> clusterID c = cluster \<and> activeRMAdminAddress c \<noteq> None \<and> activeRMAddress c \<noteq> None"

lemma Initialize_ready:
  assumes "Initialize E (NewYarnClient dir cluster, w) = (Ok u, c, w')"
  shows "client_ready dir cluster c"
  using Initialize_cases [OF assms] Initialize_frame [OF assms]
  by (auto simp: client_ready_def NewYarnClient_def)

lemma CreateYarnClientByClusterID_ready:
  "CreateYarnClientByClusterID E dir cluster w = (Ok c, w') \<Longrightarrow> client_ready dir cluster c"
  by (auto simp: CreateYarnClientByClusterID_def intro: Initialize_ready split: prod.splits outcome.splits)

lemma CreateDefaultYarnClient_ready:
  "CreateDefaultYarnClient E dir w = (Ok c, w') \<Longrightarrow> client_ready dir [] c"
  by (auto simp: CreateDefaultYarnClient_def intro: Initialize_ready split: prod.splits outcome.splits)

lemma create_loop_keys:
  assumes "create_loop E dir ids clients w = (Ok clients', w')" and "distinct (map fst clients)"
    and "\<forall>(k, c)\<in>set clients. client_ready dir k c"
  shows "distinct (map fst clients') \<and> fst ` set clients' = fst ` set clients \<union> set ids \<and>
         (\<forall>(k, c)\<in>set clients'. client_ready dir k c)"
  using assms
proof (induction ids arbitrary: clients w)
  case Nil
  then show ?case by simp
next
  case (Cons i ids)
  from Cons.prems(1) obtain c w1 where c: "CreateYarnClientByClusterID E dir i w = (Ok c, w1)"
    and l: "create_loop E dir ids (AList.update i c clients) w1 = (Ok clients', w')"
    by (auto simp: sbind_eq_Ok_iff)
  have "\<forall>(k, c)\<in>set (AList.update i c clients). client_ready dir k c"
  proof (clarify)
    fix k d
    assume "(k, d) \<in> set (AList.update i c clients)"
    moreover have "distinct (map fst (AList.update i c clients))" using Cons.prems(2) by (rule distinct_update)
    ultimately have "map_of (AList.update i c clients) k = Some d" by (metis map_of_is_SomeI)
    then have "k = i \<and> d = c \<or> map_of clients k = Some d"
      by (auto simp: update_conv' split: if_splits)
    then show "client_ready dir k d"
      using CreateYarnClientByClusterID_ready [OF c] Cons.prems(3) by (auto dest: map_of_SomeD)
  qed
  from Cons.IH [OF l distinct_update [OF Cons.prems(2)] this] show ?case
    by (auto simp: dom_map_of_conv_image_fst [symmetric] update_conv')
qed

section \<open>Properties\<close>

text \<open>C11. With HA the client settles on the first resource manager, in the order of the
configuration, that answers ACTIVE: those before it failed to answer or answered another
state, and those after it are never asked.\<close>

theorem GetActiveRMID_first_active:
  assumes "yc_conf c = Some conf" and "GetRMs conf = Ok rmIDs"
  shows "GetActiveRMID E c w = (Ok rmID, w') \<longleftrightarrow>
         (\<exists>pre post w1 resp. rmIDs = pre @ rmID # post \<and> none_active E conf pre w w1 \<and>
            rm_status E conf rmID w1 = (Ok resp, w') \<and>
            GetServiceStatusResponse_State resp = Some HAServiceStateProto_ACTIVE)"
proof -
  have "GetActiveRMID E c w = (Ok rmID, w') \<longleftrightarrow> active_loop E conf rmIDs w = (Ok (Some rmID), w')"
    using assms by (auto simp: GetActiveRMID_def sbind_def split: prod.splits outcome.splits option.splits)
  then show ?thesis by (simp add: active_loop_Some is_active_def)
qed

theorem GetActiveRMID_first_active_witness:
  "\<exists>w'. GetActiveRMID (sample_yarn_env ''true'') ((NewYarnClient ''d'' '''')\<lparr>yc_conf := Some (ha_conf ''true'')\<rparr>)
          sample_yworld = (Ok ''rm2'', w')"
proof -
  obtain w resp where s: "rm_status (sample_yarn_env ''true'') (ha_conf ''true'') ''rm2'' sample_yworld1 = (Ok resp, w)"
    and a: "is_active resp" using sample_status_active by blast
  have n: "none_active (sample_yarn_env ''true'') (ha_conf ''true'') [''rm1''] sample_yworld sample_yworld1"
    by (rule none_Err [OF sample_status_rm1 none_Nil])
  have "yc_conf ((NewYarnClient ''d'' '''')\<lparr>yc_conf := Some (ha_conf ''true'')\<rparr>) = Some (ha_conf ''true'')"
    by simp
  from GetActiveRMID_first_active [OF this ha_conf_RMs, of "sample_yarn_env ''true''" sample_yworld "''rm2''" w]
  show ?thesis using s a n unfolding is_active_def by (metis append_Cons append_Nil)
qed

text \<open>C27. A successful initialisation leaves the client with both addresses of one resource
manager: without HA the two configured addresses, and no network traffic at all, with HA the
two addresses configured for the active resource manager. A failed one changes neither
address.\<close>

theorem Initialize_addresses:
  assumes "Initialize E (c, w) = (r, c', w')"
  shows "(r \<noteq> Ok () \<longrightarrow> activeRMAdminAddress c' = activeRMAdminAddress c \<and> activeRMAddress c' = activeRMAddress c) \<and>
         (r = Ok () \<longrightarrow>
            (\<exists>conf. NewYarnConfiguration (cenv E) (confDir c) (clusterID c) = Ok conf \<and> yc_conf c' = Some conf \<and>
               GetRMEnabledHA conf = Ok (haEnabled c') \<and>
               (if haEnabled c'
                then \<exists>rmID a b. GetActiveRMID E (c\<lparr>yc_conf := Some conf, haEnabled := True\<rparr>) w = (Ok rmID, w') \<and>
                       GetRMAdminAddressByID conf rmID = Ok a \<and> GetRMAddressByID conf rmID = Ok b \<and>
                       activeRMAdminAddress c' = Some a \<and> activeRMAddress c' = Some b
                else w' = w \<and> (\<exists>a b. GetRMAdminAddress conf = Ok a \<and> GetRMAddress conf = Ok b \<and>
                       activeRMAdminAddress c' = Some a \<and> activeRMAddress c' = Some b))))"
  using Initialize_cases [OF assms] by (auto simp: is_ok_iff split: if_splits)

theorem Initialize_addresses_witness:
  "Initialize (sample_yarn_env ''false'') (NewYarnClient ''d'' '''', sample_yworld) =
     (Ok (), (NewYarnClient ''d'' '''')\<lparr>yc_conf := Some (ha_conf ''false''),
        activeRMAdminAddress := Some ''0.0.0.0:8033'', activeRMAddress := Some ''0.0.0.0:8032''\<rparr>, sample_yworld)"
proof -
  obtain r c' w' where i: "Initialize (sample_yarn_env ''false'') (NewYarnClient ''d'' '''', sample_yworld) = (r, c', w')"
    by (metis prod.exhaust)
  have ha: "GetRMEnabledHA (ha_conf ''false'') = Ok False"
    by (simp add: GetRMEnabledHA_def conf_GetBool_def ha_conf_def ParseBool_def const_simps)
  have addr: "GetRMAdminAddress (ha_conf ''false'') = Ok ''0.0.0.0:8033''" "GetRMAddress (ha_conf ''false'') = Ok ''0.0.0.0:8032''"
    by (simp_all add: address_values ha_conf_def conf_Get_def const_simps)
  have r: "r = Ok ()" "c' = (NewYarnClient ''d'' '''')\<lparr>yc_conf := Some (ha_conf ''false''), haEnabled := False,
      activeRMAdminAddress := Some ''0.0.0.0:8033'', activeRMAddress := Some ''0.0.0.0:8032''\<rparr>"
    using i ha addr by (simp_all add: Initialize_def ha_conf_load sample_yarn_env_def Let_def NewYarnClient_def)
  then show ?thesis
    using Initialize_addresses [OF i] i ha ha_conf_load by (simp add: sample_yarn_env_def NewYarnClient_def)
qed

text \<open>Through any sequence of operations, in whatever environments they meet, a client
has either both resource-manager addresses or neither, so testing one of them before using the
other is enough.\<close>

lemma client_addresses_together:
  assumes "c = foldl client_step (NewYarnClient dir cluster) ops"
  shows "activeRMAdminAddress c = None \<longleftrightarrow> activeRMAddress c = None"
proof -
  have "addresses_inv (NewYarnClient dir cluster)" by (simp add: addresses_inv_def NewYarnClient_def)
  from client_addresses.run_inv [OF this] assms show ?thesis by (simp add: addresses_inv_def)
qed

lemma client_addresses_together_instance:
  "activeRMAddress (foldl client_step (NewYarnClient ''d'' '''')
     [(sample_yarn_env ''false'', sample_yworld, OpInitialize), (sample_yarn_env ''false'', sample_yworld, OpClose)]) = None"
  using client_addresses_together [OF refl, of "''d''" "''''"
      "[(sample_yarn_env ''false'', sample_yworld, OpInitialize), (sample_yarn_env ''false'', sample_yworld, OpClose)]"]
  by (simp add: client_step_def yc_Close_def)

text \<open>Asking for the HA state of a resource manager panics when the user or the client id
cannot be determined, because the dialler drops both errors; with HA enabled and at least one
resource manager configured the panic reaches the search for the active one.\<close>

lemma ha_dial_errors_panic:
  assumes "(\<exists>e. user_Current (ipc E) = Inl e) \<or> (\<exists>e us. uuids w = Inl e # us)"
    and "yc_conf c = Some conf" and "GetRMs conf = Ok (rmID # rmIDs)"
  shows "fst (rm_status E conf rmID w) = Panic NilDeref \<and> fst (GetActiveRMID E c w) = Panic NilDeref"
proof -
  obtain h where "GetCalleeRPCRequestHeaderProto
      (service_func ''HAServiceProtocolServiceClient'' ''GetServiceStatus'') (Some HA_SERVICE_PROTOCOL) = Ok h"
    and "RequestHeader_DeclaringClassProtocolName h = Some HA_SERVICE_PROTOCOL" using service_header by blast
  then have p: "fst (rm_status E conf rmID w) = Panic NilDeref"
    using assms(1)
    by (auto simp: rm_status_def address_values CreateYarnHAClient_def DialHAServiceProtocolService_def uuid_NewV4_def
        sbind_def CreateSimpleUGIProto_def ha_GetServiceStatus_def service_GetServiceStatus_def on_net_def Call_def
        split: prod.splits list.splits sum.splits)
  then obtain w1 where "rm_status E conf rmID w = (Panic NilDeref, w1)" by (metis prod.collapse)
  then have "active_loop E conf (rmID # rmIDs) w = (Panic NilDeref, w1)"
    by (simp add: active_loop_Cons del: active_loop.simps)
  with p assms(2,3) show ?thesis by (simp add: GetActiveRMID_def sbind_def del: active_loop.simps)
qed

lemma ha_dial_errors_panic_instance:
  "fst (GetActiveRMID (sample_yarn_env ''true'') ((NewYarnClient ''d'' '''')\<lparr>yc_conf := Some (ha_conf ''true'')\<rparr>)
     (sample_yworld\<lparr>uuids := [Inl (EnvError ''rand'')]\<rparr>)) = Panic NilDeref"
  using ha_dial_errors_panic [of "sample_yarn_env ''true''" "sample_yworld\<lparr>uuids := [Inl (EnvError ''rand'')]\<rparr>"
      "(NewYarnClient ''d'' '''')\<lparr>yc_conf := Some (ha_conf ''true'')\<rparr>" "ha_conf ''true''" "''rm1''" "[''rm2'']"]
    ha_conf_RMs by simp



end
