(* ===== verification/Nodes_Cache.thy ===== *)
theory Nodes_Cache
  imports Yarn_Client
begin

text \<open>
  \<open>pkg/yarn/cache\<close>: the cache of the node reports of all YARN clusters. The client map is
  shared with the reconciler, so it is part of the state a synchronisation works on, beside the
  network; Go's maps are association lists without repeated keys, and the order in which a map
  is traversed is an argument, since Go leaves it open. The goroutine of \<open>Start\<close> is a machine
  whose events are its two tickers and the end of its context.
\<close>

section \<open>Data\<close>

record YarnNode =
  yn_Name :: string
  yn_Port :: int32
  yn_ClusterID :: string

type_synonym cluster_cache = "(string \<times> NodeReportProto) list"

record NodesSyncer =
  ns_started :: bool
  ns_cache :: "(string \<times> cluster_cache) list"

record sync_state =
  ss_clients :: "(string \<times> yarnClient) list"
  ss_world :: yworld

definition NewNodesSyncer :: NodesSyncer where
  "NewNodesSyncer = \<lparr>ns_started = False, ns_cache = []\<rparr>"

section \<open>Operations\<close>

definition getKey :: "string \<Rightarrow> int32 \<Rightarrow> string" where
  "getKey yarnNodeName yarnNodePort = yarnNodeName @ ''-'' @ Itoa (sint yarnNodePort)"

definition GetNodeResource :: "NodesSyncer \<Rightarrow> YarnNode option \<Rightarrow> NodeReportProto option" where
  "GetNodeResource r yarnNode =
     (case yarnNode of
        None \<Rightarrow> None
      | Some yn \<Rightarrow>
          (case map_of (ns_cache r) (yn_ClusterID yn) of
             None \<Rightarrow> None
           | Some clusterCache \<Rightarrow> map_of clusterCache (getKey (yn_Name yn) (yn_Port yn))))"

definition Started :: "NodesSyncer \<Rightarrow> bool" where
  "Started r = ns_started r"

text \<open>One report of a response: a nil node id is dereferenced, a nil host or port is skipped.\<close>

definition cache_report :: "NodeReportProto \<Rightarrow> cluster_cache \<Rightarrow> cluster_cache outcome" where
  "cache_report reportProto clusterCache =
     obind (deref (NodeReport_NodeId reportProto)) (\<lambda>nodeId.
     case (NodeId_Host nodeId, NodeId_Port nodeId) of
       (Some host, Some port) \<Rightarrow> Ok (AList.update (getKey host port) reportProto clusterCache)
     | _ \<Rightarrow> Ok clusterCache)"

definition running_nodes :: GetClusterNodesRequestProto where
  "running_nodes = \<lparr>GetClusterNodesRequest_NodeStates = [NodeStateProto_NS_RUNNING]\<rparr>"

fun sync_loop ::
  "yarn_env \<Rightarrow> string list \<Rightarrow> (string \<times> cluster_cache) list \<Rightarrow> sync_state \<Rightarrow>
   (string \<times> cluster_cache) list outcome \<times> sync_state" where
  "sync_loop E [] res s = (Ok res, s)"
| "sync_loop E (cluster # ids) res s =
     (case map_of (ss_clients s) cluster of
        None \<Rightarrow> sync_loop E ids res s
      | Some yarnClient \<Rightarrow>
          (case GetClusterNodes E running_nodes (yarnClient, ss_world s) of
             (Ok nodes, c, w) \<Rightarrow>
               (let s' = \<lparr>ss_clients = AList.update cluster c (ss_clients s), ss_world = w\<rparr>
                in case ofold cache_report (GetClusterNodesResponse_GetNodeReports (Some nodes)) [] of
                     Ok clusterCache \<Rightarrow> sync_loop E ids (AList.update cluster clusterCache res) s'
                   | Err err \<Rightarrow> (Err err, s')
                   | Panic p \<Rightarrow> (Panic p, s'))
           | (Err err, c, w) \<Rightarrow>
               (case Reinitialize E (c, w) of
                  (initErr, c', w') \<Rightarrow>
                    ((case initErr of
                        Panic p \<Rightarrow> Panic p
                      | Ok _ \<Rightarrow> Err (Errorf ''GetClusterNodes error %v, reinitialize error %v'' [] [err])
                      | Err e \<Rightarrow> Err (Errorf ''GetClusterNodes error %v, reinitialize error %v'' [] [err, e])),
                     \<lparr>ss_clients = AList.update cluster c' (ss_clients s), ss_world = w'\<rparr>))
           | (Panic p, c, w) \<Rightarrow>
               (Panic p, \<lparr>ss_clients = AList.update cluster c (ss_clients s), ss_world = w\<rparr>)))"

definition syncYARNNodeAllocatedResource ::
  "yarn_env \<Rightarrow> string list \<Rightarrow> NodesSyncer \<Rightarrow> sync_state \<Rightarrow> unit outcome \<times> NodesSyncer \<times> sync_state" where
  "syncYARNNodeAllocatedResource E order r s =
     (case sync_loop E order [] s of
        (Ok res, s') \<Rightarrow> (Ok (), r\<lparr>ns_cache := res\<rparr>, s')
      | (Err err, s') \<Rightarrow> (Err err, r, s')
      | (Panic p, s') \<Rightarrow> (Panic p, r, s'))"

definition GetYarnNodeInfo :: "NodesSyncer \<Rightarrow> (string \<times> NodeReportProto list) list" where
  "GetYarnNodeInfo r = map (\<lambda>(clusterID, clusterCache). (clusterID, map snd clusterCache)) (ns_cache r)"

text \<open>\<open>debug\<close> dereferences all four amounts of every cached report.\<close>

definition debug_line :: "string \<Rightarrow> string \<times> NodeReportProto \<Rightarrow> (string \<times> string \<times> int32 \<times> int64 \<times> int32 \<times> int64) outcome" where
  "debug_line cluster kv =
     (case kv of (key, val) \<Rightarrow>
        obind (deref (NodeReport_Used val)) (\<lambda>used.
        obind (deref (Resource_VirtualCores used)) (\<lambda>uc.
        obind (deref (Resource_Memory used)) (\<lambda>um.
        obind (deref (NodeReport_Capability val)) (\<lambda>cap.
        obind (deref (Resource_VirtualCores cap)) (\<lambda>cc.
        obind (deref (Resource_Memory cap)) (\<lambda>cm.
        Ok (cluster, key, uc, um, cc, cm))))))))"

definition debug_cache :: "NodesSyncer \<Rightarrow> unit outcome" where
  "debug_cache r =
     ofold (\<lambda>(cluster, clusterCache) _.
       ofold (\<lambda>kv _. obind (debug_line cluster kv) (\<lambda>_. Ok ())) clusterCache ()) (ns_cache r) ()"

section \<open>The goroutine of Start\<close>

datatype sync_event = Tick yarn_env "string list" | DebugTick | ContextDone

datatype run_state = Running | Stopped | Crashed panic

record loop_state =
  ls_syncer :: NodesSyncer
  ls_state :: sync_state
  ls_run :: run_state

definition Start_step :: "loop_state \<Rightarrow> sync_event \<Rightarrow> loop_state" where
  "Start_step l e =
     (if ls_run l \<noteq> Running then l
      else case e of
        Tick E order \<Rightarrow>
          (case syncYARNNodeAllocatedResource E order (ls_syncer l) (ls_state l) of
             (Ok _, r, s) \<Rightarrow> l\<lparr>ls_syncer := r\<lparr>ns_started := True\<rparr>, ls_state := s\<rparr>
           | (Err err, r, s) \<Rightarrow> l\<lparr>ls_syncer := r, ls_state := s\<rparr>
           | (Panic p, r, s) \<Rightarrow> l\<lparr>ls_syncer := r, ls_state := s, ls_run := Crashed p\<rparr>)
      | DebugTick \<Rightarrow> (case debug_cache (ls_syncer l) of Panic p \<Rightarrow> l\<lparr>ls_run := Crashed p\<rparr> | _ \<Rightarrow> l)
      | ContextDone \<Rightarrow> l\<lparr>ls_run := Stopped\<rparr>)"

section \<open>Keys\<close>

lemma dash_notin_digits: "0 \<le> n \<Longrightarrow> CHR ''-'' \<notin> set (Itoa n)"
  using Itoa_nonneg_digits [of n "CHR ''-''"] by (auto simp: is_digit_def)

lemma append_sep_inject:
  assumes "xs @ c # ys = xs' @ c # ys'" and "c \<notin> set ys" and "c \<notin> set ys'"
  shows "xs = xs' \<and> ys = ys'"
  using assms
proof (induction xs arbitrary: xs')
  case Nil
  then show ?case by (cases xs') auto
next
  case (Cons x xs)
  then show ?case by (cases xs') auto
qed

lemma Itoa_int32_inject:
  fixes p q :: int32
  assumes "Itoa (sint p) = Itoa (sint q)"
  shows "p = q"
proof -
  have "sint p = sint q"
    using decimal.print_inject [of "sint p" "sint q"] assms sint_int32_range [of p] sint_int32_range [of q] by simp
  from arg_cong [OF this, of "of_int :: int \<Rightarrow> int32"] show ?thesis by simp
qed

lemma getKey_inject:
  assumes "getKey h p = getKey h' p'" and "0 \<le> sint p" and "0 \<le> sint p'"
  shows "h = h' \<and> p = p'"
proof -
  have "h @ CHR ''-'' # Itoa (sint p) = h' @ CHR ''-'' # Itoa (sint p')" using assms(1) by (simp add: getKey_def)
  then have "h = h' \<and> Itoa (sint p) = Itoa (sint p')"
    by (rule append_sep_inject) (simp_all add: dash_notin_digits assms)
  then show ?thesis using Itoa_int32_inject by blast
qed

section \<open>Well-formed caches\<close>

definition report_at :: "string \<Rightarrow> int32 \<Rightarrow> NodeReportProto \<Rightarrow> bool" where
  "report_at host port rep \<longleftrightarrow>
     (\<exists>nid. NodeReport_NodeId rep = Some nid \<and> NodeId_Host nid = Some host \<and> NodeId_Port nid = Some port)"

definition cluster_inv :: "cluster_cache \<Rightarrow> bool" where
  "cluster_inv cc \<longleftrightarrow>
     distinct (map fst cc) \<and> (\<forall>k rep. map_of cc k = Some rep \<longrightarrow> (\<exists>h p. report_at h p rep \<and> k = getKey h p))"

definition cache_inv :: "NodesSyncer \<Rightarrow> bool" where
  "cache_inv r \<longleftrightarrow>
     distinct (map fst (ns_cache r)) \<and> (\<forall>i cc. map_of (ns_cache r) i = Some cc \<longrightarrow> cluster_inv cc)"

lemma cache_report_inv:
  assumes "cache_report rep cc = Ok cc'" and "cluster_inv cc"
  shows "cluster_inv cc'"
proof -
  obtain nid where nid: "NodeReport_NodeId rep = Some nid"
    using assms(1) by (cases "NodeReport_NodeId rep") (simp_all add: cache_report_def)
  show ?thesis
  proof (cases "\<exists>h p. NodeId_Host nid = Some h \<and> NodeId_Port nid = Some p")
    case True
    then obtain h p where hp: "NodeId_Host nid = Some h" "NodeId_Port nid = Some p" by blast
    then have "cc' = AList.update (getKey h p) rep cc" using assms(1) nid by (simp add: cache_report_def)
    moreover have "report_at h p rep" using nid hp by (simp add: report_at_def)
    ultimately show ?thesis
      using assms(2) by (auto simp: cluster_inv_def distinct_update update_conv')
  next
    case False
    then have "cc' = cc" using assms(1) nid by (auto simp: cache_report_def split: option.splits)
    then show ?thesis using assms(2) by simp
  qed
qed

lemma ofold_inv:
  assumes "\<And>x s s'. f x s = Ok s' \<Longrightarrow> I s \<Longrightarrow> I s'" and "ofold f xs s = Ok s'" and "I s"
  shows "I s'"
  using assms(2,3)
proof (induction xs arbitrary: s)
  case (Cons x xs)
  then show ?case using assms(1) by (auto simp: obind_eq_Ok_iff)
qed simp

lemma sync_loop_Cons_Ok:
  assumes "sync_loop E (i # order) res s = (Ok res', s')"
  shows "(map_of (ss_clients s) i = None \<and> sync_loop E order res s = (Ok res', s')) \<or>
         (\<exists>c nodes c' w cc. map_of (ss_clients s) i = Some c \<and>
            GetClusterNodes E running_nodes (c, ss_world s) = (Ok nodes, c', w) \<and>
            ofold cache_report (GetClusterNodesResponse_GetNodeReports (Some nodes)) [] = Ok cc \<and>
            sync_loop E order (AList.update i cc res)
              \<lparr>ss_clients = AList.update i c' (ss_clients s), ss_world = w\<rparr> = (Ok res', s'))"
proof (cases "map_of (ss_clients s) i")
  case None
  then show ?thesis using assms by simp
next
  case (Some c)
  obtain r c' w where g: "GetClusterNodes E running_nodes (c, ss_world s) = (r, c', w)" by (metis prod.exhaust)
  show ?thesis
  proof (cases r)
    case (Ok nodes)
    then show ?thesis
      using assms Some g
      by (cases "ofold cache_report (GetClusterNodesResponse_GetNodeReports (Some nodes)) []") (simp_all add: Let_def)
  next
    case (Err err)
    obtain ir c2 w2 where "Reinitialize E (c', w) = (ir, c2, w2)" by (metis prod.exhaust)
    then show ?thesis using assms Some g Err by (cases ir) simp_all
  next
    case (Panic p)
    then show ?thesis using assms Some g by simp
  qed
qed

lemma sync_loop_inv:
  assumes "sync_loop E order res s = (Ok res', s')" and "distinct (map fst res)"
    and "\<forall>i cc. map_of res i = Some cc \<longrightarrow> cluster_inv cc"
  shows "distinct (map fst res') \<and> (\<forall>i cc. map_of res' i = Some cc \<longrightarrow> cluster_inv cc)"
  using assms
proof (induction order arbitrary: res s)
  case Nil
  then show ?case by simp
next
  case (Cons i order)
  from sync_loop_Cons_Ok [OF Cons.prems(1)] show ?case
  proof (elim disjE conjE exE)
    assume "sync_loop E order res s = (Ok res', s')"
    then show ?thesis using Cons.prems(2,3) by (rule Cons.IH)
  next
    fix nodes c' w cc
    assume cc: "ofold cache_report (GetClusterNodesResponse_GetNodeReports (Some nodes)) [] = Ok cc"
      and l: "sync_loop E order (AList.update i cc res)
        \<lparr>ss_clients = AList.update i c' (ss_clients s), ss_world = w\<rparr> = (Ok res', s')"
    have "cluster_inv cc" by (rule ofold_inv [OF cache_report_inv cc]) (simp_all add: cluster_inv_def)
    with Cons.prems(3) have "\<forall>j x. map_of (AList.update i cc res) j = Some x \<longrightarrow> cluster_inv x"
      by (simp add: update_conv')
    with distinct_update [OF Cons.prems(2)] show ?thesis by (rule Cons.IH [OF l])
  qed
qed

lemma sync_inv:
  assumes "syncYARNNodeAllocatedResource E order r s = (res, r', s')" and "cache_inv r"
  shows "cache_inv r'"
proof -
  obtain lr s1 where l: "sync_loop E order [] s = (lr, s1)" by (metis prod.exhaust)
  show ?thesis
  proof (cases lr)
    case (Ok res')
    have "cache_inv (r\<lparr>ns_cache := res'\<rparr>)"
      using sync_loop_inv [OF l [unfolded Ok]] by (simp add: cache_inv_def)
    then show ?thesis using assms(1) l Ok by (simp add: syncYARNNodeAllocatedResource_def)
  qed (use assms l in \<open>simp_all add: syncYARNNodeAllocatedResource_def\<close>)
qed

interpretation syncer_loop: invariant_machine Start_step "\<lambda>l. cache_inv (ls_syncer l)"
proof
  fix l :: loop_state and e
  assume inv: "cache_inv (ls_syncer l)"
  have upd: "cache_inv (r\<lparr>ns_started := b\<rparr>) = cache_inv r" for r b by (simp add: cache_inv_def)
  show "cache_inv (ls_syncer (Start_step l e))"
  proof (cases e)
    case (Tick E order)
    obtain res r s where t: "syncYARNNodeAllocatedResource E order (ls_syncer l) (ls_state l) = (res, r, s)"
      by (metis prod.exhaust)
    from sync_inv [OF t inv] inv show ?thesis
      by (cases res) (simp_all add: Start_step_def Tick t upd)
  qed (use inv in \<open>simp_all add: Start_step_def split: outcome.splits\<close>)
qed

section \<open>The contents of a synchronised cache\<close>

text \<open>The map a response stands for: the last report of every node that has a host and a port.\<close>

definition report_key :: "NodeReportProto \<Rightarrow> string option" where
  "report_key rep =
     (case NodeReport_NodeId rep of
        None \<Rightarrow> None
      | Some nid \<Rightarrow> (case (NodeId_Host nid, NodeId_Port nid) of
                      (Some h, Some p) \<Rightarrow> Some (getKey h p)
                    | _ \<Rightarrow> None))"

definition last_report :: "NodeReportProto list \<Rightarrow> string \<rightharpoonup> NodeReportProto" where
  "last_report reps k = (case filter (\<lambda>rep. report_key rep = Some k) (rev reps) of [] \<Rightarrow> None | rep # _ \<Rightarrow> Some rep)"

lemma last_report_snoc: "last_report (reps @ [rep]) k = (if report_key rep = Some k then Some rep else last_report reps k)"
  by (simp add: last_report_def)

lemma cache_report_step:
  "cache_report rep cc =
     (if NodeReport_NodeId rep = None then Panic NilDeref
      else Ok (case report_key rep of None \<Rightarrow> cc | Some k \<Rightarrow> AList.update k rep cc))"
  by (simp add: cache_report_def report_key_def split: option.splits)

lemma cache_reports_map:
  assumes "ofold cache_report reps [] = Ok cc"
  shows "map_of cc = last_report reps"
  using assms
proof (induction reps arbitrary: cc rule: rev_induct)
  case Nil
  then show ?case by (simp add: last_report_def fun_eq_iff)
next
  case (snoc rep reps)
  then obtain c1 where c1: "ofold cache_report reps [] = Ok c1" and c: "cache_report rep c1 = Ok cc"
    by (auto simp: ofold_append obind_eq_Ok_iff)
  have "map_of c1 = last_report reps" using snoc.IH [OF c1] .
  then show ?case
    using c by (auto simp: cache_report_step last_report_snoc update_conv' fun_eq_iff split: if_splits option.splits)
qed

lemma cache_reports_total:
  "(\<forall>rep\<in>set reps. NodeReport_NodeId rep \<noteq> None) \<Longrightarrow> \<exists>cc'. ofold cache_report reps cc = Ok cc'"
  by (induction reps arbitrary: cc) (simp_all add: cache_report_step)

lemma update_keys: "map_of xs i = Some c \<Longrightarrow> fst ` set (AList.update i c' xs) = fst ` set xs"
  by (auto simp: dom_map_of_conv_image_fst [symmetric] update_conv')

lemma sync_loop_keys:
  "sync_loop E order res s = (Ok res', s') \<Longrightarrow> fst ` set (ss_clients s') = fst ` set (ss_clients s)"
proof (induction order arbitrary: res s)
  case (Cons i order)
  from sync_loop_Cons_Ok [OF Cons.prems] show ?case
  proof (elim disjE conjE exE)
    assume "sync_loop E order res s = (Ok res', s')"
    then show ?thesis by (rule Cons.IH)
  next
    fix c nodes c' w cc
    assume "map_of (ss_clients s) i = Some c"
      and "sync_loop E order (AList.update i cc res)
        \<lparr>ss_clients = AList.update i c' (ss_clients s), ss_world = w\<rparr> = (Ok res', s')"
    from Cons.IH [OF this(2)] update_keys [OF this(1)] show ?thesis by simp
  qed
qed simp

lemma sync_loop_frame:
  "sync_loop E order res s = (Ok res', s') \<Longrightarrow> i \<notin> set order \<or> i \<notin> fst ` set (ss_clients s) \<Longrightarrow>
   map_of res' i = map_of res i"
proof (induction order arbitrary: res s)
  case (Cons j order)
  from sync_loop_Cons_Ok [OF Cons.prems(1)] show ?case
  proof (elim disjE conjE exE)
    assume "sync_loop E order res s = (Ok res', s')"
    from Cons.IH [OF this] Cons.prems(2) show ?thesis by auto
  next
    fix c nodes c' w cc
    assume c: "map_of (ss_clients s) j = Some c"
      and l: "sync_loop E order (AList.update j cc res)
        \<lparr>ss_clients = AList.update j c' (ss_clients s), ss_world = w\<rparr> = (Ok res', s')"
    have "j \<in> fst ` set (ss_clients s)" using c by (metis map_of_eq_None_iff option.distinct(1))
    then have "i \<noteq> j" using Cons.prems(2) by auto
    with Cons.IH [OF l] Cons.prems(2) update_keys [OF c] show ?thesis by (simp add: update_conv')
  qed
qed simp

lemma sync_loop_cluster:
  "sync_loop E order res s = (Ok res', s') \<Longrightarrow> i \<in> set order \<Longrightarrow> i \<in> fst ` set (ss_clients s) \<Longrightarrow>
   \<exists>c w nodes c' w' cc. GetClusterNodes E running_nodes (c, w) = (Ok nodes, c', w') \<and>
     map_of res' i = Some cc \<and> map_of cc = last_report (GetClusterNodesResponse_NodeReports nodes)"
proof (induction order arbitrary: res s)
  case (Cons j order)
  from sync_loop_Cons_Ok [OF Cons.prems(1)] show ?case
  proof (elim disjE conjE exE)
    assume n: "map_of (ss_clients s) j = None" and l: "sync_loop E order res s = (Ok res', s')"
    have "i \<noteq> j" using n Cons.prems(3) by (auto simp: map_of_eq_None_iff)
    with Cons.IH [OF l] Cons.prems(2,3) show ?thesis by simp
  next
    fix c nodes c' w cc
    assume c: "map_of (ss_clients s) j = Some c"
      and g: "GetClusterNodes E running_nodes (c, ss_world s) = (Ok nodes, c', w)"
      and cc: "ofold cache_report (GetClusterNodesResponse_GetNodeReports (Some nodes)) [] = Ok cc"
      and l: "sync_loop E order (AList.update j cc res)
        \<lparr>ss_clients = AList.update j c' (ss_clients s), ss_world = w\<rparr> = (Ok res', s')"
    show ?thesis
    proof (cases "i \<in> set order")
      case True
      with Cons.IH [OF l] Cons.prems(3) update_keys [OF c] show ?thesis by simp
    next
      case False
      then have "map_of res' i = Some cc" using sync_loop_frame [OF l] Cons.prems(2) by (simp add: update_conv')
      moreover have "map_of cc = last_report (GetClusterNodesResponse_NodeReports nodes)"
        using cache_reports_map [OF cc] by (simp add: GetClusterNodesResponse_GetNodeReports_def)
      ultimately show ?thesis using g by blast
    qed
  qed
qed simp

section \<open>The lookup interface\<close>

text \<open>
  What the reconciler and the metrics rely on: a lookup in a well-formed cache never returns the
  report of another node, as long as ports are not negative.
\<close>

locale node_lookup =
  fixes lookup :: "'s \<Rightarrow> YarnNode option \<Rightarrow> NodeReportProto option"
    and wf :: "'s \<Rightarrow> bool"
  assumes lookup_nil: "lookup s None = None"
    and lookup_key: "wf s \<Longrightarrow> lookup s (Some yn) = Some rep \<Longrightarrow>
                     \<exists>h p. report_at h p rep \<and> getKey h p = getKey (yn_Name yn) (yn_Port yn)"
begin

lemma lookup_own_report:
  assumes "wf s" and "lookup s (Some yn) = Some rep" and "0 \<le> sint (yn_Port yn)"
    and "\<And>h p. report_at h p rep \<Longrightarrow> 0 \<le> sint p"
  shows "report_at (yn_Name yn) (yn_Port yn) rep"
proof -
  obtain h p where "report_at h p rep" "getKey h p = getKey (yn_Name yn) (yn_Port yn)"
    using lookup_key [OF assms(1,2)] by blast
  with assms(3,4) show ?thesis using getKey_inject by metis
qed

end

interpretation nodes_lookup: node_lookup GetNodeResource cache_inv
proof
  fix s :: NodesSyncer and yn :: YarnNode and rep
  show "GetNodeResource s None = None" by (simp add: GetNodeResource_def)
  assume inv: "cache_inv s" and "GetNodeResource s (Some yn) = Some rep"
  then obtain cc where "map_of (ns_cache s) (yn_ClusterID yn) = Some cc"
    and rep: "map_of cc (getKey (yn_Name yn) (yn_Port yn)) = Some rep"
    by (auto simp: GetNodeResource_def split: option.splits)
  then have "cluster_inv cc" using inv by (simp add: cache_inv_def)
  then obtain h p where "report_at h p rep" "getKey (yn_Name yn) (yn_Port yn) = getKey h p"
    using rep unfolding cluster_inv_def by blast
  then show "\<exists>h p. report_at h p rep \<and> getKey h p = getKey (yn_Name yn) (yn_Port yn)" by auto
qed

section \<open>Properties\<close>

definition sample_report :: "string \<Rightarrow> int32 \<Rightarrow> NodeReportProto" where
  "sample_report host port = new_NodeReportProto
     \<lparr>NodeReport_NodeId := Some \<lparr>NodeId_Host = Some host, NodeId_Port = Some port\<rparr>\<rparr>"

text \<open>A key of the cache determines host and port as long as ports are not negative,
host names with dashes included; with negative ports two different nodes share a key.\<close>

lemma getKey_injective:
  "(0 \<le> sint p \<and> 0 \<le> sint p' \<longrightarrow> (getKey h p = getKey h' p' \<longleftrightarrow> h = h' \<and> p = p')) \<and>
   getKey ''a'' (- 5) = getKey ''a-'' 5"
proof -
  have "sint (- 5 :: int32) = - 5" "sint (5 :: int32) = 5" by simp_all
  then have "getKey ''a'' (- 5) = getKey ''a-'' 5" by (simp add: getKey_def Itoa_def)
  then show ?thesis using getKey_inject by blast
qed

lemma getKey_injective_instance: "getKey ''nm-1'' 8041 \<noteq> getKey ''nm-1'' 8042"
  using getKey_injective [of 8041 8042 "''nm-1''" "''nm-1''"] by simp



definition nodes_lib :: protolib where
  "nodes_lib = sample_lib\<lparr>Unmarshal_GetClusterNodesResponse :=
     (\<lambda>_. Inr \<lparr>GetClusterNodesResponse_NodeReports = [sample_report ''nm-1'' 8041]\<rparr>)\<rparr>"

definition nodes_env :: yarn_env where
  "nodes_env = \<lparr>ipc = sample_env\<lparr>lib := nodes_lib\<rparr>, cenv = ha_conf_env ''false''\<rparr>"

definition nodes_client :: yarnClient where
  "nodes_client = (NewYarnClient ''d'' ''a'')\<lparr>yc_conf := Some (ha_conf ''false''), activeRMAdminAddress := Some ''rm:8033'',
     activeRMAddress := Some ''rm:8032''\<rparr>"

definition nodes_state :: sync_state where
  "nodes_state = \<lparr>ss_clients = [(''a'', nodes_client)],
     ss_world = \<lparr>net = \<lparr>dials = [Inr (TCP (fresh_conn [[0, 0, 0, 6, 2, 8, 0, 2, 5, 5]]))], conns = [],
                        w_ugi = \<lparr>once = False, currentUserGroupInformation = None\<rparr>\<rparr>,
                 uuids = [Inr (replicate 16 7)]\<rparr>\<rparr>"

lemma sample_codec_nodes: "sample_codec nodes_lib"
  by (simp add: sample_codec_def nodes_lib_def) (simp add: protowire_spec_sample sample_lib_def)

lemma nodes_response:
  "\<exists>w. GetClusterNodes nodes_env running_nodes (nodes_client, ss_world nodes_state) =
       (Ok \<lparr>GetClusterNodesResponse_NodeReports = [sample_report ''nm-1'' 8041]\<rparr>, nodes_client, w)"
proof -
  obtain h where h: "GetCalleeRPCRequestHeaderProto
      (service_func ''ApplicationClientProtocolServiceClient'' ''GetClusterNodes'') (Some APPLICATION_CLIENT_PROTOCOL) = Ok h"
    and p: "RequestHeader_DeclaringClassProtocolName h = Some APPLICATION_CLIENT_PROTOCOL" using nodes_header by blast
  define c where "c = \<lparr>ClientId = Some (replicate 16 7),
      Client_Ugi = Some \<lparr>UserInformation_EffectiveUser = None, UserInformation_RealUser = Some ''yarn''\<rparr>,
      ServerAddress = ''rm:8032'', TCPNoDelay = False\<rparr>"
  have "\<exists>w'. Call (sample_env\<lparr>lib := nodes_lib\<rparr>) c h running_nodes new_GetClusterNodesResponseProto
      (Marshal_GetClusterNodesRequest nodes_lib) (Unmarshal_GetClusterNodesResponse nodes_lib) (net (ss_world nodes_state)) =
      (Ok \<lparr>GetClusterNodesResponse_NodeReports = [sample_report ''nm-1'' 8041]\<rparr>, w')"
    by (rule sample_call [where user = "''yarn''"
          and ugi = "\<lparr>UserInformation_EffectiveUser = None, UserInformation_RealUser = Some ''yarn''\<rparr>", OF sample_codec_nodes p])
      (simp_all add: c_def nodes_state_def nodes_lib_def sample_lib_def)
  moreover have "CreateYarnApplicationClient nodes_env (yc_conf nodes_client) (activeRMAddress nodes_client) (ss_world nodes_state) =
      (Ok c, (ss_world nodes_state)\<lparr>uuids := []\<rparr>)"
    by (simp add: CreateYarnApplicationClient_def DialApplicationClientProtocolService_def uuid_NewV4_def nodes_client_def
        nodes_state_def c_def nodes_env_def sample_env_def CreateSimpleUGIProto_def sbind_def)
  moreover have "ensureInitialized nodes_env (nodes_client, ss_world nodes_state) = (Ok (), nodes_client, ss_world nodes_state)"
    by (simp add: ensureInitialized_def nodes_client_def)
  ultimately show ?thesis using h
    by (auto simp: GetClusterNodes_def sbind_def with_world_def getClusterNodes_def app_GetClusterNode_def
        service_GetClusterNodes_def on_net_def nodes_env_def)
qed

lemma nodes_sync:
  "\<exists>s. syncYARNNodeAllocatedResource nodes_env [''a''] NewNodesSyncer nodes_state =
       (Ok (), NewNodesSyncer\<lparr>ns_cache := [(''a'', [(getKey ''nm-1'' 8041, sample_report ''nm-1'' 8041)])]\<rparr>, s)"
proof -
  have "map_of (ss_clients nodes_state) ''a'' = Some nodes_client" by (simp add: nodes_state_def)
  moreover have "ofold cache_report [sample_report ''nm-1'' 8041] [] = Ok [(getKey ''nm-1'' 8041, sample_report ''nm-1'' 8041)]"
    by (simp add: cache_report_def sample_report_def)
  ultimately show ?thesis
    using nodes_response by (auto simp: syncYARNNodeAllocatedResource_def GetClusterNodesResponse_GetNodeReports_def Let_def)
qed



end
