(* ===== verification/Yarn_Resource.thy ===== *)
theory Yarn_Resource
  imports Go_Lib
begin

text \<open>
  \<open>pkg/controller/noderesource/yarn_resource.go\<close>: the batch resources of a node and the
  allocations of other schedulers, both kept as JSON in node annotations. The quantities of
  Kubernetes, its resource-list addition, \<open>encoding/json\<close> and the names the Koordinator API
  gives to batch resources are parameters, collected in \<open>reslib\<close>; \<open>'q\<close> is the type of
  quantities, identified by value and format. Annotations are a Go map that may be nil.
\<close>

section \<open>Data\<close>

type_synonym annotations = "(string \<rightharpoonup> string) option"
type_synonym 'q resource_list = "(string \<rightharpoonup> 'q) option"

record 'q OriginAllocatable =
  oa_Resources :: "'q resource_list"

record 'q ThirdPartyAllocation =
  tpa_Name :: string
  tpa_Priority :: string
  tpa_Resources :: "'q resource_list"

record 'q ThirdPartyAllocations =
  tpas_Allocations :: "'q ThirdPartyAllocation list"

datatype qformat = DecimalSI | BinarySI

record 'q reslib =
  BatchCPU :: string
  BatchMemory :: string
  PriorityBatch :: string
  NewQuantity :: "int64 \<Rightarrow> qformat \<Rightarrow> 'q"
  ScaledValue :: "'q \<Rightarrow> nat \<Rightarrow> int64"
  quota_Add :: "(string \<rightharpoonup> 'q) \<Rightarrow> (string \<rightharpoonup> 'q) \<Rightarrow> (string \<rightharpoonup> 'q)"
  Unmarshal_Origin :: "string \<Rightarrow> error + 'q OriginAllocatable"
  Marshal_Origin :: "'q OriginAllocatable \<Rightarrow> error + string"
  Unmarshal_ThirdParty :: "string \<Rightarrow> error + 'q ThirdPartyAllocations"
  Marshal_ThirdParty :: "'q ThirdPartyAllocations \<Rightarrow> error + string"

definition PodYarnClusterIDAnnotationKey :: string where
  "PodYarnClusterIDAnnotationKey = ''yarn.hadoop.apache.org/cluster-id''"

definition YARNAllocationName :: string where "YARNAllocationName = ''hadoop-yarn''"

definition NodeOriginExtendedAllocatableAnnotationKey :: string where
  "NodeOriginExtendedAllocatableAnnotationKey = ''node.koordinator.sh/originExtendedAllocatable''"

definition NodeThirdPartyAllocationsAnnotationKey :: string where
  "NodeThirdPartyAllocationsAnnotationKey = ''node.koordinator.sh/thirdPartyAllocations''"

text \<open>Reading a key of a map that may be nil, and writing one: a write to the map a callee
made for itself is lost to the caller.\<close>

definition anno_get :: "annotations \<Rightarrow> string \<Rightarrow> string option" where
  "anno_get a k = (case a of None \<Rightarrow> None | Some m \<Rightarrow> m k)"

definition anno_put :: "annotations \<Rightarrow> string \<Rightarrow> string \<Rightarrow> annotations" where
  "anno_put a k v = (case a of None \<Rightarrow> None | Some m \<Rightarrow> Some (m(k \<mapsto> v)))"

section \<open>Operations\<close>

text \<open>\<open>resource.Kilo\<close> and \<open>resource.Mega\<close> are the decimal exponents 3 and 6.\<close>

definition calculate :: "'q reslib \<Rightarrow> 'q \<Rightarrow> 'q \<Rightarrow> int64 \<times> int64" where
  "calculate R batchCPU batchMemory = (ScaledValue R batchCPU 3, ScaledValue R batchMemory 6)"

definition GetOriginExtendedAllocatable :: "'q reslib \<Rightarrow> annotations \<Rightarrow> 'q OriginAllocatable option outcome" where
  "GetOriginExtendedAllocatable R annos =
     (case anno_get annos NodeOriginExtendedAllocatableAnnotationKey of
        None \<Rightarrow> Ok None
      | Some originAllocatableStr \<Rightarrow>
          obind (of_sum (Unmarshal_Origin R originAllocatableStr)) (\<lambda>originAllocatable. Ok (Some originAllocatable)))"

definition GetOriginExtendedAllocatableRes :: "'q reslib \<Rightarrow> annotations \<Rightarrow> 'q resource_list outcome" where
  "GetOriginExtendedAllocatableRes R annos =
     obind (GetOriginExtendedAllocatable R annos) (\<lambda>originAllocatable.
     case originAllocatable of None \<Rightarrow> Ok None | Some o1 \<Rightarrow> Ok (oa_Resources o1))"

definition SetOriginExtendedAllocatableRes ::
  "'q reslib \<Rightarrow> 'q resource_list \<Rightarrow> annotations \<Rightarrow> unit outcome \<times> annotations" where
  "SetOriginExtendedAllocatableRes R extendedAllocatable annos =
     (let old = (case GetOriginExtendedAllocatable R annos of Ok (Some o1) \<Rightarrow> o1 | _ \<Rightarrow> \<lparr>oa_Resources = None\<rparr>);
          res = (case oa_Resources old of Some m \<Rightarrow> m | None \<Rightarrow> Map.empty);
          ext = (case extendedAllocatable of Some m \<Rightarrow> m | None \<Rightarrow> Map.empty)
      in case Marshal_Origin R \<lparr>oa_Resources = Some (res ++ ext)\<rparr> of
           Inl err \<Rightarrow> (Err err, annos)
         | Inr newStr \<Rightarrow> (Ok (), anno_put annos NodeOriginExtendedAllocatableAnnotationKey newStr))"

definition GetThirdPartyAllocations :: "'q reslib \<Rightarrow> annotations \<Rightarrow> 'q ThirdPartyAllocations option outcome" where
  "GetThirdPartyAllocations R annos =
     (case anno_get annos NodeThirdPartyAllocationsAnnotationKey of
        None \<Rightarrow> Ok None
      | Some valueStr \<Rightarrow> obind (of_sum (Unmarshal_ThirdParty R valueStr)) (\<lambda>object. Ok (Some object)))"

definition GetThirdPartyAllocatedResByPriority ::
  "'q reslib \<Rightarrow> string \<Rightarrow> annotations \<Rightarrow> 'q resource_list outcome" where
  "GetThirdPartyAllocatedResByPriority R priority annos =
     obind (GetThirdPartyAllocations R annos) (\<lambda>allocations.
     case allocations of
       None \<Rightarrow> Ok None
     | Some as \<Rightarrow>
         Ok (Some (foldl (\<lambda>result alloc.
               if tpa_Priority alloc = priority
               then quota_Add R result (case tpa_Resources alloc of Some m \<Rightarrow> m | None \<Rightarrow> Map.empty)
               else result) Map.empty (tpas_Allocations as))))"

text \<open>The loop that overwrites the first allocation of a name, with its \<open>exist\<close> flag.\<close>

fun overwrite_alloc ::
  "string \<Rightarrow> 'q ThirdPartyAllocation \<Rightarrow> 'q ThirdPartyAllocation list \<Rightarrow> 'q ThirdPartyAllocation list \<times> bool" where
  "overwrite_alloc name newAlloc [] = ([], False)"
| "overwrite_alloc name newAlloc (a # as) =
     (if tpa_Name a = name then (newAlloc # as, True)
      else case overwrite_alloc name newAlloc as of (as', exist) \<Rightarrow> (a # as', exist))"

definition put_alloc :: "'q ThirdPartyAllocation list \<Rightarrow> 'q ThirdPartyAllocation \<Rightarrow> 'q ThirdPartyAllocation list" where
  "put_alloc as newAlloc =
     (case overwrite_alloc (tpa_Name newAlloc) newAlloc as of
        (as', exist) \<Rightarrow> if \<not> exist then as' @ [newAlloc] else as')"

definition SetThirdPartyAllocation ::
  "'q reslib \<Rightarrow> string \<Rightarrow> string \<Rightarrow> 'q resource_list \<Rightarrow> annotations \<Rightarrow> unit outcome \<times> annotations" where
  "SetThirdPartyAllocation R name priority res annos =
     (let oldAllocations = (case GetThirdPartyAllocations R annos of
                              Ok (Some as) \<Rightarrow> tpas_Allocations as | _ \<Rightarrow> []);
          newAlloc = \<lparr>tpa_Name = name, tpa_Priority = priority, tpa_Resources = res\<rparr>
      in case Marshal_ThirdParty R \<lparr>tpas_Allocations = put_alloc oldAllocations newAlloc\<rparr> of
           Inl err \<Rightarrow> (Err err, annos)
         | Inr newStr \<Rightarrow> (Ok (), anno_put annos NodeThirdPartyAllocationsAnnotationKey newStr))"

text \<open>\<open>vcores*1000\<close> is computed in 32 bits and then widened; \<open>memoryMB*1024*1024\<close> in 64 bits.\<close>

definition yarn_alloc_resources :: "'q reslib \<Rightarrow> int32 \<Rightarrow> int64 \<Rightarrow> (string \<rightharpoonup> 'q)" where
  "yarn_alloc_resources R vcores memoryMB =
     [BatchCPU R \<mapsto> NewQuantity R (scast (vcores * 1000)) DecimalSI, BatchMemory R \<mapsto> NewQuantity R (memoryMB * 1024 * 1024) BinarySI]"

definition SetYARNAllocatedResource ::
  "'q reslib \<Rightarrow> int32 \<Rightarrow> int64 \<Rightarrow> annotations \<Rightarrow> unit outcome \<times> annotations" where
  "SetYARNAllocatedResource R vcores memoryMB annos =
     SetThirdPartyAllocation R YARNAllocationName (PriorityBatch R) (Some (yarn_alloc_resources R vcores memoryMB)) annos"

fun first_alloc :: "string \<Rightarrow> 'q ThirdPartyAllocation list \<Rightarrow> 'q ThirdPartyAllocation option" where
  "first_alloc name [] = None"
| "first_alloc name (alloc # as) = (if tpa_Name alloc = name then Some alloc else first_alloc name as)"

definition GetYARNAllocatedResource :: "'q reslib \<Rightarrow> annotations \<Rightarrow> 'q resource_list outcome" where
  "GetYARNAllocatedResource R annos =
     obind (GetThirdPartyAllocations R annos) (\<lambda>thirdPartyAllocation.
     case thirdPartyAllocation of
       None \<Rightarrow> Ok None
     | Some as \<Rightarrow>
         (case first_alloc YARNAllocationName (tpas_Allocations as) of
            None \<Rightarrow> Ok None
          | Some alloc \<Rightarrow> Ok (tpa_Resources alloc)))"

section \<open>Allocations by name\<close>

text \<open>A store of named values: what every scheduler that records its allocation relies on.\<close>

locale named_store =
  fixes get :: "'s \<Rightarrow> string \<Rightarrow> 'v option"
    and put :: "'s \<Rightarrow> 'v \<Rightarrow> 's"
    and name_of :: "'v \<Rightarrow> string"
  assumes get_put: "get (put s v) n = (if name_of v = n then Some v else get s n)"
begin

lemma puts_get:
  "get (foldl put s vs) n = (case filter (\<lambda>v. name_of v = n) (rev vs) of [] \<Rightarrow> get s n | v # _ \<Rightarrow> Some v)"
  by (induction vs rule: rev_induct) (simp_all add: get_put)

lemma put_other: "name_of v \<noteq> n \<Longrightarrow> get (put s v) n = get s n"
  by (simp add: get_put)

end

lemma overwrite_first_alloc:
  "first_alloc n (fst (overwrite_alloc (tpa_Name v) v as)) =
     (if tpa_Name v = n \<and> snd (overwrite_alloc (tpa_Name v) v as) then Some v else first_alloc n as)"
  by (induction as) (auto split: prod.splits)

lemma overwrite_exist: "snd (overwrite_alloc n v as) \<longleftrightarrow> first_alloc n as \<noteq> None"
  by (induction as) (auto split: prod.splits)

lemma overwrite_not_exist: "\<not> snd (overwrite_alloc n v as) \<Longrightarrow> fst (overwrite_alloc n v as) = as"
  by (induction as) (auto split: prod.splits if_splits)

lemma first_alloc_append: "first_alloc n (as @ bs) = (case first_alloc n as of None \<Rightarrow> first_alloc n bs | Some a \<Rightarrow> Some a)"
  by (induction as) auto

lemma put_alloc_alt:
  "put_alloc as v =
     (if snd (overwrite_alloc (tpa_Name v) v as) then fst (overwrite_alloc (tpa_Name v) v as) else as @ [v])"
  using overwrite_not_exist [of "tpa_Name v" v as]
  by (cases "overwrite_alloc (tpa_Name v) v as") (simp add: put_alloc_def)

lemma first_alloc_put: "first_alloc n (put_alloc as v) = (if tpa_Name v = n then Some v else first_alloc n as)"
  using overwrite_first_alloc [of n v as] overwrite_exist [of "tpa_Name v" v as]
  by (auto simp: put_alloc_alt first_alloc_append split: option.splits)

interpretation allocs: named_store "\<lambda>as n. first_alloc n as" put_alloc tpa_Name
  by unfold_locales (rule first_alloc_put)

lemma put_alloc_names:
  "map tpa_Name (put_alloc as v) =
     (if tpa_Name v \<in> tpa_Name ` set as then map tpa_Name as else map tpa_Name as @ [tpa_Name v])"
proof -
  have "map tpa_Name (fst (overwrite_alloc (tpa_Name v) v as)) = map tpa_Name as"
    by (induction as) (auto split: prod.splits)
  moreover have "snd (overwrite_alloc (tpa_Name v) v as) \<longleftrightarrow> tpa_Name v \<in> tpa_Name ` set as"
    by (induction as) (auto split: prod.splits)
  ultimately show ?thesis by (simp add: put_alloc_alt)
qed

lemma overwrite_again:
  "overwrite_alloc (tpa_Name v) v (fst (overwrite_alloc (tpa_Name v) v as)) = overwrite_alloc (tpa_Name v) v as"
  by (induction as) (auto split: prod.splits)

lemma put_alloc_idem: "put_alloc (put_alloc as v) v = put_alloc as v"
proof (cases "snd (overwrite_alloc (tpa_Name v) v as)")
  case True
  then show ?thesis by (simp add: put_alloc_alt overwrite_again)
next
  case False
  then have "overwrite_alloc (tpa_Name v) v (as @ [v]) = (as @ [v], True)"
    by (induction as) (auto split: prod.splits if_splits)
  then show ?thesis using False by (simp add: put_alloc_alt)
qed

section \<open>Documented behaviour of the parameters\<close>

text \<open>
  \<open>encoding/json\<close> gives back what it wrote, except that an empty resource list, which the
  tags omit, comes back as nil.
\<close>

definition norm_resources :: "'q resource_list \<Rightarrow> 'q resource_list" where
  "norm_resources r = (if r = Some Map.empty then None else r)"

definition norm_alloc :: "'q ThirdPartyAllocation \<Rightarrow> 'q ThirdPartyAllocation" where
  "norm_alloc a = a\<lparr>tpa_Resources := norm_resources (tpa_Resources a)\<rparr>"

definition json_spec :: "'q reslib \<Rightarrow> bool" where
  "json_spec R \<longleftrightarrow>
     (\<forall>x s. Marshal_ThirdParty R x = Inr s \<longrightarrow>
        Unmarshal_ThirdParty R s = Inr \<lparr>tpas_Allocations = map norm_alloc (tpas_Allocations x)\<rparr>) \<and>
     (\<forall>x s. Marshal_Origin R x = Inr s \<longrightarrow> Unmarshal_Origin R s = Inr \<lparr>oa_Resources = norm_resources (oa_Resources x)\<rparr>)"

text \<open>
  A quantity has an amount, here in nano units. \<open>NewQuantity\<close> makes whole units, and
  \<open>ScaledValue\<close> is the amount divided by a power of ten and rounded up, when it fits an int64.
\<close>

definition ceil_div :: "int \<Rightarrow> int \<Rightarrow> int" where
  "ceil_div a b = - ((- a) div b)"

definition quantity_spec :: "'q reslib \<Rightarrow> ('q \<Rightarrow> int) \<Rightarrow> bool" where
  "quantity_spec R nano \<longleftrightarrow>
     (\<forall>n f. nano (NewQuantity R n f) = sint n * 10 ^ 9) \<and>
     (\<forall>q s. - (2 ^ 63) \<le> ceil_div (nano q) (10 ^ (9 + s)) \<and> ceil_div (nano q) (10 ^ (9 + s)) < 2 ^ 63 \<longrightarrow>
        sint (ScaledValue R q s) = ceil_div (nano q) (10 ^ (9 + s)))"

lemma ceil_div_bounds:
  assumes "0 < b"
  shows "a \<le> b * ceil_div a b" and "b * ceil_div a b < a + b"
proof -
  have e: "b * ((- a) div b) = - a - (- a) mod b" by (simp add: minus_mod_eq_mult_div [symmetric])
  have "0 \<le> (- a) mod b" "(- a) mod b < b" using assms by simp_all
  then show "a \<le> b * ceil_div a b" "b * ceil_div a b < a + b" using e by (simp_all add: ceil_div_def)
qed

lemma first_alloc_map_norm: "first_alloc n (map norm_alloc as) = map_option norm_alloc (first_alloc n as)"
  by (induction as) (auto simp: norm_alloc_def)

lemma GetThirdPartyAllocations_after_set:
  assumes "json_spec R" and "SetThirdPartyAllocation R name priority res (Some m) = (Ok (), annos')"
  shows "\<exists>old. old = (case GetThirdPartyAllocations R (Some m) of Ok (Some as) \<Rightarrow> tpas_Allocations as | _ \<Rightarrow> []) \<and>
           GetThirdPartyAllocations R annos' =
             Ok (Some \<lparr>tpas_Allocations = map norm_alloc (put_alloc old
               \<lparr>tpa_Name = name, tpa_Priority = priority, tpa_Resources = res\<rparr>)\<rparr>) \<and>
           (\<forall>k. k \<noteq> NodeThirdPartyAllocationsAnnotationKey \<longrightarrow> anno_get annos' k = m k)"
  using assms
  by (auto simp: SetThirdPartyAllocation_def Let_def GetThirdPartyAllocations_def [of R annos'] anno_put_def anno_get_def
      json_spec_def split: sum.splits)

lemma yarn_alloc_resources_nonempty: "yarn_alloc_resources R vcores memoryMB \<noteq> Map.empty"
  unfolding yarn_alloc_resources_def by (simp add: fun_eq_iff) (metis option.distinct(1))

lemma GetYARNAllocatedResource_after_set:
  assumes "json_spec R" and "SetYARNAllocatedResource R vcores memoryMB (Some m) = (Ok (), annos')"
  shows "GetYARNAllocatedResource R annos' = Ok (Some (yarn_alloc_resources R vcores memoryMB))"
    and "k \<noteq> NodeThirdPartyAllocationsAnnotationKey \<Longrightarrow> anno_get annos' k = m k"
  using GetThirdPartyAllocations_after_set [OF assms(1) assms(2) [unfolded SetYARNAllocatedResource_def]]
    yarn_alloc_resources_nonempty [of R vcores memoryMB]
  by (auto simp: GetYARNAllocatedResource_def first_alloc_map_norm allocs.get_put norm_alloc_def norm_resources_def)

section \<open>A concrete library\<close>

text \<open>
  Quantities as integers in nano units, and a JSON writer for the one document the witnesses
  write, which the reader reads back.
\<close>

definition sample_doc :: "int ThirdPartyAllocations" where
  "sample_doc = \<lparr>tpas_Allocations = [\<lparr>tpa_Name = ''hadoop-yarn'', tpa_Priority = ''koord-batch'',
     tpa_Resources = Some [''batch-cpu'' \<mapsto> 2000 * 10 ^ 9, ''batch-memory'' \<mapsto> 1048576 * 10 ^ 9]\<rparr>]\<rparr>"

definition reslib_for :: "int ThirdPartyAllocations \<Rightarrow> int reslib" where
  "reslib_for d =
     \<lparr>BatchCPU = ''batch-cpu'', BatchMemory = ''batch-memory'', PriorityBatch = ''koord-batch'',
      NewQuantity = (\<lambda>n f. sint n * 10 ^ 9), ScaledValue = (\<lambda>q s. of_int (ceil_div q (10 ^ (9 + s)))),
      quota_Add = (\<lambda>a b k. case (a k, b k) of (Some x, Some y) \<Rightarrow> Some (x + y) | (Some x, None) \<Rightarrow> Some x | (None, y) \<Rightarrow> y),
      Unmarshal_Origin = (\<lambda>s. Inl ErrSyntax), Marshal_Origin = (\<lambda>x. Inl ErrSyntax),
      Unmarshal_ThirdParty = (\<lambda>s. if s = ''doc'' then Inr d else Inl ErrSyntax),
      Marshal_ThirdParty = (\<lambda>x. if x = d then Inr ''doc'' else Inl ErrSyntax)\<rparr>"

definition sample_reslib :: "int reslib" where
  "sample_reslib = reslib_for sample_doc"

lemma two_entries_nonempty: "[k \<mapsto> a, l \<mapsto> b] \<noteq> Map.empty"
  by (metis fun_upd_same option.distinct(1))

lemma reslib_for_json: "\<forall>a \<in> set (tpas_Allocations d). norm_alloc a = a \<Longrightarrow> json_spec (reslib_for d)"
  by (cases d) (auto simp: json_spec_def reslib_for_def map_idI)

lemma sample_json: "json_spec sample_reslib"
  unfolding sample_reslib_def
  by (rule reslib_for_json) (simp add: sample_doc_def norm_alloc_def norm_resources_def two_entries_nonempty)

lemma reslib_for_quantity: "quantity_spec (reslib_for d) (\<lambda>q. q)"
  by (simp add: quantity_spec_def reslib_for_def signed_of_int signed_take_bit_int_eq_self)

lemmas sample_quantity = reslib_for_quantity [of sample_doc, folded sample_reslib_def]

lemma sint_widen: "sint (scast (w :: int32) :: int64) = sint w"
proof -
  have "sint w \<in> {- (2 ^ 63) ..< 2 ^ 63}" using sint_int32_range [of w] by simp
  then show ?thesis by (simp add: signed_scast_eq signed_take_bit_int_eq_self)
qed

lemma ScaledValue_ceil:
  assumes "quantity_spec R nano"
    and "- (2 ^ 63) \<le> ceil_div (nano q) (10 ^ (9 + s))" and "ceil_div (nano q) (10 ^ (9 + s)) < 2 ^ 63"
  shows "sint (ScaledValue R q s) = ceil_div (nano q) (10 ^ (9 + s))"
  using assms unfolding quantity_spec_def by blast

lemma sint_mult_exact:
  fixes a b :: "'a :: len word"
  assumes "- (2 ^ (LENGTH('a) - 1)) \<le> sint a * sint b" and "sint a * sint b < 2 ^ (LENGTH('a) - 1)"
  shows "sint (a * b) = sint a * sint b"
  using assms by (simp add: signed_take_bit_int_eq_self sint_word_ariths)

section \<open>Properties\<close>

text \<open>Recording an allocation under a name is a lookup-after-update: afterwards the
allocation of that name is the recorded one and those of all other names are as before, in
their old order, a new name going last; no other annotation changes and recording the same
allocation again changes nothing. An unparsable old value counts as empty. On nil annotations
the call reports success and nothing is recorded.\<close>

lemma SetThirdPartyAllocation_updates:
  assumes "json_spec R" and "SetThirdPartyAllocation R name priority res annos = (Ok (), annos')"
    and "old = (case GetThirdPartyAllocations R annos of Ok (Some as) \<Rightarrow> tpas_Allocations as | _ \<Rightarrow> [])"
    and "newA = \<lparr>tpa_Name = name, tpa_Priority = priority, tpa_Resources = res\<rparr>"
  shows "(annos = None \<longrightarrow> annos' = None) \<and>
         (annos = Some m \<longrightarrow>
            (\<exists>as. GetThirdPartyAllocations R annos' = Ok (Some \<lparr>tpas_Allocations = map norm_alloc as\<rparr>) \<and>
               first_alloc name as = Some newA \<and> (\<forall>n. n \<noteq> name \<longrightarrow> first_alloc n as = first_alloc n old) \<and>
               map tpa_Name as = (if name \<in> tpa_Name ` set old then map tpa_Name old else map tpa_Name old @ [name]) \<and>
               put_alloc as newA = as) \<and>
            (\<forall>k. k \<noteq> NodeThirdPartyAllocationsAnnotationKey \<longrightarrow> anno_get annos' k = m k))"
proof (intro conjI impI)
  assume "annos = None"
  then show "annos' = None"
    using assms(2) by (auto simp: SetThirdPartyAllocation_def Let_def anno_put_def split: sum.splits)
next
  assume a: "annos = Some m"
  have g: "GetThirdPartyAllocations R annos' = Ok (Some \<lparr>tpas_Allocations = map norm_alloc (put_alloc old newA)\<rparr>)"
    and k: "\<forall>k. k \<noteq> NodeThirdPartyAllocationsAnnotationKey \<longrightarrow> anno_get annos' k = m k"
    using GetThirdPartyAllocations_after_set [OF assms(1) assms(2) [unfolded a]] assms(3,4) a by auto
  have "tpa_Name newA = name" by (simp add: assms(4))
  then show "\<exists>as. GetThirdPartyAllocations R annos' = Ok (Some \<lparr>tpas_Allocations = map norm_alloc as\<rparr>) \<and>
      first_alloc name as = Some newA \<and> (\<forall>n. n \<noteq> name \<longrightarrow> first_alloc n as = first_alloc n old) \<and>
      map tpa_Name as = (if name \<in> tpa_Name ` set old then map tpa_Name old else map tpa_Name old @ [name]) \<and>
      put_alloc as newA = as"
    using g by (intro exI [of _ "put_alloc old newA"]) (auto simp: allocs.get_put put_alloc_names put_alloc_idem)
  show "\<forall>k. k \<noteq> NodeThirdPartyAllocationsAnnotationKey \<longrightarrow> anno_get annos' k = m k" by (rule k)
qed

lemma sample_set:
  "SetThirdPartyAllocation sample_reslib ''hadoop-yarn'' ''koord-batch''
     (Some [''batch-cpu'' \<mapsto> 2000 * 10 ^ 9, ''batch-memory'' \<mapsto> 1048576 * 10 ^ 9]) (Some Map.empty) =
   (Ok (), Some [NodeThirdPartyAllocationsAnnotationKey \<mapsto> ''doc''])"
  by (simp add: SetThirdPartyAllocation_def GetThirdPartyAllocations_def anno_get_def put_alloc_def sample_reslib_def reslib_for_def
      sample_doc_def anno_put_def)

lemma SetThirdPartyAllocation_updates_instance:
  "\<exists>as. GetThirdPartyAllocations sample_reslib (Some [NodeThirdPartyAllocationsAnnotationKey \<mapsto> ''doc'']) =
          Ok (Some \<lparr>tpas_Allocations = map norm_alloc as\<rparr>) \<and> map tpa_Name as = [''hadoop-yarn'']"
  using SetThirdPartyAllocation_updates [OF sample_json sample_set refl refl, of Map.empty]
  by (auto simp: GetThirdPartyAllocations_def anno_get_def)

text \<open>C29. What YARN uses on a node can be read back from the annotation it was recorded in.
The recorded memory is the megabytes times 2^20 and the recorded cpu 1000 times the cores,
exactly as long as neither product overflows; from 2147484 cores on the 32-bit product wraps,
and 2147484 cores are recorded as a negative amount.\<close>

theorem YARNAllocatedResource_roundtrip:
  assumes "json_spec R" and "quantity_spec R nano" and "BatchCPU R \<noteq> BatchMemory R"
    and "SetYARNAllocatedResource R vcores memoryMB (Some m) = (Ok (), annos')"
  shows "\<exists>res cpu mem. GetYARNAllocatedResource R annos' = Ok (Some res) \<and>
           res (BatchCPU R) = Some cpu \<and> res (BatchMemory R) = Some mem \<and>
           (\<bar>sint vcores\<bar> \<le> 2147483 \<longrightarrow> nano cpu = 1000 * sint vcores * 10 ^ 9) \<and>
           (\<bar>sint memoryMB\<bar> < 2 ^ 43 \<longrightarrow> nano mem = sint memoryMB * 2 ^ 20 * 10 ^ 9) \<and>
           (vcores = 2147484 \<longrightarrow> nano cpu < 0)"
proof -
  let ?res = "yarn_alloc_resources R vcores memoryMB"
  let ?cpu = "NewQuantity R (scast (vcores * 1000)) DecimalSI"
  let ?mem = "NewQuantity R (memoryMB * 1024 * 1024) BinarySI"
  have get: "GetYARNAllocatedResource R annos' = Ok (Some ?res)"
    by (rule GetYARNAllocatedResource_after_set [OF assms(1,4)])
  have nano: "nano ?cpu = sint (vcores * 1000) * 10 ^ 9" "nano ?mem = sint (memoryMB * 1024 * 1024) * 10 ^ 9"
    using assms(2) by (simp_all add: quantity_spec_def sint_widen)
  have "sint (vcores * 1000) = sint vcores * 1000" if "\<bar>sint vcores\<bar> \<le> 2147483"
    using that sint_mult_exact [of vcores 1000] by simp
  moreover have "sint (memoryMB * 1024 * 1024) = sint memoryMB * 1024 * 1024" if "\<bar>sint memoryMB\<bar> < 2 ^ 43"
  proof -
    have "sint (memoryMB * 1024) = sint memoryMB * 1024"
      using that sint_mult_exact [of memoryMB 1024] by simp
    then show ?thesis
      using that sint_mult_exact [of "memoryMB * 1024" 1024] by simp
  qed
  moreover have "sint ((2147484 :: int32) * 1000) < 0" by simp
  moreover have "?res (BatchCPU R) = Some ?cpu" "?res (BatchMemory R) = Some ?mem"
    using assms(3) by (simp_all add: yarn_alloc_resources_def)
  ultimately show ?thesis using get nano by (intro exI [of _ ?res] exI [of _ ?cpu] exI [of _ ?mem]) auto
qed

theorem YARNAllocatedResource_roundtrip_witness:
  "\<exists>res cpu. GetYARNAllocatedResource sample_reslib (Some [NodeThirdPartyAllocationsAnnotationKey \<mapsto> ''doc'']) = Ok (Some res) \<and>
     res ''batch-cpu'' = Some cpu \<and> cpu = 2000 * 10 ^ 9"
proof -
  have s: "SetYARNAllocatedResource sample_reslib 2 1 (Some Map.empty) = (Ok (), Some [NodeThirdPartyAllocationsAnnotationKey \<mapsto> ''doc''])"
    using sample_set by (simp add: SetYARNAllocatedResource_def yarn_alloc_resources_def YARNAllocationName_def sample_reslib_def reslib_for_def)
  have "BatchCPU sample_reslib \<noteq> BatchMemory sample_reslib" by (simp add: sample_reslib_def reslib_for_def)
  from YARNAllocatedResource_roundtrip [OF sample_json sample_quantity this s] show ?thesis
    by (auto simp: sample_reslib_def reslib_for_def)
qed



end
