(* ===== verification/Reconciler.thy ===== *)
theory Reconciler
  imports Nodes_Cache Yarn_Resource
begin

text \<open>
  \<open>pkg/controller/noderesource/resource_sync_controller.go\<close>: the reconciler that announces the
  batch resources of a Kubernetes node to YARN and records what YARN uses of them in the node's
  annotations. The Kubernetes client, the JSON form of a node and the strategic merge patch are
  parameters, collected in \<open>kube_env\<close>. The state holds the reconciler's own client, the client
  map and world it shares with the node syncer, the node cache, and the patches sent so far.
\<close>

section \<open>Data\<close>

definition YarnNMComponentLabel :: string where "YarnNMComponentLabel = ''app.kubernetes.io/component''"
definition YarnNMComponentValue :: string where "YarnNMComponentValue = ''node-manager''"
definition YarnNodeIdAnnotation :: string where "YarnNodeIdAnnotation = ''yarn.hadoop.apache.org/node-id''"

record 'q Node =
  node_Name :: string
  node_Annotations :: annotations
  node_Allocatable :: "'q resource_list"

record Pod =
  pod_Annotations :: annotations

record list_options =
  MatchingLabels :: "string \<times> string"
  MatchingFields :: "string \<times> string"

record 'q kube_env =
  kube_Get :: "string \<Rightarrow> error + 'q Node"
  kube_List :: "list_options \<Rightarrow> error + Pod list"
  kube_Patch :: "string \<Rightarrow> string \<Rightarrow> error option"
  json_MarshalNode :: "'q Node \<Rightarrow> error + string"
  CreateTwoWayMergePatch :: "string \<Rightarrow> string \<Rightarrow> error + string"

record 'q rec_env =
  kube :: "'q kube_env"
  res :: "'q reslib"
  yenv :: yarn_env
  configDir :: string

record rec_state =
  r_yarnClient :: "yarnClient option"
  r_sync :: sync_state
  r_cache :: NodesSyncer
  r_patches :: "(string \<times> string) list"

section \<open>The YARN side\<close>

text \<open>Clients are Go pointers: a reference says which object an operation works on.\<close>

datatype client_ref = OwnClient | ClusterClient string

definition ref_client :: "rec_state \<Rightarrow> client_ref \<Rightarrow> yarnClient option" where
  "ref_client r ref = (case ref of
     OwnClient \<Rightarrow> r_yarnClient r | ClusterClient i \<Rightarrow> map_of (ss_clients (r_sync r)) i)"

definition put_client :: "client_ref \<Rightarrow> yarnClient \<Rightarrow> yworld \<Rightarrow> rec_state \<Rightarrow> rec_state" where
  "put_client ref c w r = (case ref of
     OwnClient \<Rightarrow> r\<lparr>r_yarnClient := Some c, r_sync := (r_sync r)\<lparr>ss_world := w\<rparr>\<rparr>
   | ClusterClient i \<Rightarrow> r\<lparr>r_sync := \<lparr>ss_clients = AList.update i c (ss_clients (r_sync r)), ss_world = w\<rparr>\<rparr>)"

definition getYARNClient :: "'q rec_env \<Rightarrow> YarnNode option \<Rightarrow> rec_state \<Rightarrow> client_ref option outcome \<times> rec_state" where
  "getYARNClient E yarnNode r =
     (case yarnNode of
        None \<Rightarrow> (Ok None, r)
      | Some yn \<Rightarrow>
          if yn_ClusterID yn = [] \<and> r_yarnClient r \<noteq> None then (Ok (Some OwnClient), r)
          else if yn_ClusterID yn = [] \<and> r_yarnClient r = None then
            (case CreateDefaultYarnClient (yenv E) (configDir E) (ss_world (r_sync r)) of
               (Ok c, w) \<Rightarrow> (Ok (Some OwnClient), put_client OwnClient c w r)
             | (Err err, w) \<Rightarrow> (Err err, r\<lparr>r_sync := (r_sync r)\<lparr>ss_world := w\<rparr>\<rparr>)
             | (Panic p, w) \<Rightarrow> (Panic p, r\<lparr>r_sync := (r_sync r)\<lparr>ss_world := w\<rparr>\<rparr>))
          else if map_of (ss_clients (r_sync r)) (yn_ClusterID yn) \<noteq> None then
            (Ok (Some (ClusterClient (yn_ClusterID yn))), r)
          else
            (case CreateYarnClientByClusterID (yenv E) (configDir E) (yn_ClusterID yn) (ss_world (r_sync r)) of
               (Ok c, w) \<Rightarrow>
                 (Ok (Some (ClusterClient (yn_ClusterID yn))), put_client (ClusterClient (yn_ClusterID yn)) c w r)
             | (Err err, w) \<Rightarrow> (Err err, r\<lparr>r_sync := (r_sync r)\<lparr>ss_world := w\<rparr>\<rparr>)
             | (Panic p, w) \<Rightarrow> (Panic p, r\<lparr>r_sync := (r_sync r)\<lparr>ss_world := w\<rparr>\<rparr>)))"

text \<open>Running a method of a client on the object a reference stands for.\<close>

definition call_client ::
  "client_ref \<Rightarrow> (yarnClient \<times> yworld \<Rightarrow> 'a outcome \<times> yarnClient \<times> yworld) \<Rightarrow> rec_state \<Rightarrow> 'a outcome \<times> rec_state" where
  "call_client ref f r =
     (case ref_client r ref of
        None \<Rightarrow> (Panic NilDeref, r)
      | Some c \<Rightarrow> (case f (c, ss_world (r_sync r)) of (a, c', w') \<Rightarrow> (a, put_client ref c' w' r)))"

definition update_request :: "YarnNode \<Rightarrow> int64 \<Rightarrow> int64 \<Rightarrow> UpdateNodeResourceRequestProto" where
  "update_request yn vcores memoryMB =
     \<lparr>UpdateNodeResourceRequest_NodeResourceMap =
        [\<lparr>NodeResourceMap_NodeId = Some \<lparr>NodeId_Host = Some (yn_Name yn), NodeId_Port = Some (yn_Port yn)\<rparr>,
          NodeResourceMap_ResourceOption = Some (new_ResourceOptionProto\<lparr>ResourceOption_Resource :=
            Some (new_ResourceProto\<lparr>Resource_Memory := Some memoryMB, Resource_VirtualCores := Some (ucast vcores)\<rparr>)\<rparr>)\<rparr>]\<rparr>"

text \<open>The request itself, and the reinitialisation of the client when it fails.\<close>

definition update_or_reinit ::
  "yarn_env \<Rightarrow> client_ref \<Rightarrow> UpdateNodeResourceRequestProto \<Rightarrow> rec_state \<Rightarrow> unit outcome \<times> rec_state" where
  "update_or_reinit Y client req r =
     (case call_client client (UpdateNodeResource Y req) r of
        (Ok _, r1) \<Rightarrow> (Ok (), r1)
      | (Panic p, r1) \<Rightarrow> (Panic p, r1)
      | (Err err, r1) \<Rightarrow>
          (case call_client client (Reinitialize Y) r1 of
             (Panic p, r2) \<Rightarrow> (Panic p, r2)
           | (Ok _, r2) \<Rightarrow>
               (Err (Errorf ''UpdateNodeResource resp %v, error %v, reinitialize error %v'' [] [err]), r2)
           | (Err initErr, r2) \<Rightarrow>
               (Err (Errorf ''UpdateNodeResource resp %v, error %v, reinitialize error %v'' [] [err, initErr]), r2)))"

definition updateYARNNodeResource ::
  "'q rec_env \<Rightarrow> YarnNode option \<Rightarrow> int64 \<Rightarrow> int64 \<Rightarrow> rec_state \<Rightarrow> unit outcome \<times> rec_state" where
  "updateYARNNodeResource E yarnNode vcores memoryMB =
     (case yarnNode of
        None \<Rightarrow> sret ()
      | Some yn \<Rightarrow>
          sbind (getYARNClient E yarnNode) (\<lambda>ref.
          case ref of
            None \<Rightarrow> sret ()
          | Some client \<Rightarrow> update_or_reinit (yenv E) client (update_request yn vcores memoryMB)))"

definition getYARNNodeAllocatedResource :: "NodesSyncer \<Rightarrow> YarnNode option \<Rightarrow> (int32 \<times> int64) outcome" where
  "getYARNNodeAllocatedResource cache yarnNode =
     (case yarnNode of
        None \<Rightarrow> Ok (0, 0)
      | Some yn \<Rightarrow>
          (case GetNodeResource cache yarnNode of
             None \<Rightarrow> Ok (0, 0)
           | Some nodeResource \<Rightarrow>
               obind (deref (NodeReport_Used nodeResource)) (\<lambda>used.
               Ok (case Resource_VirtualCores used of Some v \<Rightarrow> v | None \<Rightarrow> 0,
                   case Resource_Memory used of Some m \<Rightarrow> m | None \<Rightarrow> 0))))"

section \<open>The Kubernetes side\<close>

definition getNodeBatchResource :: "'q reslib \<Rightarrow> 'q Node \<Rightarrow> ('q \<times> 'q) outcome" where
  "getNodeBatchResource R node =
     (let pick = (\<lambda>rl. let m = (case rl of Some m \<Rightarrow> m | None \<Rightarrow> Map.empty)
                       in (case m (BatchCPU R) of Some q \<Rightarrow> q | None \<Rightarrow> NewQuantity R 0 DecimalSI,
                           case m (BatchMemory R) of Some q \<Rightarrow> q | None \<Rightarrow> NewQuantity R 0 BinarySI))
      in obind (GetOriginExtendedAllocatableRes R (node_Annotations node)) (\<lambda>originAllocatableRes.
         case originAllocatableRes of
           None \<Rightarrow> Ok (pick (node_Allocatable node))
         | Some m \<Rightarrow> Ok (pick (Some m))))"

definition updateYARNAllocatedResource ::
  "'q rec_env \<Rightarrow> 'q Node \<Rightarrow> int32 \<Rightarrow> int64 \<Rightarrow> rec_state \<Rightarrow> unit outcome \<times> rec_state" where
  "updateYARNAllocatedResource E node vcores memoryMB r =
     (let annos = (case node_Annotations node of None \<Rightarrow> Some Map.empty | Some m \<Rightarrow> Some m)
      in case SetYARNAllocatedResource (res E) vcores memoryMB annos of
           (Err err, _) \<Rightarrow> (Err err, r)
         | (Panic p, _) \<Rightarrow> (Panic p, r)
         | (Ok _, annos') \<Rightarrow>
             (let newNode = node\<lparr>node_Annotations := annos'\<rparr>
              in case json_MarshalNode (kube E) node of
                   Inl err \<Rightarrow> (Err (Errorf ''failed to marshal the existing node %#v: %v'' [node_Name node] [err]), r)
                 | Inr oldData \<Rightarrow>
                     (case json_MarshalNode (kube E) newNode of
                        Inl err \<Rightarrow> (Err (Errorf ''failed to marshal the new node %#v: %v'' [node_Name node] [err]), r)
                      | Inr newData \<Rightarrow>
                          (case CreateTwoWayMergePatch (kube E) oldData newData of
                             Inl err \<Rightarrow> (Err (Errorf ''failed to create a two-way merge patch: %v'' [] [err]), r)
                           | Inr patchBytes \<Rightarrow>
                               (of_err (kube_Patch (kube E) (node_Name node) patchBytes),
                                r\<lparr>r_patches := r_patches r @ [(node_Name node, patchBytes)]\<rparr>)))))"

definition getYARNNodeManagerPod :: "'q kube_env \<Rightarrow> 'q Node \<Rightarrow> Pod option outcome" where
  "getYARNNodeManagerPod K node =
     (case kube_List K \<lparr>MatchingLabels = (YarnNMComponentLabel, YarnNMComponentValue),
                        MatchingFields = (''spec.nodeName'', node_Name node)\<rparr> of
        Inl err \<Rightarrow> Err (Errorf ''get node manager pod failed on node %v with error %v'' [node_Name node] [err])
      | Inr [] \<Rightarrow> Ok None
      | Inr (pod # _) \<Rightarrow> Ok (Some pod))"

definition parse_node_id :: "annotations \<Rightarrow> YarnNode outcome" where
  "parse_node_id annos =
     (case anno_get annos YarnNodeIdAnnotation of
        None \<Rightarrow> Err (Errorf ''yarn nm id %v not exist in node annotation'' [YarnNodeIdAnnotation] [])
      | Some podAnnoNodeId \<Rightarrow>
          (let tokens = Split podAnnoNodeId CHR '':''
           in if length tokens \<noteq> 2 then Err (Errorf ''yarn nm id %v format is illegal'' [podAnnoNodeId] [])
              else case Atoi (tokens ! 1) of
                     Ok port \<Rightarrow>
                       Ok \<lparr>yn_Name = tokens ! 0, yn_Port = of_int port,
                           yn_ClusterID = (case anno_get annos PodYarnClusterIDAnnotationKey of
                                             Some cluster \<Rightarrow> cluster
                                           | None \<Rightarrow> DefaultClusterID)\<rparr>
                   | _ \<Rightarrow> Err (Errorf ''yarn nm id port %v format is illegal'' [podAnnoNodeId] [])))"

definition getYARNNode :: "'q kube_env \<Rightarrow> 'q Node \<Rightarrow> YarnNode option outcome" where
  "getYARNNode K node =
     obind (getYARNNodeManagerPod K node) (\<lambda>nmPod.
     case nmPod of
       None \<Rightarrow> Ok None
     | Some pod \<Rightarrow> obind (parse_node_id (pod_Annotations pod)) (\<lambda>yn. Ok (Some yn)))"

section \<open>Reconcile\<close>

record Result = Requeue :: bool

text \<open>A result of \<open>Reconcile\<close>: the controller result and the error, or a panic.\<close>

definition finished :: "rec_state \<Rightarrow> (Result \<times> error option) outcome \<times> rec_state" where
  "finished r = (Ok (\<lparr>Requeue = False\<rparr>, None), r)"

definition retry :: "error \<Rightarrow> rec_state \<Rightarrow> (Result \<times> error option) outcome \<times> rec_state" where
  "retry err r = (Ok (\<lparr>Requeue = True\<rparr>, Some err), r)"

definition no_yarn_node :: "YarnNode option \<Rightarrow> bool" where
  "no_yarn_node yarnNode \<longleftrightarrow> (case yarnNode of None \<Rightarrow> True | Some yn \<Rightarrow> yn_Name yn = [] \<or> yn_Port yn = 0)"

definition Reconcile :: "'q rec_env \<Rightarrow> string \<Rightarrow> rec_state \<Rightarrow> (Result \<times> error option) outcome \<times> rec_state" where
  "Reconcile E name r =
     (case kube_Get (kube E) name of
        Inl err \<Rightarrow> if err = ErrNotFound then finished r else retry err r
      | Inr node \<Rightarrow>
          (case getYARNNode (kube E) node of
             Err err \<Rightarrow> finished r
           | Panic p \<Rightarrow> (Panic p, r)
           | Ok yarnNode \<Rightarrow>
               if no_yarn_node yarnNode then
                 (case updateYARNAllocatedResource E node 0 0 r of
                    (Ok _, r1) \<Rightarrow> finished r1
                  | (Err err, r1) \<Rightarrow> retry err r1
                  | (Panic p, r1) \<Rightarrow> (Panic p, r1))
               else
                 (case getNodeBatchResource (res E) node of
                    Err err \<Rightarrow> retry err r
                  | Panic p \<Rightarrow> (Panic p, r)
                  | Ok (batchCPU, batchMemory) \<Rightarrow>
                      (case calculate (res E) batchCPU batchMemory of (vcores, memoryMB) \<Rightarrow>
                       case updateYARNNodeResource E yarnNode vcores memoryMB r of
                         (Err err, r1) \<Rightarrow> retry err r1
                       | (Panic p, r1) \<Rightarrow> (Panic p, r1)
                       | (Ok _, r1) \<Rightarrow>
                           (case getYARNNodeAllocatedResource (r_cache r1) yarnNode of
                              Err err \<Rightarrow> (Err err, r1)
                            | Panic p \<Rightarrow> (Panic p, r1)
                            | Ok (core, mb) \<Rightarrow>
                                (case updateYARNAllocatedResource E node core mb r1 of
                                   (Ok _, r2) \<Rightarrow> finished r2
                                 | (Err err, r2) \<Rightarrow> retry err r2
                                 | (Panic p, r2) \<Rightarrow> (Panic p, r2)))))))"

section \<open>Frame of the operations\<close>

lemma put_client_frame [simp]:
  "r_patches (put_client ref c w r) = r_patches r" "r_cache (put_client ref c w r) = r_cache r"
  by (simp_all add: put_client_def split: client_ref.splits)

lemma keeps_call_client: "keeps (\<lambda>r. (r_patches r, r_cache r)) (call_client ref f)"
  by (auto simp: keeps_def call_client_def split: option.splits prod.splits)

lemma keeps_getYARNClient: "keeps (\<lambda>r. (r_patches r, r_cache r)) (getYARNClient E yn)"
  by (auto simp: keeps_def getYARNClient_def split: option.splits prod.splits outcome.splits)

lemma keeps_update_or_reinit: "keeps (\<lambda>r. (r_patches r, r_cache r)) (update_or_reinit Y client req)"
  unfolding keeps_def
proof
  fix r
  obtain a r1 where f: "call_client client (UpdateNodeResource Y req) r = (a, r1)" by (metis prod.exhaust)
  obtain b r2 where g: "call_client client (Reinitialize Y) r1 = (b, r2)" by (metis prod.exhaust)
  show "(r_patches (snd (update_or_reinit Y client req r)), r_cache (snd (update_or_reinit Y client req r))) =
        (r_patches r, r_cache r)"
    using keepsD [OF keeps_call_client f] keepsD [OF keeps_call_client g]
    by (cases a; cases b) (simp_all add: update_or_reinit_def f g)
qed

lemma keeps_updateYARNNodeResource:
  "keeps (\<lambda>r. (r_patches r, r_cache r)) (updateYARNNodeResource E yn vcores memoryMB)"
  unfolding updateYARNNodeResource_def
  by (auto intro!: keeps_sbind keeps_sret keeps_getYARNClient keeps_update_or_reinit split: option.splits)

lemma updateYARNAllocatedResource_frame:
  assumes "updateYARNAllocatedResource E node v m r = (o1, r')"
  shows "r_sync r' = r_sync r \<and> r_yarnClient r' = r_yarnClient r \<and> r_cache r' = r_cache r \<and>
         (r_patches r' = r_patches r \<or> (\<exists>p. r_patches r' = r_patches r @ [(node_Name node, p)])) \<and>
         (is_ok o1 \<longrightarrow> r_patches r' \<noteq> r_patches r)"
  using assms
  by (auto simp: updateYARNAllocatedResource_def Let_def split: prod.splits outcome.splits sum.splits)

text \<open>What a successful record sent: the merge patch between the node and the node with the usage
in its annotations.\<close>

lemma updateYARNAllocatedResource_Ok:
  assumes "updateYARNAllocatedResource E node v m r = (Ok (), r')"
  shows "\<exists>annos' oldData newData p.
           SetYARNAllocatedResource (res E) v m
             (Some (case node_Annotations node of None \<Rightarrow> Map.empty | Some a \<Rightarrow> a)) = (Ok (), annos') \<and>
           json_MarshalNode (kube E) node = Inr oldData \<and>
           json_MarshalNode (kube E) (node\<lparr>node_Annotations := annos'\<rparr>) = Inr newData \<and>
           CreateTwoWayMergePatch (kube E) oldData newData = Inr p \<and>
           kube_Patch (kube E) (node_Name node) p = None \<and>
           r' = r\<lparr>r_patches := r_patches r @ [(node_Name node, p)]\<rparr>"
proof -
  have a: "(case node_Annotations node of None \<Rightarrow> Some Map.empty | Some m \<Rightarrow> Some m) =
      Some (case node_Annotations node of None \<Rightarrow> Map.empty | Some a \<Rightarrow> a)"
    by (simp split: option.splits)
  have e: "of_err x = Ok () \<longleftrightarrow> x = None" for x by (cases x) simp_all
  show ?thesis
    using assms unfolding updateYARNAllocatedResource_def Let_def a
    by (auto simp: e split: prod.splits outcome.splits sum.splits)
qed

section \<open>Properties\<close>

lemma Split_pair_iff: "Split a c = [h, p] \<longleftrightarrow> a = h @ c # p \<and> c \<notin> set h \<and> c \<notin> set p"
proof
  assume hp: "Split a c = [h, p]"
  then have "a = h @ c # p" using Join_Split [of a c] by simp
  moreover have "c \<notin> set h" "c \<notin> set p" using Split_elems_no_sep [of _ a c] hp by auto
  ultimately show "a = h @ c # p \<and> c \<notin> set h \<and> c \<notin> set p" by blast
qed (auto simp: Split_append_sep Split_no_sep)

text \<open>C33. The node id a pod advertises is accepted exactly when it is a host and a decimal
number separated by its only colon; the pod's cluster annotation, or the default cluster, is
taken along. A port outside int32 is not refused but silently reduced modulo 2^32.\<close>

theorem node_id_accepted_iff:
  "parse_node_id annos = Ok yn \<longleftrightarrow>
     (\<exists>host portStr port. anno_get annos YarnNodeIdAnnotation = Some (host @ '':'' @ portStr) \<and>
        CHR '':'' \<notin> set host \<and> CHR '':'' \<notin> set portStr \<and> Atoi portStr = Ok port \<and>
        yn = \<lparr>yn_Name = host, yn_Port = of_int port,
              yn_ClusterID = (case anno_get annos PodYarnClusterIDAnnotationKey of
                                Some i \<Rightarrow> i | None \<Rightarrow> DefaultClusterID)\<rparr>)"
proof -
  have "parse_node_id annos = Ok yn \<longleftrightarrow>
     (\<exists>a host portStr port. anno_get annos YarnNodeIdAnnotation = Some a \<and> Split a CHR '':'' = [host, portStr] \<and>
        Atoi portStr = Ok port \<and>
        yn = \<lparr>yn_Name = host, yn_Port = of_int port,
              yn_ClusterID = (case anno_get annos PodYarnClusterIDAnnotationKey of
                                Some i \<Rightarrow> i | None \<Rightarrow> DefaultClusterID)\<rparr>)"
    by (auto simp: parse_node_id_def Let_def length_Suc_conv numeral_2_eq_2 split: option.splits outcome.splits if_splits)
  then show ?thesis by (auto simp: Split_pair_iff)
qed

lemma Reconcile_frame:
  assumes "Reconcile E name r = (out, r')"
  shows "(\<forall>q e. out = Ok (q, e) \<longrightarrow> (Requeue q \<longleftrightarrow> e \<noteq> None)) \<and> r_cache r' = r_cache r \<and>
         (r_patches r' = r_patches r \<or>
          (\<exists>node p. kube_Get (kube E) name = Inr node \<and> r_patches r' = r_patches r @ [(node_Name node, p)])) \<and>
         (kube_Get (kube E) name = Inl ErrNotFound \<longrightarrow> out = Ok (\<lparr>Requeue = False\<rparr>, None) \<and> r' = r)"
proof (cases "kube_Get (kube E) name")
  case (Inl err)
  then show ?thesis using assms by (auto simp: Reconcile_def finished_def retry_def split: if_splits)
next
  case (Inr node)
  show ?thesis
  proof (cases "getYARNNode (kube E) node")
    case (Ok yarnNode)
    show ?thesis
    proof (cases "no_yarn_node yarnNode")
      case True
      obtain o1 r1 where u: "updateYARNAllocatedResource E node 0 0 r = (o1, r1)" by (metis prod.exhaust)
      show ?thesis
        using assms Inr Ok True u updateYARNAllocatedResource_frame [OF u]
        by (cases o1) (auto simp: Reconcile_def finished_def retry_def)
    next
      case False
      show ?thesis
      proof (cases "getNodeBatchResource (res E) node")
        case b: (Ok bm)
        obtain cpu mem vc mb where bm: "bm = (cpu, mem)" and c: "calculate (res E) cpu mem = (vc, mb)" by (metis prod.exhaust)
        obtain o1 r1 where u: "updateYARNNodeResource E yarnNode vc mb r = (o1, r1)" by (metis prod.exhaust)
        have k: "r_patches r1 = r_patches r" "r_cache r1 = r_cache r"
          using keepsD [OF keeps_updateYARNNodeResource u] by simp_all
        note step = assms Inr Ok False b bm c u k
        show ?thesis
        proof (cases o1)
          case o1: (Ok x)
          show ?thesis
          proof (cases "getYARNNodeAllocatedResource (r_cache r1) yarnNode")
            case a: (Ok cm)
            obtain core m where cm: "cm = (core, m)" by (cases cm)
            obtain o2 r2 where w: "updateYARNAllocatedResource E node core m r1 = (o2, r2)" by (metis prod.exhaust)
            show ?thesis
              using step o1 a cm w updateYARNAllocatedResource_frame [OF w]
              by (cases o2) (auto simp: Reconcile_def finished_def retry_def)
          qed (use step o1 in \<open>auto simp: Reconcile_def\<close>)
        qed (use step in \<open>auto simp: Reconcile_def retry_def\<close>)
      qed (use assms Inr Ok False in \<open>auto simp: Reconcile_def retry_def\<close>)
    qed
  qed (use assms Inr in \<open>auto simp: Reconcile_def finished_def\<close>)
qed

text \<open>C21. A reconciliation asks to be requeued exactly when it returns an error, patches
nothing but the node it was asked about and that at most once, never writes the node cache, and
does nothing at all when the node no longer exists.\<close>

theorem Reconcile_effects:
  assumes "Reconcile E name r = (out, r')"
  shows "(\<forall>q e. out = Ok (q, e) \<longrightarrow> (Requeue q \<longleftrightarrow> e \<noteq> None)) \<and> r_cache r' = r_cache r \<and>
         (r_patches r' = r_patches r \<or>
          (\<exists>node p. kube_Get (kube E) name = Inr node \<and> r_patches r' = r_patches r @ [(node_Name node, p)])) \<and>
         (kube_Get (kube E) name = Inl ErrNotFound \<longrightarrow> out = Ok (\<lparr>Requeue = False\<rparr>, None) \<and> r' = r)"
  using Reconcile_frame [OF assms] .


text \<open>C22. When the node manager pod is gone, or advertises no name or port 0, a successful
reconciliation has sent exactly one patch: it turns the node into one whose recorded YARN usage
reads as zero cpu and zero memory, all other annotations kept; neither YARN nor a client, nor the
node cache, is touched.\<close>

theorem Reconcile_clears_usage:
  assumes "kube_Get (kube E) name = Inr node" and "getYARNNode (kube E) node = Ok yarnNode" and "no_yarn_node yarnNode"
    and "Reconcile E name r = (Ok (\<lparr>Requeue = False\<rparr>, None), r')"
    and "json_spec (res E)" and "quantity_spec (res E) nano" and "BatchCPU (res E) \<noteq> BatchMemory (res E)"
  shows "\<exists>annos' oldData newData p usage cpu mem.
           json_MarshalNode (kube E) node = Inr oldData \<and>
           json_MarshalNode (kube E) (node\<lparr>node_Annotations := annos'\<rparr>) = Inr newData \<and>
           CreateTwoWayMergePatch (kube E) oldData newData = Inr p \<and>
           r' = r\<lparr>r_patches := r_patches r @ [(node_Name node, p)]\<rparr> \<and>
           GetYARNAllocatedResource (res E) annos' = Ok (Some usage) \<and>
           usage (BatchCPU (res E)) = Some cpu \<and> nano cpu = 0 \<and> usage (BatchMemory (res E)) = Some mem \<and> nano mem = 0 \<and>
           (\<forall>k. k \<noteq> NodeThirdPartyAllocationsAnnotationKey \<longrightarrow> anno_get annos' k = anno_get (node_Annotations node) k)"
proof -
  obtain o1 r1 where u: "updateYARNAllocatedResource E node 0 0 r = (o1, r1)" by (metis prod.exhaust)
  have "o1 = Ok ()" "r1 = r'"
    using assms(1-4) u by (cases o1; simp add: Reconcile_def finished_def retry_def)+
  then obtain annos' oldData newData p where
    set: "SetYARNAllocatedResource (res E) 0 0 (Some (case node_Annotations node of None \<Rightarrow> Map.empty | Some a \<Rightarrow> a)) = (Ok (), annos')"
    and sent: "json_MarshalNode (kube E) node = Inr oldData"
      "json_MarshalNode (kube E) (node\<lparr>node_Annotations := annos'\<rparr>) = Inr newData"
      "CreateTwoWayMergePatch (kube E) oldData newData = Inr p"
      "r' = r\<lparr>r_patches := r_patches r @ [(node_Name node, p)]\<rparr>"
    using updateYARNAllocatedResource_Ok [of E node 0 0 r r'] u by blast
  have "anno_get annos' k = anno_get (node_Annotations node) k" if "k \<noteq> NodeThirdPartyAllocationsAnnotationKey" for k
    using GetYARNAllocatedResource_after_set(2) [OF assms(5) set that] by (simp add: anno_get_def split: option.splits)
  moreover have "nano (NewQuantity (res E) 0 f) = 0" for f using assms(6) by (simp add: quantity_spec_def)
  ultimately show ?thesis
    using sent GetYARNAllocatedResource_after_set(1) [OF assms(5) set] assms(7)
    by (intro exI [of _ annos'] exI [of _ oldData] exI [of _ newData] exI [of _ p] exI [of _ "yarn_alloc_resources (res E) 0 0"])
      (simp add: yarn_alloc_resources_def)
qed

section \<open>A concrete reconciliation\<close>

text \<open>A node \<open>n1\<close> on which pods \<open>pods\<close> run, 1.5 cores and 2^20 bytes of batch resources, and a
patch that is the new node's JSON.\<close>

definition sample_node :: "int Node" where
  "sample_node = \<lparr>node_Name = ''n1'', node_Annotations = None,
     node_Allocatable = Some [''batch-cpu'' \<mapsto> 1500 * 10 ^ 9, ''batch-memory'' \<mapsto> 1048576 * 10 ^ 9]\<rparr>"

definition usage_doc :: "int \<Rightarrow> int \<Rightarrow> int ThirdPartyAllocations" where
  "usage_doc c m = \<lparr>tpas_Allocations = [\<lparr>tpa_Name = ''hadoop-yarn'', tpa_Priority = ''koord-batch'',
     tpa_Resources = Some [''batch-cpu'' \<mapsto> c * 1000 * 10 ^ 9, ''batch-memory'' \<mapsto> m * 1048576 * 10 ^ 9]\<rparr>]\<rparr>"

definition sample_kube :: "Pod list \<Rightarrow> int kube_env" where
  "sample_kube pods =
     \<lparr>kube_Get = (\<lambda>n. if n = ''n1'' then Inr sample_node else Inl ErrNotFound),
      kube_List = (\<lambda>_. Inr pods), kube_Patch = (\<lambda>_ _. None),
      json_MarshalNode = (\<lambda>n. Inr (case anno_get (node_Annotations n) NodeThirdPartyAllocationsAnnotationKey of
                                   Some v \<Rightarrow> v | None \<Rightarrow> [])),
      CreateTwoWayMergePatch = (\<lambda>_ n. Inr n)\<rparr>"

definition sample_rec_env :: "Pod list \<Rightarrow> int \<Rightarrow> int \<Rightarrow> int rec_env" where
  "sample_rec_env pods c m =
     \<lparr>kube = sample_kube pods, res = reslib_for (usage_doc c m), yenv = nodes_env, configDir = ''d''\<rparr>"

definition used_report :: NodeReportProto where
  "used_report = (sample_report ''nm-1'' 8041)\<lparr>NodeReport_Used :=
     Some (new_ResourceProto\<lparr>Resource_Memory := Some 1, Resource_VirtualCores := Some 1\<rparr>)\<rparr>"

definition sample_rec :: rec_state where
  "sample_rec = \<lparr>r_yarnClient = None, r_sync = nodes_state,
     r_cache = NewNodesSyncer\<lparr>ns_cache := [(''a'', [(getKey ''nm-1'' 8041, used_report)])]\<rparr>,
     r_patches = []\<rparr>"

lemma sample_usage:
  assumes "r = scast (v * 1000 :: int32)" "sint (r :: int64) = c * 1000" "sint (mb * 1024 * 1024 :: int64) = m * 1048576"
  shows "updateYARNAllocatedResource (sample_rec_env pods c m) sample_node v mb s =
           (Ok (), s\<lparr>r_patches := r_patches s @ [(''n1'', ''doc'')]\<rparr>)"
  using assms
  by (simp add: updateYARNAllocatedResource_def sample_rec_env_def sample_node_def sample_kube_def SetYARNAllocatedResource_def
      SetThirdPartyAllocation_def GetThirdPartyAllocations_def anno_get_def anno_put_def reslib_for_def usage_doc_def
      put_alloc_def yarn_alloc_resources_def YARNAllocationName_def)

lemma sample_Get: "kube_Get (kube (sample_rec_env pods c m)) ''n1'' = Inr sample_node"
  by (simp add: sample_rec_env_def sample_kube_def)

lemma sample_no_pod: "getYARNNode (kube (sample_rec_env [] c m)) sample_node = Ok None"
  by (simp add: sample_rec_env_def sample_kube_def getYARNNode_def getYARNNodeManagerPod_def)

lemma sample_gone: "Reconcile (sample_rec_env [] 0 0) ''n1'' sample_rec =
    (Ok (\<lparr>Requeue = False\<rparr>, None), sample_rec\<lparr>r_patches := [(''n1'', ''doc'')]\<rparr>)"
  using sample_usage [OF refl, of 0 0 0 0 "[]" sample_rec]
  by (simp add: Reconcile_def sample_Get sample_no_pod no_yarn_node_def finished_def sample_rec_def)

theorem Reconcile_effects_witness:
  "r_cache (snd (Reconcile (sample_rec_env [] 0 0) ''n1'' sample_rec)) = r_cache sample_rec \<and>
   snd (Reconcile (sample_rec_env [] 0 0) ''n2'' sample_rec) = sample_rec"
proof -
  have "kube_Get (kube (sample_rec_env [] 0 0)) ''n2'' = Inl ErrNotFound"
    by (simp add: sample_rec_env_def sample_kube_def)
  moreover obtain o1 r1 where "Reconcile (sample_rec_env [] 0 0) ''n2'' sample_rec = (o1, r1)" by (metis prod.exhaust)
  ultimately show ?thesis
    using Reconcile_effects [OF sample_gone] Reconcile_effects [of "sample_rec_env [] 0 0" "''n2''" sample_rec o1 r1]
    by (simp add: sample_gone)
qed

theorem Reconcile_clears_usage_witness:
  "\<exists>annos' usage. GetYARNAllocatedResource (reslib_for (usage_doc 0 0)) annos' = Ok (Some usage) \<and>
     usage ''batch-cpu'' = Some 0 \<and> usage ''batch-memory'' = Some 0"
proof -
  let ?E = "sample_rec_env [] 0 0"
  have R: "res ?E = reslib_for (usage_doc 0 0)" by (simp add: sample_rec_env_def)
  have "json_spec (res ?E)" unfolding R
    by (rule reslib_for_json) (simp add: usage_doc_def norm_alloc_def norm_resources_def two_entries_nonempty)
  moreover have "no_yarn_node None" "BatchCPU (res ?E) \<noteq> BatchMemory (res ?E)"
    by (simp_all add: no_yarn_node_def R reslib_for_def)
  moreover have "quantity_spec (res ?E) (\<lambda>q. q)" unfolding R by (rule reslib_for_quantity)
  ultimately obtain annos' usage cpu mem where "GetYARNAllocatedResource (res ?E) annos' = Ok (Some usage)"
      "usage (BatchCPU (res ?E)) = Some cpu" "cpu = 0" "usage (BatchMemory (res ?E)) = Some mem" "mem = 0"
    using Reconcile_clears_usage [OF sample_Get sample_no_pod _ sample_gone] by blast
  then show ?thesis unfolding R by (auto simp: reslib_for_def)
qed

text \<open>With a node manager pod: YARN's cluster \<open>a\<close> is told 2 cores and 2 megabytes.\<close>

definition nm_pod :: Pod where
  "nm_pod = \<lparr>pod_Annotations = Some [YarnNodeIdAnnotation \<mapsto> ''nm-1:8041'', PodYarnClusterIDAnnotationKey \<mapsto> ''a'']\<rparr>"

definition nm_node :: YarnNode where
  "nm_node = \<lparr>yn_Name = ''nm-1'', yn_Port = 8041, yn_ClusterID = ''a''\<rparr>"

lemma Atoi_8041: "Atoi ''8041'' = Ok 8041"
  by code_simp

lemma sample_pod: "getYARNNode (kube (sample_rec_env [nm_pod] c m)) sample_node = Ok (Some nm_node)"
  by (simp add: sample_rec_env_def sample_kube_def getYARNNode_def getYARNNodeManagerPod_def parse_node_id_def nm_pod_def
      nm_node_def anno_get_def YarnNodeIdAnnotation_def PodYarnClusterIDAnnotationKey_def Atoi_8041)

lemma sample_batch:
  "getNodeBatchResource (res (sample_rec_env pods c m)) sample_node = Ok (1500 * 10 ^ 9, 1048576 * 10 ^ 9)"
  "calculate (res (sample_rec_env pods c m)) (1500 * 10 ^ 9) (1048576 * 10 ^ 9) = (2, 2)"
  by (simp_all add: sample_rec_env_def getNodeBatchResource_def GetOriginExtendedAllocatableRes_def
      GetOriginExtendedAllocatable_def sample_node_def anno_get_def reslib_for_def calculate_def ceil_div_def)

lemma sample_told:
  assumes "map_of (ss_clients (r_sync r)) ''a'' = Some client" and "ss_world (r_sync r) = ss_world nodes_state"
    and client: "yc_conf client = Some (ha_conf ''false'')" "activeRMAdminAddress client = Some admin" "activeRMAddress client \<noteq> None"
  shows "\<exists>w. updateYARNNodeResource (sample_rec_env pods c m) (Some nm_node) 2 2 r =
           (Ok (), put_client (ClusterClient ''a'') client w r)"
proof -
  let ?W = "ss_world nodes_state" and ?req = "update_request nm_node 2 2"
  obtain h where h: "GetCalleeRPCRequestHeaderProto
      (service_func ''ResourceManagerAdministrationProtocolServiceClient'' ''UpdateNodeResource'')
      (Some RESOURCE_MANAGER_ADMIN_PROTOCOL) = Ok h"
    and p: "RequestHeader_DeclaringClassProtocolName h = Some RESOURCE_MANAGER_ADMIN_PROTOCOL" using update_header by blast
  define c where "c = \<lparr>ClientId = Some (replicate 16 7),
      Client_Ugi = Some \<lparr>UserInformation_EffectiveUser = None, UserInformation_RealUser = Some ''yarn''\<rparr>,
      ServerAddress = admin, TCPNoDelay = False\<rparr>"
  have "\<exists>w'. Call (sample_env\<lparr>lib := nodes_lib\<rparr>) c h ?req ()
      (Marshal_UpdateNodeResourceRequest nodes_lib) (Unmarshal_UpdateNodeResourceResponse nodes_lib) (net ?W) = (Ok (), w')"
    by (rule sample_call [where user = "''yarn''"
          and ugi = "\<lparr>UserInformation_EffectiveUser = None, UserInformation_RealUser = Some ''yarn''\<rparr>", OF sample_codec_nodes p])
      (simp_all add: c_def nodes_state_def nodes_lib_def sample_lib_def)
  moreover have "CreateYarnAdminClient nodes_env (yc_conf client) (activeRMAdminAddress client) ?W =
      (Ok c, ?W\<lparr>uuids := []\<rparr>)"
    by (simp add: CreateYarnAdminClient_def DialResourceManagerAdministrationProtocolService_def uuid_NewV4_def client
        nodes_state_def c_def nodes_env_def sample_env_def CreateSimpleUGIProto_def sbind_def)
  moreover have "ensureInitialized nodes_env (client, ?W) = (Ok (), client, ?W)"
    by (simp add: ensureInitialized_def client)
  ultimately have "\<exists>w. UpdateNodeResource nodes_env ?req (client, ?W) = (Ok (), client, w)"
    using h by (auto simp: UpdateNodeResource_def sbind_def with_world_def updateNodeResource_def admin_UpdateNodeResource_def
        service_UpdateNodeResource_def on_net_def nodes_env_def)
  then obtain w where w: "UpdateNodeResource nodes_env ?req (client, ?W) = (Ok (), client, w)" ..
  have "getYARNClient (sample_rec_env pods c' m) (Some nm_node) r = (Ok (Some (ClusterClient ''a'')), r)" for c'
    using assms(1) by (simp add: getYARNClient_def nm_node_def)
  moreover have "call_client (ClusterClient ''a'') (UpdateNodeResource nodes_env ?req) r =
      (Ok (), put_client (ClusterClient ''a'') client w r)"
    using w assms(1,2) by (simp add: call_client_def ref_client_def)
  moreover have "yenv (sample_rec_env pods c' m) = nodes_env" for c' by (simp add: sample_rec_env_def)
  ultimately show ?thesis by (auto simp: updateYARNNodeResource_def sbind_def update_or_reinit_def)
qed

lemma sample_rec_client:
  "map_of (ss_clients (r_sync sample_rec)) ''a'' = Some nodes_client" "ss_world (r_sync sample_rec) = ss_world nodes_state"
  by (simp_all add: sample_rec_def nodes_state_def)

lemma nodes_client_addresses:
  "yc_conf nodes_client = Some (ha_conf ''false'')" "activeRMAdminAddress nodes_client = Some ''rm:8033''" "activeRMAddress nodes_client \<noteq> None"
  by (simp_all add: nodes_client_def)


end
