(* ===== verification/Yarn_Metrics.thy ===== *)
theory Yarn_Metrics
  imports Nodes_Cache
begin

text \<open>
  \<open>pkg/controller/metrics\<close>: the Prometheus collector over the node cache. Four gauges per cached
  report. \<open>prometheus.MustNewConstMetric\<close> is a parameter; the conversion to \<open>float64\<close> is written
  out, so that the theorems say which amounts are exported exactly.
\<close>

section \<open>Conversion to floating point\<close>

text \<open>
  Go rounds an integer to the nearest number with 53 significant bits for \<open>float64\<close>, with 24 for
  \<open>float32\<close>, ties to even. Every 64-bit integer has such a number in range; all of them are integers.
\<close>

function halvings :: "nat \<Rightarrow> nat \<Rightarrow> nat" where
  "halvings p a = (if a < 2 ^ p then 0 else Suc (halvings p (a div 2)))"
  by pat_completeness auto
termination
proof (relation "measure snd")
  fix p a :: nat assume "\<not> a < 2 ^ p"
  then have "0 < a" by (cases a) simp_all
  then show "((p, a div 2), (p, a)) \<in> measure snd" by simp
qed simp

declare halvings.simps [simp del]

definition round_even :: "nat \<Rightarrow> nat \<Rightarrow> nat" where
  "round_even a k =
     (let q = a div 2 ^ k; r = a mod 2 ^ k
      in if 2 * r < 2 ^ k \<or> 2 * r = 2 ^ k \<and> even q then q * 2 ^ k else (q + 1) * 2 ^ k)"

definition float_of_int :: "nat \<Rightarrow> int \<Rightarrow> int" where
  "float_of_int p x = sgn x * int (round_even (nat \<bar>x\<bar>) (halvings p (nat \<bar>x\<bar>)))"

abbreviation float64 :: "int \<Rightarrow> int" where "float64 \<equiv> float_of_int 53"
abbreviation float32 :: "int \<Rightarrow> int" where "float32 \<equiv> float_of_int 24"

lemma halvings_le: "a div 2 ^ j < 2 ^ p \<Longrightarrow> halvings p a \<le> j"
proof (induction j arbitrary: a)
  case 0
  then show ?case by (simp add: halvings.simps)
next
  case (Suc j)
  have "a div 2 div 2 ^ j < 2 ^ p" using Suc.prems by (simp add: div_mult2_eq)
  then show ?case using Suc.IH by (subst halvings.simps) simp
qed

lemma round_even_exact: "2 ^ k dvd a \<Longrightarrow> round_even a k = a"
  by (simp add: round_even_def)

lemma float_scaled: "\<bar>x\<bar> < 2 ^ p \<Longrightarrow> float_of_int p (x * 2 ^ j) = x * 2 ^ j"
proof -
  assume x: "\<bar>x\<bar> < 2 ^ p"
  let ?a = "nat \<bar>x * 2 ^ j\<bar>"
  have a: "?a = nat \<bar>x\<bar> * 2 ^ j" by (simp add: abs_mult nat_mult_distrib nat_power_eq)
  have "nat \<bar>x\<bar> < 2 ^ p" using x by (simp add: nat_less_iff)
  then have "?a div 2 ^ j < 2 ^ p" unfolding a by simp
  then have "halvings p ?a \<le> j" by (rule halvings_le)
  then have "2 ^ halvings p ?a dvd ?a" unfolding a by (meson dvd_mult dvd_trans le_imp_power_dvd)
  then have "round_even ?a (halvings p ?a) = ?a" by (rule round_even_exact)
  then show ?thesis by (simp only: float_of_int_def int_nat_eq abs_ge_zero if_True mult_sgn_abs)
qed

lemma float_small: "\<bar>x\<bar> < 2 ^ p \<Longrightarrow> float_of_int p x = x"
  using float_scaled [of x p 0] by simp

section \<open>The collector\<close>

definition yarnNodeCPUResource :: string where "yarnNodeCPUResource = ''yarn_node_cpu_resource''"
definition yarnNodeMemoryResource :: string where "yarnNodeMemoryResource = ''yarn_node_memory_resource''"
definition yarnNodeCPUAllocatedResource :: string where "yarnNodeCPUAllocatedResource = ''yarn_node_cpu_allocated_resource''"
definition yarnNodeMemoryAllocatedResource :: string where
  "yarnNodeMemoryAllocatedResource = ''yarn_node_memory_allocated_resource''"

lemmas metric_names = yarnNodeCPUResource_def yarnNodeMemoryResource_def yarnNodeCPUAllocatedResource_def
  yarnNodeMemoryAllocatedResource_def

record Desc =
  d_fqName :: string
  d_help :: string
  d_variableLabels :: "string list"

definition yarnNodeCPUMetric :: Desc where
  "yarnNodeCPUMetric = \<lparr>d_fqName = yarnNodeCPUResource, d_help = ''yarn node cpu resource'', d_variableLabels = [''instance'', ''cluster'']\<rparr>"

definition yarnNodeMemoryMetric :: Desc where
  "yarnNodeMemoryMetric = \<lparr>d_fqName = yarnNodeMemoryResource, d_help = ''yarn node memory resource'', d_variableLabels = [''instance'', ''cluster'']\<rparr>"

definition yarnNodeCPUAllocatedMetric :: Desc where
  "yarnNodeCPUAllocatedMetric = \<lparr>d_fqName = yarnNodeCPUAllocatedResource, d_help = ''yarn node cpu resource'', d_variableLabels = [''instance'', ''cluster'']\<rparr>"

definition yarnNodeMemoryAllocatedMetric :: Desc where
  "yarnNodeMemoryAllocatedMetric = \<lparr>d_fqName = yarnNodeMemoryAllocatedResource, d_help = ''yarn node memory resource'', d_variableLabels = [''instance'', ''cluster'']\<rparr>"

lemmas metric_descs = yarnNodeCPUMetric_def yarnNodeMemoryMetric_def yarnNodeCPUAllocatedMetric_def yarnNodeMemoryAllocatedMetric_def

record YarnMetricCollector =
  mc_cache :: NodesSyncer

definition NewYarnMetricCollector :: "NodesSyncer \<Rightarrow> YarnMetricCollector" where
  "NewYarnMetricCollector cache = \<lparr>mc_cache = cache\<rparr>"

definition Describe :: "YarnMetricCollector \<Rightarrow> Desc list" where
  "Describe y = [yarnNodeCPUMetric, yarnNodeMemoryMetric, yarnNodeCPUAllocatedMetric, yarnNodeMemoryAllocatedMetric]"

type_synonym 'm new_metric = "Desc \<Rightarrow> int \<Rightarrow> string list \<Rightarrow> 'm outcome"

text \<open>The four metrics of one report; the products with 1024 are taken in 64 bits.\<close>

definition collect_node :: "'m new_metric \<Rightarrow> string \<Rightarrow> NodeReportProto \<Rightarrow> 'm list \<Rightarrow> 'm list outcome" where
  "collect_node N clusterId node metrics =
     (let labels = [NodeId_GetHost (NodeReport_NodeId node), clusterId];
          capability = NodeReport_Capability node; used = NodeReport_Used node
      in obind (N yarnNodeCPUMetric (float64 (sint (Resource_GetVirtualCores capability))) labels) (\<lambda>m1.
         obind (N yarnNodeMemoryMetric (float64 (sint (Resource_GetMemory capability * 1024 * 1024))) labels) (\<lambda>m2.
         obind (N yarnNodeCPUAllocatedMetric (float64 (sint (Resource_GetVirtualCores used))) labels) (\<lambda>m3.
         obind (N yarnNodeMemoryAllocatedMetric (float64 (sint (Resource_GetMemory used * 1024 * 1024))) labels) (\<lambda>m4.
         Ok (metrics @ [m1, m2, m3, m4]))))))"

definition Collect :: "'m new_metric \<Rightarrow> YarnMetricCollector \<Rightarrow> 'm list outcome" where
  "Collect N y =
     ofold (\<lambda>(clusterId, nodes). ofold (collect_node N clusterId) nodes) (GetYarnNodeInfo (mc_cache y)) []"

section \<open>What is exported\<close>

text \<open>The documented behaviour of \<open>MustNewConstMetric\<close>: with a value for each label of its description it returns the metric.\<close>

definition new_metric_ok :: "'m new_metric \<Rightarrow> (Desc \<Rightarrow> int \<Rightarrow> string list \<Rightarrow> 'm) \<Rightarrow> bool" where
  "new_metric_ok N mk \<longleftrightarrow> (\<forall>d x labels. length labels = length (d_variableLabels d) \<longrightarrow> N d x labels = Ok (mk d x labels))"

text \<open>The samples of a report, in the amounts it states.\<close>

definition samples_of :: "string \<Rightarrow> NodeReportProto \<Rightarrow> (Desc \<times> int \<times> string list) list" where
  "samples_of clusterId node =
     (let labels = [NodeId_GetHost (NodeReport_NodeId node), clusterId];
          capability = NodeReport_Capability node; used = NodeReport_Used node
      in [(yarnNodeCPUMetric, sint (Resource_GetVirtualCores capability), labels),
          (yarnNodeMemoryMetric, sint (Resource_GetMemory capability) * 2 ^ 20, labels),
          (yarnNodeCPUAllocatedMetric, sint (Resource_GetVirtualCores used), labels),
          (yarnNodeMemoryAllocatedMetric, sint (Resource_GetMemory used) * 2 ^ 20, labels)])"

definition cache_samples :: "NodesSyncer \<Rightarrow> (Desc \<times> int \<times> string list) list" where
  "cache_samples r = concat (map (\<lambda>(clusterId, cc). concat (map (\<lambda>(_, node). samples_of clusterId node) cc)) (ns_cache r))"

text \<open>No amount of memory is above 8 exabytes.\<close>

definition moderate :: "NodeReportProto \<Rightarrow> bool" where
  "moderate node \<longleftrightarrow>
     \<bar>sint (Resource_GetMemory (NodeReport_Capability node))\<bar> < 2 ^ 43 \<and> \<bar>sint (Resource_GetMemory (NodeReport_Used node))\<bar> < 2 ^ 43"

lemma float64_memory:
  fixes m :: int64
  assumes "\<bar>sint m\<bar> < 2 ^ 43"
  shows "float64 (sint (1048576 * m)) = sint m * 1048576"
proof -
  have "- (2 ^ 63) \<le> 1048576 * sint m \<and> 1048576 * sint m < 2 ^ 63" using assms by auto
  then have "sint (1048576 * m) = sint m * 1048576"
    by (simp add: sint_word_ariths signed_take_bit_int_eq_self)
  then show ?thesis using float_scaled [of "sint m" 53 20] assms by simp
qed

lemma float64_cores: "float64 (sint (c :: int32)) = sint c"
proof -
  have "\<bar>sint c\<bar> < 2 ^ 53" using sint_int32_range [of c] by auto
  then show ?thesis by (rule float_small)
qed

lemma collect_node_samples:
  assumes "new_metric_ok N mk" and "moderate node"
  shows "collect_node N clusterId node ms = Ok (ms @ map (\<lambda>(d, x, l). mk d x l) (samples_of clusterId node))"
  using assms unfolding moderate_def
  by (simp add: collect_node_def samples_of_def Let_def new_metric_ok_def metric_descs float64_memory float64_cores)

lemma ofold_appends:
  assumes "\<And>x s. x \<in> set xs \<Longrightarrow> f x s = Ok (s @ h x)"
  shows "ofold f xs s = Ok (s @ concat (map h xs))"
  using assms by (induction xs arbitrary: s) auto

definition moderate_cache :: "NodesSyncer \<Rightarrow> bool" where
  "moderate_cache r \<longleftrightarrow> (\<forall>e \<in> set (ns_cache r). \<forall>kv \<in> set (snd e). moderate (snd kv))"

text \<open>C31. The collector exports exactly what the cache holds: for each report of each cluster, in
order, cores and memory of its capability and of its use, labelled by host and cluster. The cores
are always exact, and so is the memory in bytes when no amount reaches 8 exabytes: neither the
64-bit product nor the conversion to \<open>float64\<close> loses anything.\<close>

theorem Collect_exports_cache:
  assumes "new_metric_ok N mk" and "moderate_cache r"
  shows "Collect N (NewYarnMetricCollector r) = Ok (map (\<lambda>(d, x, l). mk d x l) (cache_samples r))"
proof -
  let ?m = "map (\<lambda>(d, x, l). mk d x l)"
  have inner: "ofold (collect_node N clusterId) (map snd cc) s = Ok (s @ concat (map (\<lambda>node. ?m (samples_of clusterId node)) (map snd cc)))"
    if e: "(clusterId, cc) \<in> set (ns_cache r)" for clusterId cc s
  proof (rule ofold_appends)
    fix node s assume "node \<in> set (map snd cc)"
    then have "moderate node" using assms(2) e by (force simp: moderate_cache_def)
    then show "collect_node N clusterId node s = Ok (s @ ?m (samples_of clusterId node))"
      by (rule collect_node_samples [OF assms(1)])
  qed
  have "ofold (\<lambda>(clusterId, nodes). ofold (collect_node N clusterId) nodes) (GetYarnNodeInfo r) [] =
      Ok ([] @ concat (map (\<lambda>(clusterId, nodes). concat (map (\<lambda>node. ?m (samples_of clusterId node)) nodes)) (GetYarnNodeInfo r)))"
    by (rule ofold_appends) (use inner in \<open>auto simp: GetYarnNodeInfo_def\<close>)
  then show ?thesis
    by (simp add: Collect_def NewYarnMetricCollector_def cache_samples_def GetYarnNodeInfo_def map_concat comp_def split_def)
qed

text \<open>Prometheus identifies a time series by the name and the label values of its metric.\<close>

definition series :: "Desc \<times> int \<times> string list \<Rightarrow> string \<times> string list" where
  "series m = (case m of (d, x, l) \<Rightarrow> (d_fqName d, l))"

abbreviation node_host :: "NodeReportProto \<Rightarrow> string" where
  "node_host node \<equiv> NodeId_GetHost (NodeReport_NodeId node)"

lemma series_samples:
  "map series (samples_of c node) = map (\<lambda>n. (n, [node_host node, c]))
     [yarnNodeCPUResource, yarnNodeMemoryResource, yarnNodeCPUAllocatedResource, yarnNodeMemoryAllocatedResource]"
  by (simp add: samples_of_def Let_def series_def metric_descs)

lemma distinct_metric_names:
  "distinct [yarnNodeCPUResource, yarnNodeMemoryResource, yarnNodeCPUAllocatedResource, yarnNodeMemoryAllocatedResource]"
  by (simp add: metric_names)

definition cluster_series :: "string \<Rightarrow> cluster_cache \<Rightarrow> (string \<times> string list) list" where
  "cluster_series c cc = concat (map (\<lambda>(_, node). map series (samples_of c node)) cc)"

lemma set_concat_pairs: "set (concat (map (\<lambda>kv. map (\<lambda>n. (n, f kv)) ns) cc)) = set ns \<times> f ` set cc"
  by auto

lemma set_cluster_series:
  "set (cluster_series c cc) =
     {yarnNodeCPUResource, yarnNodeMemoryResource, yarnNodeCPUAllocatedResource, yarnNodeMemoryAllocatedResource} \<times>
     (\<lambda>kv. [node_host (snd kv), c]) ` set cc"
  unfolding cluster_series_def series_samples split_def set_concat_pairs by simp

lemma cluster_series_labels: "x \<in> set (cluster_series c cc) \<Longrightarrow> last (snd x) = c"
  unfolding set_cluster_series by (elim SigmaE imageE) simp

lemma distinct_cluster_series: "distinct (cluster_series c cc) \<longleftrightarrow> distinct (map (\<lambda>kv. node_host (snd kv)) cc)"
proof (induction cc)
  case (Cons kv cc)
  have eq: "cluster_series c (kv # cc) = map series (samples_of c (snd kv)) @ cluster_series c cc"
    by (simp add: cluster_series_def split_def)
  have "set (map series (samples_of c (snd kv))) \<inter> set (cluster_series c cc) = {} \<longleftrightarrow> node_host (snd kv) \<notin> (\<lambda>kv. node_host (snd kv)) ` set cc"
    unfolding set_cluster_series series_samples by auto
  moreover have "distinct (map series (samples_of c (snd kv)))"
    unfolding series_samples using distinct_metric_names by (simp only: distinct_map) (simp add: inj_on_def)
  ultimately show ?case using Cons.IH by (simp add: eq) blast
qed (simp add: cluster_series_def)


section \<open>Sample\<close>

definition metric_report :: "string \<Rightarrow> int32 \<Rightarrow> NodeReportProto" where
  "metric_report h p = new_NodeReportProto\<lparr>NodeReport_NodeId := Some \<lparr>NodeId_Host = Some h, NodeId_Port = Some p\<rparr>,
     NodeReport_Capability := Some (new_ResourceProto\<lparr>Resource_Memory := Some 1024, Resource_VirtualCores := Some 4\<rparr>)\<rparr>"

definition sample_cache :: NodesSyncer where
  "sample_cache = \<lparr>ns_started = True, ns_cache = [(''c1'', [(''h1-8041'', metric_report ''h1'' 8041), (''h1-8042'', metric_report ''h1'' 8042)])]\<rparr>"

theorem Collect_exports_cache_witness:
  "Collect (\<lambda>d x l. if length l = length (d_variableLabels d) then Ok (d, x, l) else Panic IndexRange) (NewYarnMetricCollector sample_cache) =
     Ok (cache_samples sample_cache)"
proof -
  have "new_metric_ok (\<lambda>d x l. if length l = length (d_variableLabels d) then Ok (d, x, l) else Panic IndexRange) (\<lambda>d x l. (d, x, l))"
    by (simp add: new_metric_ok_def)
  moreover have "moderate_cache sample_cache"
    by (simp add: moderate_cache_def moderate_def sample_cache_def metric_report_def new_NodeReportProto_def
        Resource_GetMemory_def new_ResourceProto_def)
  moreover have "(\<lambda>(d, x, l). (d, x, l)) = (id :: Desc \<times> int \<times> string list \<Rightarrow> _)" by auto
  ultimately show ?thesis using Collect_exports_cache [where r = sample_cache and mk = "\<lambda>d x l. (d, x, l)"] by simp
qed


end
