(* ===== verification/Operator_Main.thy ===== *)
theory Operator_Main
  imports Reconciler Yarn_Metrics
begin

text \<open>
  \<open>cmd/yarn-operator\<close> and the registration of the controller (\<open>Add\<close> and \<open>SetupWithManager\<close> of
  \<open>resource_sync_controller.go\<close>): which controllers are enabled, how they are added to the manager,
  and how the process ends. The controller-runtime manager, its configuration, koordinator's field
  indexes and the Prometheus registry are parameters that succeed or fail. The second half is the
  operator as a whole: the syncer's goroutine and the reconciler working on the state they share.
\<close>

section \<open>Registration of the controller\<close>

definition ControllerName :: string where "ControllerName = ''yarnresource''"

record add_env =
  ae_yarn :: yarn_env
  ae_root :: "string \<Rightarrow> error + dirent"
  ae_configDir :: string
  Registry_Register :: "Desc list \<Rightarrow> error option"
  Manager_Add :: "NodesSyncer \<Rightarrow> error option"
  Builder_Complete :: "string \<Rightarrow> error option"

definition SetupWithManager :: "add_env \<Rightarrow> unit outcome" where
  "SetupWithManager A = of_err (Builder_Complete A ControllerName)"

text \<open>The world of the start: the network, the reconciler once it is registered, and the address of the
  profiler's listener once its goroutine runs (a failure to listen there is only logged).\<close>

record op_world =
  op_net :: yworld
  op_rec :: "rec_state option"
  op_pprof :: "string option"

definition create_clients :: "add_env \<Rightarrow> op_world \<Rightarrow> (string \<times> yarnClient) list outcome \<times> op_world" where
  "create_clients A w =
     (case CreateAllYarnClients (ae_yarn A) (ae_root A) (ae_configDir A) (op_net w) of
        (r, net1) \<Rightarrow> (r, w\<lparr>op_net := net1\<rparr>))"

definition Add :: "add_env \<Rightarrow> op_world \<Rightarrow> unit outcome \<times> op_world" where
  "Add A =
     sbind (create_clients A) (\<lambda>clients.
       let yarnNodesSyncer = NewNodesSyncer;
           coll = NewYarnMetricCollector yarnNodesSyncer
       in sbind (slift (of_err (Registry_Register A (Describe coll)))) (\<lambda>_.
          sbind (slift (of_err (Manager_Add A yarnNodesSyncer))) (\<lambda>_.
          sbind (slift (SetupWithManager A)) (\<lambda>_ w.
            (Ok (), w\<lparr>op_rec := Some \<lparr>r_yarnClient = None, r_sync = \<lparr>ss_clients = clients, ss_world = op_net w\<rparr>,
               r_cache = yarnNodesSyncer, r_patches = []\<rparr>\<rparr>)))))"

section \<open>Options\<close>

record 'w Options =
  ControllerAddFuncs :: "(string \<times> ('w \<Rightarrow> unit outcome \<times> 'w)) list"
  Controllers :: "string list"

definition controllerAddFuncs :: "add_env \<Rightarrow> (string \<times> (op_world \<Rightarrow> unit outcome \<times> op_world)) list" where
  "controllerAddFuncs A = [(ControllerName, Add A)]"

definition controllerAddDefault :: "string list" where
  "controllerAddDefault = [ControllerName]"

definition NewOptions :: "add_env \<Rightarrow> op_world Options" where
  "NewOptions A = \<lparr>ControllerAddFuncs = controllerAddFuncs A, Controllers = controllerAddDefault\<rparr>"

text \<open>The flag replaces the list when it is given; its parsing is pflag's.\<close>

definition InitFlags :: "string list option \<Rightarrow> 'w Options \<Rightarrow> 'w Options" where
  "InitFlags given opts = (case given of None \<Rightarrow> opts | Some cs \<Rightarrow> opts\<lparr>Controllers := cs\<rparr>)"

fun enabled_loop :: "string \<Rightarrow> string list \<Rightarrow> bool \<Rightarrow> bool" where
  "enabled_loop controllerName [] hasStar = hasStar"
| "enabled_loop controllerName (c # cs) hasStar =
     (if c = controllerName then True
      else if c = ''-'' @ controllerName then False
      else enabled_loop controllerName cs (if c = ''*'' then True else hasStar))"

definition isControllerEnabled :: "string \<Rightarrow> string list \<Rightarrow> bool" where
  "isControllerEnabled controllerName controllers = enabled_loop controllerName controllers False"

fun apply_loop :: "string list \<Rightarrow> (string \<times> ('w \<Rightarrow> unit outcome \<times> 'w)) list \<Rightarrow> 'w \<Rightarrow> unit outcome \<times> 'w" where
  "apply_loop controllers [] = sret ()"
| "apply_loop controllers ((controllerName, addFn) # fs) =
     (if \<not> isControllerEnabled controllerName controllers then apply_loop controllers fs
      else sbind addFn (\<lambda>_. apply_loop controllers fs))"

definition ApplyTo :: "'w Options \<Rightarrow> 'w \<Rightarrow> unit outcome \<times> 'w" where
  "ApplyTo opts = apply_loop (Controllers opts) (ControllerAddFuncs opts)"

section \<open>The scheme\<close>

text \<open>
  \<open>options/scheme.go\<close>: the API types the manager's client knows. The registry of types is
  apimachinery's; the error of adding client-go's types is dropped.
\<close>

record 's scheme_lib =
  runtime_NewScheme :: 's
  clientgo_AddToScheme :: "'s \<Rightarrow> error option \<times> 's"
  metav1_SchemeGroupVersion :: string
  AddUnversionedTypes :: "string \<Rightarrow> string list \<Rightarrow> 's \<Rightarrow> 's"

definition Scheme :: "'s scheme_lib \<Rightarrow> 's" where
  "Scheme L =
     AddUnversionedTypes L (metav1_SchemeGroupVersion L) [''UpdateOptions'', ''DeleteOptions'', ''CreateOptions'']
       (snd (clientgo_AddToScheme L (runtime_NewScheme L)))"

section \<open>The process\<close>

record RestConfig =
  cfg_QPS :: int
  cfg_Burst :: int64
  cfg_UserAgent :: string

definition setRestConfig :: "int64 \<Rightarrow> int64 \<Rightarrow> RestConfig \<Rightarrow> RestConfig" where
  "setRestConfig restConfigQPS restConfigBurst c =
     (let c1 = (if 0 <s restConfigQPS then c\<lparr>cfg_QPS := float32 (sint restConfigQPS)\<rparr> else c)
      in if 0 <s restConfigBurst then c1\<lparr>cfg_Burst := restConfigBurst\<rparr> else c1)"

text \<open>The command line with the defaults of its flags; its parsing is pflag's.\<close>

record op_flags =
  rest_config_qps :: int64
  rest_config_burst :: int64
  metrics_addr :: string
  health_probe_addr :: string
  enable_leader_election :: bool
  leader_election_namespace :: string
  flag_namespace :: string
  enable_pprof :: bool
  pprof_addr :: string
  sync_period :: string
  flag_controllers :: "string list option"

definition default_flags :: op_flags where
  "default_flags =
     \<lparr>rest_config_qps = 30, rest_config_burst = 50, metrics_addr = '':8080'', health_probe_addr = '':8000'',
      enable_leader_election = True, leader_election_namespace = ''koordinator-system'', flag_namespace = [],
      enable_pprof = True, pprof_addr = '':8090'', sync_period = [], flag_controllers = None\<rparr>"

record 's ManagerOptions =
  mo_Scheme :: 's
  MetricsBindAddress :: string
  HealthProbeBindAddress :: string
  LeaderElection :: bool
  LeaderElectionID :: string
  LeaderElectionNamespace :: string
  LeaderElectionResourceLock :: string
  mo_Namespace :: string
  SyncPeriod :: "int64 option"

text \<open>\<open>NewClient\<close>, the other fixed field of the options, is a function of koordinator's that goes to
  \<open>NewManager\<close> every time.\<close>

record 's main_env =
  me_add :: add_env
  me_scheme :: "'s scheme_lib"
  ConfigMapsLeasesResourceLock :: string
  ParseDuration :: "string \<Rightarrow> error + int64"
  GetConfig :: "RestConfig option"
  NewManager :: "RestConfig \<Rightarrow> 's ManagerOptions \<Rightarrow> error option"
  RegisterFieldIndexes :: "error option"
  mgr_Start :: "error option"

datatype main_end = Exit nat | MainReturned | MainPanicked panic

text \<open>An invalid period is logged and counts as none.\<close>

definition parse_period :: "'s main_env \<Rightarrow> string \<Rightarrow> int64 option" where
  "parse_period M syncPeriodStr =
     (if syncPeriodStr = [] then None
      else case ParseDuration M syncPeriodStr of Inl err \<Rightarrow> None | Inr d \<Rightarrow> Some d)"

text \<open>\<open>GetConfigOrDie\<close> exits when there is no configuration; the profiler runs by then.\<close>

definition operator_main :: "'s main_env \<Rightarrow> op_flags \<Rightarrow> op_world \<Rightarrow> main_end \<times> op_world" where
  "operator_main M f w0 =
     (let opts = InitFlags (flag_controllers f) (NewOptions (me_add M));
          w = (if enable_pprof f then w0\<lparr>op_pprof := Some (pprof_addr f)\<rparr> else w0)
      in case GetConfig M of
           None \<Rightarrow> (Exit 1, w)
         | Some cfg0 \<Rightarrow>
             (let cfg = (setRestConfig (rest_config_qps f) (rest_config_burst f) cfg0)\<lparr>cfg_UserAgent := ''koordinator-yarn-operator''\<rparr>;
                  mopts = \<lparr>mo_Scheme = Scheme (me_scheme M), MetricsBindAddress = metrics_addr f,
                           HealthProbeBindAddress = health_probe_addr f, LeaderElection = enable_leader_election f,
                           LeaderElectionID = ''koordinator-yarn-operator'', LeaderElectionNamespace = leader_election_namespace f,
                           LeaderElectionResourceLock = ConfigMapsLeasesResourceLock M, mo_Namespace = flag_namespace f,
                           SyncPeriod = parse_period M (sync_period f)\<rparr>
              in if NewManager M cfg mopts \<noteq> None then (Exit 1, w)
                 else if RegisterFieldIndexes M \<noteq> None then (Exit 1, w)
                 else case ApplyTo opts w of
                        (Err err, w1) \<Rightarrow> (Exit 1, w1)
                      | (Panic p, w1) \<Rightarrow> (MainPanicked p, w1)
                      | (Ok _, w1) \<Rightarrow> if mgr_Start M \<noteq> None then (Exit 1, w1) else (MainReturned, w1)))"

section \<open>Which controllers run\<close>

definition decides :: "string \<Rightarrow> string \<Rightarrow> bool" where
  "decides name c \<longleftrightarrow> c = name \<or> c = ''-'' @ name"

lemma enabled_loop_spec:
  "enabled_loop name cs star =
     (case find (decides name) cs of Some c \<Rightarrow> c = name | None \<Rightarrow> star \<or> ''*'' \<in> set cs)"
  by (induction cs arbitrary: star) (auto simp: decides_def split: option.splits)

text \<open>C37. The controller list is read as documented, by its first word about a controller: a
controller runs when the first of \<open>name\<close> and \<open>-name\<close> in the list is \<open>name\<close>, or when neither is in the
list and \<open>*\<close> is. With the node resource controller switched off, the operator registers nothing and
contacts no resource manager.\<close>

theorem controllers_flag:
  "isControllerEnabled name cs =
     (case find (\<lambda>c. c = name \<or> c = ''-'' @ name) cs of Some c \<Rightarrow> c = name | None \<Rightarrow> ''*'' \<in> set cs) \<and>
   (flag_controllers f = Some cs \<and> \<not> isControllerEnabled ControllerName cs \<longrightarrow>
      op_rec (snd (operator_main M f w)) = op_rec w \<and> op_net (snd (operator_main M f w)) = op_net w)"
proof (intro conjI impI)
  show "isControllerEnabled name cs =
      (case find (\<lambda>c. c = name \<or> c = ''-'' @ name) cs of Some c \<Rightarrow> c = name | None \<Rightarrow> ''*'' \<in> set cs)"
    unfolding isControllerEnabled_def enabled_loop_spec decides_def [abs_def] by (simp split: option.splits)
  assume "flag_controllers f = Some cs \<and> \<not> isControllerEnabled ControllerName cs"
  then show "op_rec (snd (operator_main M f w)) = op_rec w" and "op_net (snd (operator_main M f w)) = op_net w"
    by (simp_all add: operator_main_def Let_def InitFlags_def NewOptions_def ApplyTo_def controllerAddFuncs_def split: option.splits)
qed

section \<open>The running operator\<close>

text \<open>
  The syncer's goroutine and the reconciler take turns on the clients, the network and the cache.
  The unit of a turn is one event of the goroutine and one reconciliation; the environment (API
  server, resource managers) may be another one each time, over one library of quantities.
\<close>

inductive operator_reach :: "'q reslib \<Rightarrow> rec_state \<Rightarrow> run_state \<Rightarrow> bool" for L where
  start: "Add A w = (Ok (), w') \<Longrightarrow> op_rec w' = Some r \<Longrightarrow> operator_reach L r Running"
| sync: "operator_reach L r st \<Longrightarrow>
     l = Start_step \<lparr>ls_syncer = r_cache r, ls_state = r_sync r, ls_run = st\<rparr> ev \<Longrightarrow>
     operator_reach L (r\<lparr>r_cache := ls_syncer l, r_sync := ls_state l\<rparr>) (ls_run l)"
| reconcile: "operator_reach L r st \<Longrightarrow> Reconcile E name r = (out, r') \<Longrightarrow> res E = L \<Longrightarrow> operator_reach L r' st"

lemma Add_Ok:
  assumes "Add A w = (Ok (), w')"
  shows "\<exists>clients net1. CreateAllYarnClients (ae_yarn A) (ae_root A) (ae_configDir A) (op_net w) = (Ok clients, net1) \<and>
           Registry_Register A (Describe (NewYarnMetricCollector NewNodesSyncer)) = None \<and>
           Manager_Add A NewNodesSyncer = None \<and> Builder_Complete A ControllerName = None \<and>
           w' = \<lparr>op_net = net1, op_rec = Some \<lparr>r_yarnClient = None, r_sync = \<lparr>ss_clients = clients, ss_world = net1\<rparr>,
                  r_cache = NewNodesSyncer, r_patches = []\<rparr>, op_pprof = op_pprof w\<rparr>"
proof -
  have e: "of_err x = Ok u \<longleftrightarrow> x = None" for x u by (cases x) simp_all
  show ?thesis using assms
    by (auto simp: Add_def sbind_eq_Ok_iff create_clients_def SetupWithManager_def Let_def e split: prod.splits)
qed

lemma operator_cache_inv: "operator_reach L r st \<Longrightarrow> cache_inv (r_cache r)"
proof (induction rule: operator_reach.induct)
  case (start A w w' r)
  then show ?case using Add_Ok [OF start(1)] by (auto simp: cache_inv_def NewNodesSyncer_def)
next
  case (sync r st l ev)
  then have "cache_inv (ls_syncer l)" using syncer_loop.step_inv by simp
  then show ?case by simp
next
  case (reconcile r st E name out r')
  then show ?case using Reconcile_frame [OF reconcile(2)] by simp
qed

lemma Reconcile_recorded:
  assumes "kube_Get (kube E) name = Inr node" and "getYARNNode (kube E) node = Ok (Some yn)" and "\<not> no_yarn_node (Some yn)"
    and "Reconcile E name r = (Ok (\<lparr>Requeue = False\<rparr>, None), r')"
  shows "\<exists>core mb r1. getYARNNodeAllocatedResource (r_cache r) (Some yn) = Ok (core, mb) \<and>
           updateYARNAllocatedResource E node core mb r1 = (Ok (), r')"
proof -
  have "\<exists>vc mb r1. updateYARNNodeResource E (Some yn) vc mb r = (Ok (), r1) \<and>
      (\<exists>core mb. getYARNNodeAllocatedResource (r_cache r1) (Some yn) = Ok (core, mb) \<and>
         updateYARNAllocatedResource E node core mb r1 = (Ok (), r'))"
    using assms by (auto simp: Reconcile_def finished_def retry_def split: outcome.splits prod.splits) blast
  moreover have "r_cache r1 = r_cache r" if "updateYARNNodeResource E (Some yn) vc mb r = (Ok (), r1)" for vc mb r1
    using keepsD [OF keeps_updateYARNNodeResource that] by simp
  ultimately show ?thesis by metis
qed

text \<open>C5. In every state the running operator can reach, whatever the resource managers and the API
server answered on the way and however the syncer and the reconciler took turns: a successful
reconciliation of a node with a node manager records zero if the cache has no report of it, and
otherwise the use stated by a report of exactly that host and port, when ports are not negative.\<close>

theorem operator_records_own_usage:
  assumes "operator_reach L r st" and "kube_Get (kube E) name = Inr node" and "getYARNNode (kube E) node = Ok (Some yn)"
    and "\<not> no_yarn_node (Some yn)" and "Reconcile E name r = (Ok (\<lparr>Requeue = False\<rparr>, None), r')"
    and "0 \<le> sint (yn_Port yn)" and "\<And>rep h p. GetNodeResource (r_cache r) (Some yn) = Some rep \<Longrightarrow> report_at h p rep \<Longrightarrow> 0 \<le> sint p"
  shows "\<exists>core mb r1. updateYARNAllocatedResource E node core mb r1 = (Ok (), r') \<and>
           (case GetNodeResource (r_cache r) (Some yn) of
              None \<Rightarrow> core = 0 \<and> mb = 0
            | Some rep \<Rightarrow> report_at (yn_Name yn) (yn_Port yn) rep \<and> NodeReport_Used rep \<noteq> None \<and>
                core = Resource_GetVirtualCores (NodeReport_Used rep) \<and> mb = Resource_GetMemory (NodeReport_Used rep))"
proof -
  obtain core mb r1 where a: "getYARNNodeAllocatedResource (r_cache r) (Some yn) = Ok (core, mb)"
    and u: "updateYARNAllocatedResource E node core mb r1 = (Ok (), r')"
    using Reconcile_recorded [OF assms(2-5)] by blast
  show ?thesis
  proof (cases "GetNodeResource (r_cache r) (Some yn)")
    case None
    then show ?thesis using a u by (auto simp: getYARNNodeAllocatedResource_def)
  next
    case (Some rep)
    have "report_at (yn_Name yn) (yn_Port yn) rep"
      using nodes_lookup.lookup_own_report [OF operator_cache_inv [OF assms(1)] Some assms(6)] assms(7) [OF Some] by blast
    moreover obtain used where "NodeReport_Used rep = Some used"
      using a Some by (cases "NodeReport_Used rep") (auto simp: getYARNNodeAllocatedResource_def)
    ultimately show ?thesis using a u Some
      by (auto simp: getYARNNodeAllocatedResource_def Resource_GetVirtualCores_def Resource_GetMemory_def)
  qed
qed

section \<open>A concrete operator\<close>

definition sample_add :: add_env where
  "sample_add = \<lparr>ae_yarn = nodes_env,
     ae_root = (\<lambda>_. Inr (DirEnt ''d'' [FileEnt ''a.yarn-site.xml'', FileEnt ''core-site.xml''])), ae_configDir = ''d'',
     Registry_Register = (\<lambda>_. None), Manager_Add = (\<lambda>_. None), Builder_Complete = (\<lambda>_. None)\<rparr>"

definition sample_main :: "unit main_env" where
  "sample_main = \<lparr>me_add = sample_add,
     me_scheme = \<lparr>runtime_NewScheme = (), clientgo_AddToScheme = (\<lambda>s. (None, s)), metav1_SchemeGroupVersion = ''v1'',
       AddUnversionedTypes = (\<lambda>_ _ s. s)\<rparr>, ConfigMapsLeasesResourceLock = ''configmapsleases'', ParseDuration = (\<lambda>_. Inl ErrSyntax),
     GetConfig = Some \<lparr>cfg_QPS = 0, cfg_Burst = 0, cfg_UserAgent = []\<rparr>,
     NewManager = (\<lambda>_ _. None), RegisterFieldIndexes = None, mgr_Start = None\<rparr>"

definition sample_start :: op_world where
  "sample_start = \<lparr>op_net = ss_world nodes_state, op_rec = None, op_pprof = None\<rparr>"

theorem controllers_flag_witness:
  "op_rec (snd (operator_main sample_main
     (default_flags\<lparr>flag_controllers := Some [''*'', ''-yarnresource'', ''yarnresource'']\<rparr>) sample_start)) = None"
proof -
  have "\<not> isControllerEnabled ControllerName [''*'', ''-yarnresource'', ''yarnresource'']"
    by (simp add: isControllerEnabled_def ControllerName_def)
  then show ?thesis
    using controllers_flag [of ControllerName "[''*'', ''-yarnresource'', ''yarnresource'']"
        "default_flags\<lparr>flag_controllers := Some [''*'', ''-yarnresource'', ''yarnresource'']\<rparr>" sample_main sample_start] by (simp add: sample_start_def)
qed

lemma sample_initialize:
  "\<exists>c admin. Initialize nodes_env (NewYarnClient ''d'' k, W) = (Ok (), c, W) \<and> yc_conf c = Some (ha_conf ''false'') \<and>
     activeRMAdminAddress c = Some admin \<and> activeRMAddress c \<noteq> None"
proof -
  have "GetRMEnabledHA (ha_conf ''false'') = Ok False"
    by (simp add: GetRMEnabledHA_def conf_GetBool_def ha_conf_def ParseBool_def const_simps)
  then show ?thesis
    by (simp add: Initialize_def ha_conf_load nodes_env_def Let_def NewYarnClient_def address_values)
qed

lemma sample_added:
  "\<exists>w' r c admin. Add sample_add sample_start = (Ok (), w') \<and> op_rec w' = Some r \<and> r_cache r = NewNodesSyncer \<and> r_patches r = [] \<and>
     map_of (ss_clients (r_sync r)) ''a'' = Some c \<and> ss_world (r_sync r) = ss_world nodes_state \<and>
     yc_conf c = Some (ha_conf ''false'') \<and> activeRMAdminAddress c = Some admin \<and> activeRMAddress c \<noteq> None"
proof -
  let ?W = "ss_world nodes_state" and ?fs = "ae_root sample_add"
  obtain c1 admin where c1: "Initialize nodes_env (NewYarnClient ''d'' ''a'', ?W) = (Ok (), c1, ?W)"
    and p: "yc_conf c1 = Some (ha_conf ''false'')" "activeRMAdminAddress c1 = Some admin" "activeRMAddress c1 \<noteq> None"
    using sample_initialize by blast
  obtain c2 where c2: "Initialize nodes_env (NewYarnClient ''d'' [], ?W) = (Ok (), c2, ?W)"
    using sample_initialize by blast
  have ids: "getAllKnownClusterID ?fs ''d'' = Ok [''a'']"
    by (simp add: getAllKnownClusterID_def HasSuffix_def site_suffix_def HasPrefix_def sample_add_def)
  have all: "CreateAllYarnClients nodes_env ?fs ''d'' ?W = (Ok [(''a'', c1), (DefaultClusterID, c2)], ?W)"
    by (simp add: CreateAllYarnClients_def ids sbind_def CreateYarnClientByClusterID_def CreateDefaultYarnClient_def c1 c2
        DefaultClusterID_def)
  have a: "ae_yarn sample_add = nodes_env" "ae_configDir sample_add = ''d''" "Registry_Register sample_add d = None"
    "Manager_Add sample_add n = None" "Builder_Complete sample_add x = None" for d n x
    by (simp_all add: sample_add_def)
  show ?thesis using all p
    by (simp add: Add_def create_clients_def sample_start_def a SetupWithManager_def sbind_def Let_def)
qed

theorem operator_records_own_usage_witness:
  "\<exists>r r1 r'. operator_reach (res (sample_rec_env [nm_pod] 0 0)) r Running \<and>
     Reconcile (sample_rec_env [nm_pod] 0 0) ''n1'' r = (Ok (\<lparr>Requeue = False\<rparr>, None), r') \<and>
     updateYARNAllocatedResource (sample_rec_env [nm_pod] 0 0) sample_node 0 0 r1 = (Ok (), r')"
proof -
  let ?E = "sample_rec_env [nm_pod] 0 0"
  obtain w' r c admin where add: "Add sample_add sample_start = (Ok (), w')" "op_rec w' = Some r" and r: "r_cache r = NewNodesSyncer"
    and c: "map_of (ss_clients (r_sync r)) ''a'' = Some c" "ss_world (r_sync r) = ss_world nodes_state"
      "yc_conf c = Some (ha_conf ''false'')" "activeRMAdminAddress c = Some admin" "activeRMAddress c \<noteq> None"
    using sample_added by blast
  have reach: "operator_reach (res ?E) r Running" using add by (rule operator_reach.start)
  obtain w where t: "updateYARNNodeResource ?E (Some nm_node) 2 2 r = (Ok (), put_client (ClusterClient ''a'') c w r)" (is "_ = (_, ?r1)")
    using sample_told [OF c] by blast
  have n: "\<not> no_yarn_node (Some nm_node)" by (simp add: no_yarn_node_def nm_node_def)
  have g: "GetNodeResource (r_cache r) (Some nm_node) = None" by (simp add: GetNodeResource_def r NewNodesSyncer_def)
  have ok: "Reconcile ?E ''n1'' r = (Ok (\<lparr>Requeue = False\<rparr>, None), ?r1\<lparr>r_patches := r_patches ?r1 @ [(''n1'', ''doc'')]\<rparr>)"
    using sample_usage [OF refl, of 0 0 0 0 "[nm_pod]" ?r1] g
    by (simp add: Reconcile_def sample_Get sample_pod n sample_batch [simplified] t finished_def getYARNNodeAllocatedResource_def)
  have "0 \<le> sint (yn_Port nm_node)" by (simp add: nm_node_def)
  then show ?thesis
    using operator_records_own_usage [OF reach sample_Get sample_pod n ok] g reach ok by auto
qed

end
