(* ===== verification/Go_FS.thy ===== *)
theory Go_FS
  imports Go_Lib "HOL-Library.Char_ord" "HOL-Library.List_Lexorder"
begin

text \<open>
  A file system and the functions of Go's \<open>os\<close> and \<open>path/filepath\<close> that the node agent calls
  on it: Lstat, Mkdir, MkdirAll, Chmod, Remove, RemoveAll and Walk. A file system maps the
  elements of an absolute path to a directory with its permissions, a file with its content, or
  a socket; there are no symbolic links. What the kernel does on top of that is in \<open>os_env\<close>: an
  operation may fail for a reason of its own, a fresh directory may come with files (as in
  cgroupfs), and a failed RemoveAll may have removed part of the tree.

  \<open>filepath.Walk\<close> follows directories that its callback may change while it walks, so its
  recursion is bounded by fuel; \<open>Walk_terminates\<close> shows that the fuel chosen from the depth of
  the tree is enough for every callback that makes no new entries.
\<close>

section \<open>Paths\<close>

definition good_seg :: "string \<Rightarrow> bool" where
  "good_seg c \<longleftrightarrow> c \<noteq> [] \<and> c \<noteq> ''.'' \<and> c \<noteq> ''..'' \<and> CHR ''/'' \<notin> set c"

definition abs_path :: "string list \<Rightarrow> string" where
  "abs_path cs = CHR ''/'' # Join cs ''/''"

definition no_dotdot :: "string \<Rightarrow> bool" where
  "no_dotdot p \<longleftrightarrow> ''..'' \<notin> set (Split p CHR ''/'')"

definition segs :: "string \<Rightarrow> string list" where
  "segs p = filter (\<lambda>x. x \<noteq> [] \<and> x \<noteq> ''.'') (Split p CHR ''/'')"

text \<open>\<open>filepath.Dir\<close>: everything before the last slash, cleaned.\<close>

definition path_Dir :: "string \<Rightarrow> string" where
  "path_Dir p = Clean (rev (dropWhile (\<lambda>c. c \<noteq> CHR ''/'') (rev p)))"

lemma Split_append: "Split (a @ c # b) c = Split a c @ Split b c"
  by (induction a) (auto split: list.splits)

lemma Split_Join_concat: "xs \<noteq> [] \<Longrightarrow> Split (Join xs [c]) c = concat (map (\<lambda>x. Split x c) xs)"
proof (induction xs)
  case (Cons x xs)
  then show ?case by (cases xs) (simp_all add: Split_append)
qed simp

lemma Split_slash: "Split (CHR ''/'' # p) CHR ''/'' = [] # Split p CHR ''/''"
  by simp

lemma clean_segs_plain:
  "''..'' \<notin> set xs \<Longrightarrow> clean_segs r acc xs = rev acc @ filter (\<lambda>x. x \<noteq> [] \<and> x \<noteq> ''.'') xs"
  by (induction xs arbitrary: acc) auto

lemma segs_good: "no_dotdot p \<Longrightarrow> c \<in> set (segs p) \<Longrightarrow> good_seg c"
  using Split_elems_no_sep [of c p "CHR ''/''"] by (auto simp: segs_def no_dotdot_def good_seg_def)

lemma Split_good: "\<forall>c \<in> set cs. good_seg c \<Longrightarrow> cs \<noteq> [] \<Longrightarrow> Split (Join cs ''/'') CHR ''/'' = cs"
proof -
  assume g: "\<forall>c \<in> set cs. good_seg c" and ne: "cs \<noteq> []"
  have "concat (map (\<lambda>x. Split x CHR ''/'') cs) = cs"
    using g by (induction cs) (simp_all add: good_seg_def Split_no_sep)
  then show ?thesis using Split_Join_concat [OF ne] by simp
qed

lemma segs_abs_path [simp]: "\<forall>c \<in> set cs. good_seg c \<Longrightarrow> segs (abs_path cs) = cs"
proof (cases "cs = []")
  case False
  assume g: "\<forall>c \<in> set cs. good_seg c"
  then have "filter (\<lambda>x. x \<noteq> [] \<and> x \<noteq> ''.'') cs = cs" by (auto simp: good_seg_def)
  then show ?thesis using g False by (simp add: segs_def abs_path_def Split_good)
qed (simp add: segs_def abs_path_def)

lemma no_dotdot_abs_path [simp]: "\<forall>c \<in> set cs. good_seg c \<Longrightarrow> no_dotdot (abs_path cs)"
  by (cases "cs = []") (auto simp: no_dotdot_def abs_path_def Split_good good_seg_def)

lemma rooted_abs_path [simp]: "is_rooted (abs_path cs)"
  by (simp add: is_rooted_def abs_path_def HasPrefix_def)

lemma abs_path_not_Nil [simp]: "abs_path cs \<noteq> []"
  by (simp add: abs_path_def)

lemma abs_path_inject:
  "\<forall>c \<in> set cs. good_seg c \<Longrightarrow> \<forall>c \<in> set ds. good_seg c \<Longrightarrow> abs_path cs = abs_path ds \<longleftrightarrow> cs = ds"
  using segs_abs_path by metis

lemma segs_Nil [simp]: "segs [] = []"
  by (simp add: segs_def)

lemma no_dotdot_Nil [simp]: "no_dotdot []"
  by (simp add: no_dotdot_def)

lemma good_seg_no_dotdot [simp]: "good_seg c \<Longrightarrow> no_dotdot c"
  by (auto simp: good_seg_def no_dotdot_def Split_no_sep)

lemma good_seg_segs [simp]: "good_seg c \<Longrightarrow> segs c = [c]"
  by (auto simp: good_seg_def segs_def Split_no_sep)

text \<open>Joining elements that do not climb gives the elements of all of them, in order.\<close>

lemma path_Join_abs:
  assumes "is_rooted e" and "no_dotdot e" and "\<forall>x \<in> set es. no_dotdot x"
  shows "path_Join (e # es) = abs_path (segs e @ concat (map segs es))"
proof -
  have ne: "e \<noteq> []" using assms(1) by (auto simp: is_rooted_def HasPrefix_def)
  let ?xs = "filter (\<lambda>x. x \<noteq> []) (e # es)"
  have split: "Split (Join ?xs ''/'') CHR ''/'' = concat (map (\<lambda>x. Split x CHR ''/'') ?xs)"
    using ne by (intro Split_Join_concat) simp
  have dd: "''..'' \<notin> set (concat (map (\<lambda>x. Split x CHR ''/'') ?xs))"
    using assms(2,3) by (auto simp: no_dotdot_def)
  have "is_rooted (Join ?xs ''/'')"
    using assms(1) ne by (cases "filter (\<lambda>x. x \<noteq> []) es"; cases e) (auto simp: is_rooted_def HasPrefix_def)
  moreover have "concat (map (\<lambda>x. filter (\<lambda>x. x \<noteq> [] \<and> x \<noteq> ''.'') (Split x CHR ''/'')) (filter (\<lambda>x. x \<noteq> []) es)) =
      concat (map segs es)"
    by (induction es) (simp_all add: segs_def)
  ultimately show ?thesis
    using ne split clean_segs_plain [OF dd]
    by (simp add: path_Join_def Clean_def abs_path_def segs_def filter_concat comp_def)
qed

lemma path_Join_child:
  assumes "\<forall>c \<in> set cs. good_seg c" and "good_seg n"
  shows "path_Join [abs_path cs, n] = abs_path (cs @ [n])"
  using path_Join_abs [of "abs_path cs" "[n]"] assms by simp

lemma path_Base_abs:
  assumes "\<forall>c \<in> set (cs @ [n]). good_seg c"
  shows "path_Base (abs_path (cs @ [n])) = n"
proof -
  have "filter (\<lambda>e. e \<noteq> []) (cs @ [n]) = cs @ [n]" using assms by (auto simp: good_seg_def)
  then show ?thesis using assms by (simp add: path_Base_def abs_path_def Split_good [OF assms] Let_def)
qed

section \<open>The file system\<close>

text \<open>Permission bits are those of Go's \<open>fs.FileMode\<close>.\<close>

type_synonym perm = uint32

datatype fnode = DirN perm | FileN string | SocketN

definition is_dir :: "fnode \<Rightarrow> bool" where
  "is_dir n \<longleftrightarrow> (case n of DirN _ \<Rightarrow> True | _ \<Rightarrow> False)"

lemma is_dir_simps [simp]: "is_dir (DirN m)" "\<not> is_dir (FileN c)" "\<not> is_dir SocketN"
  by (simp_all add: is_dir_def)

type_synonym fs = "(string list \<times> fnode) list"

datatype os_op = Op_Stat | Op_ReadDir | Op_Mkdir | Op_Chmod | Op_Remove

record os_env =
  os_fail :: "os_op \<Rightarrow> string \<Rightarrow> error option"
  os_cwd :: "string list"
  os_umask :: perm
  os_new_files :: "string list \<Rightarrow> (string \<times> string) list"
  os_left :: "string list \<Rightarrow> bool"
  os_file_perm :: "string list \<Rightarrow> perm"

definition ErrNotExist :: error where "ErrNotExist = EnvError ''file does not exist''"
definition ErrExist :: error where "ErrExist = EnvError ''file exists''"
definition ErrNotDir :: error where "ErrNotDir = EnvError ''not a directory''"
definition ErrNotEmpty :: error where "ErrNotEmpty = EnvError ''directory not empty''"

definition os_IsNotExist :: "error \<Rightarrow> bool" where
  "os_IsNotExist e \<longleftrightarrow> e = ErrNotExist"

text \<open>The kernel's path resolution.\<close>

definition resolve :: "os_env \<Rightarrow> string \<Rightarrow> string list" where
  "resolve K p = clean_segs True (if is_rooted p then [] else rev (os_cwd K)) (Split p CHR ''/'')"

definition os_Stat :: "os_env \<Rightarrow> fs \<Rightarrow> string \<Rightarrow> error + fnode" where
  "os_Stat K F p =
     (case os_fail K Op_Stat p of
        Some e \<Rightarrow> Inl e
      | None \<Rightarrow> (case map_of F (resolve K p) of None \<Rightarrow> Inl ErrNotExist | Some n \<Rightarrow> Inr n))"

text \<open>\<open>Mode().Perm()\<close>: the permission bits; those of files and sockets are the kernel's business.\<close>

definition Mode_Perm :: "os_env \<Rightarrow> string \<Rightarrow> fnode \<Rightarrow> perm" where
  "Mode_Perm K p n = (case n of DirN m \<Rightarrow> m | _ \<Rightarrow> os_file_perm K (resolve K p)) AND 0x1FF"

definition os_Mkdir :: "os_env \<Rightarrow> string \<Rightarrow> perm \<Rightarrow> fs \<Rightarrow> error option \<times> fs" where
  "os_Mkdir K p m F =
     (let d = resolve K p
      in case os_fail K Op_Mkdir p of
           Some e \<Rightarrow> (Some e, F)
         | None \<Rightarrow>
             if map_of F d \<noteq> None then (Some ErrExist, F)
             else (case map_of F (butlast d) of
                     Some (DirN _) \<Rightarrow>
                       (None, (d, DirN (m AND NOT (os_umask K))) #
                              map (\<lambda>(n, c). (d @ [n], FileN c)) (os_new_files K d) @ F)
                   | Some _ \<Rightarrow> (Some ErrNotDir, F)
                   | None \<Rightarrow> (Some ErrNotExist, F)))"

text \<open>\<open>os.MkdirAll\<close> makes the missing directories from the root down.\<close>

fun mkdir_all :: "os_env \<Rightarrow> perm \<Rightarrow> string list \<Rightarrow> string list \<Rightarrow> fs \<Rightarrow> error option \<times> fs" where
  "mkdir_all K m made [] F = (None, F)"
| "mkdir_all K m made (c # cs) F =
     (let d = made @ [c]
      in case map_of F d of
           Some (DirN _) \<Rightarrow> mkdir_all K m d cs F
         | Some _ \<Rightarrow> (Some ErrNotDir, F)
         | None \<Rightarrow>
             (case os_Mkdir K (abs_path d) m F of
                (None, F') \<Rightarrow> mkdir_all K m d cs F'
              | (Some e, F') \<Rightarrow> (Some e, F')))"

definition os_MkdirAll :: "os_env \<Rightarrow> string \<Rightarrow> perm \<Rightarrow> fs \<Rightarrow> error option \<times> fs" where
  "os_MkdirAll K p m F = mkdir_all K m [] (resolve K p) F"

definition os_Chmod :: "os_env \<Rightarrow> string \<Rightarrow> perm \<Rightarrow> fs \<Rightarrow> error option \<times> fs" where
  "os_Chmod K p m F =
     (case os_fail K Op_Chmod p of
        Some e \<Rightarrow> (Some e, F)
      | None \<Rightarrow>
          (case map_of F (resolve K p) of
             None \<Rightarrow> (Some ErrNotExist, F)
           | Some (DirN _) \<Rightarrow> (None, (resolve K p, DirN m) # F)
           | Some _ \<Rightarrow> (None, F)))"

definition under :: "string list \<Rightarrow> string list \<Rightarrow> bool" where
  "under d k \<longleftrightarrow> take (length d) k = d"

text \<open>Removing a path that does not exist succeeds; a failed removal leaves what \<open>os_left\<close> says.\<close>

definition os_RemoveAll :: "os_env \<Rightarrow> string \<Rightarrow> fs \<Rightarrow> error option \<times> fs" where
  "os_RemoveAll K p F =
     (let d = resolve K p
      in case os_fail K Op_Remove p of
           Some e \<Rightarrow> (Some e, filter (\<lambda>(k, _). \<not> under d k \<or> os_left K k) F)
         | None \<Rightarrow> (None, filter (\<lambda>(k, _). \<not> under d k) F))"

text \<open>\<open>os.Remove\<close> removes one entry, a directory only when it is empty.\<close>

definition os_Remove :: "os_env \<Rightarrow> string \<Rightarrow> fs \<Rightarrow> error option \<times> fs" where
  "os_Remove K p F =
     (let d = resolve K p
      in case os_fail K Op_Remove p of
           Some e \<Rightarrow> (Some e, F)
         | None \<Rightarrow>
             if map_of F d = None then (Some ErrNotExist, F)
             else if \<exists>k \<in> set (map fst F). under d k \<and> k \<noteq> d then (Some ErrNotEmpty, F)
             else (None, filter (\<lambda>(k, _). k \<noteq> d) F))"

text \<open>The names in a directory, in lexical order.\<close>

definition child_names :: "fs \<Rightarrow> string list \<Rightarrow> string list" where
  "child_names F d = sort (remdups (map last (filter (\<lambda>k. k \<noteq> [] \<and> butlast k = d) (map fst F))))"

definition readDirNames :: "os_env \<Rightarrow> fs \<Rightarrow> string \<Rightarrow> string list \<times> error option" where
  "readDirNames K F p =
     (case os_fail K Op_ReadDir p of
        Some e \<Rightarrow> ([], Some e)
      | None \<Rightarrow> (child_names F (resolve K p), None))"

section \<open>filepath.Walk\<close>

datatype walk_res = WNil | WSkipDir | WErr error | WPanic panic

type_synonym 's walk_fn = "string \<Rightarrow> fnode option \<Rightarrow> error option \<Rightarrow> 's \<Rightarrow> walk_res \<times> 's"

text \<open>The state of the callback holds the file system; \<open>g\<close> reads it.\<close>

function walk :: "os_env \<Rightarrow> ('s \<Rightarrow> fs) \<Rightarrow> 's walk_fn \<Rightarrow> nat \<Rightarrow> string \<Rightarrow> fnode \<Rightarrow> 's \<Rightarrow> (walk_res \<times> 's) option"
  and walk_names :: "os_env \<Rightarrow> ('s \<Rightarrow> fs) \<Rightarrow> 's walk_fn \<Rightarrow> nat \<Rightarrow> string \<Rightarrow> string list \<Rightarrow> 's \<Rightarrow> (walk_res \<times> 's) option"
where
  "walk K g fn 0 path info s = None"
| "walk K g fn (Suc n) path info s =
     (if \<not> is_dir info then Some (fn path (Some info) None s)
      else case readDirNames K (g s) path of (names, err) \<Rightarrow>
           case fn path (Some info) err s of (err1, s1) \<Rightarrow>
             if err \<noteq> None \<or> err1 \<noteq> WNil then Some (err1, s1)
             else walk_names K g fn n path names s1)"
| "walk_names K g fn n path [] s = Some (WNil, s)"
| "walk_names K g fn n path (name # names) s =
     (case os_Stat K (g s) (path_Join [path, name]) of
        Inl err \<Rightarrow>
          (case fn (path_Join [path, name]) None (Some err) s of (r, s1) \<Rightarrow>
             if r = WNil \<or> r = WSkipDir then walk_names K g fn n path names s1 else Some (r, s1))
      | Inr info \<Rightarrow>
          (case walk K g fn n (path_Join [path, name]) info s of
             None \<Rightarrow> None
           | Some (r, s1) \<Rightarrow>
               if r = WNil \<or> r = WSkipDir \<and> is_dir info then walk_names K g fn n path names s1
               else Some (r, s1)))"
  by pat_completeness auto
termination
  by (relation "measures
      [\<lambda>a. case a of Inl (_, _, _, n, _) \<Rightarrow> n | Inr (_, _, _, n, _) \<Rightarrow> n,
       \<lambda>a. case a of Inl _ \<Rightarrow> 0 | Inr (_, _, _, _, _, names, _) \<Rightarrow> Suc (length names)]") auto

definition walk_fuel :: "fs \<Rightarrow> nat" where
  "walk_fuel F = Suc (Suc (foldr (\<lambda>(k, _). max (length k)) F 0))"

definition Walk :: "os_env \<Rightarrow> ('s \<Rightarrow> fs) \<Rightarrow> 's walk_fn \<Rightarrow> string \<Rightarrow> 's \<Rightarrow> (walk_res \<times> 's) option" where
  "Walk K g fn root s =
     map_option (\<lambda>(r, s'). (if r = WSkipDir then WNil else r, s'))
       (case os_Stat K (g s) root of
          Inl err \<Rightarrow> Some (fn root None (Some err) s)
        | Inr info \<Rightarrow> walk K g fn (walk_fuel (g s)) root info s)"

section \<open>Facts about the operations\<close>

definition fs_wf :: "fs \<Rightarrow> bool" where
  "fs_wf F \<longleftrightarrow> (\<forall>k \<in> fst ` set F. \<forall>c \<in> set k. good_seg c)"

lemma resolve_rooted [simp]: "is_rooted p \<Longrightarrow> no_dotdot p \<Longrightarrow> resolve K p = segs p"
  by (simp add: resolve_def clean_segs_plain no_dotdot_def segs_def)

lemma map_of_key: "map_of F k \<noteq> None \<longleftrightarrow> k \<in> fst ` set F"
  by (simp add: map_of_eq_None_iff)

lemma map_of_filter_key: "map_of (filter (\<lambda>(k, _). P k) F) k = (if P k then map_of F k else None)"
  by (induction F) auto

lemma os_Stat_Inr: "os_Stat K F p = Inr n \<Longrightarrow> map_of F (resolve K p) = Some n"
  by (auto simp: os_Stat_def split: option.splits)

lemma set_child_names: "n \<in> set (child_names F d) \<longleftrightarrow> d @ [n] \<in> fst ` set F"
proof -
  have "n \<in> set (child_names F d) \<longleftrightarrow> (\<exists>k \<in> fst ` set F. k \<noteq> [] \<and> butlast k = d \<and> last k = n)"
    by (auto simp: child_names_def)
  also have "\<dots> \<longleftrightarrow> d @ [n] \<in> fst ` set F"
    by (metis append_butlast_last_id butlast_snoc last_snoc snoc_eq_iff_butlast)
  finally show ?thesis .
qed

lemma distinct_child_names: "distinct (child_names F d)"
  by (simp add: child_names_def)

lemma child_names_good: "fs_wf F \<Longrightarrow> n \<in> set (child_names F d) \<Longrightarrow> good_seg n"
  unfolding set_child_names fs_wf_def by fastforce

lemma under_refl [simp]: "under d d"
  by (simp add: under_def)

lemma under_append [simp]: "under d (d @ x)"
  by (simp add: under_def)

lemma under_snoc: "under (d @ [c]) k \<Longrightarrow> under d k"
  unfolding under_def by (metis append_eq_conv_conj append_take_drop_id append.assoc)

lemma under_iff: "under d k \<longleftrightarrow> (\<exists>x. k = d @ x)"
  unfolding under_def by (metis append_eq_conv_conj append_take_drop_id)

lemma map_of_RemoveAll:
  "map_of (snd (os_RemoveAll K p F)) k =
     (if under (resolve K p) k \<and> (os_fail K Op_Remove p = None \<or> \<not> os_left K k) then None else map_of F k)"
  by (auto simp: os_RemoveAll_def Let_def map_of_filter_key split: option.splits)

lemma keys_RemoveAll: "fst ` set (snd (os_RemoveAll K p F)) \<subseteq> fst ` set F"
  by (auto simp: os_RemoveAll_def Let_def split: option.splits)

lemma fs_wf_mono: "fs_wf F \<Longrightarrow> fst ` set F' \<subseteq> fst ` set F \<Longrightarrow> fs_wf F'"
  by (auto simp: fs_wf_def)

lemma os_Mkdir_cases:
  assumes "os_Mkdir K p m F = (e, F')"
  shows "(e \<noteq> None \<and> F' = F) \<or>
         (e = None \<and> map_of F (resolve K p) = None \<and>
          F' = (resolve K p, DirN (m AND NOT (os_umask K))) #
                 map (\<lambda>(n, c). (resolve K p @ [n], FileN c)) (os_new_files K (resolve K p)) @ F)"
proof (cases "os_fail K Op_Mkdir p")
  case None
  then show ?thesis
    using assms by (auto simp: os_Mkdir_def Let_def split: option.splits if_splits fnode.splits)
next
  case (Some x)
  then have "(e, F') = (Some x, F)" using assms by (simp add: os_Mkdir_def Let_def)
  then show ?thesis by simp
qed

text \<open>Making a directory makes no other directory and destroys none.\<close>

lemma os_Mkdir_dirs:
  assumes "os_Mkdir K p m F = (e, F')" and "k \<noteq> resolve K p"
    and "\<forall>n. k \<noteq> resolve K p @ [n]"
  shows "map_of F' k = map_of F k"
proof -
  have "map_of (map (\<lambda>(n, c). (resolve K p @ [n], FileN c)) xs) k = None" for xs
    using assms(3) by (auto simp: map_of_eq_None_iff)
  then show ?thesis using os_Mkdir_cases [OF assms(1)] assms(2) by (auto simp: map_add_def)
qed

section \<open>Walk terminates\<close>

lemma depth_fuel: "k \<in> fst ` set F \<Longrightarrow> length k + 2 \<le> walk_fuel F"
  by (induction F) (fastforce simp: walk_fuel_def)+

text \<open>
  A callback that, called on the root or a path below it, makes no new entries and relates the state
  before to the state after by a preorder \<open>R\<close>. Walking then does the same as a whole.
\<close>

definition below :: "string \<Rightarrow> string \<Rightarrow> bool" where
  "below root p \<longleftrightarrow>
     is_rooted p \<and> no_dotdot p \<and> under (segs root) (segs p) \<and> (p = root \<or> segs p \<noteq> segs root)"

definition walk_ok :: "string \<Rightarrow> ('s \<Rightarrow> fs) \<Rightarrow> ('s \<Rightarrow> 's \<Rightarrow> bool) \<Rightarrow> 's walk_fn \<Rightarrow> bool" where
  "walk_ok root g R fn \<longleftrightarrow>
     reflp R \<and> transp R \<and>
     (\<forall>p i e s. below root p \<longrightarrow>
        R s (snd (fn p i e s)) \<and> fst ` set (g (snd (fn p i e s))) \<subseteq> fst ` set (g s))"

definition shrunk :: "('s \<Rightarrow> fs) \<Rightarrow> ('s \<Rightarrow> 's \<Rightarrow> bool) \<Rightarrow> 's \<Rightarrow> 's \<Rightarrow> bool" where
  "shrunk g R s s' \<longleftrightarrow> R s s' \<and> fst ` set (g s') \<subseteq> fst ` set (g s)"

lemma shrunk_refl: "walk_ok root g R fn \<Longrightarrow> shrunk g R s s"
  by (simp add: walk_ok_def shrunk_def reflpD)

lemma shrunk_trans:
  assumes "walk_ok root g R fn" and "shrunk g R s t" and "shrunk g R t u"
  shows "shrunk g R s u"
proof -
  have "transp R" using assms(1) by (simp add: walk_ok_def)
  then have "R s u" by (rule transpD [of R s t u]) (use assms(2,3) in \<open>simp_all add: shrunk_def\<close>)
  moreover have "fst ` set (g u) \<subseteq> fst ` set (g s)"
    by (rule subset_trans [of _ "fst ` set (g t)"]) (use assms(2,3) in \<open>simp_all add: shrunk_def\<close>)
  ultimately show ?thesis by (simp add: shrunk_def)
qed

lemma walk_okD:
  assumes "walk_ok root g R fn" and "below root p" and "fn p i e s = (r, s')"
  shows "shrunk g R s s'"
proof -
  have "R s (snd (fn p i e s)) \<and> fst ` set (g (snd (fn p i e s))) \<subseteq> fst ` set (g s)"
    using assms(1,2) by (simp add: walk_ok_def)
  then show ?thesis using assms(3) by (simp add: shrunk_def)
qed

lemma shrunk_wf: "shrunk g R s s' \<Longrightarrow> fs_wf (g s) \<Longrightarrow> fs_wf (g s')"
  by (simp add: shrunk_def fs_wf_mono)

lemma shrunk_depth:
  assumes "shrunk g R s s'" and "\<forall>k \<in> fst ` set (g s). length k \<le> N"
  shows "\<forall>k \<in> fst ` set (g s'). length k \<le> N"
proof -
  have "fst ` set (g s') \<subseteq> fst ` set (g s)" using assms(1) by (simp add: shrunk_def)
  then show ?thesis using assms(2) by blast
qed

definition walk_pre :: "string \<Rightarrow> nat \<Rightarrow> string \<Rightarrow> fs \<Rightarrow> bool" where
  "walk_pre root N path F \<longleftrightarrow>
     below root path \<and> fs_wf F \<and> (\<forall>k \<in> fst ` set F. length k \<le> N)"

lemma shrunk_pre: "shrunk g R s s' \<Longrightarrow> walk_pre root N path (g s) \<Longrightarrow> walk_pre root N path (g s')"
  unfolding walk_pre_def by (elim conjE, intro conjI) (assumption | erule (1) shrunk_wf | erule (1) shrunk_depth)+

lemma walk_pre_child:
  assumes "walk_pre root N path F" and "good_seg name"
  shows "walk_pre root N (path_Join [path, name]) F" and "segs (path_Join [path, name]) = segs path @ [name]"
proof -
  have p: "is_rooted path" "no_dotdot path" "under (segs root) (segs path)"
    using assms(1) by (simp_all add: walk_pre_def below_def)
  have gs: "\<forall>c \<in> set (segs path @ [name]). good_seg c" using segs_good [OF p(2)] assms(2) by auto
  have f: "path_Join [path, name] = abs_path (segs path @ [name])" using path_Join_abs [OF p(1,2), of "[name]"] assms(2) by simp
  show sf: "segs (path_Join [path, name]) = segs path @ [name]" unfolding f by (rule segs_abs_path [OF gs])
  have "under (segs root) (segs path @ [name]) \<and> segs path @ [name] \<noteq> segs root" using p(3) unfolding under_iff by auto
  moreover have "no_dotdot (abs_path (segs path @ [name]))" by (rule no_dotdot_abs_path [OF gs])
  ultimately show "walk_pre root N (path_Join [path, name]) F"
    using assms(1) unfolding walk_pre_def below_def sf by (simp add: f)
qed

lemma walk_names_total:
  fixes N :: nat
  assumes ok: "walk_ok root g R fn"
    and W: "\<And>path info s. walk_pre root N path (g s) \<Longrightarrow> segs path \<in> fst ` set (g s) \<Longrightarrow> N < n + length (segs path) \<Longrightarrow>
              \<exists>r s'. walk K g fn n path info s = Some (r, s') \<and> shrunk g R s s'"
    and "walk_pre root N path (g s)" and "\<forall>c \<in> set names. good_seg c" and "N \<le> n + length (segs path)"
  shows "\<exists>r s'. walk_names K g fn n path names s = Some (r, s') \<and> shrunk g R s s'"
  using assms(3,4)
proof (induction names arbitrary: s)
  case Nil
  then show ?case using shrunk_refl [OF ok] by simp
next
  case (Cons name names)
  let ?f = "path_Join [path, name]"
  have good: "good_seg name" "\<forall>c \<in> set names. good_seg c" using Cons.prems(2) by simp_all
  note child = walk_pre_child [OF Cons.prems(1) good(1)]
  have pre: "below root ?f" "is_rooted ?f" "no_dotdot ?f" using child(1) by (simp_all add: walk_pre_def below_def)
  have rest: "\<exists>r s'. walk_names K g fn n path names s1 = Some (r, s') \<and> shrunk g R s s'" if sub: "shrunk g R s s1" for s1
    using Cons.IH [OF shrunk_pre [OF sub Cons.prems(1)] good(2)] shrunk_trans [OF ok sub] by blast
  show ?case
  proof (cases "os_Stat K (g s) ?f")
    case (Inl err)
    obtain r1 s1 where c: "fn ?f None (Some err) s = (r1, s1)" by (metis prod.exhaust)
    note sub = walk_okD [OF ok pre(1) c]
    show ?thesis
    proof (cases "r1 = WNil \<or> r1 = WSkipDir")
      case True
      then show ?thesis using rest [OF sub] Inl c by simp
    qed (use Inl c sub in simp)
  next
    case (Inr info)
    have k: "segs ?f \<in> fst ` set (g s)"
      using os_Stat_Inr [OF Inr] pre(2,3) map_of_key by fastforce
    have "length (segs ?f) \<le> N" using child(1) k unfolding walk_pre_def by blast
    then have "N < n + length (segs ?f)" using child(2) assms(5) by simp
    then obtain r1 s1 where w: "walk K g fn n ?f info s = Some (r1, s1)" "shrunk g R s s1"
      using W [OF child(1) k] by blast
    show ?thesis
    proof (cases "r1 = WNil \<or> r1 = WSkipDir \<and> is_dir info")
      case True
      then show ?thesis using rest [OF w(2)] w(1) Inr by simp
    next
      case False
      then have "walk_names K g fn n path (name # names) s = Some (r1, s1)" using Inr w(1) by auto
      then show ?thesis using w(2) by blast
    qed
  qed
qed

lemma walk_total:
  fixes N :: nat
  assumes ok: "walk_ok root g R fn"
  shows "walk_pre root N path (g s) \<Longrightarrow> segs path \<in> fst ` set (g s) \<Longrightarrow> N < n + length (segs path) \<Longrightarrow>
           \<exists>r s'. walk K g fn n path info s = Some (r, s') \<and> shrunk g R s s'"
proof (induction n arbitrary: path info s)
  case 0
  then have "length (segs path) \<le> N" unfolding walk_pre_def by blast
  then show ?case using 0(3) by simp
next
  case (Suc n)
  have pre: "below root path" "fs_wf (g s)" using Suc.prems(1) by (simp_all add: walk_pre_def)
  obtain names err where rd: "readDirNames K (g s) path = (names, err)" by (metis prod.exhaust)
  obtain r0 s0 where f0: "fn path (Some info) None s = (r0, s0)" by (metis prod.exhaust)
  obtain err1 s1 where f: "fn path (Some info) err s = (err1, s1)" by (metis prod.exhaust)
  note sub = walk_okD [OF ok pre(1) f] walk_okD [OF ok pre(1) f0]
  show ?case
  proof (cases "is_dir info \<and> err = None \<and> err1 = WNil")
    case True
    have "\<forall>c \<in> set names. good_seg c"
      using rd True child_names_good [OF pre(2)] by (auto simp: readDirNames_def split: option.splits)
    moreover have "N \<le> n + length (segs path)" using Suc.prems(3) by simp
    ultimately obtain r s' where w: "walk_names K g fn n path names s1 = Some (r, s')" "shrunk g R s1 s'"
      using walk_names_total [OF ok Suc.IH shrunk_pre [OF sub(1) Suc.prems(1)]] by blast
    then show ?thesis using True rd f shrunk_trans [OF ok sub(1) w(2)] by simp
  next
    case False
    then have "walk K g fn (Suc n) path info s = Some (if is_dir info then (err1, s1) else (r0, s0))"
      using rd f f0 by auto
    then show ?thesis using sub by (cases "is_dir info") auto
  qed
qed

lemma Walk_terminates:
  assumes "walk_ok root g R fn" and "is_rooted root" and "no_dotdot root" and "fs_wf (g s)"
  obtains r s' where "Walk K g fn root s = Some (r, s')" and "R s s'" and "fst ` set (g s') \<subseteq> fst ` set (g s)"
proof -
  have b: "below root root" using assms(2,3) by (simp add: below_def)
  have "\<exists>r s'. Walk K g fn root s = Some (r, s') \<and> shrunk g R s s'"
  proof (cases "os_Stat K (g s) root")
    case (Inl err)
    obtain r1 s1 where c: "fn root None (Some err) s = (r1, s1)" by (metis prod.exhaust)
    then show ?thesis using Inl walk_okD [OF assms(1) b c] by (simp add: Walk_def)
  next
    case (Inr info)
    have k: "segs root \<in> fst ` set (g s)" using os_Stat_Inr [OF Inr] assms(2,3) map_of_key by fastforce
    have "walk_pre root (walk_fuel (g s) - 2) root (g s)"
      using depth_fuel b assms(4) by (fastforce simp: walk_pre_def)
    moreover have "walk_fuel (g s) - 2 < walk_fuel (g s) + length (segs root)" by (simp add: walk_fuel_def)
    ultimately obtain r1 s1 where "walk K g fn (walk_fuel (g s)) root info s = Some (r1, s1)" "shrunk g R s s1"
      using walk_total [OF assms(1) _ k, of "walk_fuel (g s) - 2" "walk_fuel (g s)" K info] by blast
    then show ?thesis using Inr by (cases "r1 = WSkipDir") (simp_all add: Walk_def)
  qed
  then show ?thesis using that by (auto simp: shrunk_def)
qed

text \<open>What the callback keeps of its state, the walk keeps.\<close>

lemma walk_names_keeps:
  assumes fn: "\<forall>p i e s. h (snd (fn p i e s)) = h s"
    and W: "\<forall>path info s r s'. walk K g fn n path info s = Some (r, s') \<longrightarrow> h s' = h s"
    and "walk_names K g fn n path names s = Some (r, s')"
  shows "h s' = h s"
  using assms(3)
proof (induction names arbitrary: s)
  case Nil
  then show ?case by simp
next
  case (Cons name names)
  let ?f = "path_Join [path, name]"
  show ?case
  proof (cases "os_Stat K (g s) ?f")
    case (Inl err)
    obtain r1 s1 where c: "fn ?f None (Some err) s = (r1, s1)" by (metis prod.exhaust)
    have k: "h s1 = h s" using fn [rule_format, of ?f None "Some err" s] c by simp
    show ?thesis
    proof (cases "r1 = WNil \<or> r1 = WSkipDir")
      case True
      then have "walk_names K g fn n path names s1 = Some (r, s')" using Cons.prems Inl c by auto
      then show ?thesis using Cons.IH k by metis
    qed (use Cons.prems Inl c k in auto)
  next
    case (Inr info)
    obtain r1 s1 where c: "walk K g fn n ?f info s = Some (r1, s1)" using Cons.prems Inr by (auto split: option.splits)
    have k: "h s1 = h s" using W c by blast
    show ?thesis
    proof (cases "r1 = WNil \<or> r1 = WSkipDir \<and> is_dir info")
      case True
      then have "walk_names K g fn n path names s1 = Some (r, s')" using Cons.prems Inr c by auto
      then show ?thesis using Cons.IH k by metis
    qed (use Cons.prems Inr c k in auto)
  qed
qed

lemma walk_keeps:
  assumes fn: "\<forall>p i e s. h (snd (fn p i e s)) = h s"
  shows "walk K g fn n path info s = Some (r, s') \<Longrightarrow> h s' = h s"
proof (induction n arbitrary: path info s r s')
  case (Suc n)
  obtain names err where rd: "readDirNames K (g s) path = (names, err)" by (metis prod.exhaust)
  obtain r0 s0 where f0: "fn path (Some info) None s = (r0, s0)" by (metis prod.exhaust)
  obtain err1 s1 where f: "fn path (Some info) err s = (err1, s1)" by (metis prod.exhaust)
  have k: "h s0 = h s" "h s1 = h s"
    using fn [rule_format, of path "Some info" None s] fn [rule_format, of path "Some info" err s] f0 f by simp_all
  show ?case
  proof (cases "is_dir info \<and> err = None \<and> err1 = WNil")
    case True
    then have "walk_names K g fn n path names s1 = Some (r, s')" using Suc.prems rd f by simp
    then have "h s' = h s1" by (rule walk_names_keeps [OF fn, rotated]) (use Suc.IH in blast)
    then show ?thesis using k by simp
  next
    case False
    then have "s' = s0 \<or> s' = s1" using Suc.prems rd f f0 by (auto split: if_splits)
    then show ?thesis using k by auto
  qed
qed simp

lemma Walk_keeps:
  assumes fn: "\<forall>p i e s. h (snd (fn p i e s)) = h s" and "Walk K g fn root s = Some (r, s')"
  shows "h s' = h s"
proof (cases "os_Stat K (g s) root")
  case (Inl err)
  then have "s' = snd (fn root None (Some err) s)" using assms(2) by (auto simp: Walk_def split: prod.splits)
  then show ?thesis using fn by simp
next
  case (Inr info)
  then obtain r1 where "walk K g fn (walk_fuel (g s)) root info s = Some (r1, s')" using assms(2) by (auto simp: Walk_def)
  then show ?thesis by (rule walk_keeps [OF fn])
qed

section \<open>Walks that stay in one directory\<close>

text \<open>A callback that never returns nil on a directory below the root is called once for each entry.\<close>

fun visit :: "os_env \<Rightarrow> ('s \<Rightarrow> fs) \<Rightarrow> 's walk_fn \<Rightarrow> string \<Rightarrow> string list \<Rightarrow> 's \<Rightarrow> walk_res \<times> 's" where
  "visit K g fn path [] s = (WNil, s)"
| "visit K g fn path (name # names) s =
     (let f = path_Join [path, name]
      in case os_Stat K (g s) f of
           Inl err \<Rightarrow>
             (case fn f None (Some err) s of (r, s1) \<Rightarrow>
                if r = WNil \<or> r = WSkipDir then visit K g fn path names s1 else (r, s1))
         | Inr info \<Rightarrow>
             (case fn f (Some info) (if is_dir info then snd (readDirNames K (g s) f) else None) s of (r, s1) \<Rightarrow>
                if r = WNil \<or> r = WSkipDir \<and> is_dir info then visit K g fn path names s1 else (r, s1)))"

lemma walk_names_visit:
  assumes "\<And>name info err s. name \<in> set names \<Longrightarrow> is_dir info \<Longrightarrow> fst (fn (path_Join [path, name]) (Some info) err s) \<noteq> WNil"
  shows "walk_names K g fn (Suc n) path names s = Some (visit K g fn path names s)"
  using assms
proof (induction names arbitrary: s)
  case (Cons name names)
  let ?f = "path_Join [path, name]"
  have IH: "walk_names K g fn (Suc n) path names s1 = Some (visit K g fn path names s1)" for s1
    by (rule Cons.IH) (use Cons.prems in simp)
  have w: "walk K g fn (Suc n) ?f info s =
      Some (fn ?f (Some info) (if is_dir info then snd (readDirNames K (g s) ?f) else None) s)" for info
  proof (cases "is_dir info")
    case True
    obtain ns err where rd: "readDirNames K (g s) ?f = (ns, err)" by (metis prod.exhaust)
    obtain r s1 where f: "fn ?f (Some info) err s = (r, s1)" by (metis prod.exhaust)
    have "r \<noteq> WNil" using Cons.prems [of name info err s] True f by simp
    then show ?thesis using True rd f by simp
  qed simp
  show ?case unfolding walk_names.simps visit.simps Let_def w IH by (simp split: sum.splits prod.splits)
qed simp

lemma Walk_visit:
  assumes "\<And>name info err s. is_dir info \<Longrightarrow> name \<in> set (child_names (g s0) (resolve K root)) \<Longrightarrow>
      fst (fn (path_Join [root, name]) (Some info) err s) \<noteq> WNil"
    and "os_Stat K (g s0) root = Inr info" and "is_dir info" and "fn root (Some info) None s0 = (WNil, s0)"
    and "os_fail K Op_ReadDir root = None"
  shows "Walk K g fn root s0 =
           (case visit K g fn root (child_names (g s0) (resolve K root)) s0 of
              (r, s') \<Rightarrow> Some (if r = WSkipDir then WNil else r, s'))"
proof -
  obtain n where "walk_fuel (g s0) = Suc (Suc n)" by (auto simp: walk_fuel_def)
  then show ?thesis
    using assms walk_names_visit [of "child_names (g s0) (resolve K root)" fn root K g n s0]
    by (simp add: Walk_def readDirNames_def split: prod.splits)
qed

text \<open>So is a callback over a directory without subdirectories, while it leaves the file system alone.\<close>

lemma walk_names_flat:
  assumes "\<forall>name \<in> set names. \<exists>i. os_Stat K F (path_Join [path, name]) = Inr i \<and> \<not> is_dir i \<and>
      (\<forall>s. g s = F \<longrightarrow> g (snd (fn (path_Join [path, name]) (Some i) None s)) = F)"
    and "g s = F"
  shows "walk_names K g fn (Suc n) path names s = Some (visit K g fn path names s)"
  using assms
proof (induction names arbitrary: s)
  case Nil
  then show ?case by simp
next
  case (Cons name names)
  let ?f = "path_Join [path, name]"
  from Cons.prems(1) obtain i where i: "os_Stat K F ?f = Inr i" "\<not> is_dir i"
    and k: "\<forall>s. g s = F \<longrightarrow> g (snd (fn ?f (Some i) None s)) = F"
    unfolding list.set by blast
  obtain r s1 where f: "fn ?f (Some i) None s = (r, s1)" by (metis prod.exhaust)
  have "g (snd (fn ?f (Some i) None s)) = F" by (rule k [rule_format, OF Cons.prems(2)])
  then have s1: "g s1 = F" unfolding f by simp
  have "walk_names K g fn (Suc n) path names s1 = Some (visit K g fn path names s1)"
    by (rule Cons.IH [OF _ s1]) (rule ballI, rule bspec [OF Cons.prems(1)], erule list.set_intros(2))
  then show ?case by (simp add: Cons.prems(2) i f)
qed

lemma Walk_flat:
  assumes st: "os_Stat K F root = Inr info" and "is_dir info" and "os_fail K Op_ReadDir root = None"
    and "fn root (Some info) None s0 = (WNil, s0)" and g: "g s0 = F"
    and names: "\<forall>name \<in> set (child_names F (resolve K root)). \<exists>i. os_Stat K F (path_Join [root, name]) = Inr i \<and> \<not> is_dir i \<and>
      (\<forall>s. g s = F \<longrightarrow> g (snd (fn (path_Join [root, name]) (Some i) None s)) = F)"
  shows "Walk K g fn root s0 =
           (case visit K g fn root (child_names F (resolve K root)) s0 of
              (r, s') \<Rightarrow> Some (if r = WSkipDir then WNil else r, s'))"
proof -
  obtain n where "walk_fuel F = Suc (Suc n)" by (auto simp: walk_fuel_def)
  then show ?thesis using assms(1-5) walk_names_flat [where names = "child_names F (resolve K root)" and K = K and F = F and path = root and g = g and fn = fn and s = s0 and n = n, OF names g]
    by (simp add: Walk_def readDirNames_def split: prod.splits)
qed

end
