(* ===== verification/NM_Operator.thy ===== *)
theory NM_Operator
  imports Go_FS
begin

text \<open>
  \<open>pkg/copilot-agent/nm\<close> and \<open>pkg/copilot-agent/utils\<close>: the operator that mirrors the cpu
  cgroups of YARN containers into the memory hierarchy, keeps the cpu shares of their parent,
  kills containers, and follows the endpoint of the node manager. It works on the file system of
  \<open>Go_FS\<close>. The koordlet helpers that read and write cgroup files and name them, runc's
  \<open>GetPids\<close>, the HTTP client, the kubelet stub and the directory watcher are parameters, in
  \<open>nm_env\<close>; the replies of the node manager are a list in the world, used up one per request.
  The world also logs the requests, the writes attempted on cgroup files, and the signals sent.
\<close>

section \<open>Data\<close>

text \<open>The four \<open>float64\<close> fields are their bit patterns; the program never computes with them.\<close>

record YarnContainer =
  yc_Id :: string
  yc_Appid :: string
  yc_State :: string
  yc_ExitCode :: int64
  yc_Diagnostics :: string
  yc_User :: string
  TotalMemoryNeededMB :: int64
  TotalVCoresNeeded :: int64
  ContainerLogsLink :: string
  yc_NodeId :: string
  MemUsed :: uint64
  MemMaxed :: uint64
  CpuUsed :: uint64
  CpuMaxed :: uint64
  ContainerLogFiles :: "string list"

record Containers =
  Items :: "YarnContainer list"

definition FinalContainerStates :: "string list" where
  "FinalContainerStates = [''KILLING'', ''DONE'', ''LOCALIZATION_FAILED'', ''CONTAINER_RESOURCES_CLEANINGUP'',
     ''CONTAINER_CLEANEDUP_AFTER_KILL'', ''EXITED_WITH_FAILURE'', ''EXITED_WITH_SUCCESS'']"

fun final_loop :: "string \<Rightarrow> string list \<Rightarrow> bool" where
  "final_loop st [] = False"
| "final_loop st (state # states) = (if st = state then True else final_loop st states)"

definition IsFinalState :: "YarnContainer \<Rightarrow> bool" where
  "IsFinalState c = final_loop (yc_State c) FinalContainerStates"

definition MemoryMoveChargeAtImmigrateName :: string where
  "MemoryMoveChargeAtImmigrateName = ''memory.move_charge_at_immigrate''"

definition ComponentLabelKey :: string where "ComponentLabelKey = ''app.kubernetes.io/component''"
definition NodeManagerComponentLabelName :: string where "NodeManagerComponentLabelName = ''node-manager''"

record kubelet_pod =
  kp_Labels :: "string \<Rightarrow> string option"
  kp_HostNetwork :: bool
  kp_PodIP :: string

text \<open>\<open>BaseURL\<close> stands for the HTTP client, of which only the base URL changes.\<close>

record NodeMangerOperator =
  CgroupRoot :: string
  CgroupPath :: string
  SyncMemoryCgroup :: bool
  NMEndpoint :: string
  BaseURL :: string

text \<open>What a resty response tells of its status; the library computes the two flags.\<close>

record resp_status =
  StatusCode :: nat
  IsSuccess :: bool
  IsError :: bool

type_synonym http_reply = "error + resp_status \<times> Containers"

record nm_env =
  nm_os :: os_env
  CgroupCPUDir :: string
  CgroupMemDir :: string
  CPUProcsName :: string
  CPUSharesName :: string
  MemoryLimitName :: string
  MemoryOomGroupName :: string
  CommonFileRead :: "fs \<Rightarrow> string \<Rightarrow> error + string"
  CommonFileWrite :: "string \<Rightarrow> string \<Rightarrow> fs \<Rightarrow> error option \<times> fs"
  CommonFileWriteIfDifferent :: "string \<Rightarrow> string \<Rightarrow> fs \<Rightarrow> error option \<times> fs"
  GetPids :: "fs \<Rightarrow> string \<Rightarrow> error + int64 list"
  GetAllPods :: "error + kubelet_pod list"
  NewWatcher :: "error option"
  AddWatch :: "string \<Rightarrow> error option"
  sys_Kill :: "int64 \<Rightarrow> error option"
  map_order :: "string list \<Rightarrow> string list"

record nm_world =
  w_fs :: fs
  w_http :: "http_reply list"
  w_gets :: "string list"
  w_writes :: "(string \<times> string) list"
  w_kills :: "int64 list"

section \<open>Utilities\<close>

text \<open>A Go \<open>map[string]struct{}\<close> is a list of its keys.\<close>

definition DiffMap :: "string list \<Rightarrow> string list \<Rightarrow> string list \<times> string list" where
  "DiffMap m1 m2 = (filter (\<lambda>k1. k1 \<notin> set m2) m1, filter (\<lambda>k2. k2 \<notin> set m1) m2)"

definition write_file :: "nm_env \<Rightarrow> string \<Rightarrow> string \<Rightarrow> nm_world \<Rightarrow> unit outcome \<times> nm_world" where
  "write_file E p d w =
     (case CommonFileWrite E p d (w_fs w) of
        (e, F) \<Rightarrow> (of_err e, w\<lparr>w_fs := F, w_writes := w_writes w @ [(p, d)]\<rparr>))"

definition write_if_different :: "nm_env \<Rightarrow> string \<Rightarrow> string \<Rightarrow> nm_world \<Rightarrow> unit outcome \<times> nm_world" where
  "write_if_different E p d w =
     (case CommonFileWriteIfDifferent E p d (w_fs w) of
        (e, F) \<Rightarrow> (of_err e, w\<lparr>w_fs := F, w_writes := w_writes w @ [(p, d)]\<rparr>))"

definition on_fs :: "(fs \<Rightarrow> error option \<times> fs) \<Rightarrow> nm_world \<Rightarrow> unit outcome \<times> nm_world" where
  "on_fs f w = (case f (w_fs w) of (e, F) \<Rightarrow> (of_err e, w\<lparr>w_fs := F\<rparr>))"

section \<open>The node manager's endpoint\<close>

fun first_nm_pod :: "kubelet_pod list \<Rightarrow> kubelet_pod option" where
  "first_nm_pod [] = None"
| "first_nm_pod (pod # pods) =
     (if kp_Labels pod ComponentLabelKey \<noteq> Some NodeManagerComponentLabelName then first_nm_pod pods else Some pod)"

definition GetNMPodEndpoint :: "nm_env \<Rightarrow> (string \<times> bool) outcome" where
  "GetNMPodEndpoint E =
     obind (of_sum (GetAllPods E)) (\<lambda>pods.
     case first_nm_pod pods of
       None \<Rightarrow> Ok ([], False)
     | Some pod \<Rightarrow>
         if kp_HostNetwork pod then Ok (''localhost:8042'', True)
         else Ok (kp_PodIP pod @ '':8042'', True))"

definition NewNodeMangerOperator :: "nm_env \<Rightarrow> string \<Rightarrow> string \<Rightarrow> bool \<Rightarrow> string \<Rightarrow> NodeMangerOperator outcome" where
  "NewNodeMangerOperator E cgroupRoot cgroupPath syncMemory endpoint =
     obind (of_err (NewWatcher E)) (\<lambda>_.
     Ok \<lparr>CgroupRoot = cgroupRoot, CgroupPath = cgroupPath, SyncMemoryCgroup = syncMemory,
         NMEndpoint = endpoint, BaseURL = ''http://'' @ endpoint\<rparr>)"

definition syncNMEndpoint :: "nm_env \<Rightarrow> NodeMangerOperator \<Rightarrow> NodeMangerOperator" where
  "syncNMEndpoint E n =
     (case GetNMPodEndpoint E of
        Ok (endpoint, exist) \<Rightarrow>
          if NMEndpoint n = endpoint then n
          else let n1 = n\<lparr>NMEndpoint := endpoint\<rparr>
               in if exist then n1\<lparr>BaseURL := ''http://'' @ endpoint\<rparr> else n1
      | _ \<Rightarrow> n)"

section \<open>Containers\<close>

definition http_Get :: "NodeMangerOperator \<Rightarrow> string \<Rightarrow> nm_world \<Rightarrow> (resp_status \<times> Containers) outcome \<times> nm_world" where
  "http_Get n path w =
     (let w1 = w\<lparr>w_gets := w_gets w @ [BaseURL n @ path]\<rparr>
      in case w_http w of
           [] \<Rightarrow> (Err (EnvError ''no reply''), w1)
         | reply # replies \<Rightarrow> (of_sum reply, w1\<lparr>w_http := replies\<rparr>))"

definition ListContainers :: "NodeMangerOperator \<Rightarrow> nm_world \<Rightarrow> Containers outcome \<times> nm_world" where
  "ListContainers n =
     sbind (http_Get n ''/ws/v1/node/containers'') (\<lambda>(code, cs).
     slift (if \<not> IsSuccess code then Err (Errorf ''code for ListContainer is %d'' [Itoa (int (StatusCode code))] []) else Ok cs))"

fun find_container :: "string \<Rightarrow> YarnContainer list \<Rightarrow> YarnContainer option" where
  "find_container containerID [] = None"
| "find_container containerID (c # cs) = (if yc_Id c = containerID then Some c else find_container containerID cs)"

definition GetContainer :: "NodeMangerOperator \<Rightarrow> string \<Rightarrow> nm_world \<Rightarrow> YarnContainer outcome \<times> nm_world" where
  "GetContainer n containerID =
     sbind (ListContainers n) (\<lambda>listContainers.
     slift (case find_container containerID (Items listContainers) of
              Some c \<Rightarrow> Ok c
            | None \<Rightarrow> Err (Errorf ''container Not Found'' [] [])))"

definition GenerateCgroupPath :: "NodeMangerOperator \<Rightarrow> string \<Rightarrow> string" where
  "GenerateCgroupPath n containerID = path_Join [CgroupPath n, containerID]"

definition GenerateCgroupFullPath :: "NodeMangerOperator \<Rightarrow> string \<Rightarrow> string" where
  "GenerateCgroupFullPath n cgroupSubSystem = path_Join [CgroupRoot n, cgroupSubSystem, CgroupPath n]"

definition getProcessGroupID :: "nm_env \<Rightarrow> NodeMangerOperator \<Rightarrow> string \<Rightarrow> nm_world \<Rightarrow> int64" where
  "getProcessGroupID E n containerID w =
     (let containerCgroupPath = path_Join [CgroupRoot n, ''cpu'', CgroupPath n, containerID]
      in case GetPids E (w_fs w) containerCgroupPath of
           Inl err \<Rightarrow> 0
         | Inr [] \<Rightarrow> 0
         | Inr (pid # _) \<Rightarrow> pid)"

definition KillContainer :: "nm_env \<Rightarrow> NodeMangerOperator \<Rightarrow> string \<Rightarrow> nm_world \<Rightarrow> unit outcome \<times> nm_world" where
  "KillContainer E n containerID w =
     (let processGroupID = getProcessGroupID E n containerID w
      in if processGroupID \<le>s 1
         then (Err (Errorf ''invalid process group pid(%d) for container %s'' [Itoa (sint processGroupID), containerID] []), w)
         else (of_err (sys_Kill E (- processGroupID)), w\<lparr>w_kills := w_kills w @ [- processGroupID]\<rparr>))"

section \<open>Cgroup directories\<close>

definition ensureCgroupDir :: "nm_env \<Rightarrow> string \<Rightarrow> nm_world \<Rightarrow> unit outcome \<times> nm_world" where
  "ensureCgroupDir E dir w =
     (case os_Stat (nm_os E) (w_fs w) dir of
        Inl err \<Rightarrow>
          if \<not> os_IsNotExist err then (Err err, w)
          else sbind (on_fs (os_MkdirAll (nm_os E) dir 0x1FF)) (\<lambda>_. on_fs (os_Chmod (nm_os E) dir 0x1FF)) w
      | Inr f \<Rightarrow>
          if Mode_Perm (nm_os E) dir f \<noteq> 0x1FF then on_fs (os_Chmod (nm_os E) dir 0x1FF) w
          else (Ok (), w))"

text \<open>An error of the next two only ends them: it is logged and not returned.\<close>

definition removeMemoryCgroup :: "nm_env \<Rightarrow> NodeMangerOperator \<Rightarrow> string \<Rightarrow> nm_world \<Rightarrow> unit outcome \<times> nm_world" where
  "removeMemoryCgroup E n fileName w =
     (let basename = path_Base fileName
      in if \<not> HasPrefix basename ''container_'' then (Ok (), w)
         else on_fs (os_RemoveAll (nm_os E) (path_Join [CgroupRoot n, CgroupMemDir E, CgroupPath n, basename])) w)"

fun move_pids :: "nm_env \<Rightarrow> string \<Rightarrow> int64 list \<Rightarrow> nm_world \<Rightarrow> unit outcome \<times> nm_world" where
  "move_pids E procs [] = sret ()"
| "move_pids E procs (pid # pids) = sbind (write_file E procs (Itoa (sint pid))) (\<lambda>_. move_pids E procs pids)"

definition createMemoryCgroup :: "nm_env \<Rightarrow> NodeMangerOperator \<Rightarrow> string \<Rightarrow> nm_world \<Rightarrow> unit outcome \<times> nm_world" where
  "createMemoryCgroup E n fileName =
     (let basename = path_Base fileName;
          memCgroupPath = path_Join [CgroupRoot n, CgroupMemDir E, CgroupPath n, basename];
          cpuCgroupPath = path_Join [CgroupRoot n, CgroupCPUDir E, CgroupPath n, basename]
      in if \<not> HasPrefix basename ''container_'' then sret ()
         else sbind (on_fs (os_Mkdir (nm_os E) memCgroupPath 0x1A4)) (\<lambda>_.
              sbind (write_if_different E (path_Join [memCgroupPath, MemoryMoveChargeAtImmigrateName]) ''3'') (\<lambda>_.
              sbind (write_if_different E (path_Join [memCgroupPath, MemoryOomGroupName E]) ''1'') (\<lambda>_.
              sbind (\<lambda>w. (of_sum (GetPids E (w_fs w) cpuCgroupPath), w)) (\<lambda>pids.
              sbind (move_pids E (path_Join [memCgroupPath, CPUProcsName E]) pids) (\<lambda>_.
              sbind (GetContainer n basename) (\<lambda>container.
              write_if_different E (path_Join [memCgroupPath, MemoryLimitName E])
                (Itoa (sint (TotalMemoryNeededMB container * 1024 * 1024))))))))))"

section \<open>Synchronisation\<close>

text \<open>The callback of \<open>syncNoneProcCgroup\<close>; its state is the world.\<close>

definition none_proc_fn :: "nm_env \<Rightarrow> string \<Rightarrow> nm_world walk_fn" where
  "none_proc_fn E cpuPath path info err w =
     (case err of
        Some e \<Rightarrow> (WErr e, w)
      | None \<Rightarrow>
          (case info of
             None \<Rightarrow> (WPanic NilDeref, w)
           | Some i \<Rightarrow>
               if is_dir i \<and> path \<noteq> cpuPath then
                 (case CommonFileRead E (w_fs w) (path_Join [path, CPUProcsName E]) of
                    Inl e \<Rightarrow> (WSkipDir, w)
                  | Inr content \<Rightarrow>
                      if content \<noteq> [] then (WSkipDir, w)
                      else (WSkipDir, snd (on_fs (os_RemoveAll (nm_os E) path) w)))
               else (WNil, w)))"

definition syncNoneProcCgroup :: "nm_env \<Rightarrow> NodeMangerOperator \<Rightarrow> nm_world \<Rightarrow> nm_world option" where
  "syncNoneProcCgroup E n w =
     (let cpuPath = GenerateCgroupFullPath n (CgroupCPUDir E)
      in map_option snd (Walk (nm_os E) w_fs (none_proc_fn E cpuPath) cpuPath w))"

text \<open>The callback of \<open>subDirFunc\<close>; its state is the paths found and the file system.\<close>

definition sub_dir_fn :: "string \<Rightarrow> (string list \<times> fs) walk_fn" where
  "sub_dir_fn dir path info err s =
     (case err of
        Some e \<Rightarrow> (WErr e, s)
      | None \<Rightarrow>
          (case info of
             None \<Rightarrow> (WPanic NilDeref, s)
           | Some i \<Rightarrow> if is_dir i \<and> path \<noteq> dir then (WSkipDir, (List.insert path (fst s), snd s)) else (WNil, s)))"

definition subDirFunc :: "nm_env \<Rightarrow> string \<Rightarrow> fs \<Rightarrow> string list option" where
  "subDirFunc E dir F = map_option (\<lambda>(_, s). fst s) (Walk (nm_os E) snd (sub_dir_fn dir) dir ([], F))"

definition syncAllCgroup :: "nm_env \<Rightarrow> NodeMangerOperator \<Rightarrow> nm_world \<Rightarrow> nm_world option" where
  "syncAllCgroup E n w =
     (case (subDirFunc E (path_Join [CgroupRoot n, CgroupCPUDir E, CgroupPath n]) (w_fs w),
            subDirFunc E (path_Join [CgroupRoot n, CgroupMemDir E, CgroupPath n]) (w_fs w)) of
        (Some cpuList, Some memList) \<Rightarrow>
          (case DiffMap cpuList memList of (toCreate, toDelete) \<Rightarrow>
             (let w1 = fold (\<lambda>path w. snd (createMemoryCgroup E n path w)) (map_order E toCreate) w
              in Some (fold (\<lambda>path w. snd (removeMemoryCgroup E n path w)) (map_order E toDelete) w1)))
      | _ \<Rightarrow> None)"

fun add_shares :: "YarnContainer list \<Rightarrow> int64 \<Rightarrow> int64" where
  "add_shares [] allCpuShare = allCpuShare"
| "add_shares (con # cs) allCpuShare =
     (if IsFinalState con then add_shares cs allCpuShare
      else add_shares cs (allCpuShare + TotalVCoresNeeded con * 1024))"

definition syncParentCgroup :: "nm_env \<Rightarrow> NodeMangerOperator \<Rightarrow> nm_world \<Rightarrow> unit outcome \<times> nm_world" where
  "syncParentCgroup E n =
     sbind (ListContainers n) (\<lambda>containers.
       let allCpuShare = add_shares (Items containers) 0
       in if 0 <s allCpuShare
          then write_if_different E (path_Join [GenerateCgroupFullPath n (CgroupCPUDir E), CPUSharesName E])
                 (Itoa (sint allCpuShare))
          else sret ())"

section \<open>The event loop\<close>

datatype pleg_type = DirCreated | DirRemoved | OtherEvent

datatype nm_event = WatchEvent pleg_type string | Ticker | NmTicker | StopCh

record nm_state =
  nm_op :: NodeMangerOperator
  nm_world :: nm_world
  nm_returned :: bool

text \<open>Everything \<open>syncMemoryCgroup\<close> does before its loop.\<close>

definition sync_setup :: "nm_env \<Rightarrow> NodeMangerOperator \<Rightarrow> nm_world \<Rightarrow> unit outcome \<times> nm_world" where
  "sync_setup E n =
     (let cpuDir = path_Join [CgroupRoot n, CgroupCPUDir E, CgroupPath n];
          memoryDir = path_Join [CgroupRoot n, CgroupMemDir E, CgroupPath n]
      in sbind (ensureCgroupDir E cpuDir) (\<lambda>_.
         sbind (slift (of_err (AddWatch E cpuDir))) (\<lambda>_.
         ensureCgroupDir E memoryDir)))"

definition nm_tick :: "nm_env \<Rightarrow> NodeMangerOperator \<Rightarrow> nm_world \<Rightarrow> nm_world option" where
  "nm_tick E n w =
     (case syncNoneProcCgroup E n w of
        None \<Rightarrow> None
      | Some w1 \<Rightarrow> map_option (\<lambda>w2. snd (syncParentCgroup E n w2)) (syncAllCgroup E n w1))"

text \<open>One turn of the loop, in the environment of its moment; None only if a walk did not end.\<close>

definition nm_step :: "nm_env \<Rightarrow> nm_event \<Rightarrow> nm_state \<Rightarrow> nm_state option" where
  "nm_step E ev s =
     (if nm_returned s then Some s
      else case ev of
             WatchEvent DirCreated name \<Rightarrow>
               Some (s\<lparr>nm_world := snd (createMemoryCgroup E (nm_op s) name (nm_world s))\<rparr>)
           | WatchEvent DirRemoved name \<Rightarrow>
               Some (s\<lparr>nm_world := snd (removeMemoryCgroup E (nm_op s) name (nm_world s))\<rparr>)
           | WatchEvent OtherEvent name \<Rightarrow> Some s
           | Ticker \<Rightarrow> map_option (\<lambda>w. s\<lparr>nm_world := w\<rparr>) (nm_tick E (nm_op s) (nm_world s))
           | NmTicker \<Rightarrow> Some (s\<lparr>nm_op := syncNMEndpoint E (nm_op s)\<rparr>)
           | StopCh \<Rightarrow> Some (s\<lparr>nm_returned := True\<rparr>))"

definition nm_Run :: "nm_env \<Rightarrow> NodeMangerOperator \<Rightarrow> nm_world \<Rightarrow> unit outcome \<times> nm_state" where
  "nm_Run E n w =
     (if SyncMemoryCgroup n then
        (case sync_setup E n w of
           (Ok _, w1) \<Rightarrow> (Ok (), \<lparr>nm_op = n, nm_world = w1, nm_returned = False\<rparr>)
         | (Err err, w1) \<Rightarrow> (Err err, \<lparr>nm_op = n, nm_world = w1, nm_returned = True\<rparr>)
         | (Panic p, w1) \<Rightarrow> (Panic p, \<lparr>nm_op = n, nm_world = w1, nm_returned = True\<rparr>))
      else (Ok (), \<lparr>nm_op = n, nm_world = w, nm_returned = True\<rparr>))"

section \<open>Where the cgroups are\<close>

definition cpu_root :: "NodeMangerOperator \<Rightarrow> string list" where
  "cpu_root n = segs (CgroupRoot n) @ ''cpu'' # segs (CgroupPath n)"

definition mem_root :: "NodeMangerOperator \<Rightarrow> string list" where
  "mem_root n = segs (CgroupRoot n) @ ''memory'' # segs (CgroupPath n)"

text \<open>
  The hierarchies are mounted under an absolute root, no configured path climbs, and the
  koordlet names the two hierarchies \<open>cpu/\<close> and \<open>memory/\<close> and the files in them by plain names.
\<close>

definition cgroup_layout :: "nm_env \<Rightarrow> NodeMangerOperator \<Rightarrow> bool" where
  "cgroup_layout E n \<longleftrightarrow>
     is_rooted (CgroupRoot n) \<and> no_dotdot (CgroupRoot n) \<and> no_dotdot (CgroupPath n) \<and>
     segs (CgroupCPUDir E) = [''cpu''] \<and> segs (CgroupMemDir E) = [''memory''] \<and>
     good_seg (CPUProcsName E) \<and> good_seg (CPUSharesName E) \<and> good_seg (MemoryLimitName E) \<and>
     good_seg (MemoryOomGroupName E)"

lemma segs_single_no_dotdot: "segs p = [c] \<Longrightarrow> c \<noteq> ''..'' \<Longrightarrow> no_dotdot p"
proof -
  assume s: "segs p = [c]" and c: "c \<noteq> ''..''"
  have "''..'' \<in> set (segs p)" if "\<not> no_dotdot p" using that by (auto simp: no_dotdot_def segs_def)
  then show "no_dotdot p" using s c by auto
qed

lemma layout_no_dotdot:
  assumes "cgroup_layout E n"
  shows "no_dotdot (CgroupCPUDir E)" "no_dotdot (CgroupMemDir E)"
  using assms segs_single_no_dotdot by (auto simp: cgroup_layout_def)

lemma roots_good:
  assumes "cgroup_layout E n"
  shows "\<forall>c \<in> set (cpu_root n). good_seg c" "\<forall>c \<in> set (mem_root n). good_seg c"
proof -
  have "good_seg ''cpu''" "good_seg ''memory''" by (simp_all add: good_seg_def)
  then show "\<forall>c \<in> set (cpu_root n). good_seg c" "\<forall>c \<in> set (mem_root n). good_seg c"
    using assms segs_good by (auto simp: cgroup_layout_def cpu_root_def mem_root_def)
qed

lemma layout_dirs:
  assumes "cgroup_layout E n"
  shows "path_Join [CgroupRoot n, CgroupCPUDir E, CgroupPath n] = abs_path (cpu_root n)"
    and "path_Join [CgroupRoot n, CgroupMemDir E, CgroupPath n] = abs_path (mem_root n)"
    and "good_seg b \<Longrightarrow> path_Join [CgroupRoot n, CgroupCPUDir E, CgroupPath n, b] = abs_path (cpu_root n @ [b])"
    and "good_seg b \<Longrightarrow> path_Join [CgroupRoot n, CgroupMemDir E, CgroupPath n, b] = abs_path (mem_root n @ [b])"
  using assms layout_no_dotdot [OF assms]
  by (simp_all add: cgroup_layout_def path_Join_abs cpu_root_def mem_root_def)

lemma root_child_good:
  assumes "cgroup_layout E n" and "good_seg b"
  shows "\<forall>c \<in> set (cpu_root n @ [b]). good_seg c" "\<forall>c \<in> set (mem_root n @ [b]). good_seg c"
  using roots_good [OF assms(1)] assms(2) by auto

lemma resolve_abs: "\<forall>c \<in> set cs. good_seg c \<Longrightarrow> resolve K (abs_path cs) = cs"
  by simp

lemma roots_apart [simp]: "cpu_root n @ x \<noteq> mem_root n @ y" "\<not> under (cpu_root n) (mem_root n @ y)"
  "\<not> under (mem_root n) (cpu_root n @ y)"
  by (auto simp: cpu_root_def mem_root_def under_def)

lemma roots_differ [simp]: "cpu_root n \<noteq> mem_root n"
  by (simp add: cpu_root_def mem_root_def)

lemma path_Base_no_slash: "CHR ''/'' \<in> set (path_Base p) \<Longrightarrow> path_Base p = ''/''"
proof -
  assume s: "CHR ''/'' \<in> set (path_Base p)"
  let ?ne = "filter (\<lambda>e. e \<noteq> []) (Split p CHR ''/'')"
  have "last ?ne \<in> set (Split p CHR ''/'')" if "?ne \<noteq> []" using last_in_set [OF that] by auto
  then show "path_Base p = ''/''"
    using s Split_elems_no_sep [of _ p "CHR ''/''"] by (auto simp: path_Base_def Let_def split: if_splits)
qed

definition is_container :: "string \<Rightarrow> bool" where
  "is_container b \<longleftrightarrow> HasPrefix b ''container_''"

lemma container_base_good: "is_container (path_Base p) \<Longrightarrow> good_seg (path_Base p)"
proof -
  assume "is_container (path_Base p)"
  then obtain t where t: "path_Base p = ''container_'' @ t" by (auto simp: is_container_def HasPrefix_iff)
  then have "CHR ''/'' \<notin> set (path_Base p)" using path_Base_no_slash [of p] by auto
  then show ?thesis using t by (simp add: good_seg_def)
qed

section \<open>What writing to a cgroup file may do\<close>

definition dir_at :: "fs \<Rightarrow> string list \<Rightarrow> bool" where
  "dir_at F k \<longleftrightarrow> (\<exists>m. map_of F k = Some (DirN m))"

text \<open>
  Writing to a file neither makes nor destroys a directory, and makes no other entry. (It may
  change other files: moving a process into one cgroup takes it out of another.)
\<close>

definition write_spec :: "os_env \<Rightarrow> (string \<Rightarrow> string \<Rightarrow> fs \<Rightarrow> error option \<times> fs) \<Rightarrow> bool" where
  "write_spec K wr \<longleftrightarrow>
     (\<forall>p d F k. (dir_at (snd (wr p d F)) k \<longleftrightarrow> dir_at F k) \<and>
        (k \<noteq> resolve K p \<longrightarrow> (map_of (snd (wr p d F)) k = None \<longleftrightarrow> map_of F k = None)))"

definition writes_ok :: "nm_env \<Rightarrow> bool" where
  "writes_ok E \<longleftrightarrow> write_spec (nm_os E) (CommonFileWrite E) \<and> write_spec (nm_os E) (CommonFileWriteIfDifferent E)"

text \<open>A step on the world that keeps directories and makes entries only at paths in \<open>P\<close>.\<close>

definition keeps_tree :: "string list set \<Rightarrow> (nm_world \<Rightarrow> 'a outcome \<times> nm_world) \<Rightarrow> bool" where
  "keeps_tree P m \<longleftrightarrow>
     (\<forall>w k. (dir_at (w_fs (snd (m w))) k \<longleftrightarrow> dir_at (w_fs w) k) \<and>
        (k \<notin> P \<longrightarrow> (map_of (w_fs (snd (m w))) k = None \<longleftrightarrow> map_of (w_fs w) k = None)))"

lemma keeps_tree_sbind:
  assumes "keeps_tree P m" and "\<And>a. keeps_tree P (f a)"
  shows "keeps_tree P (sbind m f)"
  unfolding keeps_tree_def
proof (intro allI)
  fix w k
  obtain a w1 where m: "m w = (a, w1)" by (metis prod.exhaust)
  have 1: "dir_at (w_fs w1) k \<longleftrightarrow> dir_at (w_fs w) k" "k \<notin> P \<longrightarrow> (map_of (w_fs w1) k = None \<longleftrightarrow> map_of (w_fs w) k = None)"
    using assms(1) m unfolding keeps_tree_def by (metis snd_conv)+
  have 2: "dir_at (w_fs (snd (f x w1))) k \<longleftrightarrow> dir_at (w_fs w1) k"
      "k \<notin> P \<longrightarrow> (map_of (w_fs (snd (f x w1))) k = None \<longleftrightarrow> map_of (w_fs w1) k = None)" for x
    using assms(2) [of x] unfolding keeps_tree_def by blast+
  show "(dir_at (w_fs (snd (sbind m f w))) k \<longleftrightarrow> dir_at (w_fs w) k) \<and>
        (k \<notin> P \<longrightarrow> (map_of (w_fs (snd (sbind m f w))) k = None \<longleftrightarrow> map_of (w_fs w) k = None))"
    using 1 2 m by (cases a) (simp_all add: sbind_def)
qed

lemma keeps_tree_same: "(\<And>w. w_fs (snd (m w)) = w_fs w) \<Longrightarrow> keeps_tree P m"
  by (simp add: keeps_tree_def)

lemma keeps_tree_sret: "keeps_tree P (sret a)"
  by (rule keeps_tree_same) simp

lemma keeps_tree_writes:
  assumes "writes_ok E"
  shows "resolve (nm_os E) p \<in> P \<Longrightarrow> keeps_tree P (write_file E p d)"
    and "resolve (nm_os E) p \<in> P \<Longrightarrow> keeps_tree P (write_if_different E p d)"
  using assms
  by (auto simp: keeps_tree_def write_file_def write_if_different_def writes_ok_def write_spec_def split: prod.splits)
    (metis snd_conv)+

lemma keeps_tree_move_pids:
  "writes_ok E \<Longrightarrow> resolve (nm_os E) procs \<in> P \<Longrightarrow> keeps_tree P (move_pids E procs pids)"
  by (induction pids) (auto intro!: keeps_tree_sbind keeps_tree_writes keeps_tree_sret)

lemma ListContainers_fs [simp]: "w_fs (snd (ListContainers n w)) = w_fs w"
  by (cases "w_http w"; cases "hd (w_http w)")
    (auto simp: ListContainers_def http_Get_def sbind_def Let_def split: outcome.splits sum.splits)

lemma GetContainer_fs [simp]: "w_fs (snd (GetContainer n c w)) = w_fs w"
proof -
  obtain a w1 where l: "ListContainers n w = (a, w1)" by (metis prod.exhaust)
  have "w_fs w1 = w_fs w" using ListContainers_fs [of n w] l by simp
  then show ?thesis using l by (cases a) (simp_all add: GetContainer_def sbind_def)
qed


section \<open>Effects on the tree\<close>

lemma os_Mkdir_ok_iff:
  "fst (os_Mkdir K p m F) = None \<longleftrightarrow>
     os_fail K Op_Mkdir p = None \<and> map_of F (resolve K p) = None \<and> dir_at F (butlast (resolve K p))"
  by (auto simp: os_Mkdir_def Let_def dir_at_def split: option.splits fnode.splits)

lemma on_fs_fs [simp]: "w_fs (snd (on_fs f w)) = snd (f (w_fs w))"
  by (simp add: on_fs_def split: prod.splits)

lemma on_fs_cases:
  assumes "on_fs f w = (out, w')"
  obtains e F' where "f (w_fs w) = (e, F')" and "out = of_err e" and "w' = w\<lparr>w_fs := F'\<rparr>"
  using assms by (auto simp: on_fs_def split: prod.splits)

text \<open>A new memory cgroup: the directory, then only writes to files in it.\<close>

definition create_rest :: "nm_env \<Rightarrow> NodeMangerOperator \<Rightarrow> string \<Rightarrow> nm_world \<Rightarrow> unit outcome \<times> nm_world" where
  "create_rest E n b =
     (let mem = abs_path (mem_root n @ [b])
      in sbind (write_if_different E (path_Join [mem, MemoryMoveChargeAtImmigrateName]) ''3'') (\<lambda>_.
         sbind (write_if_different E (path_Join [mem, MemoryOomGroupName E]) ''1'') (\<lambda>_.
         sbind (\<lambda>w. (of_sum (GetPids E (w_fs w) (abs_path (cpu_root n @ [b]))), w)) (\<lambda>pids.
         sbind (move_pids E (path_Join [mem, CPUProcsName E]) pids) (\<lambda>_.
         sbind (GetContainer n b) (\<lambda>container.
         write_if_different E (path_Join [mem, MemoryLimitName E])
           (Itoa (sint (TotalMemoryNeededMB container * 1024 * 1024)))))))))"

lemma createMemoryCgroup_alt:
  assumes "cgroup_layout E n"
  shows "createMemoryCgroup E n f =
           (if is_container (path_Base f)
            then sbind (on_fs (os_Mkdir (nm_os E) (abs_path (mem_root n @ [path_Base f])) 0x1A4))
                   (\<lambda>_. create_rest E n (path_Base f))
            else sret ())"
  using layout_dirs(3,4) [OF assms] container_base_good [of f]
  by (simp add: createMemoryCgroup_def create_rest_def is_container_def Let_def)

lemma create_rest_tree:
  assumes "cgroup_layout E n" and "writes_ok E" and "good_seg b"
  shows "keeps_tree {mem_root n @ [b, x] | x. True} (create_rest E n b)"
proof -
  let ?mem = "mem_root n @ [b]"
  have g: "\<forall>c \<in> set ?mem. good_seg c" by (rule root_child_good(2) [OF assms(1,3)])
  have r: "resolve K (path_Join [abs_path ?mem, x]) \<in> {mem_root n @ [b, x] | x. True}" if "good_seg x" for x K
  proof -
    have "path_Join [abs_path ?mem, x] = abs_path (?mem @ [x])" by (rule path_Join_child [OF g that])
    moreover have "resolve K (abs_path (?mem @ [x])) = ?mem @ [x]" by (rule resolve_abs) (use g that in simp)
    ultimately show ?thesis by auto
  qed
  have m: "good_seg MemoryMoveChargeAtImmigrateName"
    by (simp add: MemoryMoveChargeAtImmigrateName_def good_seg_def)
  show ?thesis
    using assms(1) m unfolding create_rest_def Let_def cgroup_layout_def
    by (intro keeps_tree_sbind keeps_tree_writes [OF assms(2)] keeps_tree_move_pids [OF assms(2)] r)
      (auto intro: keeps_tree_same)
qed

lemma create_effect:
  assumes "cgroup_layout E n" and "writes_ok E" and "b = path_Base f" and "\<forall>x. k \<noteq> mem_root n @ [b, x]"
  shows "dir_at (w_fs (snd (createMemoryCgroup E n f w))) k \<longleftrightarrow>
           dir_at (w_fs w) k \<or>
           (is_container b \<and> k = mem_root n @ [b] \<and> map_of (w_fs w) k = None \<and>
            os_fail (nm_os E) Op_Mkdir (abs_path k) = None \<and> dir_at (w_fs w) (mem_root n))"
    and "k \<noteq> mem_root n @ [b] \<Longrightarrow>
           map_of (w_fs (snd (createMemoryCgroup E n f w))) k = None \<longleftrightarrow> map_of (w_fs w) k = None"
    and "map_of (w_fs (snd (createMemoryCgroup E n f w))) k = None \<Longrightarrow> map_of (w_fs w) k = None"
proof -
  let ?K = "nm_os E" and ?d = "mem_root n @ [b]" and ?w' = "snd (createMemoryCgroup E n f w)"
  have "(dir_at (w_fs ?w') k \<longleftrightarrow>
           dir_at (w_fs w) k \<or>
           (is_container b \<and> k = ?d \<and> map_of (w_fs w) k = None \<and> os_fail ?K Op_Mkdir (abs_path k) = None \<and>
            dir_at (w_fs w) (mem_root n))) \<and>
        (k \<noteq> ?d \<longrightarrow> (map_of (w_fs ?w') k = None \<longleftrightarrow> map_of (w_fs w) k = None)) \<and>
        (map_of (w_fs ?w') k = None \<longrightarrow> map_of (w_fs w) k = None)"
  proof (cases "is_container b")
    case True
    then have gb: "good_seg b" using container_base_good assms(3) by simp
    have res: "resolve ?K (abs_path ?d) = ?d" by (rule resolve_abs) (rule root_child_good(2) [OF assms(1) gb])
    obtain e F1 where mk: "os_Mkdir ?K (abs_path ?d) 0x1A4 (w_fs w) = (e, F1)" by (metis prod.exhaust)
    let ?w1 = "w\<lparr>w_fs := F1\<rparr>"
    have run: "?w' = (case e of None \<Rightarrow> snd (create_rest E n b ?w1) | Some _ \<Rightarrow> ?w1)"
      using mk True assms(3) by (cases e) (simp_all add: createMemoryCgroup_alt [OF assms(1)] sbind_def on_fs_def)
    have rest: "dir_at (w_fs (snd (create_rest E n b ?w1))) k \<longleftrightarrow> dir_at F1 k"
        "map_of (w_fs (snd (create_rest E n b ?w1))) k = None \<longleftrightarrow> map_of F1 k = None"
      using create_rest_tree [OF assms(1,2) gb] assms(4) unfolding keeps_tree_def by (auto dest: spec [of _ ?w1])
    have ok: "e = None \<longleftrightarrow> os_fail ?K Op_Mkdir (abs_path ?d) = None \<and> map_of (w_fs w) ?d = None \<and> dir_at (w_fs w) (mem_root n)"
      using os_Mkdir_ok_iff [of ?K "abs_path ?d" "0x1A4" "w_fs w"] mk res by simp
    have other: "map_of F1 k = map_of (w_fs w) k" if "k \<noteq> ?d"
      using os_Mkdir_dirs [OF mk] res that assms(4) by simp
    have same: "F1 = w_fs w" if "e \<noteq> None" using os_Mkdir_cases [OF mk] that by simp
    have new: "dir_at F1 ?d" if "e = None" using os_Mkdir_cases [OF mk] that res by (auto simp: dir_at_def)
    show ?thesis
    proof (cases e)
      case None
      then show ?thesis using run rest ok other new True by (cases "k = ?d") (auto simp: dir_at_def)
    next
      case (Some x)
      then show ?thesis using run same ok True by auto
    qed
  next
    case False
    then show ?thesis using assms(3) by (simp add: createMemoryCgroup_alt [OF assms(1)])
  qed
  then show "dir_at (w_fs ?w') k \<longleftrightarrow>
           dir_at (w_fs w) k \<or>
           (is_container b \<and> k = ?d \<and> map_of (w_fs w) k = None \<and> os_fail ?K Op_Mkdir (abs_path k) = None \<and>
            dir_at (w_fs w) (mem_root n))"
    and "k \<noteq> ?d \<Longrightarrow> map_of (w_fs ?w') k = None \<longleftrightarrow> map_of (w_fs w) k = None"
    and "map_of (w_fs ?w') k = None \<Longrightarrow> map_of (w_fs w) k = None" by blast+
qed

lemma remove_effect:
  assumes "cgroup_layout E n" and "b = path_Base f"
  shows "map_of (w_fs (snd (removeMemoryCgroup E n f w))) k =
           (if is_container b \<and> under (mem_root n @ [b]) k \<and>
               (os_fail (nm_os E) Op_Remove (abs_path (mem_root n @ [b])) = None \<or> \<not> os_left (nm_os E) k)
            then None else map_of (w_fs w) k)"
proof (cases "is_container b")
  case True
  then have gb: "good_seg b" using container_base_good assms(2) by simp
  have p: "path_Join [CgroupRoot n, CgroupMemDir E, CgroupPath n, b] = abs_path (mem_root n @ [b])"
    by (rule layout_dirs(4) [OF assms(1) gb])
  have "resolve (nm_os E) (abs_path (mem_root n @ [b])) = mem_root n @ [b]"
    by (rule resolve_abs) (rule root_child_good(2) [OF assms(1) gb])
  moreover have "w_fs (snd (removeMemoryCgroup E n f w)) = snd (os_RemoveAll (nm_os E) (abs_path (mem_root n @ [b])) (w_fs w))"
    using True assms(2) p by (simp add: removeMemoryCgroup_def is_container_def on_fs_def split: prod.splits)
  ultimately show ?thesis using True map_of_RemoveAll by simp
next
  case False
  then show ?thesis using assms(2) by (simp add: removeMemoryCgroup_def is_container_def)
qed

section \<open>Listing a hierarchy\<close>

lemma visit_sub_dir:
  assumes R: "\<forall>c \<in> set R. good_seg c" and calm: "\<And>p. os_fail K Op_Stat p = None" "\<And>p. os_fail K Op_ReadDir p = None"
    and "\<forall>b \<in> set names. good_seg b \<and> map_of F (R @ [b]) \<noteq> None"
  shows "\<exists>l'. visit K snd (sub_dir_fn (abs_path R)) (abs_path R) names (l, F) = (WNil, (l', F)) \<and>
           set l' = set l \<union> abs_path ` {R @ [b] | b. b \<in> set names \<and> dir_at F (R @ [b])}"
  using assms(4)
proof (induction names arbitrary: l)
  case (Cons b names)
  obtain i where i: "map_of F (R @ [b]) = Some i" and gb: "good_seg b" using Cons.prems by auto
  have g: "\<forall>c \<in> set (R @ [b]). good_seg c" using R gb by simp
  have p: "path_Join [abs_path R, b] = abs_path (R @ [b])" by (rule path_Join_child [OF R gb])
  have ne: "abs_path (R @ [b]) \<noteq> abs_path R" using abs_path_inject [OF g R] by simp
  have st: "os_Stat K F (abs_path (R @ [b])) = Inr i"
    using i calm(1) resolve_abs [OF g] by (simp add: os_Stat_def)
  have rd: "snd (readDirNames K F (abs_path (R @ [b]))) = None" using calm(2) by (simp add: readDirNames_def)
  have d: "is_dir i \<longleftrightarrow> dir_at F (R @ [b])" using i by (cases i) (simp_all add: dir_at_def)
  let ?l = "if is_dir i then List.insert (abs_path (R @ [b])) l else l"
  obtain l' where l': "visit K snd (sub_dir_fn (abs_path R)) (abs_path R) names (?l, F) = (WNil, (l', F))"
      "set l' = set ?l \<union> abs_path ` {R @ [b] | b. b \<in> set names \<and> dir_at F (R @ [b])}"
    using Cons.IH [of ?l] Cons.prems by auto
  have "visit K snd (sub_dir_fn (abs_path R)) (abs_path R) (b # names) (l, F) =
      visit K snd (sub_dir_fn (abs_path R)) (abs_path R) names (?l, F)"
    using p st rd ne by (simp add: Let_def sub_dir_fn_def)
  then show ?case using l' d by (intro exI [of _ l']) auto
qed simp

lemma subDirFunc_set:
  assumes "\<forall>c \<in> set R. good_seg c" and "\<And>p. os_fail (nm_os E) Op_Stat p = None"
    and "\<And>p. os_fail (nm_os E) Op_ReadDir p = None" and "fs_wf F" and "dir_at F R"
  shows "\<exists>l. subDirFunc E (abs_path R) F = Some l \<and> set l = abs_path ` {R @ [b] | b. dir_at F (R @ [b])}"
proof -
  let ?K = "nm_os E" and ?fn = "sub_dir_fn (abs_path R)"
  obtain m where m: "map_of F R = Some (DirN m)" using assms(5) by (auto simp: dir_at_def)
  have res: "resolve ?K (abs_path R) = R" by (rule resolve_abs [OF assms(1)])
  have names: "\<forall>b \<in> set (child_names F R). good_seg b \<and> map_of F (R @ [b]) \<noteq> None"
    using child_names_good [OF assms(4)] set_child_names map_of_key by metis
  obtain l where v: "visit ?K snd ?fn (abs_path R) (child_names F R) ([], F) = (WNil, (l, F))"
      and l: "set l = abs_path ` {R @ [b] | b. b \<in> set (child_names F R) \<and> dir_at F (R @ [b])}"
    using visit_sub_dir [OF assms(1-3) names, of "[]"] by auto
  have "dir_at F (R @ [b]) \<Longrightarrow> b \<in> set (child_names F R)" for b
    using set_child_names map_of_key by (fastforce simp: dir_at_def)
  then have set: "{R @ [b] | b. b \<in> set (child_names F R) \<and> dir_at F (R @ [b])} = {R @ [b] | b. dir_at F (R @ [b])}" by auto
  have nz: "fst (?fn (path_Join [abs_path R, b]) (Some i) err s) \<noteq> WNil"
    if "is_dir i" "b \<in> set (child_names (snd ([] :: string list, F)) (resolve ?K (abs_path R)))" for b i err s
  proof -
    have gb: "good_seg b" using that(2) res names by simp
    then have g: "\<forall>c \<in> set (R @ [b]). good_seg c" using assms(1) by simp
    then have "abs_path (R @ [b]) \<noteq> abs_path R" using abs_path_inject [OF g assms(1)] by simp
    then show ?thesis using that(1) path_Join_child [OF assms(1) gb] by (cases err) (simp_all add: sub_dir_fn_def)
  qed
  have "Walk ?K snd ?fn (abs_path R) ([], F) =
      (case visit ?K snd ?fn (abs_path R) (child_names (snd ([] :: string list, F)) (resolve ?K (abs_path R))) ([], F) of
         (r, s') \<Rightarrow> Some (if r = WSkipDir then WNil else r, s'))"
    by (rule Walk_visit [where info = "DirN m"])
      (use nz res m assms(2,3) in \<open>simp_all add: os_Stat_def sub_dir_fn_def\<close>)
  then have "Walk ?K snd ?fn (abs_path R) ([], F) = Some (WNil, (l, F))" using v res by simp
  then show ?thesis using l set by (simp add: subDirFunc_def)
qed

section \<open>Synchronising the two hierarchies\<close>

lemma fold_create:
  assumes "cgroup_layout E n" and "writes_ok E" and "dir_at (w_fs w) (mem_root n)"
  shows "dir_at (w_fs (fold (\<lambda>p w. snd (createMemoryCgroup E n p w)) ps w)) (mem_root n @ [b]) \<longleftrightarrow>
           dir_at (w_fs w) (mem_root n @ [b]) \<or>
           (is_container b \<and> b \<in> path_Base ` set ps \<and> map_of (w_fs w) (mem_root n @ [b]) = None \<and>
            os_fail (nm_os E) Op_Mkdir (abs_path (mem_root n @ [b])) = None)"
  using assms(3)
proof (induction ps arbitrary: w)
  case (Cons p ps)
  let ?k = "mem_root n @ [b]" and ?w1 = "snd (createMemoryCgroup E n p w)"
  have k: "\<forall>x. ?k \<noteq> mem_root n @ [path_Base p, x]" "\<forall>x. mem_root n \<noteq> mem_root n @ [path_Base p, x]" by simp_all
  note eff = create_effect [OF assms(1,2) refl k(1), of w]
  have "dir_at (w_fs ?w1) (mem_root n)"
    using create_effect(1) [OF assms(1,2) refl k(2), of w] Cons.prems by simp
  note IH = Cons.IH [OF this]
  show ?case
  proof (cases "path_Base p = b")
    case True
    then show ?thesis using IH eff(1,3) Cons.prems by auto
  next
    case False
    then show ?thesis using IH eff(1,2) by auto
  qed
qed simp

lemma fold_remove:
  assumes "cgroup_layout E n"
  shows "map_of (w_fs (fold (\<lambda>p w. snd (removeMemoryCgroup E n p w)) ps w)) (mem_root n @ [b]) =
           (if is_container b \<and> b \<in> path_Base ` set ps \<and>
               (os_fail (nm_os E) Op_Remove (abs_path (mem_root n @ [b])) = None \<or> \<not> os_left (nm_os E) (mem_root n @ [b]))
            then None else map_of (w_fs w) (mem_root n @ [b]))"
proof (induction ps arbitrary: w)
  case (Cons p ps)
  have u: "under (mem_root n @ [c]) (mem_root n @ [b]) \<longleftrightarrow> c = b" for c by (auto simp: under_def)
  have m: "b \<in> path_Base ` set (p # ps) \<longleftrightarrow> path_Base p = b \<or> b \<in> path_Base ` set ps" by auto
  show ?case
    unfolding fold_Cons comp_def Cons.IH remove_effect [OF assms refl, of p w "mem_root n @ [b]"] u m
    by (cases "path_Base p = b"; cases "os_fail (nm_os E) Op_Remove (abs_path (mem_root n @ [b]))"; simp)
qed simp

section \<open>What the agent touches\<close>

text \<open>Memory cgroups of containers, and whatever is below the cpu cgroup of YARN.\<close>

definition agent_area :: "NodeMangerOperator \<Rightarrow> string list \<Rightarrow> bool" where
  "agent_area n k \<longleftrightarrow>
     (\<exists>b x. is_container b \<and> k = mem_root n @ b # x) \<or> (\<exists>b x. k = cpu_root n @ b # x)"

definition same_outside :: "NodeMangerOperator \<Rightarrow> nm_world \<Rightarrow> nm_world \<Rightarrow> bool" where
  "same_outside n w w' \<longleftrightarrow> (\<forall>k. \<not> agent_area n k \<longrightarrow> (dir_at (w_fs w') k \<longleftrightarrow> dir_at (w_fs w) k))"

lemma same_outside_refl: "same_outside n w w"
  by (simp add: same_outside_def)

lemma same_outside_trans: "same_outside n w w1 \<Longrightarrow> same_outside n w1 w2 \<Longrightarrow> same_outside n w w2"
  by (simp add: same_outside_def)

lemma same_outside_preorder: "reflp (same_outside n)" "transp (same_outside n)"
  by (rule reflpI, rule same_outside_refl, rule transpI, erule (1) same_outside_trans)

lemma same_outside_fold:
  "(\<And>p w. same_outside n w (f p w)) \<Longrightarrow> same_outside n w (fold f ps w)"
proof (induction ps arbitrary: w)
  case (Cons p ps)
  then show ?case using same_outside_trans [OF Cons.prems [of w p] Cons.IH] by simp
qed (simp add: same_outside_refl)

lemma create_outside:
  assumes "cgroup_layout E n" and "writes_ok E"
  shows "same_outside n w (snd (createMemoryCgroup E n f w))"
  unfolding same_outside_def
proof (intro allI impI)
  fix k assume k: "\<not> agent_area n k"
  let ?b = "path_Base f"
  show "dir_at (w_fs (snd (createMemoryCgroup E n f w))) k \<longleftrightarrow> dir_at (w_fs w) k"
  proof (cases "is_container ?b")
    case True
    then have "k \<noteq> mem_root n @ ?b # x" for x using k unfolding agent_area_def by blast
    then have "\<forall>x. k \<noteq> mem_root n @ [?b, x]" "k \<noteq> mem_root n @ [?b]" by auto
    then show ?thesis using create_effect(1) [OF assms refl] by simp
  next
    case False
    then show ?thesis by (simp add: createMemoryCgroup_alt [OF assms(1)])
  qed
qed

lemma remove_outside:
  assumes "cgroup_layout E n"
  shows "same_outside n w (snd (removeMemoryCgroup E n f w))"
  unfolding same_outside_def
proof (intro allI impI)
  fix k assume k: "\<not> agent_area n k"
  have "is_container (path_Base f) \<longrightarrow> under (mem_root n @ [path_Base f]) k \<longrightarrow> agent_area n k"
    unfolding under_iff agent_area_def by auto
  then have "map_of (w_fs (snd (removeMemoryCgroup E n f w))) k = map_of (w_fs w) k"
    unfolding remove_effect [OF assms refl] using k by auto
  then show "dir_at (w_fs (snd (removeMemoryCgroup E n f w))) k \<longleftrightarrow> dir_at (w_fs w) k" by (simp add: dir_at_def)
qed

lemma parent_outside:
  assumes "writes_ok E"
  shows "same_outside n w (snd (syncParentCgroup E n w))"
proof -
  obtain a w1 where l: "ListContainers n w = (a, w1)" by (metis prod.exhaust)
  have w1: "w_fs w1 = w_fs w" using ListContainers_fs [of n w] l by simp
  have "dir_at (w_fs (snd (write_if_different E p d w1))) k \<longleftrightarrow> dir_at (w_fs w1) k" for p d k
    using keeps_tree_writes(2) [OF assms, of p UNIV d] by (simp add: keeps_tree_def)
  then show ?thesis
    using l w1 by (cases a) (auto simp: syncParentCgroup_def sbind_def same_outside_def Let_def)
qed

lemma none_proc_ok:
  assumes "cgroup_layout E n"
  shows "walk_ok (abs_path (cpu_root n)) w_fs (same_outside n) (none_proc_fn E (abs_path (cpu_root n)))"
proof -
  let ?C = "cpu_root n"
  have seg: "segs (abs_path ?C) = ?C" by (rule segs_abs_path [OF roots_good(1) [OF assms]])
  have rm: "same_outside n w (snd (on_fs (os_RemoveAll (nm_os E) p) w))"
    if p: "below (abs_path ?C) p" "p \<noteq> abs_path ?C" for p w
    unfolding same_outside_def
  proof (intro allI impI)
    fix k assume k: "\<not> agent_area n k"
    have q: "is_rooted p" "no_dotdot p" "under ?C (segs p)" "segs p \<noteq> ?C" using p seg by (auto simp: below_def)
    then obtain b x where "segs p = ?C @ b # x" unfolding under_iff by (metis append.right_neutral neq_Nil_conv)
    then have "under (segs p) k \<longrightarrow> agent_area n k" unfolding under_iff agent_area_def by auto
    then have "map_of (snd (os_RemoveAll (nm_os E) p (w_fs w))) k = map_of (w_fs w) k"
      using k map_of_RemoveAll [of "nm_os E" p "w_fs w" k] resolve_rooted [OF q(1,2)] by simp
    then show "dir_at (w_fs (snd (on_fs (os_RemoveAll (nm_os E) p) w))) k \<longleftrightarrow> dir_at (w_fs w) k"
      by (simp add: dir_at_def)
  qed
  have keys: "fst ` set (w_fs (snd (on_fs (os_RemoveAll (nm_os E) p) w))) \<subseteq> fst ` set (w_fs w)" for p w
    using keys_RemoveAll [of "nm_os E" p "w_fs w"] by simp
  have "same_outside n w (snd (none_proc_fn E (abs_path ?C) p i e w)) \<and>
      fst ` set (w_fs (snd (none_proc_fn E (abs_path ?C) p i e w))) \<subseteq> fst ` set (w_fs w)"
    if p: "below (abs_path ?C) p" for p i e w
    using rm [OF p, of w] keys [of p w] same_outside_refl [of n w]
    by (simp add: none_proc_fn_def split: option.splits sum.splits)
  then show ?thesis
    by (simp add: walk_ok_def same_outside_preorder)
qed

lemma sub_dir_ok: "walk_ok root snd (\<lambda>s s'. snd s' = snd s) (sub_dir_fn dir)"
  by (auto simp: walk_ok_def sub_dir_fn_def intro!: reflpI transpI split: option.splits)

section \<open>Every turn of the loop ends\<close>

lemma root_paths:
  assumes "cgroup_layout E n"
  shows "is_rooted (abs_path (cpu_root n))" "no_dotdot (abs_path (cpu_root n))"
    "is_rooted (abs_path (mem_root n))" "no_dotdot (abs_path (mem_root n))"
  using roots_good [OF assms] by simp_all

lemma subDirFunc_total:
  assumes "is_rooted dir" and "no_dotdot dir" and "fs_wf F"
  obtains l where "subDirFunc E dir F = Some l"
proof -
  have "fs_wf (snd ([] :: string list, F))" using assms(3) by simp
  then obtain r and s' :: "string list \<times> fs" where "Walk (nm_os E) snd (sub_dir_fn dir) dir ([], F) = Some (r, s')"
    by (rule Walk_terminates [where K = "nm_os E" and fn = "sub_dir_fn dir" and s = "([], F)", OF sub_dir_ok assms(1,2)])
  then show ?thesis using that by (simp add: subDirFunc_def split: prod.splits)
qed

lemma syncNoneProcCgroup_total:
  assumes "cgroup_layout E n" and "fs_wf (w_fs w)"
  obtains w' where "syncNoneProcCgroup E n w = Some w'" and "same_outside n w w'" and "fs_wf (w_fs w')"
proof -
  obtain r w' where "Walk (nm_os E) w_fs (none_proc_fn E (abs_path (cpu_root n))) (abs_path (cpu_root n)) w = Some (r, w')"
      "same_outside n w w'" "fst ` set (w_fs w') \<subseteq> fst ` set (w_fs w)"
    using Walk_terminates [OF none_proc_ok [OF assms(1)] root_paths(1,2) [OF assms(1)] assms(2)] by blast
  then show ?thesis
    using that fs_wf_mono [OF assms(2)]
    by (simp add: syncNoneProcCgroup_def GenerateCgroupFullPath_def layout_dirs(1) [OF assms(1)])
qed

lemma syncAllCgroup_total:
  assumes "cgroup_layout E n" and "writes_ok E" and "fs_wf (w_fs w)"
  obtains w' where "syncAllCgroup E n w = Some w'" and "same_outside n w w'"
proof -
  obtain cs ms where "subDirFunc E (abs_path (cpu_root n)) (w_fs w) = Some cs" "subDirFunc E (abs_path (mem_root n)) (w_fs w) = Some ms"
    using subDirFunc_total [OF root_paths(1,2) [OF assms(1)] assms(3)] subDirFunc_total [OF root_paths(3,4) [OF assms(1)] assms(3)]
    by metis
  moreover have "same_outside n w
      (fold (\<lambda>p w. snd (removeMemoryCgroup E n p w)) rs (fold (\<lambda>p w. snd (createMemoryCgroup E n p w)) ks w))" for rs ks
    by (rule same_outside_trans [OF same_outside_fold same_outside_fold])
      (rule create_outside [OF assms(1,2)], rule remove_outside [OF assms(1)])
  ultimately show ?thesis
    using that by (simp add: syncAllCgroup_def layout_dirs [OF assms(1)] DiffMap_def Let_def)
qed

section \<open>Well-formed file systems\<close>

definition keeps_wf :: "(nm_world \<Rightarrow> 'a outcome \<times> nm_world) \<Rightarrow> bool" where
  "keeps_wf m \<longleftrightarrow> (\<forall>w. fs_wf (w_fs w) \<longrightarrow> fs_wf (w_fs (snd (m w))))"

lemma keeps_wf_sbind: "keeps_wf m \<Longrightarrow> (\<And>a. keeps_wf (f a)) \<Longrightarrow> keeps_wf (sbind m f)"
proof -
  assume m: "keeps_wf m" and f: "\<And>a. keeps_wf (f a)"
  show "keeps_wf (sbind m f)"
    unfolding keeps_wf_def
  proof (intro allI impI)
    fix w :: nm_world assume w: "fs_wf (w_fs w)"
    obtain a w1 where mw: "m w = (a, w1)" by (metis prod.exhaust)
    have "fs_wf (w_fs w1)" using m w mw unfolding keeps_wf_def by (metis snd_conv)
    then show "fs_wf (w_fs (snd (sbind m f w)))" using f mw by (cases a) (simp_all add: keeps_wf_def sbind_def)
  qed
qed

lemma keeps_wf_same: "(\<And>w. w_fs (snd (m w)) = w_fs w) \<Longrightarrow> keeps_wf m"
  by (simp add: keeps_wf_def)

lemma keeps_wf_tree:
  assumes "keeps_tree P m" and "\<forall>k \<in> P. \<forall>c \<in> set k. good_seg c"
  shows "keeps_wf m"
  unfolding keeps_wf_def
proof (intro allI impI)
  fix w :: nm_world assume w: "fs_wf (w_fs w)"
  show "fs_wf (w_fs (snd (m w)))"
    unfolding fs_wf_def
  proof
    fix k assume "k \<in> fst ` set (w_fs (snd (m w)))"
    then have "map_of (w_fs (snd (m w))) k \<noteq> None" by (simp only: map_of_key)
    moreover have "k \<notin> P \<longrightarrow> (map_of (w_fs (snd (m w))) k = None \<longleftrightarrow> map_of (w_fs w) k = None)"
      using assms(1) unfolding keeps_tree_def by blast
    ultimately have "k \<in> P \<or> map_of (w_fs w) k \<noteq> None" by auto
    then have "k \<in> P \<or> k \<in> fst ` set (w_fs w)" by (simp only: map_of_key)
    then show "\<forall>c \<in> set k. good_seg c" using assms(2) w by (auto simp: fs_wf_def)
  qed
qed

lemma keeps_wf_write:
  assumes "writes_ok E" and "\<forall>c \<in> set cs. good_seg c"
  shows "keeps_wf (write_file E (abs_path cs) d)" "keeps_wf (write_if_different E (abs_path cs) d)"
  using keeps_tree_writes [OF assms(1), of "abs_path cs" "{cs}" d] resolve_abs [OF assms(2)] assms(2)
  by (auto intro: keeps_wf_tree)

text \<open>The kernel gives the files of a new directory plain names.\<close>

definition new_files_ok :: "nm_env \<Rightarrow> bool" where
  "new_files_ok E \<longleftrightarrow> (\<forall>d x c. (x, c) \<in> set (os_new_files (nm_os E) d) \<longrightarrow> good_seg x)"

lemma keeps_wf_mkdir:
  assumes "new_files_ok E" and "\<forall>c \<in> set d. good_seg c"
  shows "keeps_wf (on_fs (os_Mkdir (nm_os E) (abs_path d) m))"
  unfolding keeps_wf_def
proof (intro allI impI)
  fix w :: nm_world assume w: "fs_wf (w_fs w)"
  obtain e F where mk: "os_Mkdir (nm_os E) (abs_path d) m (w_fs w) = (e, F)" by (metis prod.exhaust)
  have new: "(x, c) \<in> set (os_new_files (nm_os E) d) \<Longrightarrow> good_seg x" for x c
    using assms(1) unfolding new_files_ok_def by blast
  have keys: "fst ` set (map (\<lambda>(n, c). (d @ [n], FileN c)) xs) = (\<lambda>x. d @ [fst x]) ` set xs" for xs
    by (simp add: case_prod_unfold image_image)
  have "\<forall>k \<in> (\<lambda>x. d @ [fst x]) ` set (os_new_files (nm_os E) d). \<forall>c \<in> set k. good_seg c"
    using new assms(2) by fastforce
  then have "fs_wf (map (\<lambda>(n, c). (d @ [n], FileN c)) (os_new_files (nm_os E) d))" unfolding fs_wf_def keys .
  then have "fs_wf F"
    using os_Mkdir_cases [OF mk] w assms(2) unfolding resolve_abs [OF assms(2), of "nm_os E"]
    by (elim disjE conjE) (simp_all add: fs_wf_def ball_Un image_Un del: set_map)
  then show "fs_wf (w_fs (snd (on_fs (os_Mkdir (nm_os E) (abs_path d) m) w)))" using mk by simp
qed

lemma move_pids_wf:
  "writes_ok E \<Longrightarrow> \<forall>c \<in> set cs. good_seg c \<Longrightarrow> keeps_wf (move_pids E (abs_path cs) pids)"
  by (induction pids) (simp_all add: keeps_wf_same keeps_wf_sbind keeps_wf_write)

lemma create_wf:
  assumes "cgroup_layout E n" and "writes_ok E" and "new_files_ok E"
  shows "keeps_wf (createMemoryCgroup E n f)"
proof (cases "is_container (path_Base f)")
  case True
  let ?b = "path_Base f"
  have gb: "good_seg ?b" by (rule container_base_good [OF True])
  have g: "\<forall>c \<in> set (mem_root n @ [?b]). good_seg c" by (rule root_child_good(2) [OF assms(1) gb])
  have j: "path_Join [abs_path (mem_root n @ [?b]), x] = abs_path (mem_root n @ [?b, x])" if "good_seg x" for x
    using path_Join_child [OF g that] by simp
  have g': "\<forall>c \<in> set (mem_root n @ [?b, x]). good_seg c" if "good_seg x" for x using g that by auto
  have names: "good_seg MemoryMoveChargeAtImmigrateName" "good_seg (MemoryOomGroupName E)" "good_seg (CPUProcsName E)"
      "good_seg (MemoryLimitName E)"
    using assms(1) by (simp_all add: cgroup_layout_def MemoryMoveChargeAtImmigrateName_def good_seg_def)
  have "keeps_wf (create_rest E n ?b)"
    unfolding create_rest_def Let_def names [THEN j]
    by (intro keeps_wf_sbind keeps_wf_write [OF assms(2)] move_pids_wf [OF assms(2)] g' names)
      (auto intro: keeps_wf_same)
  then show ?thesis
    using True keeps_wf_mkdir [OF assms(3) g] by (simp add: createMemoryCgroup_alt [OF assms(1)] keeps_wf_sbind)
next
  case False
  then show ?thesis by (simp add: createMemoryCgroup_alt [OF assms(1)] keeps_wf_same)
qed

lemma remove_wf: "keeps_wf (removeMemoryCgroup E n f)"
  by (simp add: keeps_wf_def removeMemoryCgroup_def Let_def fs_wf_mono [OF _ keys_RemoveAll])

lemma parent_wf:
  assumes "cgroup_layout E n" and "writes_ok E"
  shows "keeps_wf (syncParentCgroup E n)"
proof -
  have sh: "good_seg (CPUSharesName E)" using assms(1) by (simp add: cgroup_layout_def)
  have p: "path_Join [GenerateCgroupFullPath n (CgroupCPUDir E), CPUSharesName E] = abs_path (cpu_root n @ [CPUSharesName E])"
    using path_Join_child [OF roots_good(1) [OF assms(1)] sh]
    by (simp add: GenerateCgroupFullPath_def layout_dirs(1) [OF assms(1)])
  show ?thesis
    unfolding syncParentCgroup_def p Let_def
    by (intro keeps_wf_sbind) (auto intro!: keeps_wf_same keeps_wf_write [OF assms(2)] root_child_good(1) [OF assms(1) sh])
qed

lemma fold_wf: "(\<And>p. keeps_wf (f p)) \<Longrightarrow> fs_wf (w_fs w) \<Longrightarrow> fs_wf (w_fs (fold (\<lambda>p w. snd (f p w)) ps w))"
  by (induction ps arbitrary: w) (simp_all add: keeps_wf_def)

lemma syncAllCgroup_wf:
  assumes "cgroup_layout E n" and "writes_ok E" and "new_files_ok E" and "fs_wf (w_fs w)" and "syncAllCgroup E n w = Some w'"
  shows "fs_wf (w_fs w')"
  using assms(5) fold_wf [OF remove_wf fold_wf [OF create_wf [OF assms(1-3)] assms(4)]]
  by (auto simp: syncAllCgroup_def DiffMap_def Let_def split: option.splits)

text \<open>One turn, whatever the event: it ends, keeps the file system well formed, and makes or
destroys directories in the agent's area only.\<close>

lemma nm_step_total:
  assumes "cgroup_layout E (nm_op s)" and "writes_ok E" and "new_files_ok E" and "fs_wf (w_fs (nm_world s))"
  obtains s' where "nm_step E ev s = Some s'" and "fs_wf (w_fs (nm_world s'))" and "same_outside (nm_op s) (nm_world s) (nm_world s')"
proof -
  let ?n = "nm_op s" and ?w = "nm_world s"
  obtain w1 where 1: "syncNoneProcCgroup E ?n ?w = Some w1" "same_outside ?n ?w w1" "fs_wf (w_fs w1)"
    using syncNoneProcCgroup_total [OF assms(1,4)] by blast
  obtain w2 where 2: "syncAllCgroup E ?n w1 = Some w2" "same_outside ?n w1 w2"
    using syncAllCgroup_total [OF assms(1,2) 1(3)] by blast
  have 3: "fs_wf (w_fs w2)" by (rule syncAllCgroup_wf [OF assms(1-3) 1(3) 2(1)])
  have 4: "fs_wf (w_fs (snd (syncParentCgroup E ?n w2)))"
    using parent_wf [OF assms(1,2)] 3 by (simp add: keeps_wf_def)
  have tick: "nm_tick E ?n ?w = Some (snd (syncParentCgroup E ?n w2))" using 1 2 by (simp add: nm_tick_def)
  have tick_out: "same_outside ?n ?w (snd (syncParentCgroup E ?n w2))"
    by (rule same_outside_trans [OF same_outside_trans [OF 1(2) 2(2)] parent_outside [OF assms(2)]])
  have c: "fs_wf (w_fs (snd (createMemoryCgroup E ?n f ?w)))" "fs_wf (w_fs (snd (removeMemoryCgroup E ?n f ?w)))" for f
    using create_wf [OF assms(1-3)] remove_wf assms(4) by (simp_all add: keeps_wf_def)
  note out = create_outside [OF assms(1,2)] remove_outside [OF assms(1)] same_outside_refl
  have "\<exists>s'. nm_step E ev s = Some s' \<and> fs_wf (w_fs (nm_world s')) \<and> same_outside ?n ?w (nm_world s')"
  proof (cases ev)
    case (WatchEvent t name)
    then show ?thesis using c assms(4) out by (cases t) (simp_all add: nm_step_def)
  qed (use assms(4) out tick tick_out 4 in \<open>simp_all add: nm_step_def\<close>)
  then show ?thesis using that by blast
qed

lemma sbind_OkE:
  assumes "sbind m f w = (Ok b, w')"
  obtains a w1 where "m w = (Ok a, w1)" and "f a w1 = (Ok b, w')"
  using assms by (auto simp: sbind_def split: prod.splits outcome.splits)

section \<open>Directories open to everybody\<close>

lemma mkdir_all_dir:
  "mkdir_all K m made cs F = (None, F') \<Longrightarrow> cs \<noteq> [] \<Longrightarrow> \<forall>c \<in> set (made @ cs). good_seg c \<Longrightarrow> dir_at F' (made @ cs)"
proof (induction cs arbitrary: made F)
  case (Cons c cs)
  let ?d = "made @ [c]"
  have g: "\<forall>c \<in> set ?d. good_seg c" using Cons.prems(3) by simp
  obtain F1 where F1: "dir_at F1 ?d" "mkdir_all K m ?d cs F1 = (None, F')"
  proof (cases "map_of F ?d")
    case None
    obtain e F1 where mk: "os_Mkdir K (abs_path ?d) m F = (e, F1)" by (metis prod.exhaust)
    have "e = None" "mkdir_all K m ?d cs F1 = (None, F')" using None mk Cons.prems(1) by (cases e; simp add: Let_def)+
    moreover have "dir_at F1 ?d"
      using os_Mkdir_cases [OF mk] \<open>e = None\<close> resolve_abs [OF g] by (auto simp: dir_at_def)
    ultimately show ?thesis using that by blast
  next
    case (Some i)
    then show ?thesis using that [of F] Cons.prems(1) by (cases i) (simp_all add: Let_def dir_at_def)
  qed
  show ?case
  proof (cases "cs = []")
    case True
    then show ?thesis using F1 by simp
  next
    case False
    then show ?thesis using Cons.IH [OF F1(2)] Cons.prems(3) by simp
  qed
qed simp

text \<open>After \<open>ensureCgroupDir\<close> succeeded on a path that was no file, there is a directory that
everybody may read, write and enter, whatever the umask of the process.\<close>

lemma ensureCgroupDir_mode:
  assumes g: "\<forall>c \<in> set cs. good_seg c" and ne: "cs \<noteq> []" and run: "ensureCgroupDir E (abs_path cs) w = (Ok (), w')"
    and dir: "map_of (w_fs w) cs = None \<or> dir_at (w_fs w) cs"
  shows "\<exists>m. map_of (w_fs w') cs = Some (DirN m) \<and> m AND 0x1FF = 0x1FF"
proof -
  let ?K = "nm_os E"
  have res: "resolve ?K (abs_path cs) = cs" by (rule resolve_abs [OF g])
  have chmod: "map_of (w_fs w2) cs = Some (DirN 0x1FF)"
    if "on_fs (os_Chmod ?K (abs_path cs) 0x1FF) w1 = (Ok (), w2)" "dir_at (w_fs w1) cs" for w1 w2 :: nm_world
    using that res by (auto simp: on_fs_def os_Chmod_def dir_at_def split: option.splits)
  show ?thesis
  proof (cases "os_Stat ?K (w_fs w) (abs_path cs)")
    case (Inl err)
    then have "sbind (on_fs (os_MkdirAll ?K (abs_path cs) 0x1FF)) (\<lambda>_. on_fs (os_Chmod ?K (abs_path cs) 0x1FF)) w = (Ok (), w')"
      using run by (simp add: ensureCgroupDir_def split: if_splits)
    then obtain u w1 where 1: "on_fs (os_MkdirAll ?K (abs_path cs) 0x1FF) w = (Ok u, w1)"
      and 2: "on_fs (os_Chmod ?K (abs_path cs) 0x1FF) w1 = (Ok (), w')" by (rule sbind_OkE)
    obtain e F where mk: "os_MkdirAll ?K (abs_path cs) 0x1FF (w_fs w) = (e, F)" by (metis prod.exhaust)
    have "e = None" "w_fs w1 = F" using 1 mk by (cases e; auto simp: on_fs_def)+
    then have "dir_at (w_fs w1) cs"
      using mkdir_all_dir [of ?K "0x1FF" "[]" cs "w_fs w" F] mk g ne res by (simp add: os_MkdirAll_def)
    then show ?thesis using chmod [OF 2] by auto
  next
    case (Inr i)
    then have i: "map_of (w_fs w) cs = Some i" using os_Stat_Inr res by metis
    then obtain m where m: "i = DirN m" using dir by (auto simp: dir_at_def)
    show ?thesis
    proof (cases "m AND 0x1FF = 0x1FF")
      case True
      then have "w' = w" using run Inr m by (simp add: ensureCgroupDir_def Mode_Perm_def)
      then show ?thesis using i m True by simp
    next
      case False
      then have "on_fs (os_Chmod ?K (abs_path cs) 0x1FF) w = (Ok (), w')"
        using run Inr m by (simp add: ensureCgroupDir_def Mode_Perm_def)
      then show ?thesis using chmod i m by (auto simp: dir_at_def)
    qed
  qed
qed

section \<open>What a run of an operation did\<close>

lemma write_Ok:
  "write_file E p d w = (Ok (), w') \<Longrightarrow> \<exists>F. w' = w\<lparr>w_fs := F, w_writes := w_writes w @ [(p, d)]\<rparr>"
  "write_if_different E p d w = (Ok (), w') \<Longrightarrow> \<exists>F. w' = w\<lparr>w_fs := F, w_writes := w_writes w @ [(p, d)]\<rparr>"
  by (auto simp: write_file_def write_if_different_def split: prod.splits)

lemma move_pids_Ok:
  "move_pids E procs pids w = (Ok (), w') \<Longrightarrow>
     \<exists>F. w' = w\<lparr>w_fs := F, w_writes := w_writes w @ map (\<lambda>pid. (procs, Itoa (sint pid))) pids\<rparr>"
proof (induction pids arbitrary: w)
  case Nil
  then show ?case by (intro exI [of _ "w_fs w"]) simp
next
  case (Cons pid pids)
  from Cons.prems obtain a w1 where 1: "write_file E procs (Itoa (sint pid)) w = (Ok a, w1)"
    and 2: "move_pids E procs pids w1 = (Ok (), w')" unfolding move_pids.simps by (rule sbind_OkE)
  have "write_file E procs (Itoa (sint pid)) w = (Ok (), w1)" using 1 by simp
  then obtain F where "w1 = w\<lparr>w_fs := F, w_writes := w_writes w @ [(procs, Itoa (sint pid))]\<rparr>" using write_Ok(1) by blast
  then show ?case using Cons.IH [OF 2] by auto
qed

lemma find_container_Some: "find_container i cs = Some c \<Longrightarrow> c \<in> set cs \<and> yc_Id c = i"
  by (induction cs) (auto split: if_splits)

lemma ListContainers_Ok:
  "ListContainers n w = (Ok cs, w') \<Longrightarrow>
     \<exists>code rest. w_http w = Inr (code, cs) # rest \<and> IsSuccess code \<and>
       w' = w\<lparr>w_gets := w_gets w @ [BaseURL n @ ''/ws/v1/node/containers''], w_http := rest\<rparr>"
  by (cases "w_http w"; cases "hd (w_http w)")
    (auto simp: ListContainers_def http_Get_def sbind_def Let_def split: if_splits)

lemma GetContainer_Ok:
  assumes "GetContainer n i w = (Ok c, w')"
  shows "\<exists>code cs rest. w_http w = Inr (code, cs) # rest \<and> IsSuccess code \<and> find_container i (Items cs) = Some c \<and>
           w' = w\<lparr>w_gets := w_gets w @ [BaseURL n @ ''/ws/v1/node/containers''], w_http := rest\<rparr>"
proof -
  from assms obtain cs w1 where 1: "ListContainers n w = (Ok cs, w1)"
    and 2: "slift (case find_container i (Items cs) of Some c \<Rightarrow> Ok c | None \<Rightarrow> Err (Errorf ''container Not Found'' [] [])) w1 = (Ok c, w')"
    unfolding GetContainer_def by (rule sbind_OkE)
  then show ?thesis using ListContainers_Ok [OF 1] by (auto split: option.splits)
qed

lemma sint_mult_exact64:
  fixes a b :: int64
  assumes "- (2 ^ 63) \<le> sint a * sint b" and "sint a * sint b < 2 ^ 63"
  shows "sint (a * b) = sint a * sint b"
  using assms by (simp add: signed_take_bit_int_eq_self sint_word_ariths)

lemma sint_mb_bytes:
  fixes m :: int64
  assumes "0 \<le> sint m" and "sint m < 2 ^ 43"
  shows "sint (m * 1024 * 1024) = sint m * 2 ^ 20"
proof -
  have 1: "sint (m * 1024) = sint m * 1024" using assms sint_mult_exact64 [of m 1024] by simp
  then show ?thesis using assms sint_mult_exact64 [of "m * 1024" 1024] by simp
qed

lemma create_rest_Ok:
  assumes "create_rest E n b w0 = (Ok (), w')" and "m = abs_path (mem_root n @ [b])"
  shows "\<exists>code cs rest c pids F.
            w_http w0 = Inr (code, cs) # rest \<and> IsSuccess code \<and> c \<in> set (Items cs) \<and> yc_Id c = b \<and>
            GetPids E F (abs_path (cpu_root n @ [b])) = Inr pids \<and>
            w_gets w' = w_gets w0 @ [BaseURL n @ ''/ws/v1/node/containers''] \<and>
            w_writes w' = w_writes w0 @
              [(path_Join [m, MemoryMoveChargeAtImmigrateName], ''3''), (path_Join [m, MemoryOomGroupName E], ''1'')] @
              map (\<lambda>pid. (path_Join [m, CPUProcsName E], Itoa (sint pid))) pids @
              [(path_Join [m, MemoryLimitName E], Itoa (sint (TotalMemoryNeededMB c * 1024 * 1024)))]"
proof -
  from assms(1) obtain w1 where 1: "write_if_different E (path_Join [m, MemoryMoveChargeAtImmigrateName]) ''3'' w0 = (Ok (), w1)"
    and r1: "sbind (write_if_different E (path_Join [m, MemoryOomGroupName E]) ''1'') (\<lambda>_.
         sbind (\<lambda>w. (of_sum (GetPids E (w_fs w) (abs_path (cpu_root n @ [b]))), w)) (\<lambda>pids.
         sbind (move_pids E (path_Join [m, CPUProcsName E]) pids) (\<lambda>_.
         sbind (GetContainer n b) (\<lambda>container.
         write_if_different E (path_Join [m, MemoryLimitName E])
           (Itoa (sint (TotalMemoryNeededMB container * 1024 * 1024))))))) w1 = (Ok (), w')"
    unfolding create_rest_def Let_def assms(2) by (elim sbind_OkE) simp
  from r1 obtain w2 where 2: "write_if_different E (path_Join [m, MemoryOomGroupName E]) ''1'' w1 = (Ok (), w2)"
    and r2: "sbind (\<lambda>w. (of_sum (GetPids E (w_fs w) (abs_path (cpu_root n @ [b]))), w)) (\<lambda>pids.
         sbind (move_pids E (path_Join [m, CPUProcsName E]) pids) (\<lambda>_.
         sbind (GetContainer n b) (\<lambda>container.
         write_if_different E (path_Join [m, MemoryLimitName E])
           (Itoa (sint (TotalMemoryNeededMB container * 1024 * 1024)))))) w2 = (Ok (), w')"
    by (elim sbind_OkE) simp
  from r2 obtain pids where p: "GetPids E (w_fs w2) (abs_path (cpu_root n @ [b])) = Inr pids"
    and r3: "sbind (move_pids E (path_Join [m, CPUProcsName E]) pids) (\<lambda>_.
         sbind (GetContainer n b) (\<lambda>container.
         write_if_different E (path_Join [m, MemoryLimitName E])
           (Itoa (sint (TotalMemoryNeededMB container * 1024 * 1024))))) w2 = (Ok (), w')"
    by (elim sbind_OkE) (auto simp: of_sum_def split: sum.splits)
  from r3 obtain w3 where 3: "move_pids E (path_Join [m, CPUProcsName E]) pids w2 = (Ok (), w3)"
    and r4: "sbind (GetContainer n b) (\<lambda>container.
         write_if_different E (path_Join [m, MemoryLimitName E])
           (Itoa (sint (TotalMemoryNeededMB container * 1024 * 1024)))) w3 = (Ok (), w')"
    by (elim sbind_OkE) simp
  from r4 obtain c w4 where 4: "GetContainer n b w3 = (Ok c, w4)"
    and 5: "write_if_different E (path_Join [m, MemoryLimitName E]) (Itoa (sint (TotalMemoryNeededMB c * 1024 * 1024))) w4 = (Ok (), w')"
    by (rule sbind_OkE)
  obtain F1 F2 F3 F5 where w': "w1 = w0\<lparr>w_fs := F1, w_writes := w_writes w0 @ [(path_Join [m, MemoryMoveChargeAtImmigrateName], ''3'')]\<rparr>"
      "w2 = w1\<lparr>w_fs := F2, w_writes := w_writes w1 @ [(path_Join [m, MemoryOomGroupName E], ''1'')]\<rparr>"
      "w3 = w2\<lparr>w_fs := F3, w_writes := w_writes w2 @ map (\<lambda>pid. (path_Join [m, CPUProcsName E], Itoa (sint pid))) pids\<rparr>"
      "w' = w4\<lparr>w_fs := F5, w_writes := w_writes w4 @ [(path_Join [m, MemoryLimitName E], Itoa (sint (TotalMemoryNeededMB c * 1024 * 1024)))]\<rparr>"
    using write_Ok(2) [OF 1] write_Ok(2) [OF 2] move_pids_Ok [OF 3] write_Ok(2) [OF 5] by blast
  obtain code cs rs where g: "w_http w3 = Inr (code, cs) # rs" "IsSuccess code" "find_container b (Items cs) = Some c"
      "w4 = w3\<lparr>w_gets := w_gets w3 @ [BaseURL n @ ''/ws/v1/node/containers''], w_http := rs\<rparr>"
    using GetContainer_Ok [OF 4] by blast
  have "w_http w0 = Inr (code, cs) # rs" using g(1) w' by simp
  then show ?thesis
    using g p w' find_container_Some [OF g(3)]
    by (intro exI [of _ code] exI [of _ cs] exI [of _ rs] exI [of _ c] exI [of _ pids] exI [of _ "w_fs w2"]) simp
qed

section \<open>Properties\<close>

text \<open>C13. A memory cgroup is created completely or not reported as done: when creating it for a
container's cpu cgroup runs to its end, the directory is new, the kernel files were written in
this order - charges move along, the group is killed as one, every process of the cpu cgroup,
the limit - and the limit is the memory the node manager granted the container of that name, in
bytes, exactly as long as it is below 2^43 megabytes.\<close>

theorem createMemoryCgroup_complete:
  assumes "cgroup_layout E n" and "writes_ok E" and "b = path_Base f" and "is_container b"
    and "createMemoryCgroup E n f w = (Ok (), w')" and "m = abs_path (mem_root n @ [b])"
  shows "map_of (w_fs w) (mem_root n @ [b]) = None \<and> dir_at (w_fs w') (mem_root n @ [b]) \<and>
         (\<exists>code cs rest c pids F.
            w_http w = Inr (code, cs) # rest \<and> IsSuccess code \<and> c \<in> set (Items cs) \<and> yc_Id c = b \<and>
            GetPids E F (abs_path (cpu_root n @ [b])) = Inr pids \<and>
            w_gets w' = w_gets w @ [BaseURL n @ ''/ws/v1/node/containers''] \<and>
            w_writes w' = w_writes w @
              [(path_Join [m, MemoryMoveChargeAtImmigrateName], ''3''), (path_Join [m, MemoryOomGroupName E], ''1'')] @
              map (\<lambda>pid. (path_Join [m, CPUProcsName E], Itoa (sint pid))) pids @
              [(path_Join [m, MemoryLimitName E], Itoa (sint (TotalMemoryNeededMB c * 1024 * 1024)))] \<and>
            (0 \<le> sint (TotalMemoryNeededMB c) \<and> sint (TotalMemoryNeededMB c) < 2 ^ 43 \<longrightarrow>
               sint (TotalMemoryNeededMB c * 1024 * 1024) = sint (TotalMemoryNeededMB c) * 2 ^ 20))"
proof -
  let ?d = "mem_root n @ [b]"
  have gb: "good_seg b" using container_base_good assms(3,4) by simp
  have res: "resolve (nm_os E) (abs_path ?d) = ?d" by (rule resolve_abs) (rule root_child_good(2) [OF assms(1) gb])
  have run: "sbind (on_fs (os_Mkdir (nm_os E) (abs_path ?d) 0x1A4)) (\<lambda>_. create_rest E n b) w = (Ok (), w')"
    using assms(3-5) by (simp add: createMemoryCgroup_alt [OF assms(1)])
  from run obtain u w0 where mk: "on_fs (os_Mkdir (nm_os E) (abs_path ?d) 0x1A4) w = (Ok u, w0)"
    and rest: "create_rest E n b w0 = (Ok (), w')" by (rule sbind_OkE)
  obtain e F0 where F0: "os_Mkdir (nm_os E) (abs_path ?d) 0x1A4 (w_fs w) = (e, F0)" by (metis prod.exhaust)
  have w0: "e = None" "w0 = w\<lparr>w_fs := F0\<rparr>" using mk F0 by (cases e; simp add: on_fs_def)+
  have new: "map_of (w_fs w) ?d = None"
    using os_Mkdir_ok_iff [of "nm_os E" "abs_path ?d" "0x1A4" "w_fs w"] F0 w0(1) res by simp
  have "dir_at F0 ?d" using os_Mkdir_cases [OF F0] w0(1) res by (auto simp: dir_at_def)
  moreover have "dir_at (w_fs (snd (create_rest E n b w0))) ?d \<longleftrightarrow> dir_at (w_fs w0) ?d"
    using create_rest_tree [OF assms(1,2) gb] by (simp add: keeps_tree_def)
  ultimately have dir: "dir_at (w_fs w') ?d" using rest w0(2) by simp
  show ?thesis
    using new dir create_rest_Ok [OF rest assms(6)] w0(2) sint_mb_bytes by auto
qed

lemma dir_at_good_seg:
  assumes "fs_wf F" and "dir_at F (R @ [c])"
  shows "good_seg c"
proof -
  have "R @ [c] \<in> fst ` set F" using assms(2) map_of_key by (fastforce simp: dir_at_def)
  then show ?thesis using assms(1) unfolding fs_wf_def by fastforce
qed

text \<open>The base names of the subdirectories of a directory, read back from their paths.\<close>

lemma subdir_bases:
  assumes "fs_wf F" and R: "\<forall>x \<in> set R. good_seg x"
  shows "path_Base ` abs_path ` {R @ [b] | b. dir_at F (R @ [b])} = {b. dir_at F (R @ [b])}"
proof -
  have base: "path_Base (abs_path (R @ [c])) = c" if "dir_at F (R @ [c])" for c
    by (rule path_Base_abs) (use that R dir_at_good_seg [OF assms(1)] in auto)
  have "{R @ [b] | b. dir_at F (R @ [b])} = (\<lambda>b. R @ [b]) ` {b. dir_at F (R @ [b])}" by auto
  then have "path_Base ` abs_path ` {R @ [b] | b. dir_at F (R @ [b])} =
      (\<lambda>b. path_Base (abs_path (R @ [b]))) ` {b. dir_at F (R @ [b])}" by (simp add: image_image)
  also have "\<dots> = (\<lambda>b. b) ` {b. dir_at F (R @ [b])}" by (rule image_cong) (use base in auto)
  finally show ?thesis by simp
qed

text \<open>No path is a subdirectory of both hierarchies, so the two differences are the two lists.\<close>

lemma cgroup_subdirs_apart:
  assumes "cgroup_layout E n" and "fs_wf F"
    and "set cs = abs_path ` {cpu_root n @ [b] | b. dir_at F (cpu_root n @ [b])}"
    and "set ms = abs_path ` {mem_root n @ [b] | b. dir_at F (mem_root n @ [b])}"
  shows "DiffMap cs ms = (cs, ms)"
proof -
  have False if "dir_at F (cpu_root n @ [c])" "dir_at F (mem_root n @ [d])"
    "abs_path (cpu_root n @ [c]) = abs_path (mem_root n @ [d])" for c d
  proof -
    have "\<forall>x \<in> set (cpu_root n @ [c]). good_seg x" "\<forall>x \<in> set (mem_root n @ [d]). good_seg x"
      using roots_good [OF assms(1)] dir_at_good_seg [OF assms(2)] that(1,2) by auto
    then have "cpu_root n @ [c] = mem_root n @ [d]" using that(3) abs_path_inject by blast
    then show False by simp
  qed
  then have "set cs \<inter> set ms = {}" unfolding assms(3,4) by blast
  then show ?thesis by (auto simp: DiffMap_def filter_id_conv)
qed

text \<open>C7. The periodic synchronisation is meant to leave one memory cgroup per cpu cgroup of a
container. It compares full paths of the two hierarchies, which are never equal, so it creates
for every cpu cgroup and then deletes for every memory cgroup found at the start: afterwards a
container has a memory cgroup only if it had none before and has a cpu cgroup, or if the kernel
refused to remove the one it had.\<close>

theorem syncAllCgroup_result:
  assumes "cgroup_layout E n" and "writes_ok E" and "fs_wf (w_fs w)"
    and "dir_at (w_fs w) (cpu_root n)" and "dir_at (w_fs w) (mem_root n)"
    and "\<And>p. os_fail (nm_os E) Op_Stat p = None" and "\<And>p. os_fail (nm_os E) Op_ReadDir p = None"
    and "\<And>xs. set (map_order E xs) = set xs" and "is_container b" and "good_seg b"
  shows "\<exists>w'. syncAllCgroup E n w = Some w' \<and>
           (dir_at (w_fs w') (mem_root n @ [b]) \<longleftrightarrow>
              (if dir_at (w_fs w) (mem_root n @ [b])
               then os_fail (nm_os E) Op_Remove (abs_path (mem_root n @ [b])) \<noteq> None \<and>
                    os_left (nm_os E) (mem_root n @ [b])
               else dir_at (w_fs w) (cpu_root n @ [b]) \<and> map_of (w_fs w) (mem_root n @ [b]) = None \<and>
                    os_fail (nm_os E) Op_Mkdir (abs_path (mem_root n @ [b])) = None))"
proof -
  let ?C = "cpu_root n" and ?M = "mem_root n" and ?F = "w_fs w"
  note good = roots_good [OF assms(1)]
  obtain cs where cs: "subDirFunc E (abs_path ?C) ?F = Some cs" "set cs = abs_path ` {?C @ [b] | b. dir_at ?F (?C @ [b])}"
    using subDirFunc_set [OF good(1) assms(6,7,3,4)] by blast
  obtain ms where ms: "subDirFunc E (abs_path ?M) ?F = Some ms" "set ms = abs_path ` {?M @ [b] | b. dir_at ?F (?M @ [b])}"
    using subDirFunc_set [OF good(2) assms(6,7,3,5)] by blast
  have diff: "DiffMap cs ms = (cs, ms)" by (rule cgroup_subdirs_apart [OF assms(1,3) cs(2) ms(2)])
  have baseC: "b \<in> path_Base ` set (map_order E cs) \<longleftrightarrow> dir_at ?F (?C @ [b])"
    unfolding assms(8) cs(2) subdir_bases [OF assms(3) good(1)] by simp
  have baseM: "b \<in> path_Base ` set (map_order E ms) \<longleftrightarrow> dir_at ?F (?M @ [b])"
    unfolding assms(8) ms(2) subdir_bases [OF assms(3) good(2)] by simp
  define w1 where "w1 = fold (\<lambda>p w. snd (createMemoryCgroup E n p w)) (map_order E cs) w"
  define w2 where "w2 = fold (\<lambda>p w. snd (removeMemoryCgroup E n p w)) (map_order E ms) w1"
  have run: "syncAllCgroup E n w = Some w2"
    using cs(1) ms(1) diff by (simp add: syncAllCgroup_def layout_dirs [OF assms(1)] w1_def w2_def Let_def)
  have 1: "dir_at (w_fs w1) (?M @ [b]) \<longleftrightarrow> dir_at ?F (?M @ [b]) \<or>
      (dir_at ?F (?C @ [b]) \<and> map_of ?F (?M @ [b]) = None \<and> os_fail (nm_os E) Op_Mkdir (abs_path (?M @ [b])) = None)"
    using fold_create [OF assms(1,2,5)] baseC assms(9) by (simp add: w1_def)
  have 2: "map_of (w_fs w2) (?M @ [b]) =
      (if dir_at ?F (?M @ [b]) \<and>
          (os_fail (nm_os E) Op_Remove (abs_path (?M @ [b])) = None \<or> \<not> os_left (nm_os E) (?M @ [b]))
       then None else map_of (w_fs w1) (?M @ [b]))"
    using fold_remove [OF assms(1)] baseM assms(9) by (simp add: w2_def)
  have 3: "dir_at (w_fs w2) (?M @ [b]) \<longleftrightarrow>
      \<not> (dir_at ?F (?M @ [b]) \<and>
         (os_fail (nm_os E) Op_Remove (abs_path (?M @ [b])) = None \<or> \<not> os_left (nm_os E) (?M @ [b]))) \<and>
      dir_at (w_fs w1) (?M @ [b])"
    unfolding dir_at_def [of "w_fs w2"] 2 dir_at_def [of "w_fs w1"] by auto
  show ?thesis
    by (rule exI [of _ w2], cases "dir_at ?F (?M @ [b])"; cases "os_fail (nm_os E) Op_Remove (abs_path (?M @ [b]))")
      (simp_all add: run 3 1)
qed


text \<open>C14. The agent never makes or removes a directory outside its area: in one turn only
memory cgroups of containers and what lies below YARN's cpu cgroup can appear or disappear.\<close>

theorem nm_turn_safe:
  assumes "cgroup_layout E (nm_op s)" and "writes_ok E" and "new_files_ok E" and "fs_wf (w_fs (nm_world s))"
    and "nm_step E ev s = Some s'" and "dir_at (w_fs (nm_world s')) k \<noteq> dir_at (w_fs (nm_world s)) k"
  shows "(\<exists>b x. is_container b \<and> k = mem_root (nm_op s) @ b # x) \<or> (\<exists>b x. k = cpu_root (nm_op s) @ b # x)"
proof -
  have "same_outside (nm_op s) (nm_world s) (nm_world s')"
    using nm_step_total [OF assms(1-4), of ev] assms(5) by auto
  then have "agent_area (nm_op s) k" using assms(6) unfolding same_outside_def by blast
  then show ?thesis unfolding agent_area_def .
qed

lemma add_shares_exact:
  assumes "\<forall>c \<in> set cs. \<not> IsFinalState c \<longrightarrow> 0 \<le> sint (TotalVCoresNeeded c)" and "0 \<le> sint acc"
    and "sint acc + 1024 * (\<Sum>c \<leftarrow> filter (\<lambda>c. \<not> IsFinalState c) cs. sint (TotalVCoresNeeded c)) < 2 ^ 63"
  shows "sint (add_shares cs acc) =
           sint acc + 1024 * (\<Sum>c \<leftarrow> filter (\<lambda>c. \<not> IsFinalState c) cs. sint (TotalVCoresNeeded c))"
  using assms
proof (induction cs arbitrary: acc)
  case (Cons c cs)
  show ?case
  proof (cases "IsFinalState c")
    case True
    then show ?thesis using Cons by simp
  next
    case False
    let ?v = "TotalVCoresNeeded c" and ?t = "\<Sum>c \<leftarrow> filter (\<lambda>c. \<not> IsFinalState c) cs. sint (TotalVCoresNeeded c)"
    have t: "0 \<le> ?t" using Cons.prems(1) by (intro sum_list_nonneg) auto
    have v: "0 \<le> sint ?v" using Cons.prems(1) False by simp
    have b: "sint acc + 1024 * sint ?v + 1024 * ?t < 2 ^ 63" using Cons.prems(3) False by (simp add: algebra_simps)
    have m: "sint (?v * 1024) = sint ?v * 1024"
      using sint_mult_exact64 [of ?v 1024] v t b Cons.prems(2) by simp
    have s: "sint (acc + ?v * 1024) = sint acc + sint ?v * 1024"
      using m v t b Cons.prems(2) by (simp add: sint_word_ariths signed_take_bit_int_eq_self)
    have "sint (add_shares cs (acc + ?v * 1024)) = sint (acc + ?v * 1024) + 1024 * ?t"
      by (rule Cons.IH) (use Cons.prems(1) s v b Cons.prems(2) in \<open>simp_all add: algebra_simps\<close>)
    then show ?thesis using False s by (simp add: algebra_simps)
  qed
qed simp

text \<open>C24. The cpu shares written for YARN's parent cgroup are 1024 times the cores of the
containers that are not in a final state, as long as the sum stays below 2^53 cores; with no
such cores nothing is written, and neither is it when the node manager does not answer with
success.\<close>

theorem syncParentCgroup_shares:
  assumes "w_http w = reply # rest"
  shows "(\<forall>code cs total. reply = Inr (code, cs) \<and> IsSuccess code \<and>
            (\<forall>c \<in> set (Items cs). \<not> IsFinalState c \<longrightarrow> 0 \<le> sint (TotalVCoresNeeded c)) \<and>
            total = (\<Sum>c \<leftarrow> filter (\<lambda>c. \<not> IsFinalState c) (Items cs). sint (TotalVCoresNeeded c)) \<and> total < 2 ^ 53 \<longrightarrow>
            w_writes (snd (syncParentCgroup E n w)) = w_writes w @
              (if 0 < total
               then [(path_Join [GenerateCgroupFullPath n (CgroupCPUDir E), CPUSharesName E], Itoa (1024 * total))]
               else [])) \<and>
         ((\<forall>code cs. reply = Inr (code, cs) \<longrightarrow> \<not> IsSuccess code) \<longrightarrow>
            w_writes (snd (syncParentCgroup E n w)) = w_writes w \<and> \<not> is_ok (fst (syncParentCgroup E n w)))"
proof (intro conjI allI impI)
  fix code cs total
  assume a: "reply = Inr (code, cs) \<and> IsSuccess code \<and>
            (\<forall>c \<in> set (Items cs). \<not> IsFinalState c \<longrightarrow> 0 \<le> sint (TotalVCoresNeeded c)) \<and>
            total = (\<Sum>c \<leftarrow> filter (\<lambda>c. \<not> IsFinalState c) (Items cs). sint (TotalVCoresNeeded c)) \<and> total < 2 ^ 53"
  let ?s = "add_shares (Items cs) 0"
  have s: "sint ?s = 1024 * total" using add_shares_exact [of "Items cs" 0] a by simp
  then have pos: "0 <s ?s \<longleftrightarrow> 0 < total" by (simp add: word_sless_alt)
  obtain w1 where l: "ListContainers n w = (Ok cs, w1)" "w_writes w1 = w_writes w"
    using assms a by (simp add: ListContainers_def http_Get_def sbind_def)
  have "w_writes (snd (write_if_different E p d w1)) = w_writes w @ [(p, d)]" for p d
    using l(2) by (simp add: write_if_different_def split: prod.splits)
  then show "w_writes (snd (syncParentCgroup E n w)) = w_writes w @
              (if 0 < total
               then [(path_Join [GenerateCgroupFullPath n (CgroupCPUDir E), CPUSharesName E], Itoa (1024 * total))]
               else [])"
    using l pos s by (simp add: syncParentCgroup_def Let_def)
next
  assume f: "\<forall>code cs. reply = Inr (code, cs) \<longrightarrow> \<not> IsSuccess code"
  have "\<exists>e w1. ListContainers n w = (Err e, w1) \<and> w_writes w1 = w_writes w"
    using assms f by (cases reply) (auto simp: ListContainers_def http_Get_def sbind_def)
  then show "w_writes (snd (syncParentCgroup E n w)) = w_writes w" "\<not> is_ok (fst (syncParentCgroup E n w))"
    by (auto simp: syncParentCgroup_def)
qed

text \<open>Killing a container sends at most one signal, and that to the process group whose id
is the first process of the container's cpu cgroup; it is never sent to a group id of 1 or less,
so never to every process of the machine, and when there is no such group the call fails.\<close>

lemma KillContainer_signals:
  assumes "KillContainer E n containerID w = (out, w')"
  shows "(w' = w \<and> \<not> is_ok out) \<or>
         (\<exists>pid pids. GetPids E (w_fs w) (path_Join [CgroupRoot n, ''cpu'', CgroupPath n, containerID]) = Inr (pid # pids) \<and>
            1 < sint pid \<and> w' = w\<lparr>w_kills := w_kills w @ [- pid]\<rparr> \<and> sint (- pid) = - sint pid \<and> sint (- pid) < - 1 \<and>
            out = of_err (sys_Kill E (- pid)))"
proof (cases "getProcessGroupID E n containerID w \<le>s 1")
  case True
  then show ?thesis using assms by (auto simp: KillContainer_def Let_def)
next
  case False
  let ?pid = "getProcessGroupID E n containerID w"
  have gt: "1 < sint ?pid" using False by (simp add: word_sle_eq)
  have "sint ?pid < 2 ^ 63" using sint_lt [of ?pid] by simp
  then have neg: "sint (- ?pid) = - sint ?pid"
    using gt by (simp add: sint_word_ariths signed_take_bit_int_eq_self)
  obtain pids where "GetPids E (w_fs w) (path_Join [CgroupRoot n, ''cpu'', CgroupPath n, containerID]) = Inr (?pid # pids)"
    using gt by (auto simp: getProcessGroupID_def Let_def split: sum.splits list.splits)
  then show ?thesis using assms False gt neg by (auto simp: KillContainer_def Let_def)
qed

section \<open>Runs of the agent\<close>

text \<open>The states of a run: the loop's turns, in changing environments, and whatever other
processes do to the file system and the node manager in between.\<close>

inductive nm_reach :: "NodeMangerOperator \<Rightarrow> nm_state \<Rightarrow> bool" for n0 where
  start: "nm_Run E n0 w = (out, s) \<Longrightarrow> nm_reach n0 s"
| turn: "nm_reach n0 s \<Longrightarrow> nm_step E ev s = Some s' \<Longrightarrow> nm_reach n0 s'"
| outside: "nm_reach n0 s \<Longrightarrow> nm_reach n0 (s\<lparr>nm_world := w\<rparr>)"

definition endpoint_inv :: "NodeMangerOperator \<Rightarrow> NodeMangerOperator \<Rightarrow> bool" where
  "endpoint_inv n0 n \<longleftrightarrow>
     CgroupRoot n = CgroupRoot n0 \<and> CgroupPath n = CgroupPath n0 \<and> HasPrefix (BaseURL n) ''http://'' \<and>
     (NMEndpoint n \<noteq> [] \<longrightarrow> BaseURL n = ''http://'' @ NMEndpoint n)"

lemma syncNMEndpoint_inv: "endpoint_inv n0 n \<Longrightarrow> endpoint_inv n0 (syncNMEndpoint E n)"
  by (auto simp: endpoint_inv_def syncNMEndpoint_def GetNMPodEndpoint_def Let_def HasPrefix_iff
      split: outcome.splits prod.splits sum.splits option.splits if_splits)
    (auto simp: of_sum_def split: sum.splits option.splits if_splits)

lemma nm_step_op: "nm_step E ev s = Some s' \<Longrightarrow> nm_op s' = nm_op s \<or> nm_op s' = syncNMEndpoint E (nm_op s)"
  by (auto simp: nm_step_def split: if_splits nm_event.splits pleg_type.splits)

lemma nm_reach_inv: "nm_reach n0 s \<Longrightarrow> endpoint_inv n0 n0 \<Longrightarrow> endpoint_inv n0 (nm_op s)"
proof (induction rule: nm_reach.induct)
  case (start E w out s)
  then show ?case by (auto simp: nm_Run_def split: if_splits prod.splits outcome.splits)
next
  case (turn s E ev s')
  then show ?case using nm_step_op [OF turn(2)] syncNMEndpoint_inv by metis
qed simp


section \<open>A concrete node\<close>

text \<open>The default cgroup paths. Container 1 has a cpu cgroup only, container 2 has both.\<close>

definition calm_os :: os_env where
  "calm_os = \<lparr>os_fail = (\<lambda>_ _. None), os_cwd = [], os_umask = 0x12, os_new_files = (\<lambda>_. [(''cgroup.procs'', [])]),
     os_left = (\<lambda>_. True), os_file_perm = (\<lambda>_. 0x1A4)\<rparr>"

text \<open>The kernel takes every value written to a cgroup file.\<close>

definition plain_write :: "string \<Rightarrow> string \<Rightarrow> fs \<Rightarrow> error option \<times> fs" where
  "plain_write p d F = (None, F)"

definition sample_nm_env :: nm_env where
  "sample_nm_env =
     \<lparr>nm_os = calm_os, CgroupCPUDir = ''cpu/'', CgroupMemDir = ''memory/'', CPUProcsName = ''cgroup.procs'',
      CPUSharesName = ''cpu.shares'', MemoryLimitName = ''memory.limit_in_bytes'', MemoryOomGroupName = ''memory.oom.group'',
      CommonFileRead = (\<lambda>F p. case map_of F (resolve calm_os p) of Some (FileN c) \<Rightarrow> Inr c | _ \<Rightarrow> Inl ErrNotExist),
      CommonFileWrite = plain_write, CommonFileWriteIfDifferent = plain_write, GetPids = (\<lambda>F p. Inr [42]),
      GetAllPods = Inr [\<lparr>kp_Labels = [ComponentLabelKey \<mapsto> NodeManagerComponentLabelName], kp_HostNetwork = False,
                         kp_PodIP = ''10.0.0.7''\<rparr>],
      NewWatcher = None, AddWatch = (\<lambda>_. None), sys_Kill = (\<lambda>_. None), map_order = (\<lambda>xs. xs)\<rparr>"

definition sample_op :: NodeMangerOperator where
  "sample_op = \<lparr>CgroupRoot = ''/sys/fs/cgroup/'', CgroupPath = ''kubepods/besteffort/hadoop-yarn'', SyncMemoryCgroup = True,
     NMEndpoint = ''localhost:8042'', BaseURL = ''http://localhost:8042''\<rparr>"

definition sample_fs :: fs where
  "sample_fs =
     [(cpu_root sample_op, DirN 0x1FF), (mem_root sample_op, DirN 0x1FF),
      (cpu_root sample_op @ [''container_1''], DirN 0x1ED), (cpu_root sample_op @ [''container_2''], DirN 0x1ED),
      (mem_root sample_op @ [''container_2''], DirN 0x1ED)]"

definition sample_yarn_container :: YarnContainer where
  "sample_yarn_container = \<lparr>yc_Id = ''container_1'', yc_Appid = [], yc_State = ''RUNNING'', yc_ExitCode = 0, yc_Diagnostics = [],
     yc_User = [], TotalMemoryNeededMB = 512, TotalVCoresNeeded = 2, ContainerLogsLink = [], yc_NodeId = [],
     MemUsed = 0, MemMaxed = 0, CpuUsed = 0, CpuMaxed = 0, ContainerLogFiles = []\<rparr>"

definition status_ok :: resp_status where
  "status_ok = \<lparr>StatusCode = 200, IsSuccess = True, IsError = False\<rparr>"

definition sample_world :: nm_world where
  "sample_world = \<lparr>w_fs = sample_fs, w_http = [Inr (status_ok, \<lparr>Items = [sample_yarn_container]\<rparr>)], w_gets = [], w_writes = [], w_kills = []\<rparr>"

lemma sample_layout: "cgroup_layout sample_nm_env sample_op"
  by (simp add: cgroup_layout_def sample_nm_env_def sample_op_def is_rooted_def HasPrefix_def no_dotdot_def segs_def good_seg_def)

lemma plain_write_spec: "write_spec calm_os plain_write"
  by (simp add: write_spec_def plain_write_def)

lemma sample_writes: "writes_ok sample_nm_env"
  using plain_write_spec by (simp add: writes_ok_def sample_nm_env_def)

lemma sample_new_files: "new_files_ok sample_nm_env"
  by (simp add: new_files_ok_def sample_nm_env_def calm_os_def good_seg_def)

lemma sample_wf: "fs_wf (w_fs sample_world)"
  using roots_good [OF sample_layout] by (auto simp: fs_wf_def sample_world_def sample_fs_def good_seg_def)

lemma sample_roots [simp]: "mem_root sample_op \<noteq> cpu_root sample_op"
  by (rule roots_differ [symmetric])

lemma roots_apart_snoc [simp]:
  "cpu_root n \<noteq> mem_root n @ x" "mem_root n @ x \<noteq> cpu_root n" "mem_root n \<noteq> cpu_root n @ x" "cpu_root n @ x \<noteq> mem_root n"
  "mem_root n @ x \<noteq> cpu_root n @ y"
  by (metis roots_apart(1) append.right_neutral)+

lemma sample_dirs:
  "dir_at (w_fs sample_world) (cpu_root sample_op)" "dir_at (w_fs sample_world) (mem_root sample_op)"
  "dir_at (w_fs sample_world) (cpu_root sample_op @ [''container_1''])"
  "dir_at (w_fs sample_world) (mem_root sample_op @ [''container_2''])"
  "map_of (w_fs sample_world) (mem_root sample_op @ [''container_1'']) = None"
  by (simp_all add: dir_at_def sample_world_def sample_fs_def)

lemma sample_calm: "os_fail (nm_os sample_nm_env) op p = None" "set (map_order sample_nm_env xs) = set xs"
  by (simp_all add: sample_nm_env_def calm_os_def)

lemma sample_containers: "is_container ''container_1''" "good_seg ''container_1''" "is_container ''container_2''" "good_seg ''container_2''"
  by (simp_all add: is_container_def HasPrefix_def good_seg_def)

theorem syncAllCgroup_result_witness:
  "\<exists>w1 w2. syncAllCgroup sample_nm_env sample_op sample_world = Some w1 \<and>
     dir_at (w_fs w1) (mem_root sample_op @ [''container_1'']) \<and>
     syncAllCgroup sample_nm_env sample_op sample_world = Some w2 \<and>
     \<not> dir_at (w_fs w2) (mem_root sample_op @ [''container_2''])"
proof -
  note r = syncAllCgroup_result [OF sample_layout sample_writes sample_wf sample_dirs(1,2) sample_calm(1) sample_calm(1) sample_calm(2)]
  have "\<not> dir_at (w_fs sample_world) (mem_root sample_op @ [''container_1''])" using sample_dirs(5) by (simp add: dir_at_def)
  then show ?thesis
    using r [OF sample_containers(1,2)] r [OF sample_containers(3,4)] sample_dirs(3-5) by (auto simp: sample_calm)
qed


theorem syncParentCgroup_shares_witness:
  "w_writes (snd (syncParentCgroup sample_nm_env sample_op sample_world)) =
     [(path_Join [GenerateCgroupFullPath sample_op ''cpu/'', ''cpu.shares''], Itoa 2048)]"
  using syncParentCgroup_shares [of sample_world "Inr (status_ok, \<lparr>Items = [sample_yarn_container]\<rparr>)" "[]" sample_nm_env sample_op]
  by (simp add: sample_world_def status_ok_def IsFinalState_def FinalContainerStates_def sample_yarn_container_def sample_nm_env_def)


lemma sample_base: "path_Base ''/sys/container_1'' = ''container_1''"
  by (simp add: path_Base_def)

lemma sample_ops:
  "write_if_different sample_nm_env p d w = (Ok (), w\<lparr>w_writes := w_writes w @ [(p, d)]\<rparr>)"
  "write_file sample_nm_env p d w = (Ok (), w\<lparr>w_writes := w_writes w @ [(p, d)]\<rparr>)"
  "GetPids sample_nm_env F p = Inr [42]"
  by (simp_all add: write_if_different_def write_file_def sample_nm_env_def plain_write_def)

lemma sample_GetContainer:
  "w_http w = w_http sample_world \<Longrightarrow> \<exists>w'. GetContainer sample_op ''container_1'' w = (Ok sample_yarn_container, w')"
  by (simp add: GetContainer_def ListContainers_def http_Get_def status_ok_def sbind_def sample_world_def sample_yarn_container_def)

lemma sample_create: "\<exists>w'. createMemoryCgroup sample_nm_env sample_op ''/sys/container_1'' sample_world = (Ok (), w')"
proof -
  let ?p = "abs_path (mem_root sample_op @ [''container_1''])"
  have "resolve (nm_os sample_nm_env) ?p = mem_root sample_op @ [''container_1'']"
    by (rule resolve_abs) (rule root_child_good(2) [OF sample_layout sample_containers(2)])
  then have "fst (os_Mkdir (nm_os sample_nm_env) ?p 0x1A4 (w_fs sample_world)) = None"
    using sample_dirs by (simp add: os_Mkdir_ok_iff sample_calm)
  then obtain F where "os_Mkdir (nm_os sample_nm_env) ?p 0x1A4 (w_fs sample_world) = (None, F)" by (metis prod.collapse)
  moreover obtain w' where "GetContainer sample_op ''container_1'' (sample_world\<lparr>w_fs := F, w_writes := ws\<rparr>) =
      (Ok sample_yarn_container, w' ws)" for ws
    using sample_GetContainer [of "sample_world\<lparr>w_fs := F, w_writes := _\<rparr>"] by (simp, metis)
  ultimately show ?thesis
    by (simp add: createMemoryCgroup_alt [OF sample_layout] sample_base sample_containers on_fs_def create_rest_def
        sbind_def Let_def sample_ops)
qed

theorem createMemoryCgroup_complete_witness:
  "\<exists>w'. createMemoryCgroup sample_nm_env sample_op ''/sys/container_1'' sample_world = (Ok (), w') \<and>
     dir_at (w_fs w') (mem_root sample_op @ [''container_1'']) \<and>
     w_gets w' = [''http://localhost:8042/ws/v1/node/containers'']"
proof -
  obtain w' where run: "createMemoryCgroup sample_nm_env sample_op ''/sys/container_1'' sample_world = (Ok (), w')"
    using sample_create by blast
  have "BaseURL sample_op = ''http://localhost:8042''" "w_gets sample_world = []"
    by (simp_all add: sample_op_def sample_world_def)
  then show ?thesis
    using createMemoryCgroup_complete [OF sample_layout sample_writes sample_base [symmetric] sample_containers(1) run refl] run
    by auto
qed

theorem nm_turn_safe_witness:
  "\<exists>b x. mem_root sample_op @ [''container_1''] = mem_root sample_op @ b # x \<and> is_container b"
proof -
  let ?s = "\<lparr>nm_op = sample_op, nm_world = sample_world, nm_returned = False\<rparr>" and ?k = "mem_root sample_op @ [''container_1'']"
  let ?w' = "snd (createMemoryCgroup sample_nm_env sample_op ''/sys/container_1'' sample_world)"
  have step: "nm_step sample_nm_env (WatchEvent DirCreated ''/sys/container_1'') ?s = Some (?s\<lparr>nm_world := ?w'\<rparr>)"
    by (simp add: nm_step_def)
  have "dir_at (w_fs ?w') ?k" "\<not> dir_at (w_fs sample_world) ?k"
    using create_effect(1) [OF sample_layout sample_writes sample_base [symmetric], of ?k sample_world] sample_dirs sample_containers
    by (simp_all add: sample_calm dir_at_def)
  then have ch: "dir_at (w_fs (nm_world (?s\<lparr>nm_world := ?w'\<rparr>))) ?k \<noteq> dir_at (w_fs (nm_world ?s)) ?k" by simp
  have "cgroup_layout sample_nm_env (nm_op ?s)" "fs_wf (w_fs (nm_world ?s))" using sample_layout sample_wf by simp_all
  from nm_turn_safe [OF this(1) sample_writes sample_new_files this(2) step ch] show ?thesis by auto
qed

end
