(* ===== verification/Agent_Server.thy ===== *)
theory Agent_Server
  imports NM_Operator
begin

text \<open>
  \<open>pkg/copilot-agent/server\<close>: the HTTP server on the agent's unix socket. A request is routed to
  its handler, which works on the node manager operator and answers with a status and a JSON
  value. gin's binding of a request body is part of the request (\<open>rq_Body\<close>); Kubernetes
  quantities, the names of its resources, \<open>net.Listen\<close>, koordlet's \<open>FileExists\<close> and gin's answer to a
  request without a route are parameters, in \<open>srv_env\<close>; \<open>'q\<close> is the type of quantities. The theorems state what a request
  can do to the machine, what each status means, and how a run of the server ends.
\<close>

section \<open>Data\<close>

record YarnCopilotServer =
  mgr :: NodeMangerOperator
  unixPath :: string

definition NewYarnCopilotServer :: "NodeMangerOperator \<Rightarrow> string \<Rightarrow> YarnCopilotServer" where
  "NewYarnCopilotServer m p = \<lparr>mgr = m, unixPath = p\<rparr>"

record 'q ResourceRequirements =
  Limits :: "string \<Rightarrow> 'q option"
  Requests :: "string \<Rightarrow> 'q option"

text \<open>Go's \<open>time.Time\<close>; its zero value has both parts zero.\<close>

record go_time =
  t_wall :: uint64
  t_ext :: int64

record 'q ContainerInfo =
  ci_Name :: string
  ci_Namespace :: string
  ci_UID :: string
  ci_Labels :: "(string \<Rightarrow> string option) option"
  ci_Annotations :: "(string \<Rightarrow> string option) option"
  ci_Priority :: int32
  ci_CreateTimestamp :: go_time
  ci_CgroupDir :: string
  ci_HostNetwork :: bool
  ci_Resources :: "'q ResourceRequirements"

record PluginInfo =
  pi_Name :: string
  pi_Version :: string

record 'q KillRequest =
  kr_ContainerID :: string
  kr_Resources :: "(string \<Rightarrow> 'q option) option"

record 'q KillInfo =
  ki_Items :: "'q ContainerInfo list"

datatype 'q body =
    NoBody
  | StringBody string
  | InfoBody PluginInfo
  | ErrorBody error
  | ContainersBody "'q ContainerInfo list"
  | ContainerBody "'q ContainerInfo"
  | KillBody "'q KillInfo"

type_synonym 'q reply = "nat \<times> 'q body"

datatype http_method = GET | POST | OtherMethod string

record 'q http_req =
  rq_Method :: http_method
  rq_Path :: string
  rq_Query :: "string \<Rightarrow> string"
  rq_Body :: "error + 'q KillRequest"

record 'q srv_env =
  srv_nm :: nm_env
  NewMilliQuantity :: "int64 \<Rightarrow> 'q"
  ResourceCPU :: string
  ResourceMemory :: string
  FileExists :: "fs \<Rightarrow> string \<Rightarrow> bool"
  net_Listen :: "string \<Rightarrow> fs \<Rightarrow> error option"
  srv_Shutdown :: "error option"
  gin_NoRoute :: "'q http_req \<Rightarrow> 'q reply"

section \<open>Handlers\<close>

text \<open>The limits and the requests are built from the same two quantities; \<open>int\<close> arithmetic is 64 bits wide.\<close>

definition container_resources :: "'q srv_env \<Rightarrow> YarnContainer \<Rightarrow> string \<Rightarrow> 'q option" where
  "container_resources S c =
     [ResourceCPU S \<mapsto> NewMilliQuantity S (TotalVCoresNeeded c * 1000),
      ResourceMemory S \<mapsto> NewMilliQuantity S (TotalMemoryNeededMB c * 1024 * 1024 * 1000)]"

definition ParseContainerInfo :: "'q srv_env \<Rightarrow> YarnContainer \<Rightarrow> NodeMangerOperator \<Rightarrow> 'q ContainerInfo" where
  "ParseContainerInfo S yarnContainer n =
     \<lparr>ci_Name = yc_Id yarnContainer, ci_Namespace = ''yarn'', ci_UID = yc_Id yarnContainer,
      ci_Labels = None, ci_Annotations = None, ci_Priority = 1, ci_CreateTimestamp = \<lparr>t_wall = 0, t_ext = 0\<rparr>,
      ci_CgroupDir = GenerateCgroupPath n (yc_Id yarnContainer), ci_HostNetwork = True,
      ci_Resources = \<lparr>Limits = container_resources S yarnContainer, Requests = container_resources S yarnContainer\<rparr>\<rparr>"

definition Health :: "'q reply" where
  "Health = (200, StringBody ''ok'')"

definition Information :: "'q reply" where
  "Information = (200, InfoBody \<lparr>pi_Name = ''yarn'', pi_Version = ''v1''\<rparr>)"

fun list_loop :: "'q srv_env \<Rightarrow> NodeMangerOperator \<Rightarrow> YarnContainer list \<Rightarrow> 'q ContainerInfo list \<Rightarrow> 'q ContainerInfo list" where
  "list_loop S n [] res = res"
| "list_loop S n (container # cs) res =
     (if IsFinalState container then list_loop S n cs res
      else list_loop S n cs (res @ [ParseContainerInfo S container n]))"

definition srv_ListContainers :: "'q srv_env \<Rightarrow> NodeMangerOperator \<Rightarrow> nm_world \<Rightarrow> 'q reply outcome \<times> nm_world" where
  "srv_ListContainers S n w =
     (case ListContainers n w of
        (Err err, w1) \<Rightarrow> (Ok (400, ErrorBody err), w1)
      | (Panic p, w1) \<Rightarrow> (Panic p, w1)
      | (Ok listContainers, w1) \<Rightarrow> (Ok (200, ContainersBody (list_loop S n (Items listContainers) [])), w1))"

definition srv_GetContainer ::
  "'q srv_env \<Rightarrow> NodeMangerOperator \<Rightarrow> 'q http_req \<Rightarrow> nm_world \<Rightarrow> 'q reply outcome \<times> nm_world" where
  "srv_GetContainer S n rq w =
     (case GetContainer n (rq_Query rq ''containerID'') w of
        (Err err, w1) \<Rightarrow> (Ok (400, ErrorBody err), w1)
      | (Panic p, w1) \<Rightarrow> (Panic p, w1)
      | (Ok container, w1) \<Rightarrow> (Ok (200, ContainerBody (ParseContainerInfo S container n)), w1))"

definition srv_KillContainer ::
  "'q srv_env \<Rightarrow> NodeMangerOperator \<Rightarrow> 'q http_req \<Rightarrow> nm_world \<Rightarrow> 'q reply outcome \<times> nm_world" where
  "srv_KillContainer S n rq w =
     (case rq_Body rq of
        Inl err \<Rightarrow> (Ok (400, ErrorBody err), w)
      | Inr kr \<Rightarrow>
          (case GetContainer n (kr_ContainerID kr) w of
             (Err err, w1) \<Rightarrow> (Ok (400, ErrorBody err), w1)
           | (Panic p, w1) \<Rightarrow> (Panic p, w1)
           | (Ok container, w1) \<Rightarrow>
               (case KillContainer (srv_nm S) n (kr_ContainerID kr) w1 of
                  (Err err, w2) \<Rightarrow> (Ok (400, ErrorBody err), w2)
                | (Panic p, w2) \<Rightarrow> (Panic p, w2)
                | (Ok _, w2) \<Rightarrow> (Ok (200, KillBody \<lparr>ki_Items = [ParseContainerInfo S container n]\<rparr>), w2))))"

text \<open>An empty handler: gin answers 200 without a body.\<close>

definition KillContainerByResource :: "'q reply" where
  "KillContainerByResource = (200, NoBody)"

text \<open>The routes of \<open>Run\<close>; where there is none gin answers by itself.\<close>

definition serve :: "'q srv_env \<Rightarrow> NodeMangerOperator \<Rightarrow> 'q http_req \<Rightarrow> nm_world \<Rightarrow> 'q reply outcome \<times> nm_world" where
  "serve S n rq w =
     (if rq_Method rq = GET \<and> rq_Path rq = ''/health'' then (Ok Health, w)
      else if rq_Method rq = GET \<and> rq_Path rq = ''/information'' then (Ok Information, w)
      else if rq_Method rq = GET \<and> rq_Path rq = ''/v1/container'' then srv_GetContainer S n rq w
      else if rq_Method rq = GET \<and> rq_Path rq = ''/v1/containers'' then srv_ListContainers S n w
      else if rq_Method rq = POST \<and> rq_Path rq = ''/v1/killContainer'' then srv_KillContainer S n rq w
      else if rq_Method rq = POST \<and> rq_Path rq = ''/v1/killContainersByResource'' then (Ok KillContainerByResource, w)
      else (Ok (gin_NoRoute S rq), w))"

section \<open>The life of the server\<close>

datatype run_end = Exited nat | Returned "error option"

text \<open>
  Up to the listening socket. The errors of MkdirAll and Remove are discarded; a failing
  Listen ends the process.
\<close>

definition srv_start :: "'q srv_env \<Rightarrow> string \<Rightarrow> nm_world \<Rightarrow> run_end option \<times> nm_world" where
  "srv_start S path w =
     (let K = nm_os (srv_nm S);
          w1 = snd (on_fs (os_MkdirAll K (path_Dir path) 0x1FF) w);
          w2 = (if FileExists S (w_fs w1) path then snd (on_fs (os_Remove K path) w1) else w1)
      in case net_Listen S path (w_fs w2) of
           Some err \<Rightarrow> (Some (Exited 1), w2)
         | None \<Rightarrow> (None, w2\<lparr>w_fs := (resolve K path, SocketN) # w_fs w2\<rparr>))"

text \<open>
  \<open>for range ctx.Done()\<close> runs its body once for each value received before the channel is
  closed; \<open>vals\<close> are these values. Closing a unix listener unlinks its path, and \<open>Shutdown\<close>
  closes the listeners first. The number of shutdowns is counted.
\<close>

fun shutdown_loop :: "'q srv_env \<Rightarrow> string \<Rightarrow> unit list \<Rightarrow> nat \<Rightarrow> nm_world \<Rightarrow> error option \<times> nat \<times> nm_world" where
  "shutdown_loop S path [] k w = (None, k, w)"
| "shutdown_loop S path (v # vals) k w =
     (let w1 = snd (on_fs (os_Remove (nm_os (srv_nm S)) path) w)
      in case srv_Shutdown S of
           Some err \<Rightarrow> (Some err, Suc k, w1)
         | None \<Rightarrow> shutdown_loop S path vals (Suc k) w1)"

text \<open>
  Requests are served while \<open>Run\<close> waits, each in the environment and with the operator of its
  moment; a panic in a handler only ends its connection.
\<close>

definition serve_all :: "('q srv_env \<times> NodeMangerOperator \<times> 'q http_req) list \<Rightarrow> nm_world \<Rightarrow> nm_world" where
  "serve_all rqs w = fold (\<lambda>(S, n, rq) w. snd (serve S n rq w)) rqs w"

definition srv_Run ::
  "'q srv_env \<Rightarrow> YarnCopilotServer \<Rightarrow> ('q srv_env \<times> NodeMangerOperator \<times> 'q http_req) list \<Rightarrow> unit list \<Rightarrow> nm_world \<Rightarrow>
   run_end \<times> nat \<times> nm_world" where
  "srv_Run S y rqs vals w =
     (case srv_start S (unixPath y) w of
        (Some r, w1) \<Rightarrow> (r, 0, w1)
      | (None, w1) \<Rightarrow>
          (case shutdown_loop S (unixPath y) vals 0 (serve_all rqs w1) of (err, k, w2) \<Rightarrow>
             (Returned err, k, snd (on_fs (os_Remove (nm_os (srv_nm S)) (unixPath y)) w2))))"

section \<open>What the handlers do\<close>

lemma list_loop_filter:
  "list_loop S n cs res = res @ map (\<lambda>c. ParseContainerInfo S c n) (filter (\<lambda>c. \<not> IsFinalState c) cs)"
  by (induction cs arbitrary: res) auto

lemma find_container_iff: "(\<exists>c. find_container i cs = Some c) \<longleftrightarrow> i \<in> yc_Id ` set cs"
  by (induction cs) auto

lemma ListContainers_cases:
  "(\<exists>code cs rest. w_http w = Inr (code, cs) # rest \<and> IsSuccess code \<and>
      ListContainers n w = (Ok cs, w\<lparr>w_gets := w_gets w @ [BaseURL n @ ''/ws/v1/node/containers''], w_http := rest\<rparr>)) \<or>
   (\<nexists>code cs rest. w_http w = Inr (code, cs) # rest \<and> IsSuccess code) \<and>
   (\<exists>e. ListContainers n w =
      (Err e, w\<lparr>w_gets := w_gets w @ [BaseURL n @ ''/ws/v1/node/containers''], w_http := tl (w_http w)\<rparr>))"
  by (cases "w_http w"; cases "hd (w_http w)")
    (auto simp: ListContainers_def http_Get_def sbind_def Let_def)

lemma GetContainer_cases:
  "(\<exists>code cs rest c. w_http w = Inr (code, cs) # rest \<and> IsSuccess code \<and> find_container i (Items cs) = Some c \<and>
      GetContainer n i w = (Ok c, w\<lparr>w_gets := w_gets w @ [BaseURL n @ ''/ws/v1/node/containers''], w_http := rest\<rparr>)) \<or>
   (\<nexists>code cs rest. w_http w = Inr (code, cs) # rest \<and> IsSuccess code \<and> i \<in> yc_Id ` set (Items cs)) \<and>
   (\<exists>e. GetContainer n i w =
      (Err e, w\<lparr>w_gets := w_gets w @ [BaseURL n @ ''/ws/v1/node/containers''], w_http := tl (w_http w)\<rparr>))"
  using ListContainers_cases [of w n]
proof (elim disjE exE conjE)
  fix code cs rest
  assume h: "w_http w = Inr (code, cs) # rest" "IsSuccess code"
    and l: "ListContainers n w = (Ok cs, w\<lparr>w_gets := w_gets w @ [BaseURL n @ ''/ws/v1/node/containers''], w_http := rest\<rparr>)"
  show ?thesis
  proof (cases "find_container i (Items cs)")
    case None
    then have "i \<notin> yc_Id ` set (Items cs)" using find_container_iff [of i "Items cs"] by simp
    then show ?thesis using h l None by (simp add: GetContainer_def)
  next
    case (Some c)
    then show ?thesis using h l by (simp add: GetContainer_def)
  qed
next
  fix e
  assume "\<nexists>code cs rest. w_http w = Inr (code, cs) # rest \<and> IsSuccess code"
    and "ListContainers n w = (Err e, w\<lparr>w_gets := w_gets w @ [BaseURL n @ ''/ws/v1/node/containers''], w_http := tl (w_http w)\<rparr>)"
  then show ?thesis by (auto simp: GetContainer_def)
qed

text \<open>A signal was sent to the process group of a container on behalf of a kill request.\<close>

definition signalled :: "'q srv_env \<Rightarrow> NodeMangerOperator \<Rightarrow> string \<Rightarrow> nm_world \<Rightarrow> int64 \<Rightarrow> bool" where
  "signalled S n i w pid \<longleftrightarrow>
     (\<exists>code cs rest. w_http w = Inr (code, cs) # rest \<and> IsSuccess code \<and> i \<in> yc_Id ` set (Items cs)) \<and>
     (\<exists>pids. GetPids (srv_nm S) (w_fs w) (path_Join [CgroupRoot n, ''cpu'', CgroupPath n, i]) = Inr (pid # pids)) \<and>
     1 < sint pid"

lemma KillContainer_of_group:
  assumes "GetPids E (w_fs w) (path_Join [CgroupRoot n, ''cpu'', CgroupPath n, i]) = Inr (pid # pids)" and "1 < sint pid"
  shows "KillContainer E n i w = (of_err (sys_Kill E (- pid)), w\<lparr>w_kills := w_kills w @ [- pid]\<rparr>)"
  using assms by (simp add: KillContainer_def getProcessGroupID_def word_sle_eq)

lemma srv_KillContainer_cases:
  assumes b: "rq_Body rq = Inr kr"
  shows "(\<exists>pid c w'. signalled S n (kr_ContainerID kr) w pid \<and> yc_Id c = kr_ContainerID kr \<and>
            w_kills w' = w_kills w @ [- pid] \<and> sint (- pid) < - 1 \<and> w_fs w' = w_fs w \<and> w_writes w' = w_writes w \<and>
            srv_KillContainer S n rq w =
              (Ok (case sys_Kill (srv_nm S) (- pid) of
                     None \<Rightarrow> (200, KillBody \<lparr>ki_Items = [ParseContainerInfo S c n]\<rparr>) | Some e \<Rightarrow> (400, ErrorBody e)), w')) \<or>
         (\<nexists>pid. signalled S n (kr_ContainerID kr) w pid) \<and>
         (\<exists>e w'. w_kills w' = w_kills w \<and> w_fs w' = w_fs w \<and> w_writes w' = w_writes w \<and>
            srv_KillContainer S n rq w = (Ok (400, ErrorBody e), w'))"
  using GetContainer_cases [of w "kr_ContainerID kr" n]
proof (elim disjE exE conjE)
  fix code cs rest c
  let ?i = "kr_ContainerID kr"
  let ?w1 = "w\<lparr>w_gets := w_gets w @ [BaseURL n @ ''/ws/v1/node/containers''], w_http := rest\<rparr>"
  assume h: "w_http w = Inr (code, cs) # rest" "IsSuccess code" and f: "find_container ?i (Items cs) = Some c"
    and g: "GetContainer n ?i w = (Ok c, ?w1)"
  have c: "yc_Id c = ?i" "?i \<in> yc_Id ` set (Items cs)" using find_container_Some [OF f] by (auto simp: image_iff intro: bexI [of _ c])
  obtain out w' where k: "KillContainer (srv_nm S) n ?i ?w1 = (out, w')" by (metis prod.exhaust)
  show ?thesis
  proof (cases "\<exists>pid. signalled S n ?i w pid")
    case True
    then obtain pid pids where s: "signalled S n ?i w pid" and 1: "1 < sint pid"
      and p: "GetPids (srv_nm S) (w_fs ?w1) (path_Join [CgroupRoot n, ''cpu'', CgroupPath n, ?i]) = Inr (pid # pids)"
      by (auto simp: signalled_def)
    have "sint (- pid) < - 1" using KillContainer_signals [OF k] p KillContainer_of_group [OF p 1] k by (auto dest: arg_cong [where f = w_kills])
    then show ?thesis using b g c s KillContainer_of_group [OF p 1]
      by (intro disjI1 exI [of _ pid] exI [of _ c] exI [of _ "?w1\<lparr>w_kills := w_kills ?w1 @ [- pid]\<rparr>"])
        (simp add: srv_KillContainer_def split: option.splits)
  next
    case False
    have "w' = ?w1 \<and> \<not> is_ok out" using KillContainer_signals [OF k] False h c by (auto simp: signalled_def)
    moreover have "\<not> is_panic out" using k by (auto simp: KillContainer_def Let_def of_err_def split: if_splits option.splits)
    ultimately show ?thesis using False b g k by (cases out) (auto simp: srv_KillContainer_def)
  qed
next
  fix e
  assume "\<nexists>code cs rest. w_http w = Inr (code, cs) # rest \<and> IsSuccess code \<and> kr_ContainerID kr \<in> yc_Id ` set (Items cs)"
    and "GetContainer n (kr_ContainerID kr) w =
      (Err e, w\<lparr>w_gets := w_gets w @ [BaseURL n @ ''/ws/v1/node/containers''], w_http := tl (w_http w)\<rparr>)"
  then show ?thesis using b by (auto simp: srv_KillContainer_def signalled_def)
qed

section \<open>Requests\<close>

lemma GetContainer_not_Panic: "GetContainer n i w \<noteq> (Panic p, w')"
  using GetContainer_cases [of w i n] by auto

lemma srv_GetContainer_cases:
  "\<exists>code b w'. srv_GetContainer S n rq w = (Ok (code, b), w') \<and> code \<in> {200, 400} \<and>
     w_kills w' = w_kills w \<and> w_fs w' = w_fs w \<and> w_writes w' = w_writes w"
  using GetContainer_cases [of w "rq_Query rq ''containerID''" n] by (auto simp: srv_GetContainer_def)

lemma srv_ListContainers_cases:
  "\<exists>code b w'. srv_ListContainers S n w = (Ok (code, b), w') \<and> code \<in> {200, 400} \<and>
     w_kills w' = w_kills w \<and> w_fs w' = w_fs w \<and> w_writes w' = w_writes w"
  using ListContainers_cases [of w n] by (auto simp: srv_ListContainers_def)

definition is_kill :: "'q http_req \<Rightarrow> 'q KillRequest \<Rightarrow> bool" where
  "is_kill rq kr \<longleftrightarrow> rq_Method rq = POST \<and> rq_Path rq = ''/v1/killContainer'' \<and> rq_Body rq = Inr kr"

lemma serve_kill: "is_kill rq kr \<Longrightarrow> serve S n rq w = srv_KillContainer S n rq w"
  by (simp add: is_kill_def serve_def)

lemma serve_other:
  assumes "\<nexists>kr. is_kill rq kr"
  shows "\<exists>code b w'. serve S n rq w = (Ok (code, b), w') \<and> (code \<in> {200, 400} \<or> (code, b) = gin_NoRoute S rq) \<and>
     w_kills w' = w_kills w \<and> w_fs w' = w_fs w \<and> w_writes w' = w_writes w"
proof (cases "rq_Method rq = POST \<and> rq_Path rq = ''/v1/killContainer''")
  case True
  then obtain e where "rq_Body rq = Inl e" using assms by (cases "rq_Body rq") (auto simp: is_kill_def)
  then show ?thesis using True by (simp add: serve_def srv_KillContainer_def)
next
  case False
  obtain code b where "gin_NoRoute S rq = (code, b)" by (cases "gin_NoRoute S rq")
  then show ?thesis using False srv_GetContainer_cases [of S n rq w] srv_ListContainers_cases [of S n w]
    by (auto simp: serve_def Health_def Information_def KillContainerByResource_def)
qed

text \<open>C16. Whatever is asked of the agent's server, no request makes it panic, change the file system
or write a cgroup file, and it answers 200 or 400, or as gin does where there is no route. It sends a signal only for a well-formed
\<open>POST /v1/killContainer\<close> of a container that the node manager lists at that moment, at most one,
to the process group of the container's cpu cgroup, and never to group 1 or below.\<close>

theorem serve_safe:
  assumes "serve S n rq w = (out, w')"
  shows "(\<exists>code b. out = Ok (code, b) \<and> (code \<in> {200, 400} \<or> (code, b) = gin_NoRoute S rq)) \<and> w_fs w' = w_fs w \<and> w_writes w' = w_writes w \<and>
         (w_kills w' = w_kills w \<or>
          (\<exists>kr pid. is_kill rq kr \<and> signalled S n (kr_ContainerID kr) w pid \<and> sint (- pid) < - 1 \<and>
             w_kills w' = w_kills w @ [- pid]))"
proof (cases "\<exists>kr. is_kill rq kr")
  case True
  then obtain kr where k: "is_kill rq kr" by blast
  then have "rq_Body rq = Inr kr" by (simp add: is_kill_def)
  from srv_KillContainer_cases [OF this, of S n w] show ?thesis
    using assms k by (auto simp: serve_kill split: option.splits)
next
  case False
  from serve_other [OF this, of S n w] show ?thesis using assms by auto
qed

text \<open>A kill request is answered with 200 and the killed container exactly when the node manager
lists the container, its cpu cgroup has a first process above 1, and the kill of that process
group succeeds; in every other case the answer is 400.\<close>

lemma kill_accepted_iff:
  assumes "is_kill rq kr"
  shows "(\<exists>c. yc_Id c = kr_ContainerID kr \<and> fst (serve S n rq w) = Ok (200, KillBody \<lparr>ki_Items = [ParseContainerInfo S c n]\<rparr>)) \<longleftrightarrow>
           (\<exists>pid. signalled S n (kr_ContainerID kr) w pid \<and> sys_Kill (srv_nm S) (- pid) = None)"
    and "(\<exists>e. fst (serve S n rq w) = Ok (400, ErrorBody e)) \<longleftrightarrow>
           (\<nexists>pid. signalled S n (kr_ContainerID kr) w pid \<and> sys_Kill (srv_nm S) (- pid) = None)"
proof -
  let ?ok = "\<exists>pid. signalled S n (kr_ContainerID kr) w pid \<and> sys_Kill (srv_nm S) (- pid) = None"
  have b: "rq_Body rq = Inr kr" using assms by (simp add: is_kill_def)
  have u: "?ok \<longleftrightarrow> sys_Kill (srv_nm S) (- pid) = None" if "signalled S n (kr_ContainerID kr) w pid" for pid
    using that by (auto simp: signalled_def)
  have "(?ok \<and> (\<exists>c. yc_Id c = kr_ContainerID kr \<and> fst (serve S n rq w) = Ok (200, KillBody \<lparr>ki_Items = [ParseContainerInfo S c n]\<rparr>))) \<or>
        (\<not> ?ok \<and> (\<exists>e. fst (serve S n rq w) = Ok (400, ErrorBody e)))"
    using srv_KillContainer_cases [OF b, of S n w]
  proof (elim disjE exE conjE)
    fix pid c w' assume "signalled S n (kr_ContainerID kr) w pid" "yc_Id c = kr_ContainerID kr"
      "srv_KillContainer S n rq w = (Ok (case sys_Kill (srv_nm S) (- pid) of
         None \<Rightarrow> (200, KillBody \<lparr>ki_Items = [ParseContainerInfo S c n]\<rparr>) | Some e \<Rightarrow> (400, ErrorBody e)), w')"
    then show ?thesis unfolding serve_kill [OF assms] using u by (cases "sys_Kill (srv_nm S) (- pid)") auto
  next
    fix e w' assume "\<nexists>pid. signalled S n (kr_ContainerID kr) w pid" "srv_KillContainer S n rq w = (Ok (400, ErrorBody e), w')"
    then show ?thesis unfolding serve_kill [OF assms] by auto
  qed
  then show "(\<exists>c. yc_Id c = kr_ContainerID kr \<and> fst (serve S n rq w) = Ok (200, KillBody \<lparr>ki_Items = [ParseContainerInfo S c n]\<rparr>)) \<longleftrightarrow> ?ok"
    and "(\<exists>e. fst (serve S n rq w) = Ok (400, ErrorBody e)) \<longleftrightarrow> \<not> ?ok"
    by auto
qed

section \<open>Runs\<close>

lemma serve_fs: "w_fs (snd (serve S n rq w)) = w_fs w"
proof (cases "\<exists>kr. is_kill rq kr")
  case True
  then obtain kr where k: "is_kill rq kr" by blast
  then have "rq_Body rq = Inr kr" by (simp add: is_kill_def)
  from srv_KillContainer_cases [OF this, of S n w] show ?thesis using k by (auto simp: serve_kill)
next
  case False
  from serve_other [OF this, of S n w] show ?thesis by auto
qed

lemma serve_all_fs: "w_fs (serve_all rqs w) = w_fs w"
  by (induction rqs arbitrary: w) (auto simp: serve_all_def serve_fs split: prod.splits)

lemma srv_start_listening:
  assumes "srv_start S path w = (None, w1)"
  shows "map_of (w_fs w1) (resolve (nm_os (srv_nm S)) path) = Some SocketN"
  using assms by (auto simp: srv_start_def Let_def split: option.splits if_splits)

text \<open>C38. \<open>ctx.Done()\<close> is only ever closed, so that no value is received from it: then \<open>Run\<close> returns
nil without a single call of \<open>Shutdown\<close>, whatever was served before. Its deferred function
removes the socket it listened on and nothing else.\<close>

theorem Run_never_shuts_down:
  assumes "srv_start S (unixPath y) w = (None, w1)"
    and "os_fail (nm_os (srv_nm S)) Op_Remove (unixPath y) = None"
    and "\<forall>k \<in> fst ` set (w_fs w1). under (resolve (nm_os (srv_nm S)) (unixPath y)) k \<longrightarrow> k = resolve (nm_os (srv_nm S)) (unixPath y)"
  shows "\<exists>w'. srv_Run S y rqs [] w = (Returned None, 0, w') \<and>
           map_of (w_fs w') = (map_of (w_fs w1))(resolve (nm_os (srv_nm S)) (unixPath y) := None)"
proof -
  let ?K = "nm_os (srv_nm S)" and ?d = "resolve (nm_os (srv_nm S)) (unixPath y)"
  have "map_of (w_fs w1) ?d = Some SocketN" using srv_start_listening [OF assms(1)] .
  then have "os_Remove ?K (unixPath y) (w_fs w1) = (None, filter (\<lambda>(k, _). k \<noteq> ?d) (w_fs w1))"
    using assms(2,3) by (auto simp: os_Remove_def Let_def)
  moreover have "map_of (filter (\<lambda>(k, _). k \<noteq> ?d) (w_fs w1)) = (map_of (w_fs w1))(?d := None)"
    by (rule ext) (simp add: map_of_filter_key)
  ultimately show ?thesis using assms(1) by (simp add: srv_Run_def on_fs_def serve_all_fs)
qed

section \<open>Sample\<close>

definition sample_srv :: "int64 srv_env" where
  "sample_srv = \<lparr>srv_nm = sample_nm_env, NewMilliQuantity = (\<lambda>q. q), ResourceCPU = ''cpu'', ResourceMemory = ''memory'',
     FileExists = (\<lambda>F p. map_of F (resolve calm_os p) \<noteq> None), net_Listen = (\<lambda>p F. None), srv_Shutdown = None,
     gin_NoRoute = (\<lambda>_. (404, NoBody))\<rparr>"

definition kill_request :: "string \<Rightarrow> 'q http_req" where
  "kill_request i = \<lparr>rq_Method = POST, rq_Path = ''/v1/killContainer'', rq_Query = (\<lambda>_. []),
     rq_Body = Inr \<lparr>kr_ContainerID = i, kr_Resources = None\<rparr>\<rparr>"

lemma sample_signalled: "signalled sample_srv sample_op ''container_1'' sample_world 42"
  by (simp add: signalled_def sample_srv_def sample_nm_env_def sample_world_def sample_yarn_container_def status_ok_def)

lemma sample_is_kill: "is_kill (kill_request i) \<lparr>kr_ContainerID = i, kr_Resources = None\<rparr>"
  by (simp add: is_kill_def kill_request_def)

theorem serve_safe_witness:
  "w_fs (snd (serve sample_srv sample_op (kill_request ''container_1'') sample_world)) = w_fs sample_world"
  using serve_safe [of sample_srv sample_op "kill_request ''container_1''" sample_world
      "fst (serve sample_srv sample_op (kill_request ''container_1'') sample_world)"
      "snd (serve sample_srv sample_op (kill_request ''container_1'') sample_world)"] by simp

lemma kill_accepted_iff_instance:
  "\<exists>c. yc_Id c = ''container_1'' \<and>
     fst (serve sample_srv sample_op (kill_request ''container_1'') sample_world) =
       Ok (200, KillBody \<lparr>ki_Items = [ParseContainerInfo sample_srv c sample_op]\<rparr>)"
proof -
  have "sys_Kill (srv_nm sample_srv) (- 42) = None" by (simp add: sample_srv_def sample_nm_env_def)
  then show ?thesis
    using kill_accepted_iff(1) [OF sample_is_kill [of "''container_1''"], of sample_srv sample_op sample_world] sample_signalled by auto
qed

definition sample_server :: YarnCopilotServer where
  "sample_server = NewYarnCopilotServer sample_op ''/run/yarn.sock''"

lemma sample_listening:
  "srv_start sample_srv ''/run/yarn.sock'' (sample_world\<lparr>w_fs := [([''run''], DirN 0x1ED)]\<rparr>) =
     (None, sample_world\<lparr>w_fs := [([''run'', ''yarn.sock''], SocketN), ([''run''], DirN 0x1ED)]\<rparr>)"
proof -
  have p: "nm_os (srv_nm sample_srv) = calm_os" "resolve calm_os ''/run/yarn.sock'' = [''run'', ''yarn.sock'']"
    by (simp_all add: sample_srv_def sample_nm_env_def resolve_def is_rooted_def HasPrefix_def)
  have d: "path_Dir ''/run/yarn.sock'' = ''/run''" by (simp add: path_Dir_def Clean_def is_rooted_def HasPrefix_def)
  have mk: "os_MkdirAll calm_os ''/run'' 0x1FF [([''run''], DirN 0x1ED)] = (None, [([''run''], DirN 0x1ED)])"
    by (simp add: os_MkdirAll_def resolve_def is_rooted_def HasPrefix_def)
  show ?thesis unfolding srv_start_def Let_def d on_fs_def p(1) by (simp add: mk sample_srv_def p(2))
qed

theorem Run_never_shuts_down_witness:
  "\<exists>w'. srv_Run sample_srv sample_server [(sample_srv, sample_op, kill_request ''container_1'')] []
          (sample_world\<lparr>w_fs := [([''run''], DirN 0x1ED)]\<rparr>) = (Returned None, 0, w')"
proof -
  have p: "nm_os (srv_nm sample_srv) = calm_os" "unixPath sample_server = ''/run/yarn.sock''"
    "resolve calm_os ''/run/yarn.sock'' = [''run'', ''yarn.sock'']"
    by (simp_all add: sample_srv_def sample_nm_env_def sample_server_def NewYarnCopilotServer_def resolve_def is_rooted_def HasPrefix_def)
  show ?thesis
    using Run_never_shuts_down [of sample_srv sample_server "sample_world\<lparr>w_fs := [([''run''], DirN 0x1ED)]\<rparr>"
        "sample_world\<lparr>w_fs := [([''run'', ''yarn.sock''], SocketN), ([''run''], DirN 0x1ED)]\<rparr>"
        "[(sample_srv, sample_op, kill_request ''container_1'')]"] sample_listening
    unfolding p by (auto simp: calm_os_def under_def)
qed

end
