(* ===== verification/Agent_Main.thy ===== *)
theory Agent_Main
  imports Agent_Server
begin

text \<open>
  \<open>cmd/yarn-copilot-agent\<close>: the configuration of the agent and its process, in which the node manager
  operator's loop and the HTTP server run side by side on one machine. The command line is parsed
  by Go's \<open>flag\<close> package; its result is an argument. The run of the process is a sequence of events:
  turns of the loop, requests, and what other processes do in between.
\<close>

section \<open>Configuration\<close>

definition DefaultServerEndpoint :: string where "DefaultServerEndpoint = ''/var/run/yarn-copilot/yarn-copilot.sock''"
definition DefaultYarnContainerCgroupPath :: string where "DefaultYarnContainerCgroupPath = ''kubepods/besteffort/hadoop-yarn''"
definition DefaultSyncCgroupPeriod :: int64 where "DefaultSyncCgroupPeriod = 10 * 1000000000"
definition DefaultNodeManagerEndpoint :: string where "DefaultNodeManagerEndpoint = ''localhost:8042''"
definition DefaultCgroupRootDir :: string where "DefaultCgroupRootDir = ''/sys/fs/cgroup/''"

lemmas agent_defaults = DefaultServerEndpoint_def DefaultYarnContainerCgroupPath_def DefaultSyncCgroupPeriod_def
  DefaultNodeManagerEndpoint_def DefaultCgroupRootDir_def

record Agent_Configuration =
  ServerEndpoint :: string
  YarnContainerCgroupPath :: string
  conf_SyncMemoryCgroup :: bool
  SyncCgroupPeriod :: int64
  NodeMangerEndpoint :: string
  CgroupRootDir :: string

definition NewConfiguration :: Agent_Configuration where
  "NewConfiguration =
     \<lparr>ServerEndpoint = DefaultServerEndpoint, YarnContainerCgroupPath = DefaultYarnContainerCgroupPath,
      conf_SyncMemoryCgroup = False, SyncCgroupPeriod = DefaultSyncCgroupPeriod,
      NodeMangerEndpoint = DefaultNodeManagerEndpoint, CgroupRootDir = DefaultCgroupRootDir\<rparr>"

section \<open>The process\<close>

text \<open>The result of parsing: a bad command line ends the process with 2; a good one gives values for
some of the flags.\<close>

record agent_flags =
  server_endpoint :: "string option"
  yarn_container_cgroup_path :: "string option"
  node_manager_endpoint :: "string option"
  sync_memory_cgroup :: "bool option"
  sync_cgroup_period :: "int64 option"
  cgroup_root_dir :: "string option"
  flag_help :: bool

definition flag_value :: "'a option \<Rightarrow> 'a \<Rightarrow> 'a" where
  "flag_value given dflt = (case given of Some v \<Rightarrow> v | None \<Rightarrow> dflt)"

definition agent_conf :: "agent_flags \<Rightarrow> Agent_Configuration" where
  "agent_conf f =
     (let conf = NewConfiguration
      in \<lparr>ServerEndpoint = flag_value (server_endpoint f) (ServerEndpoint conf),
          YarnContainerCgroupPath = flag_value (yarn_container_cgroup_path f) (YarnContainerCgroupPath conf),
          conf_SyncMemoryCgroup = flag_value (sync_memory_cgroup f) (conf_SyncMemoryCgroup conf),
          SyncCgroupPeriod = flag_value (sync_cgroup_period f) (SyncCgroupPeriod conf),
          NodeMangerEndpoint = flag_value (node_manager_endpoint f) (NodeMangerEndpoint conf),
          CgroupRootDir = flag_value (cgroup_root_dir f) (CgroupRootDir conf)\<rparr>)"

datatype agent_end = AgentExit nat | Fatal error | Serving NodeMangerOperator YarnCopilotServer

text \<open>Up to the start of the operator's goroutine and of the server.\<close>

definition agent_main :: "nm_env \<Rightarrow> agent_flags option \<Rightarrow> agent_end" where
  "agent_main E parsed =
     (case parsed of
        None \<Rightarrow> AgentExit 2
      | Some f \<Rightarrow>
          if flag_help f then AgentExit 0
          else let conf = agent_conf f
               in case NewNodeMangerOperator E (CgroupRootDir conf) (YarnContainerCgroupPath conf) (conf_SyncMemoryCgroup conf)
                         (NodeMangerEndpoint conf) of
                    Ok operator \<Rightarrow> Serving operator (NewYarnCopilotServer operator (ServerEndpoint conf))
                  | Err err \<Rightarrow> Fatal err
                  | Panic p \<Rightarrow> Fatal (ErrorNew ''panic''))"

datatype 'q agent_event =
    LoopTurn nm_env nm_event
  | Request "'q srv_env" "'q http_req"
  | Outside fs "http_reply list"

fun agent_step :: "'q agent_event \<Rightarrow> nm_state \<Rightarrow> nm_state option" where
  "agent_step (LoopTurn E ev) s = nm_step E ev s"
| "agent_step (Request S rq) s = Some (s\<lparr>nm_world := snd (serve S (nm_op s) rq (nm_world s))\<rparr>)"
| "agent_step (Outside F replies) s = Some (s\<lparr>nm_world := (nm_world s)\<lparr>w_fs := F, w_http := replies\<rparr>\<rparr>)"

definition agent_run :: "'q agent_event list \<Rightarrow> nm_state \<Rightarrow> nm_state option" where
  "agent_run = run_steps agent_step"

fun is_kill_event :: "'q agent_event \<Rightarrow> bool" where
  "is_kill_event (Request S rq) \<longleftrightarrow> rq_Method rq = POST \<and> rq_Path rq = ''/v1/killContainer''"
| "is_kill_event _ \<longleftrightarrow> False"

fun_cases agent_step_SomeE: "agent_step ev s = Some s'"

section \<open>The loop sends no signals\<close>

lemma kills_writes: "keeps w_kills (write_file E p d)" "keeps w_kills (write_if_different E p d)" "keeps w_kills (on_fs f)"
  by (auto simp: keeps_def write_file_def write_if_different_def on_fs_def split: prod.splits)

lemma kills_move_pids: "keeps w_kills (move_pids E procs pids)"
proof (induction pids)
  case Nil
  show ?case unfolding move_pids.simps by (rule keeps_sret)
next
  case (Cons pid pids)
  show ?case unfolding move_pids.simps by (rule keeps_sbind [OF kills_writes(1) Cons.IH])
qed

lemma kills_http_Get: "keeps w_kills (http_Get n p)"
  by (auto simp: keeps_def http_Get_def Let_def split: list.splits)

lemma kills_ListContainers: "keeps w_kills (ListContainers n)"
  unfolding ListContainers_def by (auto intro!: keeps_sbind kills_http_Get keeps_slift)

lemma kills_GetContainer: "keeps w_kills (GetContainer n i)"
  unfolding GetContainer_def by (auto intro!: keeps_sbind kills_ListContainers keeps_slift)

lemma kills_pids: "keeps w_kills (\<lambda>w. (of_sum (GetPids E (w_fs w) p), w))"
  by (simp add: keeps_def)

lemma kills_createMemoryCgroup: "keeps w_kills (createMemoryCgroup E n f)"
  unfolding createMemoryCgroup_def Let_def
  by (auto intro!: keeps_sret keeps_sbind kills_writes kills_move_pids kills_GetContainer kills_pids)

lemma kills_removeMemoryCgroup: "w_kills (snd (removeMemoryCgroup E n f w)) = w_kills w"
  using kills_writes(3) by (auto simp: removeMemoryCgroup_def Let_def keeps_def)

lemma kills_syncParentCgroup: "keeps w_kills (syncParentCgroup E n)"
  unfolding syncParentCgroup_def by (auto intro!: keeps_sbind kills_ListContainers keeps_sret kills_writes simp: Let_def)

lemma kills_syncNoneProcCgroup: "syncNoneProcCgroup E n w = Some w' \<Longrightarrow> w_kills w' = w_kills w"
proof -
  have "\<forall>p i e w. w_kills (snd (none_proc_fn E c p i e w)) = w_kills w" for c
    using kills_writes(3) by (auto simp: none_proc_fn_def keeps_def split: option.splits sum.splits)
  then show "syncNoneProcCgroup E n w = Some w' \<Longrightarrow> w_kills w' = w_kills w"
    using Walk_keeps [where h = w_kills] by (fastforce simp: syncNoneProcCgroup_def Let_def)
qed

lemma kills_fold:
  assumes "\<And>x w. w_kills (f x w) = w_kills w"
  shows "w_kills (fold f xs w) = w_kills w"
  using assms by (induction xs arbitrary: w) auto

lemma kills_syncAllCgroup: "syncAllCgroup E n w = Some w' \<Longrightarrow> w_kills w' = w_kills w"
  using kills_createMemoryCgroup kills_removeMemoryCgroup
  by (auto simp: syncAllCgroup_def Let_def keeps_def kills_fold split: option.splits prod.splits)

lemma kills_nm_step: "nm_step E ev s = Some s' \<Longrightarrow> w_kills (nm_world s') = w_kills (nm_world s)"
  using kills_createMemoryCgroup kills_removeMemoryCgroup kills_syncParentCgroup
  by (auto simp: nm_step_def nm_tick_def keeps_def split: if_splits nm_event.splits pleg_type.splits option.splits
      dest!: kills_syncNoneProcCgroup kills_syncAllCgroup)

lemma kills_serve:
  "w_kills (snd (serve S n rq w)) = w_kills w \<or>
   (rq_Method rq = POST \<and> rq_Path rq = ''/v1/killContainer'' \<and> (\<exists>k. w_kills (snd (serve S n rq w)) = w_kills w @ [k] \<and> sint k < - 1))"
proof (cases "\<exists>kr. is_kill rq kr")
  case True
  then obtain kr where k: "is_kill rq kr" by blast
  then have "rq_Body rq = Inr kr" by (simp add: is_kill_def)
  from srv_KillContainer_cases [OF this, of S n w] show ?thesis
    using k unfolding serve_kill [OF k] by (auto simp: is_kill_def)
next
  case False
  from serve_other [OF this, of S n w] show ?thesis by auto
qed

interpretation agent_signals: logging_machine agent_step "\<lambda>s. w_kills (nm_world s)" is_kill_event "\<lambda>k. sint k < - 1"
proof
  fix ev :: "'q agent_event" and s s'
  assume "agent_step ev s = Some s'"
  then show "\<exists>ks. w_kills (nm_world s') = w_kills (nm_world s) @ ks \<and> length ks \<le> (if is_kill_event ev then 1 else 0) \<and>
      (\<forall>k \<in> set ks. sint k < - 1)"
  proof (elim agent_step_SomeE)
    fix E e assume "Some s' = nm_step E e s"
    then have "w_kills (nm_world s') = w_kills (nm_world s)" using kills_nm_step [of E e s s'] by simp
    then show ?thesis by (intro exI [of _ "[]"]) simp
  next
    fix S :: "'q srv_env" and rq
    assume "s' = s\<lparr>nm_world := snd (serve S (nm_op s) rq (nm_world s))\<rparr>" and "ev = Request S rq"
    then show ?thesis using kills_serve [of S "nm_op s" rq "nm_world s"]
      by (elim disjE conjE exE) (auto intro: exI [of _ "[]"])
  next
    fix F replies assume "s' = s\<lparr>nm_world := (nm_world s)\<lparr>w_fs := F, w_http := replies\<rparr>\<rparr>"
    then show ?thesis by (intro exI [of _ "[]"]) auto
  qed
qed

lemma agent_step_cgroups:
  assumes "agent_step ev s = Some s'"
  shows "(CgroupRoot (nm_op s'), CgroupPath (nm_op s')) = (CgroupRoot (nm_op s), CgroupPath (nm_op s))"
proof -
  have "CgroupRoot (syncNMEndpoint E n) = CgroupRoot n" "CgroupPath (syncNMEndpoint E n) = CgroupPath n" for E n
    by (simp_all add: syncNMEndpoint_def Let_def split: outcome.splits prod.splits)
  then show ?thesis using assms by (elim agent_step_SomeE) (auto dest!: sym [of "Some s'"] nm_step_op)
qed

text \<open>C4. Over any run of the agent, with the operator's loop, requests of any clients and other
processes interleaved in any way: the agent sends at most one signal per kill request, none for
anything else it does, and never one to process group 1 or below, that is to every process, to its
own group or to init. It keeps working on the cgroups it was started with.\<close>

theorem agent_run_signals:
  assumes "agent_run evs s = Some s'"
  shows "(\<exists>ks. w_kills (nm_world s') = w_kills (nm_world s) @ ks \<and> length ks \<le> length (filter is_kill_event evs) \<and>
            (\<forall>k \<in> set ks. sint k < - 1)) \<and>
         CgroupRoot (nm_op s') = CgroupRoot (nm_op s) \<and> CgroupPath (nm_op s') = CgroupPath (nm_op s)"
  using agent_signals.run_history [of evs s s'] run_steps_keeps [where step = agent_step and es = evs and s = s and s' = s', OF agent_step_cgroups] assms
  by (simp add: agent_run_def)

text \<open>The default configuration satisfies the layout that the theorems on cgroups assume, given the
koordlet's names.\<close>

lemma default_layout:
  assumes "agent_main E (Some \<lparr>server_endpoint = None, yarn_container_cgroup_path = None, node_manager_endpoint = None,
      sync_memory_cgroup = sync, sync_cgroup_period = None, cgroup_root_dir = None, flag_help = False\<rparr>) = Serving n y"
    and "segs (CgroupCPUDir E) = [''cpu'']" and "segs (CgroupMemDir E) = [''memory'']"
    and "good_seg (CPUProcsName E)" and "good_seg (CPUSharesName E)" and "good_seg (MemoryLimitName E)" and "good_seg (MemoryOomGroupName E)"
  shows "cgroup_layout E n \<and> unixPath y = ''/var/run/yarn-copilot/yarn-copilot.sock''"
proof -
  have "CgroupRoot n = ''/sys/fs/cgroup/''" "CgroupPath n = ''kubepods/besteffort/hadoop-yarn''"
    "unixPath y = ''/var/run/yarn-copilot/yarn-copilot.sock''"
    using assms(1)
    by (auto simp: agent_main_def agent_conf_def NewConfiguration_def flag_value_def agent_defaults Let_def NewYarnCopilotServer_def
        NewNodeMangerOperator_def obind_eq_Ok_iff split: outcome.splits)
  then show ?thesis using assms(2-) by (simp add: cgroup_layout_def is_rooted_def HasPrefix_def no_dotdot_def)
qed

theorem agent_run_signals_witness:
  "\<exists>s'. agent_run [LoopTurn sample_nm_env NmTicker, Request sample_srv (kill_request ''container_1'')]
          \<lparr>nm_op = sample_op, nm_world = sample_world, nm_returned = False\<rparr> = Some s' \<and>
     length (w_kills (nm_world s')) \<le> 1 \<and> CgroupRoot (nm_op s') = ''/sys/fs/cgroup/''"
proof -
  let ?evs = "[LoopTurn sample_nm_env NmTicker, Request sample_srv (kill_request ''container_1'')]"
  let ?s = "\<lparr>nm_op = sample_op, nm_world = sample_world, nm_returned = False\<rparr>"
  obtain s' where r: "agent_run ?evs ?s = Some s'" by (simp add: agent_run_def nm_step_def)
  moreover have "length (filter is_kill_event ?evs) = 1" by (simp add: kill_request_def)
  moreover have "w_kills sample_world = []" "CgroupRoot sample_op = ''/sys/fs/cgroup/''" by (simp_all add: sample_world_def sample_op_def)
  ultimately show ?thesis using agent_run_signals [OF r] by auto
qed

end
