(* ===== verification/Runtime_Plugins.thy ===== *)
theory Runtime_Plugins
  imports Agent_Server "HOL-Library.AList"
begin

text \<open>
  \<open>pkg/copilot-agent/runtime\<close>: the client side of the agent's socket. A plugin is an HTTP client
  bound to a unix socket; the manager walks the socket directory once a minute and keeps, for each
  name a plugin reports, the plugin that reported it. The resty client is a parameter: for each type
  of result it gives the value left in the target of \<open>SetResult\<close>, and it works on a world of any
  type. \<open>resty_to\<close> states its documented behaviour in front of the server of \<open>Agent_Server\<close>; the
  theorems compose the two sides.
\<close>

section \<open>Data\<close>

text \<open>The package declares its own copy of the server's types, without the priority; \<open>PluginInfo\<close> and
\<open>KillRequest\<close> have the same fields on both sides.\<close>

record 'q rt_ContainerInfo =
  rt_Name :: string
  rt_Namespace :: string
  rt_UID :: string
  rt_Labels :: "(string \<Rightarrow> string option) option"
  rt_Annotations :: "(string \<Rightarrow> string option) option"
  rt_CreateTimestamp :: go_time
  rt_CgroupDir :: string
  rt_HostNetwork :: bool
  rt_Resources :: "'q ResourceRequirements"

record 'q rt_KillInfo =
  rt_Items :: "'q rt_ContainerInfo list"

record ('q, 'w) resty =
  R_status :: "string \<Rightarrow> 'q http_req \<Rightarrow> 'w \<Rightarrow> (error + resp_status) \<times> 'w"
  R_info :: "string \<Rightarrow> 'q http_req \<Rightarrow> 'w \<Rightarrow> (error + PluginInfo option) \<times> 'w"
  R_list :: "string \<Rightarrow> 'q http_req \<Rightarrow> 'w \<Rightarrow> (error + 'q rt_ContainerInfo list) \<times> 'w"
  R_container :: "string \<Rightarrow> 'q http_req \<Rightarrow> 'w \<Rightarrow> (error + 'q rt_ContainerInfo option) \<times> 'w"
  R_kill :: "string \<Rightarrow> 'q http_req \<Rightarrow> 'w \<Rightarrow> (error + 'q rt_KillInfo option) \<times> 'w"

record httpPlugin =
  hp_socket :: string

definition newHttpPlugin :: "string \<Rightarrow> httpPlugin" where
  "newHttpPlugin socket = \<lparr>hp_socket = socket\<rparr>"

section \<open>Calls of a plugin\<close>

definition get_req :: "string \<Rightarrow> 'q http_req" where
  "get_req path = \<lparr>rq_Method = GET, rq_Path = path, rq_Query = (\<lambda>_. []), rq_Body = Inl EOF\<rparr>"

definition post_req :: "string \<Rightarrow> 'q KillRequest \<Rightarrow> 'q http_req" where
  "post_req path kr = \<lparr>rq_Method = POST, rq_Path = path, rq_Query = (\<lambda>_. []), rq_Body = Inr kr\<rparr>"

definition call_result :: "(error + 'a) \<times> 'w \<Rightarrow> 'a outcome \<times> 'w" where
  "call_result r = (case r of (Inl err, w) \<Rightarrow> (Err err, w) | (Inr res, w) \<Rightarrow> (Ok res, w))"

definition IsAlive :: "('q, 'w) resty \<Rightarrow> httpPlugin \<Rightarrow> 'w \<Rightarrow> bool \<times> 'w" where
  "IsAlive R h w =
     (case R_status R (hp_socket h) (get_req ''/health'') w of
        (Inl err, w1) \<Rightarrow> (False, w1)
      | (Inr resp, w1) \<Rightarrow> if IsError resp then (False, w1) else (IsSuccess resp, w1))"

definition Info :: "('q, 'w) resty \<Rightarrow> httpPlugin \<Rightarrow> 'w \<Rightarrow> PluginInfo option outcome \<times> 'w" where
  "Info R h w = call_result (R_info R (hp_socket h) (get_req ''/information'') w)"

definition ListContainer :: "('q, 'w) resty \<Rightarrow> httpPlugin \<Rightarrow> 'w \<Rightarrow> 'q rt_ContainerInfo list outcome \<times> 'w" where
  "ListContainer R h w = call_result (R_list R (hp_socket h) (get_req ''/v1/containers'') w)"

definition hp_GetContainer :: "('q, 'w) resty \<Rightarrow> httpPlugin \<Rightarrow> string \<Rightarrow> 'w \<Rightarrow> 'q rt_ContainerInfo option outcome \<times> 'w" where
  "hp_GetContainer R h ContainerID w =
     call_result (R_container R (hp_socket h)
       ((get_req ''/v1/container'')\<lparr>rq_Query := (\<lambda>k. if k = ''containerID'' then ContainerID else [])\<rparr>) w)"

definition hp_KillContainer :: "('q, 'w) resty \<Rightarrow> httpPlugin \<Rightarrow> 'q KillRequest \<Rightarrow> 'w \<Rightarrow> 'q rt_KillInfo option outcome \<times> 'w" where
  "hp_KillContainer R h killReq w = call_result (R_kill R (hp_socket h) (post_req ''/v1/killContainer'' killReq) w)"

definition KillContainersByResource :: "('q, 'w) resty \<Rightarrow> httpPlugin \<Rightarrow> 'q KillRequest \<Rightarrow> 'w \<Rightarrow> 'q rt_KillInfo option outcome \<times> 'w" where
  "KillContainersByResource R h killReq w =
     call_result (R_kill R (hp_socket h) (post_req ''/v1/killContainersByResource'' killReq) w)"

section \<open>The manager\<close>

text \<open>The Go map of plugins is an association list; \<open>order\<close> is the order of an iteration over it.\<close>

record Manger =
  SocketDir :: string
  Plugins :: "(string \<times> httpPlugin) list"

text \<open>The second component is the package's \<open>defaultManger\<close>, which points to the same manager.\<close>

definition NewManger :: "string \<Rightarrow> Manger \<times> Manger option" where
  "NewManger socketDir = (let m = \<lparr>SocketDir = socketDir, Plugins = []\<rparr> in (m, Some m))"

text \<open>The callback of \<open>run\<close>: it uses its \<open>info\<close> argument without looking at \<open>err\<close>.\<close>

definition run_fn :: "('q, 'w) resty \<Rightarrow> (Manger \<times> 'w) walk_fn" where
  "run_fn R path info err s =
     (case info of
        None \<Rightarrow> (WPanic NilDeref, s)
      | Some i \<Rightarrow>
          if i \<noteq> SocketN then (WNil, s)
          else let p = newHttpPlugin path
               in case Info R p (snd s) of
                    (Err err1, w1) \<Rightarrow> (WErr err1, (fst s, w1))
                  | (Panic x, w1) \<Rightarrow> (WPanic x, (fst s, w1))
                  | (Ok None, w1) \<Rightarrow> (WPanic NilDeref, (fst s, w1))
                  | (Ok (Some pluginInfo), w1) \<Rightarrow>
                      (WNil, ((fst s)\<lparr>Plugins := AList.update (pi_Name pluginInfo) p (Plugins (fst s))\<rparr>, w1)))"

definition walk_outcome :: "walk_res \<Rightarrow> unit outcome" where
  "walk_outcome r = (case r of WErr e \<Rightarrow> Err e | WPanic p \<Rightarrow> Panic p | _ \<Rightarrow> Ok ())"

definition mgr_run :: "os_env \<Rightarrow> ('w \<Rightarrow> fs) \<Rightarrow> ('q, 'w) resty \<Rightarrow> Manger \<times> 'w \<Rightarrow> (unit outcome \<times> Manger \<times> 'w) option" where
  "mgr_run K g R s =
     map_option (\<lambda>(r, s'). (walk_outcome r, s')) (Walk K (\<lambda>s. g (snd s)) (run_fn R) (SocketDir (fst s)) s)"

text \<open>
  The loop of \<open>Run\<close>. An error is logged; the \<open>break\<close> of the stop case leaves the \<open>select\<close> and not
  the loop; a panic is logged by \<open>HandleCrash\<close> and raised again.
\<close>

datatype mgr_event = TickC | StopC

datatype 'w mgr_state = Looping "Manger \<times> 'w" | Panicked panic "Manger \<times> 'w"

definition mgr_turn :: "os_env \<Rightarrow> ('w \<Rightarrow> fs) \<Rightarrow> ('q, 'w) resty \<Rightarrow> mgr_event \<Rightarrow> 'w mgr_state \<Rightarrow> 'w mgr_state option" where
  "mgr_turn K g R ev st =
     (case st of
        Panicked p s \<Rightarrow> Some (Panicked p s)
      | Looping s \<Rightarrow>
          (case ev of
             TickC \<Rightarrow>
               map_option (\<lambda>(r, s'). case r of Panic p \<Rightarrow> Panicked p s' | _ \<Rightarrow> Looping s') (mgr_run K g R s)
           | StopC \<Rightarrow> Some (Looping s)))"

definition mgr_Run :: "os_env \<Rightarrow> ('w \<Rightarrow> fs) \<Rightarrow> ('q, 'w) resty \<Rightarrow> mgr_event list \<Rightarrow> 'w mgr_state \<Rightarrow> 'w mgr_state option" where
  "mgr_Run K g R = run_steps (mgr_turn K g R)"

fun alive_loop :: "('q, 'w) resty \<Rightarrow> (string \<times> httpPlugin) list \<Rightarrow> (string \<times> httpPlugin) list \<Rightarrow> 'w \<Rightarrow>
    (string \<times> httpPlugin) list \<times> 'w" where
  "alive_loop R [] res w = (res, w)"
| "alive_loop R ((key, plugin) # ps) res w =
     (case IsAlive R plugin w of (a, w1) \<Rightarrow> alive_loop R ps (if a then AList.update key plugin res else res) w1)"

definition mgr_GetAliveCopilots :: "('q, 'w) resty \<Rightarrow> ((string \<times> httpPlugin) list \<Rightarrow> (string \<times> httpPlugin) list) \<Rightarrow>
    Manger \<Rightarrow> 'w \<Rightarrow> (string \<times> httpPlugin) list \<times> 'w" where
  "mgr_GetAliveCopilots R order m w = alive_loop R (order (Plugins m)) [] w"

definition mgr_GetCopilot :: "Manger \<Rightarrow> string \<Rightarrow> httpPlugin option" where
  "mgr_GetCopilot m name = map_of (Plugins m) name"

definition GetAliveCopilots :: "('q, 'w) resty \<Rightarrow> ((string \<times> httpPlugin) list \<Rightarrow> (string \<times> httpPlugin) list) \<Rightarrow>
    Manger option \<Rightarrow> 'w \<Rightarrow> (string \<times> httpPlugin) list \<times> 'w" where
  "GetAliveCopilots R order defaultManger w =
     (case defaultManger of None \<Rightarrow> ([], w) | Some m \<Rightarrow> mgr_GetAliveCopilots R order m w)"

definition GetCopilot :: "Manger option \<Rightarrow> string \<Rightarrow> httpPlugin option" where
  "GetCopilot defaultManger name = (case defaultManger of None \<Rightarrow> None | Some m \<Rightarrow> mgr_GetCopilot m name)"

section \<open>A plugin in front of the agent's server\<close>

definition rt_of :: "'q ContainerInfo \<Rightarrow> 'q rt_ContainerInfo" where
  "rt_of c = \<lparr>rt_Name = ci_Name c, rt_Namespace = ci_Namespace c, rt_UID = ci_UID c, rt_Labels = ci_Labels c,
     rt_Annotations = ci_Annotations c, rt_CreateTimestamp = ci_CreateTimestamp c, rt_CgroupDir = ci_CgroupDir c,
     rt_HostNetwork = ci_HostNetwork c, rt_Resources = ci_Resources c\<rparr>"

definition is_2xx :: "nat \<Rightarrow> bool" where
  "is_2xx code \<longleftrightarrow> 200 \<le> code \<and> code \<le> 299"

text \<open>
  The documented behaviour of resty over a socket on which the agent serves: a response is not an
  error whatever its status; the target of \<open>SetResult\<close> is filled from the JSON body of a 2xx
  response and left nil by any other response and by an empty one.
\<close>

definition resty_to :: "('q, nm_world) resty \<Rightarrow> string \<Rightarrow> 'q srv_env \<Rightarrow> NodeMangerOperator \<Rightarrow> bool" where
  "resty_to R sock S n \<longleftrightarrow>
     (\<forall>rq w code b w'. serve S n rq w = (Ok (code, b), w') \<longrightarrow>
        (\<exists>st. R_status R sock rq w = (Inr st, w') \<and> (IsSuccess st \<longleftrightarrow> is_2xx code) \<and> (IsError st \<longleftrightarrow> 400 \<le> code)) \<and>
        (\<not> is_2xx code \<longrightarrow>
           R_info R sock rq w = (Inr None, w') \<and> R_list R sock rq w = (Inr [], w') \<and>
           R_container R sock rq w = (Inr None, w') \<and> R_kill R sock rq w = (Inr None, w')) \<and>
        (is_2xx code \<longrightarrow>
           (\<forall>v. b = InfoBody v \<longrightarrow> R_info R sock rq w = (Inr (Some v), w')) \<and>
           (\<forall>cs. b = ContainersBody cs \<longrightarrow> R_list R sock rq w = (Inr (map rt_of cs), w')) \<and>
           (\<forall>c. b = ContainerBody c \<longrightarrow> R_container R sock rq w = (Inr (Some (rt_of c)), w')) \<and>
           (\<forall>k. b = KillBody k \<longrightarrow> R_kill R sock rq w = (Inr (Some \<lparr>rt_Items = map rt_of (ki_Items k)\<rparr>), w')) \<and>
           (b = NoBody \<longrightarrow> R_kill R sock rq w = (Inr None, w'))))"

lemma is_2xx_simps [simp]: "is_2xx 200" "\<not> is_2xx 400" "\<not> is_2xx 404"
  by (simp_all add: is_2xx_def)

lemma resty_to_ok:
  assumes "resty_to R sock S n" and "serve S n rq w = (Ok (200, b), w')"
  shows "\<exists>st. R_status R sock rq w = (Inr st, w') \<and> IsSuccess st \<and> \<not> IsError st"
    and "b = InfoBody v \<Longrightarrow> R_info R sock rq w = (Inr (Some v), w')"
    and "b = ContainersBody cs \<Longrightarrow> R_list R sock rq w = (Inr (map rt_of cs), w')"
    and "b = ContainerBody c \<Longrightarrow> R_container R sock rq w = (Inr (Some (rt_of c)), w')"
    and "b = KillBody k \<Longrightarrow> R_kill R sock rq w = (Inr (Some \<lparr>rt_Items = map rt_of (ki_Items k)\<rparr>), w')"
    and "b = NoBody \<Longrightarrow> R_kill R sock rq w = (Inr None, w')"
  using assms unfolding resty_to_def by fastforce+

lemma resty_to_bad:
  assumes "resty_to R sock S n" and "serve S n rq w = (Ok (400, b), w')"
  shows "R_list R sock rq w = (Inr [], w')" "R_container R sock rq w = (Inr None, w')" "R_kill R sock rq w = (Inr None, w')"
  using assms unfolding resty_to_def by fastforce+

text \<open>What the node manager would answer now: its containers that have not ended, or nothing.\<close>

definition running_now :: "nm_world \<Rightarrow> YarnContainer list" where
  "running_now w =
     (case w_http w of
        Inr (st, cs) # _ \<Rightarrow> if IsSuccess st then filter (\<lambda>c. \<not> IsFinalState c) (Items cs) else []
      | _ \<Rightarrow> [])"

lemma serve_list: "serve S n (get_req ''/v1/containers'') w = srv_ListContainers S n w"
  by (simp add: serve_def get_req_def)

lemma ListContainer_over_server:
  assumes "resty_to R sock S n"
  shows "\<exists>w'. ListContainer R (newHttpPlugin sock) w = (Ok (map (\<lambda>c. rt_of (ParseContainerInfo S c n)) (running_now w)), w') \<and>
           w_fs w' = w_fs w \<and> w_kills w' = w_kills w \<and> w_writes w' = w_writes w"
  using ListContainers_cases [of w n]
proof (elim disjE exE conjE)
  fix code cs rest
  let ?w1 = "w\<lparr>w_gets := w_gets w @ [BaseURL n @ ''/ws/v1/node/containers''], w_http := rest\<rparr>"
  assume h: "w_http w = Inr (code, cs) # rest" "IsSuccess code" and l: "ListContainers n w = (Ok cs, ?w1)"
  have "serve S n (get_req ''/v1/containers'') w = (Ok (200, ContainersBody (list_loop S n (Items cs) [])), ?w1)"
    by (simp add: serve_list srv_ListContainers_def l)
  from resty_to_ok(3) [OF assms this refl] show ?thesis
    using h by (simp add: ListContainer_def newHttpPlugin_def call_result_def running_now_def list_loop_filter)
next
  fix e
  let ?w1 = "w\<lparr>w_gets := w_gets w @ [BaseURL n @ ''/ws/v1/node/containers''], w_http := tl (w_http w)\<rparr>"
  assume no: "\<nexists>code cs rest. w_http w = Inr (code, cs) # rest \<and> IsSuccess code" and l: "ListContainers n w = (Err e, ?w1)"
  have "serve S n (get_req ''/v1/containers'') w = (Ok (400, ErrorBody e), ?w1)"
    by (simp add: serve_list srv_ListContainers_def l)
  moreover have "running_now w = []" using no by (auto simp: running_now_def split: list.splits sum.splits)
  ultimately show ?thesis
    using resty_to_bad(1) [OF assms] by (simp add: ListContainer_def newHttpPlugin_def call_result_def)
qed

text \<open>C8. The plugin over the agent's socket implements the list of running containers: it returns
exactly the containers of the node manager's answer that are not in a final state, in order, as
the server describes them, and nothing else of the machine changes. When the node manager cannot
be asked it returns the empty list and no error, as if the node were idle.\<close>

theorem plugin_lists_running:
  assumes "resty_to R sock S n"
  shows "\<exists>w'. ListContainer R (newHttpPlugin sock) w = (Ok (map (\<lambda>c. rt_of (ParseContainerInfo S c n)) (running_now w)), w') \<and>
           w_fs w' = w_fs w \<and> w_kills w' = w_kills w \<and> w_writes w' = w_writes w"
  using ListContainer_over_server [OF assms] .


text \<open>The agent's server is alive, says it is \<open>yarn\<close>, and neither question changes anything.\<close>

lemma agent_alive: "resty_to R sock S n \<Longrightarrow> IsAlive R (newHttpPlugin sock) w = (True, w)"
proof -
  assume R: "resty_to R sock S n"
  have "serve S n (get_req ''/health'') w = (Ok (200, StringBody ''ok''), w)" by (simp add: serve_def get_req_def Health_def)
  from resty_to_ok(1) [OF R this] show ?thesis by (auto simp: IsAlive_def newHttpPlugin_def)
qed

lemma agent_info:
  "resty_to R sock S n \<Longrightarrow> Info R (newHttpPlugin sock) w = (Ok (Some \<lparr>pi_Name = ''yarn'', pi_Version = ''v1''\<rparr>), w)"
proof -
  assume R: "resty_to R sock S n"
  have "serve S n (get_req ''/information'') w = (Ok (200, InfoBody \<lparr>pi_Name = ''yarn'', pi_Version = ''v1''\<rparr>), w)"
    by (simp add: serve_def get_req_def Information_def)
  from resty_to_ok(2) [OF R this refl] show ?thesis by (simp add: Info_def newHttpPlugin_def call_result_def)
qed

section \<open>Discovery\<close>

text \<open>
  The socket directory can be read and has no subdirectories, and every socket in it belongs to a
  plugin that answers \<open>v\<close> for its name without touching the file system.
\<close>

definition answering :: "os_env \<Rightarrow> ('w \<Rightarrow> fs) \<Rightarrow> ('q, 'w) resty \<Rightarrow> string \<Rightarrow> fs \<Rightarrow> (string \<Rightarrow> PluginInfo) \<Rightarrow> bool" where
  "answering K g R dir F v \<longleftrightarrow>
     (\<exists>m. os_Stat K F dir = Inr (DirN m)) \<and> os_fail K Op_ReadDir dir = None \<and>
     (\<forall>name \<in> set (child_names F (resolve K dir)).
        \<exists>i. os_Stat K F (path_Join [dir, name]) = Inr i \<and> \<not> is_dir i \<and>
          (i = SocketN \<longrightarrow>
             (\<forall>w. g w = F \<longrightarrow> (\<exists>w'. Info R (newHttpPlugin (path_Join [dir, name])) w = (Ok (Some (v name)), w') \<and> g w' = F))))"

definition sockets_in :: "os_env \<Rightarrow> fs \<Rightarrow> string \<Rightarrow> string list" where
  "sockets_in K F dir = filter (\<lambda>name. os_Stat K F (path_Join [dir, name]) = Inr SocketN) (child_names F (resolve K dir))"

abbreviation registered :: "string \<Rightarrow> (string \<Rightarrow> PluginInfo) \<Rightarrow> string list \<Rightarrow> (string \<times> httpPlugin) list \<Rightarrow> (string \<times> httpPlugin) list" where
  "registered dir v names ps \<equiv>
     fold (\<lambda>name. AList.update (pi_Name (v name)) (newHttpPlugin (path_Join [dir, name]))) names ps"

lemma visit_plugins:
  assumes "\<forall>name \<in> set names. \<exists>i. os_Stat K F (path_Join [dir, name]) = Inr i \<and> \<not> is_dir i \<and>
      (i = SocketN \<longrightarrow>
         (\<forall>w. g w = F \<longrightarrow> (\<exists>w'. Info R (newHttpPlugin (path_Join [dir, name])) w = (Ok (Some (v name)), w') \<and> g w' = F)))"
    and "g w = F"
  shows "\<exists>w'. visit K (\<lambda>s. g (snd s)) (run_fn R) dir names (m, w) =
           (WNil, (m\<lparr>Plugins := registered dir v (filter (\<lambda>name. os_Stat K F (path_Join [dir, name]) = Inr SocketN) names) (Plugins m)\<rparr>, w')) \<and>
           g w' = F"
  using assms
proof (induction names arbitrary: m w)
  case (Cons name names)
  let ?f = "path_Join [dir, name]"
  obtain i where i: "os_Stat K F ?f = Inr i" "\<not> is_dir i"
    and a: "i = SocketN \<longrightarrow> (\<forall>w. g w = F \<longrightarrow> (\<exists>w'. Info R (newHttpPlugin ?f) w = (Ok (Some (v name)), w') \<and> g w' = F))"
    using Cons.prems(1) unfolding list.set by blast
  have rest: "\<forall>name \<in> set names. \<exists>i. os_Stat K F (path_Join [dir, name]) = Inr i \<and> \<not> is_dir i \<and>
      (i = SocketN \<longrightarrow>
         (\<forall>w. g w = F \<longrightarrow> (\<exists>w'. Info R (newHttpPlugin (path_Join [dir, name])) w = (Ok (Some (v name)), w') \<and> g w' = F)))"
    by (rule ballI, rule bspec [OF Cons.prems(1)], erule list.set_intros(2))
  show ?case
  proof (cases "i = SocketN")
    case True
    then obtain w1 where n: "Info R (newHttpPlugin ?f) w = (Ok (Some (v name)), w1)" and w1: "g w1 = F"
      using a Cons.prems(2) by blast
    show ?thesis
      using Cons.IH [OF rest w1, of "m\<lparr>Plugins := AList.update (pi_Name (v name)) (newHttpPlugin ?f) (Plugins m)\<rparr>"] i True n Cons.prems(2)
      by (simp add: run_fn_def)
  next
    case False
    show ?thesis using Cons.IH [OF rest Cons.prems(2), of m] i False Cons.prems(2) by (simp add: run_fn_def)
  qed
qed simp

lemma registered_lookup:
  "name \<in> set names \<Longrightarrow>
     \<exists>name' \<in> set names. pi_Name (v name') = pi_Name (v name) \<and>
       map_of (registered dir v names ps) (pi_Name (v name)) = Some (newHttpPlugin (path_Join [dir, name']))"
proof (induction names rule: rev_induct)
  case (snoc x names)
  show ?case
  proof (cases "pi_Name (v x) = pi_Name (v name)")
    case True
    then show ?thesis by (auto simp: update_conv intro!: bexI [of _ x])
  next
    case False
    then have "name \<in> set names" using snoc.prems by auto
    then show ?thesis using snoc.IH False by (auto simp: update_conv)
  qed
qed simp

lemma registered_other:
  "k \<notin> (\<lambda>name. pi_Name (v name)) ` set names \<Longrightarrow> map_of (registered dir v names ps) k = map_of ps k"
  by (induction names arbitrary: ps) (auto simp: update_conv)

lemma mgr_run_answering:
  assumes "answering K g R (SocketDir m) (g w) v"
  shows "\<exists>w'. mgr_run K g R (m, w) =
      Some (Ok (), m\<lparr>Plugins := registered (SocketDir m) v (sockets_in K (g w) (SocketDir m)) (Plugins m)\<rparr>, w') \<and> g w' = g w"
proof -
  let ?dir = "SocketDir m" and ?F = "g w" and ?G = "\<lambda>s :: Manger \<times> _. g (snd s)"
  obtain p where d: "os_Stat K ?F ?dir = Inr (DirN p)" and rd: "os_fail K Op_ReadDir ?dir = None"
    and ns: "\<forall>name \<in> set (child_names ?F (resolve K ?dir)). \<exists>i. os_Stat K ?F (path_Join [?dir, name]) = Inr i \<and> \<not> is_dir i \<and>
      (i = SocketN \<longrightarrow>
         (\<forall>w. g w = ?F \<longrightarrow> (\<exists>w'. Info R (newHttpPlugin (path_Join [?dir, name])) w = (Ok (Some (v name)), w') \<and> g w' = ?F)))"
    using assms unfolding answering_def by blast
  have keep: "\<forall>name \<in> set (child_names ?F (resolve K ?dir)). \<exists>i. os_Stat K ?F (path_Join [?dir, name]) = Inr i \<and> \<not> is_dir i \<and>
      (\<forall>s. ?G s = ?F \<longrightarrow> ?G (snd (run_fn R (path_Join [?dir, name]) (Some i) None s)) = ?F)"
  proof
    fix name assume "name \<in> set (child_names ?F (resolve K ?dir))"
    then obtain i where i: "os_Stat K ?F (path_Join [?dir, name]) = Inr i" "\<not> is_dir i"
      and a: "i = SocketN \<longrightarrow> (\<forall>w. g w = ?F \<longrightarrow> (\<exists>w'. Info R (newHttpPlugin (path_Join [?dir, name])) w = (Ok (Some (v name)), w') \<and> g w' = ?F))"
      using ns by blast
    have "?G (snd (run_fn R (path_Join [?dir, name]) (Some i) None s)) = ?F" if gs: "?G s = ?F" for s
    proof (cases "i = SocketN")
      case True
      then obtain w' where "Info R (newHttpPlugin (path_Join [?dir, name])) (snd s) = (Ok (Some (v name)), w')" "g w' = ?F"
        using a gs by blast
      then show ?thesis using True by (simp add: run_fn_def)
    next
      case False
      then show ?thesis using gs by (simp add: run_fn_def)
    qed
    then show "\<exists>i. os_Stat K ?F (path_Join [?dir, name]) = Inr i \<and> \<not> is_dir i \<and>
        (\<forall>s. ?G s = ?F \<longrightarrow> ?G (snd (run_fn R (path_Join [?dir, name]) (Some i) None s)) = ?F)"
      using i by blast
  qed
  have root: "run_fn R ?dir (Some (DirN p)) None (m, w) = (WNil, (m, w))" by (simp add: run_fn_def)
  obtain w' where vs: "visit K ?G (run_fn R) ?dir (child_names ?F (resolve K ?dir)) (m, w) =
      (WNil, (m\<lparr>Plugins := registered ?dir v (sockets_in K ?F ?dir) (Plugins m)\<rparr>, w'))" and w': "g w' = ?F"
    using visit_plugins [OF ns refl, of m] unfolding sockets_in_def by blast
  have "Walk K ?G (run_fn R) ?dir (m, w) =
      (case visit K ?G (run_fn R) ?dir (child_names ?F (resolve K ?dir)) (m, w) of (r, s') \<Rightarrow> Some (if r = WSkipDir then WNil else r, s'))"
    by (rule Walk_flat [where info = "DirN p"]) (rule d rd root keep | simp)+
  then have "Walk K ?G (run_fn R) ?dir (m, w) =
      Some (WNil, (m\<lparr>Plugins := registered ?dir v (sockets_in K ?F ?dir) (Plugins m)\<rparr>, w'))"
    by (simp add: vs)
  then show ?thesis using w' by (simp add: mgr_run_def walk_outcome_def)
qed

text \<open>C17. Within one tick the manager finds every plugin: if the socket directory can be read, holds
no subdirectory, and every socket in it answers, then the tick succeeds and each name that was
reported is registered, with a socket that reported it; when no two sockets report the same
name, with that very socket. Names nobody reported keep the plugin they had.\<close>

theorem tick_registers_all:
  assumes "answering K g R (SocketDir m) (g w) v"
  shows "\<exists>m' w'. mgr_run K g R (m, w) = Some (Ok (), m', w') \<and> SocketDir m' = SocketDir m \<and>
           (\<forall>name \<in> set (sockets_in K (g w) (SocketDir m)). \<exists>name' \<in> set (sockets_in K (g w) (SocketDir m)).
              pi_Name (v name') = pi_Name (v name) \<and>
              mgr_GetCopilot m' (pi_Name (v name)) = Some (newHttpPlugin (path_Join [SocketDir m, name']))) \<and>
           (inj_on (\<lambda>name. pi_Name (v name)) (set (sockets_in K (g w) (SocketDir m))) \<longrightarrow>
              (\<forall>name \<in> set (sockets_in K (g w) (SocketDir m)).
                 mgr_GetCopilot m' (pi_Name (v name)) = Some (newHttpPlugin (path_Join [SocketDir m, name])))) \<and>
           (\<forall>k. k \<notin> (\<lambda>name. pi_Name (v name)) ` set (sockets_in K (g w) (SocketDir m)) \<longrightarrow>
              mgr_GetCopilot m' k = mgr_GetCopilot m k)"
proof -
  let ?names = "sockets_in K (g w) (SocketDir m)"
  let ?m = "m\<lparr>Plugins := registered (SocketDir m) v ?names (Plugins m)\<rparr>"
  obtain w' where r: "mgr_run K g R (m, w) = Some (Ok (), ?m, w')"
    using mgr_run_answering [OF assms] by blast
  have l: "\<forall>name \<in> set ?names. \<exists>name' \<in> set ?names. pi_Name (v name') = pi_Name (v name) \<and>
      mgr_GetCopilot ?m (pi_Name (v name)) = Some (newHttpPlugin (path_Join [SocketDir m, name']))"
    using registered_lookup [of _ ?names v "SocketDir m" "Plugins m"] by (simp add: mgr_GetCopilot_def)
  have i: "\<forall>name \<in> set ?names. mgr_GetCopilot ?m (pi_Name (v name)) = Some (newHttpPlugin (path_Join [SocketDir m, name]))"
    if inj: "inj_on (\<lambda>name. pi_Name (v name)) (set ?names)"
  proof
    fix name assume n: "name \<in> set ?names"
    then obtain name' where n': "name' \<in> set ?names" "pi_Name (v name') = pi_Name (v name)"
      "mgr_GetCopilot ?m (pi_Name (v name)) = Some (newHttpPlugin (path_Join [SocketDir m, name']))" using l by blast
    then have "name' = name" using inj_onD [OF inj] n by blast
    then show "mgr_GetCopilot ?m (pi_Name (v name)) = Some (newHttpPlugin (path_Join [SocketDir m, name]))" using n'(3) by simp
  qed
  have "mgr_GetCopilot ?m k = mgr_GetCopilot m k" if "k \<notin> (\<lambda>name. pi_Name (v name)) ` set ?names" for k
    using registered_other [OF that, of "SocketDir m" "Plugins m"] by (simp add: mgr_GetCopilot_def)
  then show ?thesis using r l i by (intro exI [of _ ?m] exI [of _ w']) simp
qed

text \<open>Where the plugins of the manager come from, whatever the directory holds.\<close>

definition reported :: "('q, 'w) resty \<Rightarrow> string \<Rightarrow> string \<times> httpPlugin \<Rightarrow> bool" where
  "reported R dir e \<longleftrightarrow>
     below dir (hp_socket (snd e)) \<and> (\<exists>w w' v. Info R (snd e) w = (Ok (Some v), w') \<and> fst e = pi_Name v)"

definition grows :: "('q, 'w) resty \<Rightarrow> string \<Rightarrow> Manger \<times> 'w \<Rightarrow> Manger \<times> 'w \<Rightarrow> bool" where
  "grows R dir s s' \<longleftrightarrow>
     SocketDir (fst s') = SocketDir (fst s) \<and>
     (distinct (map fst (Plugins (fst s))) \<longrightarrow> distinct (map fst (Plugins (fst s')))) \<and>
     dom (map_of (Plugins (fst s))) \<subseteq> dom (map_of (Plugins (fst s'))) \<and>
     (\<forall>e \<in> set (Plugins (fst s')). e \<in> set (Plugins (fst s)) \<or> reported R dir e)"

lemma grows_refl: "grows R dir s s"
  by (simp add: grows_def)

lemma grows_trans:
  assumes "grows R dir s t" and "grows R dir t u"
  shows "grows R dir s u"
proof -
  have "e \<in> set (Plugins (fst s)) \<or> reported R dir e" if "e \<in> set (Plugins (fst u))" for e
    using that assms unfolding grows_def by meson
  moreover have "dom (map_of (Plugins (fst s))) \<subseteq> dom (map_of (Plugins (fst u)))"
    by (rule subset_trans [of _ "dom (map_of (Plugins (fst t)))"]) (use assms in \<open>simp_all only: grows_def\<close>)
  ultimately show ?thesis using assms by (simp add: grows_def)
qed

lemma set_update_cases: "e \<in> set (AList.update k v ps) \<Longrightarrow> e = (k, v) \<or> e \<in> set ps"
  by (induction ps) (auto split: if_splits)

lemma run_fn_grows:
  assumes "below dir path"
  shows "grows R dir s (snd (run_fn R path info err s))"
proof (cases "info = Some SocketN")
  case False
  then show ?thesis by (auto simp: run_fn_def grows_refl split: option.splits)
next
  case True
  let ?p = "newHttpPlugin path"
  obtain r w1 where n: "Info R ?p (snd s) = (r, w1)" by (metis prod.exhaust)
  show ?thesis
  proof (cases "\<exists>v. r = Ok (Some v)")
    case True
    then obtain v where v: "r = Ok (Some v)" by blast
    have "reported R dir (pi_Name v, ?p)" using n v assms by (auto simp: reported_def newHttpPlugin_def)
    then have "e \<in> set (Plugins (fst s)) \<or> reported R dir e"
      if "e \<in> set (AList.update (pi_Name v) ?p (Plugins (fst s)))" for e
      using set_update_cases [OF that] by blast
    then show ?thesis using \<open>info = Some SocketN\<close> n v
      by (auto simp: run_fn_def grows_def update_conv distinct_update)
  next
    case False
    then show ?thesis using \<open>info = Some SocketN\<close> n
      by (auto simp: run_fn_def grows_def split: outcome.splits option.splits)
  qed
qed

text \<open>C18. A tick of the manager always ends, over any tree of directories. Afterwards every registered
plugin was registered before or listens on a path below the socket directory and has reported the
name it is registered under; no name is registered twice, and none is lost.\<close>

theorem mgr_run_sound:
  assumes "is_rooted (SocketDir m)" and "no_dotdot (SocketDir m)" and "fs_wf (g w)"
    and "\<And>p w. fst ` set (g (snd (Info R p w))) \<subseteq> fst ` set (g w)" and "distinct (map fst (Plugins m))"
  shows "\<exists>out m' w'. mgr_run K g R (m, w) = Some (out, m', w') \<and> SocketDir m' = SocketDir m \<and>
           (\<forall>e \<in> set (Plugins m'). e \<in> set (Plugins m) \<or> reported R (SocketDir m) e) \<and>
           distinct (map fst (Plugins m')) \<and> (\<forall>k. mgr_GetCopilot m k \<noteq> None \<longrightarrow> mgr_GetCopilot m' k \<noteq> None)"
proof -
  let ?G = "\<lambda>s :: Manger \<times> _. g (snd s)"
  have "fst ` set (?G (snd (run_fn R p i e s))) \<subseteq> fst ` set (?G s)" for p i e s
  proof -
    have "snd (snd (run_fn R p i e s)) = snd s \<or> snd (snd (run_fn R p i e s)) = snd (Info R (newHttpPlugin p) (snd s))"
      by (auto simp: run_fn_def Let_def split: option.splits outcome.splits prod.splits)
    then show ?thesis using assms(4) [of "newHttpPlugin p" "snd s"] by (elim disjE) simp_all
  qed
  then have ok: "walk_ok (SocketDir m) ?G (grows R (SocketDir m)) (run_fn R)"
    unfolding walk_ok_def using run_fn_grows grows_refl grows_trans by (meson reflpI transpI)
  obtain r s' where w: "Walk K ?G (run_fn R) (SocketDir m) (m, w) = Some (r, s')" and gr: "grows R (SocketDir m) (m, w) s'"
    by (rule Walk_terminates [OF ok assms(1,2), of "(m, w)" K]) (use assms(3) in simp_all)
  obtain m' w' where s': "s' = (m', w')" by (cases s')
  have "mgr_run K g R (m, w) = Some (walk_outcome r, m', w')" using w s' by (simp add: mgr_run_def)
  moreover have "\<forall>k. mgr_GetCopilot m k \<noteq> None \<longrightarrow> mgr_GetCopilot m' k \<noteq> None"
    using gr unfolding s' grows_def mgr_GetCopilot_def dom_def fst_conv by blast
  ultimately show ?thesis using gr assms(5) s'
    by (intro exI [of _ "walk_outcome r"] exI [of _ m'] exI [of _ w']) (simp add: grows_def)
qed

text \<open>The manager's loop cannot be stopped: receiving from the stop channel has no effect at any
point of a run. When the socket directory does not exist, the next tick crashes it.\<close>

lemma stop_has_no_effect:
  shows "mgr_Run K g R evs st = mgr_Run K g R (filter (\<lambda>ev. ev \<noteq> StopC) evs) st"
    and "os_Stat K (g w) (SocketDir m) = Inl e \<Longrightarrow>
         mgr_Run K g R (StopC # TickC # evs) (Looping (m, w)) = Some (Panicked NilDeref (m, w))"
proof -
  have "mgr_turn K g R StopC st = Some st" for st by (simp add: mgr_turn_def split: mgr_state.splits)
  moreover have "ev = TickC \<or> ev = StopC" for ev by (cases ev) auto
  ultimately show "mgr_Run K g R evs st = mgr_Run K g R (filter (\<lambda>ev. ev \<noteq> StopC) evs) st"
    unfolding mgr_Run_def by (induction evs arbitrary: st) (auto split: Option.bind_splits)
  have c: "mgr_Run K g R evs (Panicked p s) = Some (Panicked p s)" for p s
    unfolding mgr_Run_def by (induction evs) (simp_all add: mgr_turn_def)
  assume "os_Stat K (g w) (SocketDir m) = Inl e"
  then show "mgr_Run K g R (StopC # TickC # evs) (Looping (m, w)) = Some (Panicked NilDeref (m, w))"
    using c [of NilDeref "(m, w)"] by (simp add: mgr_Run_def mgr_turn_def mgr_run_def Walk_def run_fn_def walk_outcome_def)
qed

section \<open>Sample\<close>

text \<open>A client that hands its requests to the server itself.\<close>

definition direct :: "'q srv_env \<Rightarrow> NodeMangerOperator \<Rightarrow> (nat \<Rightarrow> 'q body \<Rightarrow> 'a) \<Rightarrow> string \<Rightarrow> 'q http_req \<Rightarrow> nm_world \<Rightarrow> (error + 'a) \<times> nm_world" where
  "direct S n f sock rq w =
     (case serve S n rq w of (Ok (code, b), w') \<Rightarrow> (Inr (f code b), w') | (_, w') \<Rightarrow> (Inl EOF, w'))"

definition direct_resty :: "'q srv_env \<Rightarrow> NodeMangerOperator \<Rightarrow> ('q, nm_world) resty" where
  "direct_resty S n =
     \<lparr>R_status = direct S n (\<lambda>code b. \<lparr>StatusCode = code, IsSuccess = is_2xx code, IsError = (400 \<le> code)\<rparr>),
      R_info = direct S n (\<lambda>code b. case b of InfoBody v \<Rightarrow> if is_2xx code then Some v else None | _ \<Rightarrow> None),
      R_list = direct S n (\<lambda>code b. case b of ContainersBody cs \<Rightarrow> if is_2xx code then map rt_of cs else [] | _ \<Rightarrow> []),
      R_container = direct S n (\<lambda>code b. case b of ContainerBody c \<Rightarrow> if is_2xx code then Some (rt_of c) else None | _ \<Rightarrow> None),
      R_kill = direct S n (\<lambda>code b. case b of KillBody k \<Rightarrow>
        if is_2xx code then Some \<lparr>rt_Items = map rt_of (ki_Items k)\<rparr> else None | _ \<Rightarrow> None)\<rparr>"

lemma direct_resty_to: "resty_to (direct_resty S n) sock S n"
  by (auto simp: resty_to_def direct_resty_def direct_def split: body.splits)

theorem plugin_lists_running_witness:
  "\<exists>w'. ListContainer (direct_resty sample_srv sample_op) (newHttpPlugin ''/run/yarn.sock'') sample_world =
     (Ok [rt_of (ParseContainerInfo sample_srv sample_yarn_container sample_op)], w')"
proof -
  have "running_now sample_world = [sample_yarn_container]"
    by (simp add: running_now_def sample_world_def status_ok_def IsFinalState_def FinalContainerStates_def sample_yarn_container_def)
  then show ?thesis using plugin_lists_running [OF direct_resty_to, of sample_srv sample_op "''/run/yarn.sock''" sample_world] by auto
qed


definition socket_fs :: fs where
  "socket_fs = [([''run''], DirN 0x1ED), ([''run'', ''yarn.sock''], SocketN)]"

lemma socket_fs_facts:
  "resolve calm_os ''/run'' = [''run'']" "path_Join [''/run'', ''yarn.sock''] = ''/run/yarn.sock''"
  "child_names socket_fs [''run''] = [''yarn.sock'']"
  "os_Stat calm_os socket_fs ''/run'' = Inr (DirN 0x1ED)" "os_Stat calm_os socket_fs ''/run/yarn.sock'' = Inr SocketN"
  by (simp_all add: resolve_def is_rooted_def HasPrefix_def path_Join_def Clean_def child_names_def socket_fs_def os_Stat_def calm_os_def)

lemma socket_fs_answering:
  "answering calm_os w_fs (direct_resty sample_srv sample_op) ''/run'' socket_fs (\<lambda>_. \<lparr>pi_Name = ''yarn'', pi_Version = ''v1''\<rparr>)"
  unfolding answering_def socket_fs_facts
  by (simp add: socket_fs_facts agent_info [OF direct_resty_to]) (simp add: calm_os_def)

theorem tick_registers_all_witness:
  "\<exists>m' w'. mgr_run calm_os w_fs (direct_resty sample_srv sample_op) (fst (NewManger ''/run''), sample_world\<lparr>w_fs := socket_fs\<rparr>) = Some (Ok (), m', w') \<and>
     mgr_GetCopilot m' ''yarn'' = Some (newHttpPlugin ''/run/yarn.sock'')"
proof -
  have "SocketDir (fst (NewManger ''/run'')) = ''/run''" by (simp add: NewManger_def Let_def)
  moreover have "sockets_in calm_os socket_fs ''/run'' = [''yarn.sock'']" by (simp add: sockets_in_def socket_fs_facts)
  ultimately show ?thesis
    using tick_registers_all [of calm_os w_fs "direct_resty sample_srv sample_op" "fst (NewManger ''/run'')" "sample_world\<lparr>w_fs := socket_fs\<rparr>"
        "\<lambda>_. \<lparr>pi_Name = ''yarn'', pi_Version = ''v1''\<rparr>"] socket_fs_answering
    by (auto simp: socket_fs_facts)
qed

lemma stop_has_no_effect_instance:
  "mgr_Run calm_os w_fs (direct_resty sample_srv sample_op) [StopC, TickC] (Looping (fst (NewManger ''/run''), sample_world\<lparr>w_fs := []\<rparr>)) =
     Some (Panicked NilDeref (fst (NewManger ''/run''), sample_world\<lparr>w_fs := []\<rparr>))"
  by (rule stop_has_no_effect(2) [where evs = "[]" and e = ErrNotExist])
    (simp add: os_Stat_def calm_os_def NewManger_def Let_def)

theorem mgr_run_sound_witness:
  "\<exists>out m' w'. mgr_run calm_os w_fs (direct_resty sample_srv sample_op) (fst (NewManger ''/run''), sample_world\<lparr>w_fs := socket_fs\<rparr>) = Some (out, m', w') \<and>
     SocketDir m' = ''/run'' \<and> (\<forall>e \<in> set (Plugins m'). reported (direct_resty sample_srv sample_op) ''/run'' e)"
proof -
  have m: "SocketDir (fst (NewManger ''/run'')) = ''/run''" "Plugins (fst (NewManger ''/run'')) = []" by (simp_all add: NewManger_def Let_def)
  have d: "is_rooted ''/run''" "no_dotdot ''/run''" by (simp_all add: is_rooted_def HasPrefix_def no_dotdot_def)
  have k: "fst ` set (w_fs (snd (Info (direct_resty sample_srv sample_op) p w))) \<subseteq> fst ` set (w_fs w)" for p w
    using agent_info [OF direct_resty_to, of sample_srv sample_op "hp_socket p" w] by (cases p) (simp add: newHttpPlugin_def)
  show ?thesis
    using mgr_run_sound [where K = calm_os and g = w_fs and R = "direct_resty sample_srv sample_op" and m = "fst (NewManger ''/run'')"
        and w = "sample_world\<lparr>w_fs := socket_fs\<rparr>"] m d k
    by (simp add: fs_wf_def socket_fs_def good_seg_def) blast
qed

end
