(* ===== verification/Yarn_Examples.thy ===== *)
theory Yarn_Examples
  imports Yarn_Client
begin

text \<open>
  \<open>pkg/yarn/client/examples\<close>: the four sample programs over the client. Each is a function from the
  world to the way the process ends, what it printed, and the world it leaves. \<open>dir\<close> is the value of
  \<open>HADOOP_CONF_DIR\<close>. The programs drop the errors of the constructors they call; what they then hold
  is nil, or a wrapper around nil, and their next call dereferences it.
\<close>

section \<open>The programs\<close>

text \<open>The end of a program: \<open>main\<close> returns, \<open>log.Fatal\<close> prints a label and an error and exits, or a panic.\<close>

datatype example_end = Finished | Fatal string error | Crashed panic

text \<open>The body of the loop of \<open>ha-get-service-status\<close>, with the responses printed so far in front.\<close>

fun status_loop ::
  "yarn_env \<Rightarrow> yarn_configuration \<Rightarrow> string list \<Rightarrow> yworld \<Rightarrow> example_end \<times> GetServiceStatusResponseProto list \<times> yworld" where
  "status_loop E conf [] w = (Finished, [], w)"
| "status_loop E conf (rmID # rmIDs) w =
     (case GetRMAdminAddressByID conf rmID of
        Err err \<Rightarrow> (Fatal ''GetRMAdminAddressByID'' err, [], w)
      | Panic p \<Rightarrow> (Crashed p, [], w)
      | Ok rmAddr \<Rightarrow>
          (case CreateYarnHAClient E rmAddr w of
             (Err _, w1) \<Rightarrow> (Crashed NilDeref, [], w1)
           | (Panic p, w1) \<Rightarrow> (Crashed p, [], w1)
           | (Ok yarnHAClient, w1) \<Rightarrow>
               (case ha_GetServiceStatus E yarnHAClient () w1 of
                  (Err err, w2) \<Rightarrow> (Fatal ''yarnHAClient.GetServiceStatus '' err, [], w2)
                | (Panic p, w2) \<Rightarrow> (Crashed p, [], w2)
                | (Ok resp, w2) \<Rightarrow>
                    (case status_loop E conf rmIDs w2 of (e, printed, w3) \<Rightarrow> (e, resp # printed, w3)))))"

definition ha_get_service_status_main ::
  "yarn_env \<Rightarrow> string \<Rightarrow> yworld \<Rightarrow> example_end \<times> GetServiceStatusResponseProto list \<times> yworld" where
  "ha_get_service_status_main E dir w =
     (case NewYarnConfiguration (cenv E) dir [] of
        Err err \<Rightarrow> (Fatal ''new yarn conf'' err, [], w)
      | Panic p \<Rightarrow> (Crashed p, [], w)
      | Ok conf \<Rightarrow>
          (case GetRMs conf of
             Err err \<Rightarrow> (Fatal ''get rms from conf'' err, [], w)
           | Panic p \<Rightarrow> (Crashed p, [], w)
           | Ok rmIDs \<Rightarrow> status_loop E conf rmIDs w))"

definition get_cluster_nodes_with_ha_main ::
  "yarn_env \<Rightarrow> string \<Rightarrow> yworld \<Rightarrow> example_end \<times> GetClusterNodesResponseProto list \<times> yworld" where
  "get_cluster_nodes_with_ha_main E dir w =
     (case CreateDefaultYarnClient E dir w of
        (Err _, w1) \<Rightarrow> (Crashed NilDeref, [], w1)
      | (Panic p, w1) \<Rightarrow> (Crashed p, [], w1)
      | (Ok client, w1) \<Rightarrow>
          (case GetClusterNodes E \<lparr>GetClusterNodesRequest_NodeStates = []\<rparr> (client, w1) of
             (Err err, _, w2) \<Rightarrow> (Fatal ''GetClusterNode '' err, [], w2)
           | (Panic p, _, w2) \<Rightarrow> (Crashed p, [], w2)
           | (Ok resp, _, w2) \<Rightarrow> (Finished, [resp], w2)))"

text \<open>The request both update programs build, with the literals of \<open>rm-update-node-resource-with-ha\<close>
  and of \<open>rm-update-node-resource\<close>.\<close>

definition node_update :: "string \<Rightarrow> int32 \<Rightarrow> int32 \<Rightarrow> int64 \<Rightarrow> UpdateNodeResourceRequestProto" where
  "node_update host port vCores memoryMB =
     \<lparr>UpdateNodeResourceRequest_NodeResourceMap =
        [\<lparr>NodeResourceMap_NodeId = Some \<lparr>NodeId_Host = Some host, NodeId_Port = Some port\<rparr>,
          NodeResourceMap_ResourceOption = Some (new_ResourceOptionProto\<lparr>ResourceOption_Resource :=
            Some (new_ResourceProto\<lparr>Resource_Memory := Some memoryMB, Resource_VirtualCores := Some vCores\<rparr>)\<rparr>)\<rparr>]\<rparr>"

definition update_node_resource_with_ha_main ::
  "yarn_env \<Rightarrow> string \<Rightarrow> yworld \<Rightarrow> example_end \<times> UpdateNodeResourceResponseProto list \<times> yworld" where
  "update_node_resource_with_ha_main E dir w =
     (case CreateDefaultYarnClient E dir w of
        (Err _, w1) \<Rightarrow> (Crashed NilDeref, [], w1)
      | (Panic p, w1) \<Rightarrow> (Crashed p, [], w1)
      | (Ok client, w1) \<Rightarrow>
          (case UpdateNodeResource E (node_update ''0.0.0.0'' 8041 101 10240) (client, w1) of
             (Err err, _, w2) \<Rightarrow> (Fatal ''yarnClient.UpdateNodeResource '' err, [], w2)
           | (Panic p, _, w2) \<Rightarrow> (Crashed p, [], w2)
           | (Ok resp, _, w2) \<Rightarrow> (Finished, [resp], w2)))"

text \<open>A configuration that failed to load is a wrapper around a nil \<open>Configuration\<close>, here \<open>None\<close>.\<close>

definition update_node_resource_main ::
  "yarn_env \<Rightarrow> string \<Rightarrow> yworld \<Rightarrow> example_end \<times> UpdateNodeResourceResponseProto list \<times> yworld" where
  "update_node_resource_main E dir w =
     (let conf = (case NewYarnConfiguration (cenv E) dir [] of Ok c \<Rightarrow> Some c | _ \<Rightarrow> None)
      in case CreateYarnAdminClient E conf None w of
           (Err _, w1) \<Rightarrow> (Crashed NilDeref, [], w1)
         | (Panic p, w1) \<Rightarrow> (Crashed p, [], w1)
         | (Ok yarnAdminClient, w1) \<Rightarrow>
             (case admin_UpdateNodeResource E yarnAdminClient
                     (node_update ''core-1-3.c-f55b4f620febfd69.cn-zhangjiakou.emr.aliyuncs.com'' 8041 100 10240) w1 of
                (Err err, w2) \<Rightarrow> (Fatal ''yarnAdminClient.UpdateNodeResource '' err, [], w2)
              | (Panic p, w2) \<Rightarrow> (Crashed p, [], w2)
              | (Ok resp, w2) \<Rightarrow> (Finished, [resp], w2)))"

section \<open>Status and search\<close>

lemma status_loop_Cons:
  "status_loop E conf (rmID # rmIDs) w =
     (case rm_status E conf rmID w of
        (Ok resp, w') \<Rightarrow> (case status_loop E conf rmIDs w' of (e, printed, w'') \<Rightarrow> (e, resp # printed, w''))
      | (Err err, w') \<Rightarrow> (Fatal ''yarnHAClient.GetServiceStatus '' err, [], w')
      | (Panic p, w') \<Rightarrow> (Crashed p, [], w'))"
proof -
  obtain a where a: "GetRMAdminAddressByID conf rmID = Ok a" by (simp add: address_values)
  obtain c w1 where c: "CreateYarnHAClient E a w = (Ok c, w1)" using CreateYarnHAClient_Ok by blast
  show ?thesis by (simp add: rm_status_def a c split: prod.splits outcome.splits)
qed

text \<open>The status program and the search for the active resource manager over the same list.\<close>

lemma status_loop_active:
  assumes "status_loop E conf rmIDs w = (e, printed, w')"
  shows "length printed \<le> length rmIDs \<and> (e = Finished \<longrightarrow> length printed = length rmIDs) \<and>
         (case find (\<lambda>(rmID, resp). is_active resp) (zip rmIDs printed) of
            Some (rmID, resp) \<Rightarrow> fst (active_loop E conf rmIDs w) = Ok (Some rmID)
          | None \<Rightarrow> e = Finished \<longrightarrow> active_loop E conf rmIDs w = (Ok None, w'))"
  using assms
proof (induction rmIDs arbitrary: w printed)
  case Nil
  then show ?case by simp
next
  case (Cons rmID rmIDs)
  obtain r w1 where r: "rm_status E conf rmID w = (r, w1)" by (metis prod.exhaust)
  show ?case
  proof (cases r)
    case (Ok resp)
    obtain e2 printed2 w2 where s: "status_loop E conf rmIDs w1 = (e2, printed2, w2)" by (metis prod.exhaust)
    then have eq: "e2 = e" "printed = resp # printed2" "w2 = w'"
      using Cons.prems r Ok by (simp_all add: status_loop_Cons del: status_loop.simps)
    show ?thesis using Cons.IH [OF s [unfolded eq]] r Ok eq
      by (auto simp: active_loop_Cons simp del: active_loop.simps split: option.splits)
  qed (use Cons.prems r in \<open>auto simp: status_loop_Cons simp del: status_loop.simps\<close>)
qed

section \<open>Where the updates go\<close>

text \<open>The update program without HA talks to the configured address, and asks no resource manager.\<close>

lemma update_node_resource_target:
  assumes "update_node_resource_main E dir w = (Finished, printed, w')"
  shows "\<exists>conf a c w1. NewYarnConfiguration (cenv E) dir [] = Ok conf \<and> GetRMAdminAddress conf = Ok a \<and>
           ServerAddress c = a \<and> net w1 = net w \<and> printed = [()] \<and>
           admin_UpdateNodeResource E c
             (node_update ''core-1-3.c-f55b4f620febfd69.cn-zhangjiakou.emr.aliyuncs.com'' 8041 100 10240) w1 = (Ok (), w')"
proof (cases "NewYarnConfiguration (cenv E) dir []")
  case (Ok conf)
  then obtain c w1 where c: "CreateYarnAdminClient E (Some conf) None w = (Ok c, w1)"
    and u: "admin_UpdateNodeResource E c
       (node_update ''core-1-3.c-f55b4f620febfd69.cn-zhangjiakou.emr.aliyuncs.com'' 8041 100 10240) w1 = (Ok (), w')"
    and p: "printed = [()]"
    using assms by (auto simp: update_node_resource_main_def split: prod.splits outcome.splits)
  moreover have "GetRMAdminAddress conf = Ok (ServerAddress c) \<and> net w1 = net w"
    using c by (auto simp: CreateYarnAdminClient_def DialResourceManagerAdministrationProtocolService_def sbind_eq_Ok_iff
        uuid_NewV4_def split: list.splits)
  ultimately show ?thesis using Ok by blast
qed (use assms in \<open>auto simp: update_node_resource_main_def CreateYarnAdminClient_def
      DialResourceManagerAdministrationProtocolService_def sbind_def split: prod.splits outcome.splits\<close>)

text \<open>The one with HA talks to the admin address of the resource manager that answered ACTIVE, when HA
  is on, and to the configured address otherwise.\<close>

lemma update_with_ha_target:
  assumes "update_node_resource_with_ha_main E dir w = (Finished, printed, w')"
  shows "\<exists>conf a c w1. NewYarnConfiguration (cenv E) dir [] = Ok conf \<and> ServerAddress c = a \<and> printed = [()] \<and>
           admin_UpdateNodeResource E c (node_update ''0.0.0.0'' 8041 101 10240) w1 = (Ok (), w') \<and>
           (GetRMEnabledHA conf = Ok False \<and> GetRMAdminAddress conf = Ok a \<or>
            GetRMEnabledHA conf = Ok True \<and>
              (\<exists>rmID. fst (GetActiveRMID E ((NewYarnClient dir [])\<lparr>yc_conf := Some conf, haEnabled := True\<rparr>) w) = Ok rmID \<and>
                 GetRMAdminAddressByID conf rmID = Ok a))"
proof -
  obtain cl c' w1 where d: "CreateDefaultYarnClient E dir w = (Ok cl, w1)"
    and u: "UpdateNodeResource E (node_update ''0.0.0.0'' 8041 101 10240) (cl, w1) = (Ok (), c', w')" and p: "printed = [()]"
    using assms by (auto simp: update_node_resource_with_ha_main_def split: prod.splits outcome.splits)
  have i: "Initialize E (NewYarnClient dir [], w) = (Ok (), cl, w1)"
    using d by (auto simp: CreateDefaultYarnClient_def split: prod.splits outcome.splits)
  obtain conf a where conf: "NewYarnConfiguration (cenv E) dir [] = Ok conf" "GetRMEnabledHA conf = Ok (haEnabled cl)"
    and a: "activeRMAdminAddress cl = Some a"
    and h: "if haEnabled cl
      then \<exists>rmID. fst (GetActiveRMID E ((NewYarnClient dir [])\<lparr>yc_conf := Some conf, haEnabled := True\<rparr>) w) = Ok rmID \<and>
             GetRMAdminAddressByID conf rmID = Ok a
      else GetRMAdminAddress conf = Ok a"
    using Initialize_cases [OF i] by (fastforce simp: NewYarnClient_def split: if_splits)
  have "updateNodeResource E (node_update ''0.0.0.0'' 8041 101 10240) cl w1 = (Ok (), w')"
    using u a by (auto simp: UpdateNodeResource_def ensureInitialized_def with_world_def sbind_def split: prod.splits)
  then obtain c w2 where "CreateYarnAdminClient E (yc_conf cl) (Some a) w1 = (Ok c, w2)"
    and req: "admin_UpdateNodeResource E c (node_update ''0.0.0.0'' 8041 101 10240) w2 = (Ok (), w')"
    using a by (auto simp: updateNodeResource_def sbind_eq_Ok_iff)
  then have "ServerAddress c = a"
    by (auto simp: CreateYarnAdminClient_def DialResourceManagerAdministrationProtocolService_def sbind_eq_Ok_iff)
  then show ?thesis using conf h req p by (cases "haEnabled cl") auto
qed

text \<open>Without a configuration only the status program says why it ends; the other three dereference nil.\<close>

lemma examples_without_configuration:
  assumes "NewYarnConfiguration (cenv E) dir [] = Err err"
  shows "ha_get_service_status_main E dir w = (Fatal ''new yarn conf'' err, [], w)"
    and "get_cluster_nodes_with_ha_main E dir w = (Crashed NilDeref, [], w)"
    and "update_node_resource_with_ha_main E dir w = (Crashed NilDeref, [], w)"
    and "fst (update_node_resource_main E dir w) = Crashed NilDeref"
proof -
  have d: "CreateDefaultYarnClient E dir w = (Err err, w)"
    using assms by (simp add: CreateDefaultYarnClient_def Initialize_def NewYarnClient_def)
  show "ha_get_service_status_main E dir w = (Fatal ''new yarn conf'' err, [], w)"
    using assms by (simp add: ha_get_service_status_main_def)
  show "get_cluster_nodes_with_ha_main E dir w = (Crashed NilDeref, [], w)"
    using d by (simp add: get_cluster_nodes_with_ha_main_def)
  show "update_node_resource_with_ha_main E dir w = (Crashed NilDeref, [], w)"
    using d by (simp add: update_node_resource_with_ha_main_def)
  show "fst (update_node_resource_main E dir w) = Crashed NilDeref"
    using assms by (auto simp: update_node_resource_main_def CreateYarnAdminClient_def
        DialResourceManagerAdministrationProtocolService_def sbind_def uuid_NewV4_def CreateSimpleUGIProto_def of_sum_def
        split: prod.splits outcome.splits list.splits sum.splits)
qed

text \<open>C28. The status program and the client agree about the cluster. The program prints the answers
of the resource managers in the order of the configuration, all of them when it finishes. If one of the
printed answers is ACTIVE, a client that searches in the same situation settles on the first such
resource manager, also when the program failed at a later one; if it finished and none is, the search
fails after the same traffic.\<close>

theorem status_example_agrees:
  assumes "NewYarnConfiguration (cenv E) dir [] = Ok conf" and "GetRMs conf = Ok rmIDs" and "yc_conf c = Some conf"
    and "ha_get_service_status_main E dir w = (e, printed, w')"
  shows "length printed \<le> length rmIDs \<and> (e = Finished \<longrightarrow> length printed = length rmIDs) \<and>
         (case find (\<lambda>(rmID, resp). GetServiceStatusResponse_State resp = Some HAServiceStateProto_ACTIVE) (zip rmIDs printed) of
            Some (rmID, resp) \<Rightarrow> fst (GetActiveRMID E c w) = Ok rmID
          | None \<Rightarrow> e = Finished \<longrightarrow> GetActiveRMID E c w = (Err (Errorf ''active rm not found in %v'' rmIDs []), w'))"
proof -
  have "status_loop E conf rmIDs w = (e, printed, w')"
    using assms(1,2,4) by (simp add: ha_get_service_status_main_def)
  from status_loop_active [OF this] show ?thesis
    using assms(2,3) by (auto simp: is_active_def GetActiveRMID_def sbind_def split: option.splits prod.splits outcome.splits)
qed

theorem status_example_agrees_witness:
  "\<exists>e resp printed w'. ha_get_service_status_main (sample_yarn_env ''true'') ''d'' sample_yworld1 = (e, resp # printed, w') \<and>
     GetServiceStatusResponse_State resp = Some HAServiceStateProto_ACTIVE \<and>
     fst (GetActiveRMID (sample_yarn_env ''true'') ((NewYarnClient ''d'' '''')\<lparr>yc_conf := Some (ha_conf ''true'')\<rparr>) sample_yworld1)
       = Ok ''rm1''"
proof -
  let ?E = "sample_yarn_env ''true''" and ?conf = "ha_conf ''true''"
  have conf: "NewYarnConfiguration (cenv ?E) ''d'' [] = Ok ?conf" by (simp add: sample_yarn_env_def ha_conf_load)
  obtain w resp where s: "rm_status ?E ?conf ''rm1'' sample_yworld1 = (Ok resp, w)" and a: "is_active resp"
    using sample_status_active by blast
  obtain e printed w' where l: "status_loop ?E ?conf [''rm2''] w = (e, printed, w')" by (metis prod.exhaust)
  have m: "ha_get_service_status_main ?E ''d'' sample_yworld1 = (e, resp # printed, w')"
    by (simp add: ha_get_service_status_main_def conf ha_conf_RMs status_loop_Cons [of _ _ "''rm1''"] s l del: status_loop.simps)
  have "yc_conf ((NewYarnClient ''d'' '''')\<lparr>yc_conf := Some ?conf\<rparr>) = Some ?conf" by simp
  from status_example_agrees [OF conf ha_conf_RMs this m] show ?thesis using m a by (simp add: is_active_def)
qed

end
