(* ===== verification/Mock_Clients.thy ===== *)
theory Mock_Clients
  imports Yarn_Client
begin

text \<open>
  \<open>pkg/yarn/client/mockclient\<close>: the doubles of \<open>YarnClient\<close> and \<open>YarnClientFactory\<close> that mockgen
  generated for tests. A mock hands every call to the gomock controller it was made with, under the
  name of the method, and reads the returned interface values back with type assertions that give nil
  for a value of another type. Its recorder hands expected calls to the same controller. A mock and its
  recorder point at each other, so both live in a store by address. The controller is gomock's and a
  parameter; \<open>T.Helper\<close> only marks the frame for the test's log.
\<close>

section \<open>Values and objects\<close>

type_synonym addr = nat

text \<open>The dynamic types that implement \<open>YarnClient\<close>.\<close>

datatype client_val = RealClient yarnClient | MockClient addr

text \<open>Values of type \<open>interface{}\<close> as they go through the controller; typed pointers may be nil.\<close>

datatype iface =
    NilIface
  | IfaceError error
  | IfaceString string
  | IfaceNodesRequest "GetClusterNodesRequestProto option"
  | IfaceNodes "GetClusterNodesResponseProto option"
  | IfaceUpdateRequest "UpdateNodeResourceRequestProto option"
  | IfaceUpdate "UpdateNodeResourceResponseProto option"
  | IfaceClient client_val
  | IfaceClients "(string \<times> client_val) list option"
  | IfaceOther string

definition as_error :: "iface \<Rightarrow> error option" where
  "as_error v = (case v of IfaceError e \<Rightarrow> Some e | _ \<Rightarrow> None)"

definition as_nodes :: "iface \<Rightarrow> GetClusterNodesResponseProto option" where
  "as_nodes v = (case v of IfaceNodes p \<Rightarrow> p | _ \<Rightarrow> None)"

definition as_update :: "iface \<Rightarrow> UpdateNodeResourceResponseProto option" where
  "as_update v = (case v of IfaceUpdate p \<Rightarrow> p | _ \<Rightarrow> None)"

definition as_client :: "iface \<Rightarrow> client_val option" where
  "as_client v = (case v of IfaceClient c \<Rightarrow> Some c | _ \<Rightarrow> None)"

definition as_clients :: "iface \<Rightarrow> (string \<times> client_val) list option" where
  "as_clients v = (case v of IfaceClients m \<Rightarrow> m | _ \<Rightarrow> None)"

record MockYarnClient =
  mc_ctrl :: addr
  mc_recorder :: "addr option"

record MockYarnClientMockRecorder =
  mcr_mock :: addr

record MockYarnClientFactory =
  mf_ctrl :: addr
  mf_recorder :: "addr option"

record MockYarnClientFactoryMockRecorder =
  mfr_mock :: addr

datatype mock_obj =
    ObjClient MockYarnClient
  | ObjClientRecorder MockYarnClientMockRecorder
  | ObjFactory MockYarnClientFactory
  | ObjFactoryRecorder MockYarnClientFactoryMockRecorder

text \<open>The store of the objects, and the state \<open>'g\<close> of the controllers.\<close>

record 'g mock_world =
  objs :: "addr \<rightharpoonup> mock_obj"
  next_addr :: addr
  ctl :: 'g

text \<open>
  gomock: \<open>Call\<close> of a controller gives the results of the expected call that matches, or ends the test
  (here an \<open>Err\<close>); \<open>RecordCallWithMethodType\<close> gives a handle for the expected call. The arguments are the
  controller, the receiver, the name of the method, for the latter its type, and the values.
\<close>

record ('g, 'k) gomock =
  ctrl_Call :: "addr \<Rightarrow> addr \<Rightarrow> string \<Rightarrow> iface list \<Rightarrow> 'g \<Rightarrow> iface list outcome \<times> 'g"
  RecordCall :: "addr \<Rightarrow> addr \<Rightarrow> string \<Rightarrow> string \<Rightarrow> iface list \<Rightarrow> 'g \<Rightarrow> 'k \<times> 'g"

definition alloc :: "mock_obj \<Rightarrow> 'g mock_world \<Rightarrow> addr \<times> 'g mock_world" where
  "alloc obj w = (next_addr w, w\<lparr>objs := (objs w)(next_addr w \<mapsto> obj), next_addr := Suc (next_addr w)\<rparr>)"

definition client_at :: "addr \<Rightarrow> 'g mock_world \<Rightarrow> MockYarnClient outcome" where
  "client_at p w = (case objs w p of Some (ObjClient m) \<Rightarrow> Ok m | _ \<Rightarrow> Panic NilDeref)"

definition client_recorder_at :: "addr \<Rightarrow> 'g mock_world \<Rightarrow> MockYarnClientMockRecorder outcome" where
  "client_recorder_at p w = (case objs w p of Some (ObjClientRecorder r) \<Rightarrow> Ok r | _ \<Rightarrow> Panic NilDeref)"

definition factory_at :: "addr \<Rightarrow> 'g mock_world \<Rightarrow> MockYarnClientFactory outcome" where
  "factory_at p w = (case objs w p of Some (ObjFactory m) \<Rightarrow> Ok m | _ \<Rightarrow> Panic NilDeref)"

definition factory_recorder_at :: "addr \<Rightarrow> 'g mock_world \<Rightarrow> MockYarnClientFactoryMockRecorder outcome" where
  "factory_recorder_at p w = (case objs w p of Some (ObjFactoryRecorder r) \<Rightarrow> Ok r | _ \<Rightarrow> Panic NilDeref)"

text \<open>A call on a controller in the world, and \<open>ret[i]\<close>.\<close>

definition call_ctrl ::
  "('g, 'k) gomock \<Rightarrow> addr \<Rightarrow> addr \<Rightarrow> string \<Rightarrow> iface list \<Rightarrow> 'g mock_world \<Rightarrow> iface list outcome \<times> 'g mock_world" where
  "call_ctrl G c m meth args w = (case ctrl_Call G c m meth args (ctl w) of (r, g) \<Rightarrow> (r, w\<lparr>ctl := g\<rparr>))"

definition record_ctrl ::
  "('g, 'k) gomock \<Rightarrow> addr \<Rightarrow> addr \<Rightarrow> string \<Rightarrow> string \<Rightarrow> iface list \<Rightarrow> 'g mock_world \<Rightarrow> 'k outcome \<times> 'g mock_world" where
  "record_ctrl G c m meth ty args w = (case RecordCall G c m meth ty args (ctl w) of (k, g) \<Rightarrow> (Ok k, w\<lparr>ctl := g\<rparr>))"

definition ret_at :: "iface list \<Rightarrow> nat \<Rightarrow> iface outcome" where
  "ret_at ret i = (if i < length ret then Ok (ret ! i) else Panic IndexRange)"

section \<open>The mock of YarnClient\<close>

definition NewMockYarnClient :: "addr \<Rightarrow> 'g mock_world \<Rightarrow> addr \<times> 'g mock_world" where
  "NewMockYarnClient ctrl w =
     (case alloc (ObjClient \<lparr>mc_ctrl = ctrl, mc_recorder = None\<rparr>) w of (mock, w1) \<Rightarrow>
      case alloc (ObjClientRecorder \<lparr>mcr_mock = mock\<rparr>) w1 of (r, w2) \<Rightarrow>
        (mock, w2\<lparr>objs := (objs w2)(mock \<mapsto> ObjClient \<lparr>mc_ctrl = ctrl, mc_recorder = Some r\<rparr>)\<rparr>))"

definition mockc_EXPECT :: "addr \<Rightarrow> 'g mock_world \<Rightarrow> addr outcome \<times> 'g mock_world" where
  "mockc_EXPECT m w = sbind (slift (client_at m w)) (\<lambda>mock. slift (deref (mc_recorder mock))) w"

definition mockc_Close :: "('g, 'k) gomock \<Rightarrow> addr \<Rightarrow> 'g mock_world \<Rightarrow> unit outcome \<times> 'g mock_world" where
  "mockc_Close G m w =
     sbind (slift (client_at m w)) (\<lambda>mock.
     sbind (call_ctrl G (mc_ctrl mock) m ''Close'' []) (\<lambda>_.
     sret ())) w"

definition mockc_expect_Close :: "('g, 'k) gomock \<Rightarrow> addr \<Rightarrow> 'g mock_world \<Rightarrow> 'k outcome \<times> 'g mock_world" where
  "mockc_expect_Close G mr w =
     sbind (slift (client_recorder_at mr w)) (\<lambda>r.
     sbind (slift (client_at (mcr_mock r) w)) (\<lambda>mock.
     record_ctrl G (mc_ctrl mock) (mcr_mock r) ''Close'' ''MockYarnClient.Close'' [])) w"

definition mockc_GetClusterNodes :: "('g, 'k) gomock \<Rightarrow> addr \<Rightarrow> GetClusterNodesRequestProto option \<Rightarrow> 'g mock_world \<Rightarrow> (GetClusterNodesResponseProto option \<times> error option) outcome \<times> 'g mock_world" where
  "mockc_GetClusterNodes G m req w =
     sbind (slift (client_at m w)) (\<lambda>mock.
     sbind (call_ctrl G (mc_ctrl mock) m ''GetClusterNodes'' [IfaceNodesRequest req]) (\<lambda>ret.
     slift (obind (ret_at ret 0) (\<lambda>r0. obind (ret_at ret 1) (\<lambda>r1. Ok (as_nodes r0, as_error r1)))))) w"

definition mockc_expect_GetClusterNodes :: "('g, 'k) gomock \<Rightarrow> addr \<Rightarrow> iface \<Rightarrow> 'g mock_world \<Rightarrow> 'k outcome \<times> 'g mock_world" where
  "mockc_expect_GetClusterNodes G mr req w =
     sbind (slift (client_recorder_at mr w)) (\<lambda>r.
     sbind (slift (client_at (mcr_mock r) w)) (\<lambda>mock.
     record_ctrl G (mc_ctrl mock) (mcr_mock r) ''GetClusterNodes'' ''MockYarnClient.GetClusterNodes'' [req])) w"

definition mockc_Initialize :: "('g, 'k) gomock \<Rightarrow> addr \<Rightarrow> 'g mock_world \<Rightarrow> (error option) outcome \<times> 'g mock_world" where
  "mockc_Initialize G m w =
     sbind (slift (client_at m w)) (\<lambda>mock.
     sbind (call_ctrl G (mc_ctrl mock) m ''Initialize'' []) (\<lambda>ret.
     slift (obind (ret_at ret 0) (\<lambda>r0. Ok (as_error r0))))) w"

definition mockc_expect_Initialize :: "('g, 'k) gomock \<Rightarrow> addr \<Rightarrow> 'g mock_world \<Rightarrow> 'k outcome \<times> 'g mock_world" where
  "mockc_expect_Initialize G mr w =
     sbind (slift (client_recorder_at mr w)) (\<lambda>r.
     sbind (slift (client_at (mcr_mock r) w)) (\<lambda>mock.
     record_ctrl G (mc_ctrl mock) (mcr_mock r) ''Initialize'' ''MockYarnClient.Initialize'' [])) w"

definition mockc_Reinitialize :: "('g, 'k) gomock \<Rightarrow> addr \<Rightarrow> 'g mock_world \<Rightarrow> (error option) outcome \<times> 'g mock_world" where
  "mockc_Reinitialize G m w =
     sbind (slift (client_at m w)) (\<lambda>mock.
     sbind (call_ctrl G (mc_ctrl mock) m ''Reinitialize'' []) (\<lambda>ret.
     slift (obind (ret_at ret 0) (\<lambda>r0. Ok (as_error r0))))) w"

definition mockc_expect_Reinitialize :: "('g, 'k) gomock \<Rightarrow> addr \<Rightarrow> 'g mock_world \<Rightarrow> 'k outcome \<times> 'g mock_world" where
  "mockc_expect_Reinitialize G mr w =
     sbind (slift (client_recorder_at mr w)) (\<lambda>r.
     sbind (slift (client_at (mcr_mock r) w)) (\<lambda>mock.
     record_ctrl G (mc_ctrl mock) (mcr_mock r) ''Reinitialize'' ''MockYarnClient.Reinitialize'' [])) w"

definition mockc_UpdateNodeResource :: "('g, 'k) gomock \<Rightarrow> addr \<Rightarrow> UpdateNodeResourceRequestProto option \<Rightarrow> 'g mock_world \<Rightarrow> (UpdateNodeResourceResponseProto option \<times> error option) outcome \<times> 'g mock_world" where
  "mockc_UpdateNodeResource G m req w =
     sbind (slift (client_at m w)) (\<lambda>mock.
     sbind (call_ctrl G (mc_ctrl mock) m ''UpdateNodeResource'' [IfaceUpdateRequest req]) (\<lambda>ret.
     slift (obind (ret_at ret 0) (\<lambda>r0. obind (ret_at ret 1) (\<lambda>r1. Ok (as_update r0, as_error r1)))))) w"

definition mockc_expect_UpdateNodeResource :: "('g, 'k) gomock \<Rightarrow> addr \<Rightarrow> iface \<Rightarrow> 'g mock_world \<Rightarrow> 'k outcome \<times> 'g mock_world" where
  "mockc_expect_UpdateNodeResource G mr req w =
     sbind (slift (client_recorder_at mr w)) (\<lambda>r.
     sbind (slift (client_at (mcr_mock r) w)) (\<lambda>mock.
     record_ctrl G (mc_ctrl mock) (mcr_mock r) ''UpdateNodeResource'' ''MockYarnClient.UpdateNodeResource'' [req])) w"

section \<open>The mock of YarnClientFactory\<close>

definition NewMockYarnClientFactory :: "addr \<Rightarrow> 'g mock_world \<Rightarrow> addr \<times> 'g mock_world" where
  "NewMockYarnClientFactory ctrl w =
     (case alloc (ObjFactory \<lparr>mf_ctrl = ctrl, mf_recorder = None\<rparr>) w of (mock, w1) \<Rightarrow>
      case alloc (ObjFactoryRecorder \<lparr>mfr_mock = mock\<rparr>) w1 of (r, w2) \<Rightarrow>
        (mock, w2\<lparr>objs := (objs w2)(mock \<mapsto> ObjFactory \<lparr>mf_ctrl = ctrl, mf_recorder = Some r\<rparr>)\<rparr>))"

definition mockf_EXPECT :: "addr \<Rightarrow> 'g mock_world \<Rightarrow> addr outcome \<times> 'g mock_world" where
  "mockf_EXPECT m w = sbind (slift (factory_at m w)) (\<lambda>mock. slift (deref (mf_recorder mock))) w"

definition mockf_CreateAllYarnClients :: "('g, 'k) gomock \<Rightarrow> addr \<Rightarrow> 'g mock_world \<Rightarrow> ((string \<times> client_val) list option \<times> error option) outcome \<times> 'g mock_world" where
  "mockf_CreateAllYarnClients G m w =
     sbind (slift (factory_at m w)) (\<lambda>mock.
     sbind (call_ctrl G (mf_ctrl mock) m ''CreateAllYarnClients'' []) (\<lambda>ret.
     slift (obind (ret_at ret 0) (\<lambda>r0. obind (ret_at ret 1) (\<lambda>r1. Ok (as_clients r0, as_error r1)))))) w"

definition mockf_expect_CreateAllYarnClients :: "('g, 'k) gomock \<Rightarrow> addr \<Rightarrow> 'g mock_world \<Rightarrow> 'k outcome \<times> 'g mock_world" where
  "mockf_expect_CreateAllYarnClients G mr w =
     sbind (slift (factory_recorder_at mr w)) (\<lambda>r.
     sbind (slift (factory_at (mfr_mock r) w)) (\<lambda>mock.
     record_ctrl G (mf_ctrl mock) (mfr_mock r) ''CreateAllYarnClients'' ''MockYarnClientFactory.CreateAllYarnClients'' [])) w"

definition mockf_CreateDefaultYarnClient :: "('g, 'k) gomock \<Rightarrow> addr \<Rightarrow> 'g mock_world \<Rightarrow> (client_val option \<times> error option) outcome \<times> 'g mock_world" where
  "mockf_CreateDefaultYarnClient G m w =
     sbind (slift (factory_at m w)) (\<lambda>mock.
     sbind (call_ctrl G (mf_ctrl mock) m ''CreateDefaultYarnClient'' []) (\<lambda>ret.
     slift (obind (ret_at ret 0) (\<lambda>r0. obind (ret_at ret 1) (\<lambda>r1. Ok (as_client r0, as_error r1)))))) w"

definition mockf_expect_CreateDefaultYarnClient :: "('g, 'k) gomock \<Rightarrow> addr \<Rightarrow> 'g mock_world \<Rightarrow> 'k outcome \<times> 'g mock_world" where
  "mockf_expect_CreateDefaultYarnClient G mr w =
     sbind (slift (factory_recorder_at mr w)) (\<lambda>r.
     sbind (slift (factory_at (mfr_mock r) w)) (\<lambda>mock.
     record_ctrl G (mf_ctrl mock) (mfr_mock r) ''CreateDefaultYarnClient'' ''MockYarnClientFactory.CreateDefaultYarnClient'' [])) w"

definition mockf_CreateYarnClientByClusterID :: "('g, 'k) gomock \<Rightarrow> addr \<Rightarrow> string \<Rightarrow> 'g mock_world \<Rightarrow> (client_val option \<times> error option) outcome \<times> 'g mock_world" where
  "mockf_CreateYarnClientByClusterID G m cluster w =
     sbind (slift (factory_at m w)) (\<lambda>mock.
     sbind (call_ctrl G (mf_ctrl mock) m ''CreateYarnClientByClusterID'' [IfaceString cluster]) (\<lambda>ret.
     slift (obind (ret_at ret 0) (\<lambda>r0. obind (ret_at ret 1) (\<lambda>r1. Ok (as_client r0, as_error r1)))))) w"

definition mockf_expect_CreateYarnClientByClusterID :: "('g, 'k) gomock \<Rightarrow> addr \<Rightarrow> iface \<Rightarrow> 'g mock_world \<Rightarrow> 'k outcome \<times> 'g mock_world" where
  "mockf_expect_CreateYarnClientByClusterID G mr cluster w =
     sbind (slift (factory_recorder_at mr w)) (\<lambda>r.
     sbind (slift (factory_at (mfr_mock r) w)) (\<lambda>mock.
     record_ctrl G (mf_ctrl mock) (mfr_mock r) ''CreateYarnClientByClusterID'' ''MockYarnClientFactory.CreateYarnClientByClusterID'' [cluster])) w"

section \<open>Record and replay\<close>

lemma NewMockYarnClient_objects:
  assumes "NewMockYarnClient c w = (m, w1)"
  shows "client_at m w1 = Ok \<lparr>mc_ctrl = c, mc_recorder = Some (Suc m)\<rparr>"
    and "client_recorder_at (Suc m) w1 = Ok \<lparr>mcr_mock = m\<rparr>"
    and "ctl w1 = ctl w" and "mockc_EXPECT m w1 = (Ok (Suc m), w1)"
  using assms
  by (auto simp: NewMockYarnClient_def alloc_def client_at_def client_recorder_at_def mockc_EXPECT_def sbind_def)

lemma NewMockYarnClientFactory_objects:
  assumes "NewMockYarnClientFactory c w = (m, w1)"
  shows "factory_at m w1 = Ok \<lparr>mf_ctrl = c, mf_recorder = Some (Suc m)\<rparr>"
    and "factory_recorder_at (Suc m) w1 = Ok \<lparr>mfr_mock = m\<rparr>"
    and "ctl w1 = ctl w" and "mockf_EXPECT m w1 = (Ok (Suc m), w1)"
  using assms
  by (auto simp: NewMockYarnClientFactory_def alloc_def factory_at_def factory_recorder_at_def mockf_EXPECT_def sbind_def)

text \<open>A new mock leaves the objects alone that were in the store before, so mocks do not disturb each other.\<close>

lemma NewMock_frame:
  assumes "\<And>p. next_addr w \<le> p \<Longrightarrow> objs w p = None" and "objs w p = Some obj"
  shows "NewMockYarnClient c w = (m, w1) \<Longrightarrow> objs w1 p = Some obj"
    and "NewMockYarnClientFactory c w = (m, w1) \<Longrightarrow> objs w1 p = Some obj"
proof -
  have "p < next_addr w" using assms by (metis not_le_imp_less option.distinct(1))
  then show "NewMockYarnClient c w = (m, w1) \<Longrightarrow> objs w1 p = Some obj"
    and "NewMockYarnClientFactory c w = (m, w1) \<Longrightarrow> objs w1 p = Some obj"
    using assms(2) by (auto simp: NewMockYarnClient_def NewMockYarnClientFactory_def alloc_def)
qed

text \<open>
  What gomock documents about a single expected call, on a controller in state \<open>g0\<close> without others: a
  call of that method with those arguments gives the values that \<open>Return\<close> was told.
\<close>

definition gomock_replays :: "('g, 'k) gomock \<Rightarrow> ('k \<Rightarrow> iface list \<Rightarrow> 'g \<Rightarrow> 'g) \<Rightarrow> 'g \<Rightarrow> bool" where
  "gomock_replays G Ret g0 \<longleftrightarrow>
     (\<forall>c m meth ty args vals. case RecordCall G c m meth ty args g0 of (k, g) \<Rightarrow>
        fst (ctrl_Call G c m meth args (Ret k vals g)) = Ok vals)"

lemma gomock_replaysD:
  assumes "gomock_replays G Ret g0"
  shows "fst (ctrl_Call G c m meth args
           (Ret (fst (RecordCall G c m meth ty args g0)) vals (snd (RecordCall G c m meth ty args g0)))) = Ok vals"
  using assms unfolding gomock_replays_def by (metis (mono_tags, lifting) case_prod_beta)

text \<open>What a test tells a fresh mock to answer is what the code under test gets; a value of another type
  than the method's arrives as nil.\<close>

lemma mock_client_record_replay:
  assumes "gomock_replays G Ret (ctl w)" and "NewMockYarnClient c w = (m, w1)"
  shows "\<exists>r k w2. mockc_EXPECT m w1 = (Ok r, w1) \<and>
           mockc_expect_GetClusterNodes G r (IfaceNodesRequest req) w1 = (Ok k, w2) \<and>
           fst (mockc_GetClusterNodes G m req (w2\<lparr>ctl := Ret k [v0, v1] (ctl w2)\<rparr>)) = Ok (as_nodes v0, as_error v1)"
    and "\<exists>r k w2. mockc_EXPECT m w1 = (Ok r, w1) \<and>
           mockc_expect_UpdateNodeResource G r (IfaceUpdateRequest ureq) w1 = (Ok k, w2) \<and>
           fst (mockc_UpdateNodeResource G m ureq (w2\<lparr>ctl := Ret k [v0, v1] (ctl w2)\<rparr>)) = Ok (as_update v0, as_error v1)"
proof -
  note o = NewMockYarnClient_objects [OF assms(2)]
  have at: "client_at p (w\<lparr>ctl := g\<rparr>) = client_at p w" for p g and w :: "'a mock_world" by (simp add: client_at_def)
  note replay = gomock_replaysD [OF assms(1)]
  show "\<exists>r k w2. mockc_EXPECT m w1 = (Ok r, w1) \<and>
      mockc_expect_GetClusterNodes G r (IfaceNodesRequest req) w1 = (Ok k, w2) \<and>
      fst (mockc_GetClusterNodes G m req (w2\<lparr>ctl := Ret k [v0, v1] (ctl w2)\<rparr>)) = Ok (as_nodes v0, as_error v1)"
    using replay [of c m "''GetClusterNodes''" "[IfaceNodesRequest req]" "''MockYarnClient.GetClusterNodes''" "[v0, v1]"]
    by (auto simp: o at mockc_expect_GetClusterNodes_def mockc_GetClusterNodes_def record_ctrl_def call_ctrl_def sbind_def
        ret_at_def split: prod.splits)
  show "\<exists>r k w2. mockc_EXPECT m w1 = (Ok r, w1) \<and>
      mockc_expect_UpdateNodeResource G r (IfaceUpdateRequest ureq) w1 = (Ok k, w2) \<and>
      fst (mockc_UpdateNodeResource G m ureq (w2\<lparr>ctl := Ret k [v0, v1] (ctl w2)\<rparr>)) = Ok (as_update v0, as_error v1)"
    using replay [of c m "''UpdateNodeResource''" "[IfaceUpdateRequest ureq]" "''MockYarnClient.UpdateNodeResource''" "[v0, v1]"]
    by (auto simp: o at mockc_expect_UpdateNodeResource_def mockc_UpdateNodeResource_def record_ctrl_def call_ctrl_def sbind_def
        ret_at_def split: prod.splits)
qed

lemma mock_factory_record_replay:
  assumes "gomock_replays G Ret (ctl w)" and "NewMockYarnClientFactory c w = (m, w1)"
  shows "\<exists>r k w2. mockf_EXPECT m w1 = (Ok r, w1) \<and>
           mockf_expect_CreateYarnClientByClusterID G r (IfaceString cluster) w1 = (Ok k, w2) \<and>
           fst (mockf_CreateYarnClientByClusterID G m cluster (w2\<lparr>ctl := Ret k [v0, v1] (ctl w2)\<rparr>)) =
             Ok (as_client v0, as_error v1)"
proof -
  note o = NewMockYarnClientFactory_objects [OF assms(2)]
  have at: "factory_at p (w\<lparr>ctl := g\<rparr>) = factory_at p w" for p g and w :: "'a mock_world" by (simp add: factory_at_def)
  show ?thesis
    using gomock_replaysD [OF assms(1), of c m "''CreateYarnClientByClusterID''" "[IfaceString cluster]"
        "''MockYarnClientFactory.CreateYarnClientByClusterID''" "[v0, v1]"]
    by (auto simp: o at mockf_expect_CreateYarnClientByClusterID_def mockf_CreateYarnClientByClusterID_def record_ctrl_def
        call_ctrl_def sbind_def ret_at_def split: prod.splits)
qed

text \<open>A controller that keeps the expected calls in a list, the handle being the position.\<close>

type_synonym expectation = "addr \<times> addr \<times> string \<times> iface list \<times> iface list"

definition list_gomock :: "(expectation list, nat) gomock" where
  "list_gomock =
     \<lparr>ctrl_Call = (\<lambda>c m meth args g.
        (case find (\<lambda>(c', m', meth', args', _). c' = c \<and> m' = m \<and> meth' = meth \<and> args' = args) g of
           Some (_, _, _, _, vals) \<Rightarrow> (Ok vals, g)
         | None \<Rightarrow> (Err (EnvError ''FailNow''), g))),
      RecordCall = (\<lambda>c m meth ty args g. (length g, g @ [(c, m, meth, args, [])]))\<rparr>"

definition list_Return :: "nat \<Rightarrow> iface list \<Rightarrow> expectation list \<Rightarrow> expectation list" where
  "list_Return k vals g = (case g ! k of (c, m, meth, args, _) \<Rightarrow> g[k := (c, m, meth, args, vals)])"

lemma list_gomock_replays: "gomock_replays list_gomock list_Return []"
  by (simp add: gomock_replays_def list_gomock_def list_Return_def)

end
