(* ===== verification/Spec2Isabelle.thy ===== *)
theory Spec2Isabelle
  imports Operator_Main Agent_Main Runtime_Plugins Yarn_Examples Mock_Clients
begin

text \<open>
  A verification development of \<open>yarn-copilot\<close>, which lets Hadoop YARN use the batch resources of a
  Kubernetes cluster. The repository builds two programs. The \<^emph>\<open>operator\<close> (\<open>cmd/yarn-operator\<close>)
  announces the batch resources of every Kubernetes node to the YARN resource manager and records
  in the node's annotations what YARN uses. The \<^emph>\<open>agent\<close> (\<open>cmd/yarn-copilot-agent\<close>) runs on each node,
  mirrors the cpu cgroups of YARN containers into the memory hierarchy, and serves the list of
  containers and their killing on a unix socket, for which \<open>pkg/copilot-agent/runtime\<close> is the client
  library.

  \<^bold>\<open>How the code is modelled.\<close> A Go function becomes a function of the same name (with a prefix where
  names collide across packages) that takes its receiver and the state it changes and returns an
  \<open>outcome\<close>: \<open>Ok\<close>, \<open>Err\<close> with an error value, or \<open>Panic\<close>. Structs are records, machine integers are words
  of their width, Go maps are association lists or maps, a nil pointer is \<open>None\<close>. Code that is not in the
  repository is a parameter, held in records ending in \<open>_env\<close> (\<open>conf_env\<close>, \<open>ipc_env\<close>, \<open>yarn_env\<close>, \<open>kube_env\<close>,
  \<open>os_env\<close>, \<open>nm_env\<close>, \<open>srv_env\<close>, \<open>add_env\<close>, \<open>main_env\<close>) or as an argument (\<open>protolib\<close>, \<open>reslib\<close>, \<open>resty\<close>,
  \<open>new_metric\<close>, \<open>gomock\<close>); what a theorem needs of it is a named predicate (\<open>protowire_spec\<close>, \<open>writes_ok\<close>,
  \<open>resty_to\<close>, \<open>new_metric_ok\<close> and others), which a witness instantiates. What the network and the node
  manager answer is a list in the state, used up one answer per read or request, so every theorem
  holds for all answers and, for the TCP stream, all ways of cutting it into segments.

  \<^bold>\<open>Theories.\<close>
  \<^item> \<open>Yarn_Prelude\<close>: outcomes and their sequencing, \<open>keeps\<close> for what a computation leaves alone, the locales
    \<open>invariant_machine\<close>, \<open>logging_machine\<close> and \<open>print_parse\<close>. \<open>Go_Lib\<close>: the parts of Go's \<open>strings\<close>, \<open>strconv\<close>, \<open>path/filepath\<close>
    and \<open>encoding/binary\<close> in use. \<open>Go_FS\<close>: files, directories and sockets by path, the calls of \<open>os\<close>, each of
    which may fail, and \<open>filepath.Walk\<close>.
  \<^item> \<open>Yarn_Config\<close> (\<open>pkg/yarn/config\<close>): Hadoop configuration; later files win over earlier ones.
  \<^item> \<open>Protos\<close> (\<open>pkg/yarn/apis/proto\<close>): the messages in use, with getters and enum tables. \<open>Auth\<close>
    (\<open>apis/auth\<close>), \<open>Ugi\<close> and \<open>Digest_Md5\<close> (\<open>apis/security\<close>): headers, users and tokens, the DIGEST-MD5 response
    and the challenge it answers.
  \<^item> \<open>Ipc\<close> (\<open>pkg/yarn/client/ipc\<close>): the RPC client over a TCP stream: framing, SASL negotiation, sending and
    receiving; a call returns the server's answer however the stream is segmented, unless the four
    length bytes are split; which malformed answers panic.
  \<^item> \<open>Yarn_Client\<close> (\<open>pkg/yarn/client\<close>, \<open>apis/service\<close>): the search for the active resource manager, lazy
    initialisation, the clients of all configured clusters. \<open>Yarn_Examples\<close> (\<open>examples\<close>): the four sample
    programs over that client. \<open>Mock_Clients\<close> (\<open>mockclient\<close>): the doubles of client and factory for tests.
  \<^item> \<open>Nodes_Cache\<close> (\<open>pkg/yarn/cache\<close>): the cache of node reports and its goroutine; the locale \<open>node_lookup\<close> is
    what the reconciler relies on. \<open>Yarn_Metrics\<close> (\<open>pkg/controller/metrics\<close>): the gauges exported from it.
  \<^item> \<open>Yarn_Resource\<close> and \<open>Reconciler\<close> (\<open>pkg/controller/noderesource\<close>): the annotations and the reconciliation.
    \<open>Operator_Main\<close>: registration, options, scheme and \<open>main\<close>, and \<open>operator_reach\<close>, the states of the running operator
    with the syncer and the reconciler taking turns.
  \<^item> \<open>NM_Operator\<close> (\<open>pkg/copilot-agent/nm\<close>, \<open>utils\<close>): the cgroup synchronisation and its event loop.
    \<open>Agent_Server\<close> (\<open>server\<close>): routes, handlers, the life of the server. \<open>Agent_Main\<close>: configuration and
    \<open>agent_run\<close>, the loop, requests and other processes interleaved. \<open>Runtime_Plugins\<close> (\<open>runtime\<close>): the
    plugins and the manager that discovers them.
  \<^item> This theory: the agent as the users of its socket see it.

  \<^bold>\<open>What is shown.\<close> For the operator: a reconciliation tells YARN first and records afterwards, touches only
  its node, and in every reachable state records the use of exactly that node; the cache is replaced as
  a whole or not at all; unit conversions with their bounds. For the RPC client: frames and responses
  round trip, negotiation picks only offered mechanisms, connections are closed exactly when a request was
  sent; the client settles on the first resource manager that the status program would print as active. For the agent: every turn of its loop ends, changes no directory outside its cgroups, and what
  it leaves there; over any run at most one signal per kill request and never to process group 1 or
  below; the socket's answers refine the node manager's list of running containers; a started
  agent is found within one tick of the manager.

  \<^bold>\<open>Fuel and bounds.\<close> \<open>filepath.Walk\<close> recurses with fuel equal to the greatest depth of a path in the file
  system plus two; \<open>Walk_terminates\<close> shows that this is enough for every callback that makes no new
  entries, so the results are \<open>Some\<close>. All other loops are structural or have a measure. Arithmetic is at
  Go's widths; where a theorem needs the absence of overflow it says so.

  \<^bold>\<open>Not modelled.\<close> The protobuf wire codec and reflection, JSON and XML codecs, MD5, the Kubernetes and
  controller-runtime libraries, resty, gin, runc and the koordlet are outside the repository and are
  parameters. The messages and generated service descriptors that no code of the repository uses, the
  parsing of command lines, logging, \<open>String\<close> of the RPC client and the constants without a use are left out:
  they hold no logic of the programs. Goroutines interleave at the granularity of one event, request or reconciliation; data
  races inside one are not modelled. Time appears only as ticker events and as deadlines that the
  environment lets expire.
\<close>

section \<open>The agent as its clients see it\<close>

text \<open>C6. An agent that has started listening is found and usable within one tick: when its socket is
the only entry of a readable socket directory and the plugins' client reaches it, the manager's next
tick registers exactly the plugin \<open>yarn\<close> on that socket, reports it alive, and listing containers
through it returns the containers that the node manager reports as not ended.\<close>

theorem agent_discovered:
  assumes "srv_start S (path_Join [dir, name]) w = (None, w1)"
    and "os_Stat (nm_os (srv_nm S)) (w_fs w1) dir = Inr (DirN p)"
    and "\<And>op f. os_fail (nm_os (srv_nm S)) op f = None"
    and "child_names (w_fs w1) (resolve (nm_os (srv_nm S)) dir) = [name]"
    and "resty_to R (path_Join [dir, name]) S n"
  shows "\<exists>m w2 w3. mgr_run (nm_os (srv_nm S)) w_fs R (fst (NewManger dir), w1) = Some (Ok (), m, w2) \<and>
           GetCopilot (Some m) ''yarn'' = Some (newHttpPlugin (path_Join [dir, name])) \<and>
           GetAliveCopilots R (\<lambda>ps. ps) (Some m) w2 = ([(''yarn'', newHttpPlugin (path_Join [dir, name]))], w2) \<and>
           ListContainer R (newHttpPlugin (path_Join [dir, name])) w2 =
             (Ok (map (\<lambda>c. rt_of (ParseContainerInfo S c n)) (running_now w2)), w3)"
proof -
  let ?K = "nm_os (srv_nm S)" and ?sock = "path_Join [dir, name]" and ?v = "\<lambda>_. \<lparr>pi_Name = ''yarn'', pi_Version = ''v1''\<rparr>"
  have st: "os_Stat ?K (w_fs w1) ?sock = Inr SocketN"
    using srv_start_listening [OF assms(1)] assms(3) by (simp add: os_Stat_def)
  have d: "SocketDir (fst (NewManger dir)) = dir" "Plugins (fst (NewManger dir)) = []" by (simp_all add: NewManger_def Let_def)
  have "answering ?K w_fs R dir (w_fs w1) ?v"
    unfolding answering_def assms(4) using st assms(2,3) agent_info [OF assms(5)] by simp
  then obtain w2 where run: "mgr_run ?K w_fs R (fst (NewManger dir), w1) =
      Some (Ok (), (fst (NewManger dir))\<lparr>Plugins := [(''yarn'', newHttpPlugin ?sock)]\<rparr>, w2)"
    using mgr_run_answering [of ?K w_fs R "fst (NewManger dir)" w1 ?v] st assms(4) d by (auto simp: sockets_in_def)
  obtain w3 where "ListContainer R (newHttpPlugin ?sock) w2 = (Ok (map (\<lambda>c. rt_of (ParseContainerInfo S c n)) (running_now w2)), w3)"
    using ListContainer_over_server [OF assms(5)] by blast
  then show ?thesis using run agent_alive [OF assms(5)]
    by (intro exI [of _ "(fst (NewManger dir))\<lparr>Plugins := [(''yarn'', newHttpPlugin ?sock)]\<rparr>"] exI [of _ w2] exI [of _ w3])
      (simp add: GetCopilot_def mgr_GetCopilot_def GetAliveCopilots_def mgr_GetAliveCopilots_def)
qed

theorem agent_discovered_witness:
  "\<exists>m w2. mgr_run calm_os w_fs (direct_resty sample_srv sample_op)
       (fst (NewManger ''/run''), sample_world\<lparr>w_fs := [([''run'', ''yarn.sock''], SocketN), ([''run''], DirN 0x1ED)]\<rparr>) = Some (Ok (), m, w2) \<and>
     GetCopilot (Some m) ''yarn'' = Some (newHttpPlugin ''/run/yarn.sock'')"
proof -
  let ?F = "[([''run'', ''yarn.sock''], SocketN), ([''run''], DirN 0x1ED)]"
  have K: "nm_os (srv_nm sample_srv) = calm_os" by (simp add: sample_srv_def sample_nm_env_def)
  have calm: "os_fail calm_os op f = None" for op f by (simp add: calm_os_def)
  have run: "resolve calm_os ''/run'' = [''run'']" "path_Join [''/run'', ''yarn.sock''] = ''/run/yarn.sock''"
    by (rule socket_fs_facts)+
  have names: "child_names (w_fs (sample_world\<lparr>w_fs := ?F\<rparr>)) [''run''] = [''yarn.sock'']" by (simp add: child_names_def)
  have dir: "os_Stat calm_os (w_fs (sample_world\<lparr>w_fs := ?F\<rparr>)) ''/run'' = Inr (DirN 0x1ED)" by (simp add: os_Stat_def calm run)
  show ?thesis
    using agent_discovered [where S = sample_srv and n = sample_op and dir = "''/run''" and name = "''yarn.sock''"
        and R = "direct_resty sample_srv sample_op", unfolded K run, OF sample_listening dir calm names direct_resty_to]
    by blast
qed

end
